(* ===== verification/Prelude.thy ===== *)
theory Prelude
  imports Main "HOL-Library.Word" "HOL-Library.AList"
begin

text \<open>
  Shared vocabulary of the development: the machine types of the C++ sources, the value
  type of \<open>std::error_code\<close>, the exceptions, byte order of 16- and 32-bit
  fields, and the lemmas on lists, association lists and words that the component theories
  use. The collections \<open>comp_simps\<close> (symbolic execution of a computation),
  \<open>keeps_intros\<close>, \<open>safe_intros\<close>, \<open>returns_intros\<close> and
  \<open>reported_intros\<close> (invariants, definedness, outcomes and errors of computations),
  \<open>flag_simps\<close> (the bit masks of the sources) and \<open>layout_simps\<close> (byte
  layouts) are filled by the theories that define the corresponding constants.
\<close>

unbundle bit_operations_syntax

named_theorems comp_simps \<open>equations that execute computations symbolically\<close>
named_theorems flag_simps \<open>bit masks of the sources\<close>
named_theorems keeps_intros \<open>rules for invariants of computations\<close>
named_theorems safe_intros \<open>rules for computations without undefined behaviour\<close>
named_theorems returns_intros \<open>rules for computations that return or throw\<close>
named_theorems reported_intros \<open>rules for computations whose exceptions carry an error\<close>
named_theorems layout_simps \<open>reading and writing fields of byte layouts\<close>

section \<open>Machine types\<close>

text \<open>
  \<open>std::size_t\<close> is 64 bits wide on the supported targets. A C \<open>int\<close> that
  the code only compares, passes on or combines bitwise is an \<open>int\<close>; where the
  code converts between widths the conversion is written out with the functions below.
\<close>

type_synonym byte = "8 word"
type_synonym u16 = "16 word"
type_synonym u32 = "32 word"
type_synonym size_t = "64 word"
type_synonym bytes = "byte list"

text \<open>\<open>static_cast<int>\<close> of a \<open>std::size_t\<close>, and of a 64-bit signed count.\<close>

definition size_to_int :: "size_t \<Rightarrow> int" where
  "size_to_int n = sint (ucast n :: 32 word)"

definition int64_to_int :: "int \<Rightarrow> int" where
  "int64_to_int n = sint (word_of_int n :: 32 word)"

text \<open>\<open>static_cast<std::size_t>\<close> of a signed result.\<close>

definition int_to_size :: "int \<Rightarrow> size_t" where
  "int_to_size n = word_of_int n"

abbreviation (input) INT_MAX :: int where
  "INT_MAX \<equiv> 2147483647"

lemma int64_to_int_small: "-2147483648 \<le> v \<Longrightarrow> v \<le> INT_MAX \<Longrightarrow> int64_to_int v = v"
  unfolding int64_to_int_def sint_sbintrunc' by (rule signed_take_bit_int_eq_self) simp_all

section \<open>Error codes and exceptions\<close>

text \<open>
  A \<open>std::error_code\<close> is a value and a category; a default-constructed or
  cleared one is value 0 of the system category, and it converts to true exactly when the
  value is not 0. \<open>std::errc\<close> names the generic conditions the sources use.
\<close>

datatype category = Generic | System

record error_code =
  ec_value :: int
  ec_category :: category

definition cleared :: error_code where
  "cleared = \<lparr>ec_value = 0, ec_category = System\<rparr>"

definition failed :: "error_code \<Rightarrow> bool" where
  "failed ec \<longleftrightarrow> ec_value ec \<noteq> 0"

datatype (plugins only: code size) errc =
    bad_file_descriptor | invalid_argument | file_exists | no_such_file_or_directory
  | device_or_resource_busy | not_enough_memory | operation_would_block
  | function_not_supported | address_family_not_supported | filename_too_long

text \<open>
  What a C++ expression can do besides returning a value: throw one of the exceptions the
  sources throw or catch, reach \<open>std::terminate\<close> (an exception left a
  \<open>noexcept\<close> function), dereference a null pointer, or loop for ever.
\<close>

datatype exn = System_Error error_code string | Bad_Alloc | Out_Of_Range

datatype 'a outcome = Ret 'a | Throw exn | Terminate | Undefined | Diverge

lemma failed_cleared [simp]: "\<not> failed cleared"
  by (simp add: failed_def cleared_def)

lemma failed_iff [simp]: "failed \<lparr>ec_value = v, ec_category = c\<rparr> \<longleftrightarrow> v \<noteq> 0"
  by (simp add: failed_def)

section \<open>Bit masks\<close>

lemma and_or_nonzero [flag_simps]:
  fixes a :: "'a::len word"
  shows "a AND (b OR c) \<noteq> 0 \<longleftrightarrow> a AND b \<noteq> 0 \<or> a AND c \<noteq> 0"
  by (simp add: bit.conj_disj_distrib or_eq_0_iff)

lemma or_and_nonzero [flag_simps]:
  fixes a :: "'a::len word"
  shows "(b OR c) AND a \<noteq> 0 \<longleftrightarrow> b AND a \<noteq> 0 \<or> c AND a \<noteq> 0"
  by (simp add: bit.conj_disj_distrib2 or_eq_0_iff)

lemma and_push_bit_nonzero:
  fixes a :: "'a::len word"
  shows "a AND push_bit n 1 \<noteq> 0 \<longleftrightarrow> bit a n"
  by (simp add: bit_iff_and_push_bit_not_eq_0)

section \<open>Byte order\<close>

text \<open>
  Memory holds the bytes of a 16- or 32-bit field in the order of the host;
  \<open>htons\<close>, \<open>ntohs\<close>, \<open>htonl\<close> and \<open>ntohl\<close> swap
  them on a little-endian host and do nothing on a big-endian one.
\<close>

datatype endian = Little | Big

definition bytes_of_u16 :: "u16 \<Rightarrow> bytes" where
  "bytes_of_u16 v = [ucast (drop_bit 8 v), ucast v]"

definition u16_of_bytes :: "bytes \<Rightarrow> u16" where
  "u16_of_bytes bs = (push_bit 8 (ucast (bs ! 0)) OR ucast (bs ! 1))"

definition bytes_of_u32 :: "u32 \<Rightarrow> bytes" where
  "bytes_of_u32 v = [ucast (drop_bit 24 v), ucast (drop_bit 16 v), ucast (drop_bit 8 v), ucast v]"

definition u32_of_bytes :: "bytes \<Rightarrow> u32" where
  "u32_of_bytes bs = (push_bit 24 (ucast (bs ! 0)) OR push_bit 16 (ucast (bs ! 1))
     OR push_bit 8 (ucast (bs ! 2)) OR ucast (bs ! 3))"

definition mem_of_u16 :: "endian \<Rightarrow> u16 \<Rightarrow> bytes" where
  "mem_of_u16 e v = (if e = Big then bytes_of_u16 v else rev (bytes_of_u16 v))"

definition u16_of_mem :: "endian \<Rightarrow> bytes \<Rightarrow> u16" where
  "u16_of_mem e bs = u16_of_bytes (if e = Big then bs else rev bs)"

definition mem_of_u32 :: "endian \<Rightarrow> u32 \<Rightarrow> bytes" where
  "mem_of_u32 e v = (if e = Big then bytes_of_u32 v else rev (bytes_of_u32 v))"

definition u32_of_mem :: "endian \<Rightarrow> bytes \<Rightarrow> u32" where
  "u32_of_mem e bs = u32_of_bytes (if e = Big then bs else rev bs)"

definition htons :: "endian \<Rightarrow> u16 \<Rightarrow> u16" where
  "htons e v = (if e = Big then v else u16_of_bytes (rev (bytes_of_u16 v)))"

definition htonl :: "endian \<Rightarrow> u32 \<Rightarrow> u32" where
  "htonl e v = (if e = Big then v else u32_of_bytes (rev (bytes_of_u32 v)))"

abbreviation ntohs :: "endian \<Rightarrow> u16 \<Rightarrow> u16" where
  "ntohs \<equiv> htons"

abbreviation ntohl :: "endian \<Rightarrow> u32 \<Rightarrow> u32" where
  "ntohl \<equiv> htonl"

lemma length_bytes_of [layout_simps, simp]:
  "length (bytes_of_u16 v) = 2" "length (bytes_of_u32 w) = 4"
  "length (mem_of_u16 e v) = 2" "length (mem_of_u32 e w) = 4"
  by (simp_all add: bytes_of_u16_def bytes_of_u32_def mem_of_u16_def mem_of_u32_def)

lemma bit_byte_beyond [simp]: "8 \<le> n \<Longrightarrow> \<not> bit (b :: byte) n"
  by (auto dest: bit_imp_le_length)

lemma u16_of_bytes_of [simp]: "u16_of_bytes (bytes_of_u16 v) = v"
  by (rule bit_eqI) (auto simp: u16_of_bytes_def bytes_of_u16_def bit_simps)

lemma u32_of_bytes_of [simp]: "u32_of_bytes (bytes_of_u32 v) = v"
proof (rule bit_word_eqI)
  fix n :: nat
  assume "n < LENGTH(32)"
  then consider "n < 8" | "8 \<le> n" "n < 16" | "16 \<le> n" "n < 24" | "24 \<le> n" "n < 32"
    by fastforce
  then show "bit (u32_of_bytes (bytes_of_u32 v)) n = bit v n"
    by cases (auto simp: u32_of_bytes_def bytes_of_u32_def bit_simps)
qed

lemma bytes_of_u16_of:
  assumes "length bs = 2"
  shows "bytes_of_u16 (u16_of_bytes bs) = bs"
proof -
  from assms obtain a b where "bs = [a, b]"
    by (auto simp: length_Suc_conv numeral_2_eq_2)
  then show ?thesis
    by (auto simp: bytes_of_u16_def u16_of_bytes_def bit_simps intro!: bit_word_eqI)
qed

lemma bytes_of_u32_of:
  assumes "length bs = 4"
  shows "bytes_of_u32 (u32_of_bytes bs) = bs"
proof -
  from assms obtain a b c d where "bs = [a, b, c, d]"
    by (auto simp: length_Suc_conv eval_nat_numeral)
  then show ?thesis
    by (auto simp: bytes_of_u32_def u32_of_bytes_def bit_simps intro!: bit_word_eqI)
qed

lemma htons_htons [simp]: "htons e (htons e v) = v"
  by (simp add: htons_def bytes_of_u16_of)

lemma htonl_htonl [simp]: "htonl e (htonl e v) = v"
  by (simp add: htonl_def bytes_of_u32_of)

lemma u16_of_mem_of [layout_simps, simp]: "u16_of_mem e (mem_of_u16 e v) = v"
  by (simp add: u16_of_mem_def mem_of_u16_def)

lemma u32_of_mem_of [layout_simps, simp]: "u32_of_mem e (mem_of_u32 e v) = v"
  by (simp add: u32_of_mem_def mem_of_u32_def)

text \<open>A field written in network order has its high byte first in memory on every host.\<close>

lemma mem_of_htons [layout_simps]: "mem_of_u16 e (htons e v) = bytes_of_u16 v"
  by (cases e) (simp_all add: mem_of_u16_def htons_def bytes_of_u16_of)

lemma mem_of_htonl [layout_simps]: "mem_of_u32 e (htonl e v) = bytes_of_u32 v"
  by (cases e) (simp_all add: mem_of_u32_def htonl_def bytes_of_u32_of)

section \<open>Overwriting and reading a range of a byte list\<close>

definition put_at :: "nat \<Rightarrow> bytes \<Rightarrow> bytes \<Rightarrow> bytes" where
  "put_at off bs mem = take off mem @ bs @ drop (off + length bs) mem"

definition get_at :: "nat \<Rightarrow> nat \<Rightarrow> bytes \<Rightarrow> bytes" where
  "get_at off n mem = take n (drop off mem)"

lemma length_put_at [layout_simps, simp]:
  "off + length bs \<le> length mem \<Longrightarrow> length (put_at off bs mem) = length mem"
  by (simp add: put_at_def)

lemma get_put_same [layout_simps]:
  "off \<le> length mem \<Longrightarrow> n = length bs \<Longrightarrow> get_at off n (put_at off bs mem) = bs"
  by (simp add: get_at_def put_at_def)

lemma get_put_before [layout_simps]:
  "off + n \<le> off' \<Longrightarrow> off' \<le> length mem \<Longrightarrow>
   get_at off n (put_at off' bs mem) = get_at off n mem"
  by (simp add: get_at_def put_at_def take_drop)

lemma get_put_after [layout_simps]:
  assumes "off' + length bs \<le> off" "off' + length bs \<le> length mem"
  shows "get_at off n (put_at off' bs mem) = get_at off n mem"
proof -
  have "drop off (put_at off' bs mem) = drop off mem"
    using assms by (simp add: put_at_def add.commute)
  then show ?thesis by (simp add: get_at_def)
qed

section \<open>Association lists\<close>

lemma distinct_fst_update [simp]:
  "distinct (map fst (AList.update k v xs)) \<longleftrightarrow> distinct (map fst xs)"
  by (induction xs) (auto simp: dom_update)

lemma map_of_delete_same [simp]: "map_of (AList.delete k xs) k = None"
  by (simp add: delete_conv')

lemma map_of_delete_other [simp]:
  "k \<noteq> k' \<Longrightarrow> map_of (AList.delete k xs) k' = map_of xs k'"
  by (simp add: delete_conv')

text \<open>Deleting from an association list that is injective both ways.\<close>

lemma snd_set_delete:
  assumes "distinct (map fst xs)" "distinct (map snd xs)" "map_of xs k = Some v"
  shows "snd ` set (AList.delete k xs) = snd ` set xs - {v}"
  using assms
proof (induction xs)
  case (Cons x xs)
  show ?case
  proof (cases "fst x = k")
    case True
    then have "AList.delete k xs = xs" using Cons.prems(1) by (intro delete_id) auto
    then show ?thesis using Cons.prems True by auto
  next
    case False
    then have "v \<in> snd ` set xs" using Cons.prems(3) by (force dest: map_of_SomeD)
    with False show ?thesis using Cons by auto
  qed
qed simp

lemma distinct_snd_delete: "distinct (map snd xs) \<Longrightarrow> distinct (map snd (AList.delete k xs))"
  by (simp add: AList.delete_eq distinct_map_filter)

end
