(* ===== verification/Os.thy ===== *)
theory Os
  imports Prelude
begin

text \<open>
  The operating system as a parameter. A program issues calls; a reply carries the return
  value, the value of \<open>errno\<close> (on Windows the last error) after the call and what
  the call stored through its pointer arguments. The kernel, the C library and the network
  are one function \<open>answer\<close> from the history of calls and replies and the current
  call to a reply, so a statement about every \<open>env\<close> holds for every behaviour of
  the outside world. Allocation is a call too, since the sources handle its failure.

  A computation of the sources is a function from the environment and the current world to an
  outcome and the next world. The world of this theory holds the history and
  \<open>errno\<close>; the component theories extend the record with their objects.
\<close>

section \<open>What the sources pass to the system\<close>

text \<open>
  The platforms the preprocessor tells apart: \<open>Kqueue\<close> is macOS, and
  \<open>Poll_Unix\<close> a POSIX system with neither epoll nor kqueue.
\<close>

datatype platform = Windows | Linux | Kqueue | Poll_Unix

datatype macro =
    D_SO_REUSEPORT | D_TCP_FASTOPEN | D_TCP_FASTOPEN_CONNECT | D_EVFILT_AIO | D_EVFILT_LIO

datatype family = AF_INET | AF_INET6 | AF_UNIX
datatype sock_type = SOCK_STREAM | SOCK_DGRAM
datatype protocol = IPPROTO_TCP | IPPROTO_UDP | IPPROTO_0
datatype shutdown_how = SHUT_RD | SHUT_WR | SHUT_RDWR

datatype (plugins only: code size) sockopt =
    SO_REUSEADDR | SO_REUSEPORT | SO_KEEPALIVE | SO_BROADCAST | SO_ERROR
  | TCP_NODELAY | TCP_FASTOPEN | TCP_FASTOPEN_CONNECT
  | IP_TTL | IP_MTU_DISCOVER | IP_DONTFRAGMENT | IP_DONTFRAG | IP_MTU
  | IPV6_MTU_DISCOVER | IPV6_DONTFRAG | IPV6_MTU

datatype sockopt_level = SOL_SOCKET | LEVEL_TCP | LEVEL_IP | LEVEL_IPV6

datatype epoll_op = EPOLL_CTL_ADD | EPOLL_CTL_MOD | EPOLL_CTL_DEL

record epoll_event =
  ep_events :: u32
  ep_fd :: int

datatype kfilter = EVFILT_READ | EVFILT_WRITE | EVFILT_AIO | EVFILT_LIO | EVFILT_OTHER int

record kevent_s =
  kev_ident :: int
  kev_filter :: kfilter
  kev_flags :: u16
  kev_udata :: size_t

record timespec =
  tv_sec :: int
  tv_nsec :: int

record pollfd =
  pfd_fd :: int
  pfd_events :: u16

datatype base_ioctl = SIO_BASE_HANDLE | SIO_BSP_HANDLE_SELECT | SIO_BSP_HANDLE_POLL | SIO_BSP_HANDLE

datatype pipe_op = Op_connect | Op_read | Op_write

datatype overlapped = Null_Overlapped | Packet_Ptr nat | Afd_Op nat | User_Overlapped nat

datatype (plugins only: code size) call =
    Alloc
  | Close int
  | Fcntl_getfl int
  | Fcntl_setfl int int
  | Fcntl_getfd int
  | Fcntl_setfd int int
  | Read int size_t
  | Write int bytes
  | Epoll_create1
  | Epoll_ctl int epoll_op int "epoll_event option"
  | Epoll_wait int int int
  | Kqueue_create
  | Kevent int "kevent_s list" int "timespec option"
  | Poll_call "pollfd list" int
  | Eventfd
  | Pipe
  | Socket_call family sock_type protocol
  | Socketpair sock_type
  | Bind int bytes nat
  | Listen int int
  | Connect int bytes nat
  | Accept int
  | Getsockname int
  | Getpeername int
  | Setsockopt int sockopt_level sockopt int
  | Getsockopt int sockopt_level sockopt
  | Shutdown int shutdown_how
  | Recv int int
  | Send int bytes int
  | Readv int "nat list" int
  | Writev int "bytes list" int
  | Sendto int bytes int bytes nat
  | Recvfrom int int bool
  | Sendmsg int "bytes list" bytes nat
  | Recvmsg int "nat list"
  | Closesocket int
  | Ioctl_fionbio int bool
  | Wsa_startup
  | Wsa_ioctl_base int base_ioctl
  | Wsa_recv int "nat list" int
  | Wsa_send int "bytes list" int
  | Wsa_sendto int "bytes list" int bytes nat
  | Wsa_recvfrom int "nat list" int
  | Load_ntdll
  | Nt_create_afd
  | Nt_poll int nat nat int u32
  | Nt_cancel int nat
  | Nt_to_dos int
  | Iosb_status nat
  | Poll_info nat
  | Create_iocp
  | Associate_iocp int int int
  | Set_skip_event int
  | Close_handle int
  | Post_packet int nat
  | Get_queued int int
  | Signalfd int "int set"
  | Sigprocmask bool "int set"
  | Sigaction int
  | Signal_default int
  | Set_ctrl_handler bool
  | Create_named_pipe "u16 list"
  | Create_file "u16 list"
  | Connect_named_pipe int
  | Disconnect_named_pipe int
  | Read_file int u32
  | Write_file int bytes u32
  | Get_overlapped_result int pipe_op
  | Cancel_io_ex int

record reply =
  ret :: int
  err :: int
  out_int :: int
  out_fds :: "int \<times> int"
  out_bytes :: bytes
  out_addr :: bytes
  out_len :: nat
  out_events :: "epoll_event list"
  out_kevents :: "kevent_s list"
  out_revents :: "u16 list"
  out_key :: int
  out_overlapped :: overlapped
  out_handles :: nat
  out_flags :: u32

type_synonym history = "(call \<times> reply) list"

record env =
  platform :: platform
  host_endian :: endian
  macro_defined :: "macro \<Rightarrow> bool"
  answer :: "history \<Rightarrow> call \<Rightarrow> reply"

record base_world =
  history :: history
  errno :: int

text \<open>A reply that only returns a value, for building concrete environments.\<close>

definition plain :: "int \<Rightarrow> int \<Rightarrow> reply" where
  "plain r e = \<lparr>ret = r, err = e, out_int = 0, out_fds = (-1, -1), out_bytes = [], out_addr = [],
     out_len = 0, out_events = [], out_kevents = [], out_revents = [], out_key = 0,
     out_overlapped = Null_Overlapped, out_handles = 0, out_flags = 0\<rparr>"

section \<open>Platform constants\<close>

text \<open>
  Values of the public headers: Linux (also used for the generic Unix branch), macOS for the
  kqueue branch, and the Windows C runtime and Winsock.
\<close>

definition EAGAIN :: "platform \<Rightarrow> int" where
  "EAGAIN p = (if p = Kqueue then 35 else 11)"

definition EWOULDBLOCK :: "platform \<Rightarrow> int" where
  "EWOULDBLOCK p = (case p of Windows \<Rightarrow> 140 | Kqueue \<Rightarrow> 35 | _ \<Rightarrow> 11)"

definition EINPROGRESS :: "platform \<Rightarrow> int" where
  "EINPROGRESS p = (case p of Windows \<Rightarrow> 112 | Kqueue \<Rightarrow> 36 | _ \<Rightarrow> 115)"

definition EALREADY :: "platform \<Rightarrow> int" where
  "EALREADY p = (case p of Windows \<Rightarrow> 103 | Kqueue \<Rightarrow> 37 | _ \<Rightarrow> 114)"

abbreviation (input) EINTR :: int where "EINTR \<equiv> 4"
abbreviation (input) WSAEWOULDBLOCK :: int where "WSAEWOULDBLOCK \<equiv> 10035"
abbreviation (input) WSAEINPROGRESS :: int where "WSAEINPROGRESS \<equiv> 10036"
abbreviation (input) WSAEALREADY :: int where "WSAEALREADY \<equiv> 10037"
abbreviation (input) WSAEINVAL :: int where "WSAEINVAL \<equiv> 10022"

fun errc_value :: "platform \<Rightarrow> errc \<Rightarrow> int" where
  "errc_value p bad_file_descriptor = 9"
| "errc_value p invalid_argument = 22"
| "errc_value p file_exists = 17"
| "errc_value p no_such_file_or_directory = 2"
| "errc_value p device_or_resource_busy = 16"
| "errc_value p not_enough_memory = 12"
| "errc_value p operation_would_block = EWOULDBLOCK p"
| "errc_value p function_not_supported = (case p of Windows \<Rightarrow> 40 | Kqueue \<Rightarrow> 78 | _ \<Rightarrow> 38)"
| "errc_value p address_family_not_supported = (case p of Windows \<Rightarrow> 102 | Kqueue \<Rightarrow> 47 | _ \<Rightarrow> 97)"
| "errc_value p filename_too_long = (case p of Windows \<Rightarrow> 38 | Kqueue \<Rightarrow> 63 | _ \<Rightarrow> 36)"

definition O_NONBLOCK :: "platform \<Rightarrow> int" where
  "O_NONBLOCK p = (if p = Kqueue then 4 else 2048)"

abbreviation (input) FD_CLOEXEC :: int where "FD_CLOEXEC \<equiv> 1"

definition make_error_code :: "platform \<Rightarrow> errc \<Rightarrow> error_code" where
  "make_error_code p c = \<lparr>ec_value = errc_value p c, ec_category = Generic\<rparr>"

section \<open>Computations\<close>

type_synonym ('w, 'a) comp = "env \<Rightarrow> 'w \<Rightarrow> 'a outcome \<times> 'w"

definition return :: "'a \<Rightarrow> ('w, 'a) comp" where
  "return x = (\<lambda>env w. (Ret x, w))"

definition bnd :: "('w, 'a) comp \<Rightarrow> ('a \<Rightarrow> ('w, 'b) comp) \<Rightarrow> ('w, 'b) comp" where
  "bnd m f = (\<lambda>env w. case m env w of
     (Ret x, w') \<Rightarrow> f x env w'
   | (Throw e, w') \<Rightarrow> (Throw e, w')
   | (Terminate, w') \<Rightarrow> (Terminate, w')
   | (Undefined, w') \<Rightarrow> (Undefined, w')
   | (Diverge, w') \<Rightarrow> (Diverge, w'))"

definition throw :: "exn \<Rightarrow> ('w, 'a) comp" where
  "throw e = (\<lambda>env w. (Throw e, w))"

definition undefined_behaviour :: "('w, 'a) comp" where
  "undefined_behaviour = (\<lambda>env w. (Undefined, w))"

definition gets :: "('w \<Rightarrow> 'a) \<Rightarrow> ('w, 'a) comp" where
  "gets g = (\<lambda>env w. (Ret (g w), w))"

definition modify :: "('w \<Rightarrow> 'w) \<Rightarrow> ('w, unit) comp" where
  "modify u = (\<lambda>env w. (Ret (), u w))"

definition asks :: "(env \<Rightarrow> 'a) \<Rightarrow> ('w, 'a) comp" where
  "asks g = (\<lambda>env w. (Ret (g env), w))"

text \<open>\<open>try { m } catch (e) { h(e) }\<close>, and the boundary of a \<open>noexcept\<close> function.\<close>

definition catch :: "('w, 'a) comp \<Rightarrow> (exn \<Rightarrow> ('w, 'a) comp) \<Rightarrow> ('w, 'a) comp" where
  "catch m h = (\<lambda>env w. case m env w of (Throw e, w') \<Rightarrow> h e env w' | r \<Rightarrow> r)"

definition noexcept :: "('w, 'a) comp \<Rightarrow> ('w, 'a) comp" where
  "noexcept m = catch m (\<lambda>e env w. (Terminate, w))"

text \<open>Issue a call: the reply is appended to the history and sets \<open>errno\<close>.\<close>

definition logged :: "env \<Rightarrow> call \<Rightarrow> 'x base_world_scheme \<Rightarrow> 'x base_world_scheme" where
  "logged env c w = w\<lparr>history := history w @ [(c, answer env (history w) c)],
     errno := err (answer env (history w) c)\<rparr>"

definition sys :: "call \<Rightarrow> ('x base_world_scheme, reply) comp" where
  "sys c = (\<lambda>env w. (Ret (answer env (history w) c), logged env c w))"

text \<open>
  The throwing overload of an operation whose other overload reports through an
  \<open>error_code\<close>: run that one on a fresh code and throw if it is set.
\<close>

definition throwing :: "string \<Rightarrow> ('w, 'a \<times> error_code) comp \<Rightarrow> ('w, 'a) comp" where
  "throwing what m = bnd m (\<lambda>(x, ec).
     if failed ec then throw (System_Error ec what) else return x)"

definition throwing_void :: "string \<Rightarrow> ('w, error_code) comp \<Rightarrow> ('w, unit) comp" where
  "throwing_void what m = bnd m (\<lambda>ec.
     if failed ec then throw (System_Error ec what) else return ())"

text \<open>Allocation that throws \<open>std::bad_alloc\<close>; reply 0 is failure.\<close>

definition allocate :: "('x base_world_scheme, unit) comp" where
  "allocate = bnd (sys Alloc) (\<lambda>r. if ret r = 0 then throw Bad_Alloc else return ())"

text \<open>A range-based \<open>for\<close>, and a \<open>while\<close> loop whose body says whether it returns.\<close>

fun for_each :: "'a list \<Rightarrow> ('a \<Rightarrow> ('w, unit) comp) \<Rightarrow> ('w, unit) comp" where
  "for_each [] f = return ()"
| "for_each (x # xs) f = bnd (f x) (\<lambda>_. for_each xs f)"

partial_function (option) while_loop ::
  "env \<Rightarrow> ('w \<Rightarrow> bool) \<Rightarrow> ('w, bool) comp \<Rightarrow> 'w \<Rightarrow> (unit outcome \<times> 'w) option" where
  "while_loop env cond body w =
     (if cond w then
        (case body env w of
           (Ret b, w') \<Rightarrow> if b then while_loop env cond body w' else Some (Ret (), w')
         | (Throw e, w') \<Rightarrow> Some (Throw e, w')
         | (Terminate, w') \<Rightarrow> Some (Terminate, w')
         | (Undefined, w') \<Rightarrow> Some (Undefined, w')
         | (Diverge, w') \<Rightarrow> Some (Diverge, w'))
      else Some (Ret (), w))"

definition while_comp :: "('w \<Rightarrow> bool) \<Rightarrow> ('w, bool) comp \<Rightarrow> ('w, unit) comp" where
  "while_comp cond body = (\<lambda>env w. case while_loop env cond body w of
     None \<Rightarrow> (Diverge, w) | Some r \<Rightarrow> r)"

text \<open>The calls a computation adds to the history, and the outcome alone.\<close>

definition trace :: "('x base_world_scheme, 'a) comp \<Rightarrow> env \<Rightarrow> 'x base_world_scheme \<Rightarrow> call list" where
  "trace m env w = map fst (drop (length (history w)) (history (snd (m env w))))"

definition outcome_of :: "('w, 'a) comp \<Rightarrow> env \<Rightarrow> 'w \<Rightarrow> 'a outcome" where
  "outcome_of m env w = fst (m env w)"

text \<open>
  Documented behaviour of the C library and Winsock: a call that fails with
  \<open>-1\<close> leaves a non-zero error number.
\<close>

definition sets_errno :: "env \<Rightarrow> bool" where
  "sets_errno env \<longleftrightarrow> (\<forall>h c. ret (answer env h c) = -1 \<longrightarrow> err (answer env h c) \<noteq> 0)"

section \<open>Laws\<close>

text \<open>
  The monad laws, and the same laws for a computation that runs: only the latter are rewrite
  rules, so that a program is executed from its first statement on.
\<close>

lemma bnd_return: "bnd (return x) f = f x"
  by (simp add: bnd_def return_def)

lemma bnd_throw: "bnd (throw e) f = throw e"
  by (simp add: bnd_def throw_def)

lemma bnd_undefined: "bnd undefined_behaviour f = undefined_behaviour"
  by (simp add: bnd_def undefined_behaviour_def)

lemma bnd_assoc: "bnd (bnd m f) g = bnd m (\<lambda>x. bnd (f x) g)"
  by (auto simp: bnd_def fun_eq_iff split: prod.splits outcome.splits)

lemma bnd_run [comp_simps]:
  "bnd (return x) f env w = f x env w"
  "bnd (throw e) f env w = (Throw e, w)"
  "bnd undefined_behaviour f env w = (Undefined, w)"
  "bnd (bnd m f) g env w = bnd m (\<lambda>x. bnd (f x) g) env w"
  by (simp_all add: bnd_return bnd_assoc) (simp_all add: bnd_def throw_def undefined_behaviour_def)

lemma bnd_if [comp_simps]:
  "bnd (if b then m else n) f env w = (if b then bnd m f env w else bnd n f env w)"
  by simp

lemma bnd_let [comp_simps]: "bnd (let x = a in m x) f env w = (let x = a in bnd (m x) f env w)"
  by simp

lemma bnd_case_option [comp_simps]:
  "bnd (case x of None \<Rightarrow> m | Some y \<Rightarrow> n y) f env w
     = (case x of None \<Rightarrow> bnd m f env w | Some y \<Rightarrow> bnd (n y) f env w)"
  by (cases x) simp_all

lemma bnd_case_prod [comp_simps]:
  "bnd (case x of (a, b) \<Rightarrow> m a b) f env w = (case x of (a, b) \<Rightarrow> bnd (m a b) f env w)"
  by (cases x) simp

lemma run_cases [comp_simps]:
  "(if b then m else n) env w = (if b then m env w else n env w)"
  "(let x = a in k x) env w = (let x = a in k x env w)"
  "(case y of None \<Rightarrow> p | Some z \<Rightarrow> q z) env w
     = (case y of None \<Rightarrow> p env w | Some z \<Rightarrow> q z env w)"
  "(case c of (a, b) \<Rightarrow> r a b) env w = (case c of (a, b) \<Rightarrow> r a b env w)"
  by (simp_all split: option.split prod.split)

lemma bnd_sys [comp_simps]:
  "bnd (sys c) f env w = f (answer env (history w) c) env (logged env c w)"
  by (simp add: bnd_def sys_def)

lemma bnd_gets [comp_simps]: "bnd (gets g) f env w = f (g w) env w"
  by (simp add: bnd_def gets_def)

lemma bnd_modify [comp_simps]: "bnd (modify u) f env w = f () env (u w)"
  by (simp add: bnd_def modify_def)

lemma bnd_asks [comp_simps]: "bnd (asks g) f env w = f (g env) env w"
  by (simp add: bnd_def asks_def)

lemma run_simps [comp_simps]:
  "return x env w = (Ret x, w)"
  "throw e env w = (Throw e, w)"
  "undefined_behaviour env w = (Undefined, w)"
  "gets g env w = (Ret (g w), w)"
  "modify u env w = (Ret (), u w)"
  "asks k env w = (Ret (k env), w)"
  by (simp_all add: return_def throw_def undefined_behaviour_def gets_def modify_def asks_def)

lemma run_sys [comp_simps]:
  "sys c env w = (Ret (answer env (history w) c), logged env c w)"
  by (simp add: sys_def)

lemma for_each_append:
  "for_each (xs @ ys) f = bnd (for_each xs f) (\<lambda>_. for_each ys f)"
  by (induction xs) (simp_all add: bnd_return bnd_assoc)

text \<open>A loop body that keeps an invariant, whatever its outcome, makes the loop keep it.\<close>

lemma for_each_invariant:
  assumes "\<And>x w. x \<in> set xs \<Longrightarrow> I w \<Longrightarrow> I (snd (f x env w))" "I w"
  shows "I (snd (for_each xs f env w))"
  using assms
proof (induction xs arbitrary: w)
  case (Cons x xs)
  have "I (snd (f x env w))" using Cons.prems by simp
  then show ?case using Cons.IH Cons.prems(1)
    by (auto simp: bnd_def split: prod.splits outcome.splits)
qed (simp add: return_def)

lemma while_loop_invariant:
  assumes "while_loop env cond body w = Some r" "I w"
    and "\<And>w. I w \<Longrightarrow> cond w \<Longrightarrow> I (snd (body env w))"
  shows "I (snd r)"
proof -
  have "I w \<longrightarrow> (\<forall>w. I w \<longrightarrow> cond w \<longrightarrow> I (snd (body env w))) \<longrightarrow> I (snd r)"
  proof (rule while_loop.raw_induct [where P = "\<lambda>env cond body w r.
        I w \<longrightarrow> (\<forall>w. I w \<longrightarrow> cond w \<longrightarrow> I (snd (body env w))) \<longrightarrow> I (snd r)", OF _ assms(1)])
    fix loop env cond body w r
    assume IH: "\<And>env cond body w r. loop env cond body w = Some r \<Longrightarrow>
        I w \<longrightarrow> (\<forall>w. I w \<longrightarrow> cond w \<longrightarrow> I (snd (body env w))) \<longrightarrow> I (snd r)"
      and eq: "(if cond w then
        (case body env w of
           (Ret b, w') \<Rightarrow> if b then loop env cond body w' else Some (Ret (), w')
         | (Throw e, w') \<Rightarrow> Some (Throw e, w')
         | (Terminate, w') \<Rightarrow> Some (Terminate, w')
         | (Undefined, w') \<Rightarrow> Some (Undefined, w')
         | (Diverge, w') \<Rightarrow> Some (Diverge, w'))
      else Some (Ret (), w)) = Some r"
    show "I w \<longrightarrow> (\<forall>w. I w \<longrightarrow> cond w \<longrightarrow> I (snd (body env w))) \<longrightarrow> I (snd r)"
    proof (intro impI)
      assume I: "I w" and keep: "\<forall>w. I w \<longrightarrow> cond w \<longrightarrow> I (snd (body env w))"
      show "I (snd r)"
      proof (cases "cond w")
        case False
        then show ?thesis using eq I by auto
      next
        case True
        with keep I have I': "I (snd (body env w))" by blast
        obtain b w' where b: "body env w = (b, w')" by (cases "body env w")
        show ?thesis
          using eq True b I' IH [of env cond body w' r] keep
          by (auto split: outcome.splits if_splits)
      qed
    qed
  qed
  then show ?thesis using assms(2,3) by blast
qed

lemma bnd_eq_Ret:
  "bnd m f env w = (Ret y, w'') \<longleftrightarrow>
     (\<exists>x w'. m env w = (Ret x, w') \<and> f x env w' = (Ret y, w''))"
  by (auto simp: bnd_def split: prod.splits outcome.splits)

lemma catch_simps [comp_simps]:
  "m env w = (Ret x, w') \<Longrightarrow> catch m h env w = (Ret x, w')"
  "m env w = (Throw e, w') \<Longrightarrow> catch m h env w = h e env w'"
  by (simp_all add: catch_def)

lemma catch_returns [comp_simps]:
  "catch (return x) h env w = (Ret x, w)"
  "catch (throw e) h env w = h e env w"
  by (simp_all add: catch_def comp_simps)

lemma noexcept_never_throws: "fst (noexcept m env w) \<noteq> Throw e"
  by (auto simp: noexcept_def catch_def split: prod.splits outcome.splits)

lemma noexcept_Ret: "m env w = (Ret x, w') \<Longrightarrow> noexcept m env w = (Ret x, w')"
  by (simp add: noexcept_def catch_def)

lemma noexcept_Throw: "m env w = (Throw e, w') \<Longrightarrow> noexcept m env w = (Terminate, w')"
  by (simp add: noexcept_def catch_def)

lemma history_logged [comp_simps, simp]:
  "history (logged env c w) = history w @ [(c, answer env (history w) c)]"
  by (simp add: logged_def)

lemma errno_logged [comp_simps, simp]:
  "errno (logged env c w) = err (answer env (history w) c)"
  by (simp add: logged_def)

lemma more_logged [simp]: "base_world.more (logged env c w) = base_world.more w"
  by (simp add: logged_def)

lemma plain_simps [simp]: "ret (plain r e) = r" "err (plain r e) = e"
  by (simp_all add: plain_def)

lemma sets_errnoD: "sets_errno env \<Longrightarrow> ret (answer env h c) = -1 \<Longrightarrow> err (answer env h c) \<noteq> 0"
  by (simp add: sets_errno_def)

lemma errc_value_pos: "0 < errc_value p c"
  by (cases c) (auto simp: EWOULDBLOCK_def split: platform.splits)

lemma failed_make_error_code [simp]: "failed (make_error_code p c)"
  using errc_value_pos [of p c] by (simp add: make_error_code_def)

section \<open>Invariants of computations\<close>

text \<open>
  A computation keeps a predicate on worlds if it holds after every outcome when it held
  before. The rules follow the structure of a program.
\<close>

definition keeps :: "env \<Rightarrow> ('w \<Rightarrow> bool) \<Rightarrow> ('w, 'a) comp \<Rightarrow> bool" where
  "keeps env I m \<longleftrightarrow> (\<forall>w. I w \<longrightarrow> I (snd (m env w)))"

lemma keepsI: "(\<And>w. I w \<Longrightarrow> I (snd (m env w))) \<Longrightarrow> keeps env I m"
  by (simp add: keeps_def)

lemma keepsD: "keeps env I m \<Longrightarrow> I w \<Longrightarrow> I (snd (m env w))"
  by (simp add: keeps_def)

lemma keeps_result: "keeps env I m \<Longrightarrow> m env w = (r, w') \<Longrightarrow> I w \<Longrightarrow> I w'"
  by (auto dest: keepsD)

lemma keeps_basic [keeps_intros]:
  "keeps env I (return x)" "keeps env I (throw e)" "keeps env I undefined_behaviour"
  "keeps env I (gets g)" "keeps env I (asks k)"
  by (simp_all add: keeps_def comp_simps)

lemma keeps_bnd [keeps_intros]:
  "keeps env I m \<Longrightarrow> (\<And>x. keeps env I (f x)) \<Longrightarrow> keeps env I (bnd m f)"
  by (fastforce simp: keeps_def bnd_def split: prod.splits outcome.splits)

lemma keeps_if [keeps_intros]:
  "(b \<Longrightarrow> keeps env I m) \<Longrightarrow> (\<not> b \<Longrightarrow> keeps env I n) \<Longrightarrow> keeps env I (if b then m else n)"
  by simp

lemma keeps_let [keeps_intros]: "(\<And>x. keeps env I (k x)) \<Longrightarrow> keeps env I (let x = a in k x)"
  by simp

lemma keeps_case_option [keeps_intros]:
  "keeps env I m \<Longrightarrow> (\<And>y. x = Some y \<Longrightarrow> keeps env I (n y)) \<Longrightarrow>
   keeps env I (case x of None \<Rightarrow> m | Some y \<Rightarrow> n y)"
  by (cases x) simp_all

lemma keeps_case_prod [keeps_intros]:
  "(\<And>a b. x = (a, b) \<Longrightarrow> keeps env I (m a b)) \<Longrightarrow> keeps env I (case x of (a, b) \<Rightarrow> m a b)"
  by (cases x) simp

lemma keeps_catch [keeps_intros]:
  "keeps env I m \<Longrightarrow> (\<And>e. keeps env I (h e)) \<Longrightarrow> keeps env I (catch m h)"
  by (fastforce simp: keeps_def catch_def split: prod.splits outcome.splits)

lemma keeps_noexcept [keeps_intros]: "keeps env I m \<Longrightarrow> keeps env I (noexcept m)"
  unfolding noexcept_def by (rule keeps_catch) (simp_all add: keeps_def)

lemma keeps_for_each [keeps_intros]:
  "(\<And>x. x \<in> set xs \<Longrightarrow> keeps env I (f x)) \<Longrightarrow> keeps env I (for_each xs f)"
  unfolding keeps_def by (blast intro: for_each_invariant)

lemma keeps_while [keeps_intros]:
  assumes "keeps env I body"
  shows "keeps env I (while_comp c body)"
  unfolding keeps_def while_comp_def
  using while_loop_invariant [where I = I and env = env and body = body] keepsD [OF assms]
  by (auto split: option.splits)

lemma keeps_modify: "(\<And>w. I w \<Longrightarrow> I (u w)) \<Longrightarrow> keeps env I (modify u)"
  by (simp add: keeps_def modify_def)

lemma keeps_sys: "(\<And>w. I w \<Longrightarrow> I (logged env c w)) \<Longrightarrow> keeps env I (sys c)"
  by (simp add: keeps_def sys_def)

lemma keeps_throwing [keeps_intros]:
  "keeps env I m \<Longrightarrow> keeps env I (throwing what m)"
  "keeps env I m' \<Longrightarrow> keeps env I (throwing_void what m')"
  unfolding throwing_def throwing_void_def by (intro keeps_intros; assumption)+

text \<open>A computation is safe if it neither reaches undefined behaviour nor runs for ever.\<close>

definition safe :: "env \<Rightarrow> ('w, 'a) comp \<Rightarrow> bool" where
  "safe env m \<longleftrightarrow> (\<forall>w. fst (m env w) \<noteq> Undefined \<and> fst (m env w) \<noteq> Diverge)"

lemma safeD: "safe env m \<Longrightarrow> m env w = (r, w') \<Longrightarrow> r \<noteq> Undefined \<and> r \<noteq> Diverge"
  unfolding safe_def by (metis fst_conv)

lemma safe_basic [safe_intros]:
  "safe env (return x)" "safe env (throw e)" "safe env (gets g)" "safe env (asks k)"
  "safe env (modify u)" "safe env (sys c)"
  by (simp_all add: safe_def comp_simps)

lemma safe_bnd [safe_intros]:
  assumes "safe env m" "\<And>x. safe env (f x)"
  shows "safe env (bnd m f)"
  unfolding safe_def
proof
  fix w
  obtain r w1 where m: "m env w = (r, w1)" by (meson surj_pair)
  show "fst (bnd m f env w) \<noteq> Undefined \<and> fst (bnd m f env w) \<noteq> Diverge"
    using assms(2) safeD [OF assms(1) m] m by (cases r) (auto simp: bnd_def safe_def)
qed

lemma safe_if [safe_intros]:
  "(b \<Longrightarrow> safe env m) \<Longrightarrow> (\<not> b \<Longrightarrow> safe env n) \<Longrightarrow> safe env (if b then m else n)"
  by simp

lemma safe_let [safe_intros]: "(\<And>x. safe env (k x)) \<Longrightarrow> safe env (let x = a in k x)"
  by simp

lemma safe_case_option [safe_intros]:
  "safe env m \<Longrightarrow> (\<And>y. x = Some y \<Longrightarrow> safe env (n y)) \<Longrightarrow>
   safe env (case x of None \<Rightarrow> m | Some y \<Rightarrow> n y)"
  by (cases x) simp_all

lemma safe_case_prod [safe_intros]:
  "(\<And>a b. x = (a, b) \<Longrightarrow> safe env (m a b)) \<Longrightarrow> safe env (case x of (a, b) \<Rightarrow> m a b)"
  by (cases x) simp

lemma safe_catch [safe_intros]:
  assumes "safe env m" "\<And>e. safe env (h e)"
  shows "safe env (catch m h)"
  unfolding safe_def
proof
  fix w
  obtain r w1 where m: "m env w = (r, w1)" by (meson surj_pair)
  show "fst (catch m h env w) \<noteq> Undefined \<and> fst (catch m h env w) \<noteq> Diverge"
    using assms(2) safeD [OF assms(1) m] m by (cases r) (auto simp: catch_def safe_def)
qed

lemma safe_noexcept [safe_intros]: "safe env m \<Longrightarrow> safe env (noexcept m)"
  unfolding noexcept_def by (rule safe_catch) (simp_all add: safe_def)

lemma safe_for_each [safe_intros]:
  "(\<And>x. x \<in> set xs \<Longrightarrow> safe env (f x)) \<Longrightarrow> safe env (for_each xs f)"
  by (induction xs) (simp_all add: safe_intros)

lemma safe_throwing [safe_intros]:
  "safe env m \<Longrightarrow> safe env (throwing what m)" "safe env m' \<Longrightarrow> safe env (throwing_void what m')"
  unfolding throwing_def throwing_void_def by (intro safe_intros; assumption)+

lemma safe_allocate [safe_intros]: "safe env allocate"
  unfolding allocate_def by (intro safe_intros)

text \<open>
  A computation completes if it returns or throws, and returns if it always returns a value.
\<close>

definition completes :: "env \<Rightarrow> ('w, 'a) comp \<Rightarrow> bool" where
  "completes env m \<longleftrightarrow> (\<forall>w. (\<exists>x. fst (m env w) = Ret x) \<or> (\<exists>e. fst (m env w) = Throw e))"

definition returns :: "env \<Rightarrow> ('w, 'a) comp \<Rightarrow> bool" where
  "returns env m \<longleftrightarrow> (\<forall>w. \<exists>x. fst (m env w) = Ret x)"

lemma completesE:
  assumes "completes env m" "m env w = (r, w')"
  obtains x where "r = Ret x" | e where "r = Throw e"
  using assms unfolding completes_def by (metis fst_conv)

lemma returnsE:
  assumes "returns env m"
  obtains x w' where "m env w = (Ret x, w')"
  using assms unfolding returns_def by (metis prod.collapse)

lemma completes_basic [returns_intros]:
  "completes env (return x)" "completes env (gets g)" "completes env (asks k)" "completes env (modify u)"
  "completes env (sys c)" "completes env (throw e)" "completes env allocate"
  by (simp_all add: completes_def comp_simps allocate_def)

lemma returns_basic [returns_intros]:
  "returns env (return x)" "returns env (gets g)" "returns env (asks k)" "returns env (modify u)"
  "returns env (sys c)"
  by (simp_all add: returns_def comp_simps)

lemma completes_bnd [returns_intros]:
  assumes "completes env m" "\<And>x. completes env (f x)"
  shows "completes env (bnd m f)"
  unfolding completes_def
proof
  fix w
  obtain r w1 where m: "m env w = (r, w1)" by (meson surj_pair)
  with assms(1) show "(\<exists>x. fst (bnd m f env w) = Ret x) \<or> (\<exists>e. fst (bnd m f env w) = Throw e)"
    by (rule completesE) (use m assms(2) in \<open>auto simp: bnd_def completes_def\<close>)
qed

lemma returns_bnd [returns_intros]:
  assumes "returns env m" "\<And>x. returns env (f x)"
  shows "returns env (bnd m f)"
  unfolding returns_def
proof
  fix w
  obtain x w1 where "m env w = (Ret x, w1)" using assms(1) by (rule returnsE)
  then show "\<exists>x. fst (bnd m f env w) = Ret x" using assms(2) by (simp add: bnd_def returns_def)
qed

lemma outcome_rules [returns_intros]:
  "(b \<Longrightarrow> completes env m) \<Longrightarrow> (\<not> b \<Longrightarrow> completes env n) \<Longrightarrow> completes env (if b then m else n)"
  "(b \<Longrightarrow> returns env m) \<Longrightarrow> (\<not> b \<Longrightarrow> returns env n) \<Longrightarrow> returns env (if b then m else n)"
  "(\<And>x. completes env (k x)) \<Longrightarrow> completes env (let x = a in k x)"
  "(\<And>x. returns env (k x)) \<Longrightarrow> returns env (let x = a in k x)"
  "completes env m \<Longrightarrow> (\<And>y. z = Some y \<Longrightarrow> completes env (g y)) \<Longrightarrow>
   completes env (case z of None \<Rightarrow> m | Some y \<Rightarrow> g y)"
  "returns env m \<Longrightarrow> (\<And>y. z = Some y \<Longrightarrow> returns env (g y)) \<Longrightarrow>
   returns env (case z of None \<Rightarrow> m | Some y \<Rightarrow> g y)"
  "(\<And>a b. c = (a, b) \<Longrightarrow> completes env (q a b)) \<Longrightarrow> completes env (case c of (a, b) \<Rightarrow> q a b)"
  "(\<And>a b. c = (a, b) \<Longrightarrow> returns env (q a b)) \<Longrightarrow> returns env (case c of (a, b) \<Rightarrow> q a b)"
  by (simp_all split: option.split prod.split)

lemma returns_noexcept [returns_intros]: "returns env m \<Longrightarrow> returns env (noexcept m)"
  unfolding returns_def by (metis noexcept_Ret prod.collapse fst_conv)

lemma returns_completes: "returns env m \<Longrightarrow> completes env m"
  by (simp add: returns_def completes_def)

text \<open>
  The throwing overload and the reporting one agree: same calls, same world, the value
  exactly when the code is clear, the code inside the exception otherwise.
\<close>

lemma throwing_spec:
  assumes "m env w = (Ret (x, ec), w')"
  shows "throwing what m env w =
    ((if failed ec then Throw (System_Error ec what) else Ret x), w')"
  using assms by (simp add: throwing_def bnd_def comp_simps)

lemma throwing_void_spec:
  assumes "m env w = (Ret ec, w')"
  shows "throwing_void what m env w =
    ((if failed ec then Throw (System_Error ec what) else Ret ()), w')"
  using assms by (simp add: throwing_void_def bnd_def comp_simps)

end
