(* ===== verification/Core_Types.thy ===== *)
theory Core_Types
  imports Os
begin

text \<open>
  The value types of \<^verbatim>\<open>include/ioxx/core.hpp\<close>: tokens, interests, events, the event
  buffer and the kinds of sources. An interest is its eight bits; \<open>flags_of\<close> reads it
  as a set of flags, and the operations are shown to be union and difference on these sets.
\<close>

section \<open>Definitions\<close>

datatype token = Token (token_value: size_t)

definition Token_default :: token where
  "Token_default = Token 0"

datatype interest = Interest (bits: byte)

definition Interest_default :: interest where "Interest_default = Interest 0"
definition READABLE :: interest where "READABLE = Interest 0x01"
definition WRITABLE :: interest where "WRITABLE = Interest 0x02"
definition AIO :: interest where "AIO = Interest 0x04"
definition LIO :: interest where "LIO = Interest 0x08"
definition PRIORITY :: interest where "PRIORITY = Interest 0x10"

definition Interest_add :: "interest \<Rightarrow> interest \<Rightarrow> interest" where
  "Interest_add i other = Interest (bits i OR bits other)"

definition Interest_remove :: "interest \<Rightarrow> interest \<Rightarrow> interest option" where
  "Interest_remove i other =
     (let b = bits i AND NOT (bits other) in if b = 0 then None else Some (Interest b))"

definition is_readable :: "interest \<Rightarrow> bool" where
  "is_readable i \<longleftrightarrow> bits i AND bits READABLE \<noteq> 0"
definition is_writable :: "interest \<Rightarrow> bool" where
  "is_writable i \<longleftrightarrow> bits i AND bits WRITABLE \<noteq> 0"
definition is_aio :: "interest \<Rightarrow> bool" where
  "is_aio i \<longleftrightarrow> bits i AND bits AIO \<noteq> 0"
definition is_lio :: "interest \<Rightarrow> bool" where
  "is_lio i \<longleftrightarrow> bits i AND bits LIO \<noteq> 0"
definition is_priority :: "interest \<Rightarrow> bool" where
  "is_priority i \<longleftrightarrow> bits i AND bits PRIORITY \<noteq> 0"
definition Interest_empty :: "interest \<Rightarrow> bool" where
  "Interest_empty i \<longleftrightarrow> bits i = 0"

text \<open>
  The constructor from bits is private: client code only has the constants, the default
  value and what \<open>add\<close> and \<open>remove\<close> make of them.
\<close>

inductive public_interest :: "interest \<Rightarrow> bool" where
  default: "public_interest Interest_default"
| one_flag: "i \<in> {READABLE, WRITABLE, AIO, LIO, PRIORITY} \<Longrightarrow> public_interest i"
| add: "public_interest i \<Longrightarrow> public_interest j \<Longrightarrow> public_interest (Interest_add i j)"
| remove: "public_interest i \<Longrightarrow> public_interest j \<Longrightarrow> Interest_remove i j = Some k \<Longrightarrow>
    public_interest k"

datatype interest_flag = F_Readable | F_Writable | F_Aio | F_Lio | F_Priority

fun flag_test :: "interest_flag \<Rightarrow> interest \<Rightarrow> bool" where
  "flag_test F_Readable = is_readable"
| "flag_test F_Writable = is_writable"
| "flag_test F_Aio = is_aio"
| "flag_test F_Lio = is_lio"
| "flag_test F_Priority = is_priority"

definition flags_of :: "interest \<Rightarrow> interest_flag set" where
  "flags_of i = {f. flag_test f i}"

record event =
  ev_token :: token
  ev_readiness :: interest
  ev_error :: bool
  ev_read_closed :: bool
  ev_write_closed :: bool

definition Event_default :: event where
  "Event_default = \<lparr>ev_token = Token_default, ev_readiness = Interest_default, ev_error = False,
     ev_read_closed = False, ev_write_closed = False\<rparr>"

definition Event_new :: "token \<Rightarrow> interest \<Rightarrow> bool \<Rightarrow> bool \<Rightarrow> bool \<Rightarrow> event" where
  "Event_new token readiness error read_closed write_closed =
     \<lparr>ev_token = token, ev_readiness = readiness, ev_error = error,
      ev_read_closed = read_closed, ev_write_closed = write_closed\<rparr>"

definition Event_is_readable :: "event \<Rightarrow> bool" where
  "Event_is_readable e = is_readable (ev_readiness e)"
definition Event_is_writable :: "event \<Rightarrow> bool" where
  "Event_is_writable e = is_writable (ev_readiness e)"
definition Event_is_aio :: "event \<Rightarrow> bool" where
  "Event_is_aio e = is_aio (ev_readiness e)"
definition Event_is_lio :: "event \<Rightarrow> bool" where
  "Event_is_lio e = is_lio (ev_readiness e)"
definition Event_is_priority :: "event \<Rightarrow> bool" where
  "Event_is_priority e = is_priority (ev_readiness e)"

text \<open>
  The buffer is a vector with its reserved capacity; \<open>push_back\<close> on a full vector
  reallocates to twice the size.
\<close>

record events =
  ev_items :: "event list"
  ev_capacity :: nat

definition Events_new :: "nat \<Rightarrow> events" where
  "Events_new capacity = \<lparr>ev_items = [], ev_capacity = capacity\<rparr>"

definition Events_size :: "events \<Rightarrow> nat" where
  "Events_size evs = length (ev_items evs)"

definition Events_is_empty :: "events \<Rightarrow> bool" where
  "Events_is_empty evs \<longleftrightarrow> ev_items evs = []"

definition Events_clear :: "events \<Rightarrow> events" where
  "Events_clear evs = evs\<lparr>ev_items := []\<rparr>"

definition Events_at :: "events \<Rightarrow> nat \<Rightarrow> exn + event" where
  "Events_at evs i = (if i < length (ev_items evs) then Inr (ev_items evs ! i) else Inl Out_Of_Range)"

definition Events_push ::
  "token \<Rightarrow> interest \<Rightarrow> bool \<Rightarrow> bool \<Rightarrow> bool \<Rightarrow> events \<Rightarrow> events" where
  "Events_push token readiness error read_closed write_closed evs =
     \<lparr>ev_items = ev_items evs @ [Event_new token readiness error read_closed write_closed],
      ev_capacity = (if length (ev_items evs) < ev_capacity evs then ev_capacity evs
                     else max 1 (2 * length (ev_items evs)))\<rparr>"

datatype source_kind = Kind_socket | Kind_handle | Kind_raw_descriptor | Kind_waker

section \<open>Lemmas\<close>

lemma and_numeral_bit:
  "(b :: byte) AND 1 \<noteq> 0 \<longleftrightarrow> bit b 0"
  "b AND 2 \<noteq> 0 \<longleftrightarrow> bit b 1"
  "b AND 4 \<noteq> 0 \<longleftrightarrow> bit b 2"
  "b AND 8 \<noteq> 0 \<longleftrightarrow> bit b 3"
  "b AND 16 \<noteq> 0 \<longleftrightarrow> bit b 4"
  using and_push_bit_nonzero [of b 0] and_push_bit_nonzero [of b 1] and_push_bit_nonzero [of b 2]
    and_push_bit_nonzero [of b 3] and_push_bit_nonzero [of b 4]
  by simp_all

lemmas interest_consts =
  Interest_default_def READABLE_def WRITABLE_def AIO_def LIO_def PRIORITY_def

lemma interest_tests:
  "is_readable i \<longleftrightarrow> bit (bits i) 0"
  "is_writable i \<longleftrightarrow> bit (bits i) 1"
  "is_aio i \<longleftrightarrow> bit (bits i) 2"
  "is_lio i \<longleftrightarrow> bit (bits i) 3"
  "is_priority i \<longleftrightarrow> bit (bits i) 4"
  unfolding is_readable_def is_writable_def is_aio_def is_lio_def is_priority_def interest_consts
    interest.sel
  by (rule and_numeral_bit)+

lemmas interest_ops = Interest_add_def Interest_remove_def Interest_empty_def Let_def

lemma tests_add [flag_simps, simp]:
  "is_readable (Interest_add i j) \<longleftrightarrow> is_readable i \<or> is_readable j"
  "is_writable (Interest_add i j) \<longleftrightarrow> is_writable i \<or> is_writable j"
  "is_aio (Interest_add i j) \<longleftrightarrow> is_aio i \<or> is_aio j"
  "is_lio (Interest_add i j) \<longleftrightarrow> is_lio i \<or> is_lio j"
  "is_priority (Interest_add i j) \<longleftrightarrow> is_priority i \<or> is_priority j"
  by (simp_all add: interest_tests Interest_add_def bit_simps)

lemma tests_consts [flag_simps, simp]:
  "is_readable READABLE" "\<not> is_readable WRITABLE" "\<not> is_readable AIO" "\<not> is_readable LIO"
  "\<not> is_readable PRIORITY" "\<not> is_readable Interest_default"
  "\<not> is_writable READABLE" "is_writable WRITABLE" "\<not> is_writable AIO" "\<not> is_writable LIO"
  "\<not> is_writable PRIORITY" "\<not> is_writable Interest_default"
  "\<not> is_aio READABLE" "\<not> is_aio WRITABLE" "is_aio AIO" "\<not> is_aio LIO"
  "\<not> is_aio PRIORITY" "\<not> is_aio Interest_default"
  "\<not> is_lio READABLE" "\<not> is_lio WRITABLE" "\<not> is_lio AIO" "is_lio LIO"
  "\<not> is_lio PRIORITY" "\<not> is_lio Interest_default"
  "\<not> is_priority READABLE" "\<not> is_priority WRITABLE" "\<not> is_priority AIO" "\<not> is_priority LIO"
  "is_priority PRIORITY" "\<not> is_priority Interest_default"
  by (simp_all add: is_readable_def is_writable_def is_aio_def is_lio_def is_priority_def
      interest_consts)

lemma empty_consts [simp]:
  "Interest_empty Interest_default" "\<not> Interest_empty READABLE" "\<not> Interest_empty WRITABLE"
  by (simp_all add: interest_consts Interest_empty_def)

lemma mem_flags_of: "f \<in> flags_of i \<longleftrightarrow> flag_test f i"
  by (simp add: flags_of_def)

lemma flags_of_add [simp]: "flags_of (Interest_add i j) = flags_of i \<union> flags_of j"
proof (rule set_eqI)
  fix f
  show "f \<in> flags_of (Interest_add i j) \<longleftrightarrow> f \<in> flags_of i \<union> flags_of j"
    by (cases f) (simp_all add: mem_flags_of)
qed

lemma flags_of_eq_empty: "flags_of i = {} \<longleftrightarrow> bits i AND 31 = 0"
proof -
  have "flags_of i = {} \<longleftrightarrow> (\<forall>f. \<not> flag_test f i)"
    by (auto simp: flags_of_def)
  also have "\<dots> \<longleftrightarrow> \<not> is_readable i \<and> \<not> is_writable i \<and> \<not> is_aio i \<and> \<not> is_lio i \<and> \<not> is_priority i"
    by (metis flag_test.simps interest_flag.exhaust)
  also have "\<dots> \<longleftrightarrow> \<not> (bits i AND (1 OR (2 OR (4 OR (8 OR 16)))) \<noteq> 0)"
    by (simp only: and_or_nonzero and_numeral_bit interest_tests) simp
  also have "\<dots> \<longleftrightarrow> bits i AND 31 = 0" by simp
  finally show ?thesis .
qed

lemma flags_of_difference: "flags_of (Interest (bits i AND NOT (bits j))) = flags_of i - flags_of j"
proof (rule set_eqI)
  fix f
  show "f \<in> flags_of (Interest (bits i AND NOT (bits j))) \<longleftrightarrow> f \<in> flags_of i - flags_of j"
    by (cases f) (simp_all add: mem_flags_of interest_tests bit_simps)
qed

lemma public_interest_bits: "public_interest i \<Longrightarrow> bits i AND 31 = bits i"
proof (induction rule: public_interest.induct)
  case (add i j)
  then show ?case by (simp add: Interest_add_def bit.conj_disj_distrib2)
next
  case (remove i j k)
  then have "k = Interest (bits i AND NOT (bits j))"
    by (auto simp: interest_ops split: if_splits)
  with remove.IH(1) show ?case
    by (metis and.assoc and.commute interest.sel)
qed (auto simp: interest_consts)

lemma Events_push_within_capacity:
  assumes "length (ev_items evs) < ev_capacity evs"
  shows "ev_capacity (Events_push t r e rc wc evs) = ev_capacity evs"
    and "length (ev_items (Events_push t r e rc wc evs)) \<le> ev_capacity evs"
  using assms by (auto simp: Events_push_def)

section \<open>Interests are sets of flags\<close>

text \<open>
  C33. On the interests client code can build, \<open>add\<close> is set union, \<open>remove\<close>
  is set difference and reports \<open>nullopt\<close> exactly when nothing would remain, and
  \<open>empty\<close> holds exactly when no flag is set.
\<close>

theorem interest_set_semantics:
  assumes "public_interest i"
  shows "flags_of (Interest_add i j) = flags_of i \<union> flags_of j
    \<and> (Interest_empty i \<longleftrightarrow> flags_of i = {})
    \<and> (case Interest_remove i j of
         None \<Rightarrow> flags_of i \<subseteq> flags_of j
       | Some k \<Rightarrow> flags_of k = flags_of i - flags_of j \<and> flags_of k \<noteq> {})"
proof -
  have low: "bits i AND 31 = bits i" using assms by (rule public_interest_bits)
  let ?d = "bits i AND NOT (bits j)"
  have "?d AND 31 = ?d" using low by (metis and.assoc and.commute)
  then have none: "?d = 0 \<longleftrightarrow> flags_of i - flags_of j = {}"
    using flags_of_eq_empty [of "Interest ?d"] by (simp add: flags_of_difference)
  have "Interest_empty i \<longleftrightarrow> flags_of i = {}"
    using low by (simp add: flags_of_eq_empty Interest_empty_def)
  moreover have "case Interest_remove i j of
         None \<Rightarrow> flags_of i \<subseteq> flags_of j
       | Some k \<Rightarrow> flags_of k = flags_of i - flags_of j \<and> flags_of k \<noteq> {}"
    using none by (auto simp: Interest_remove_def Let_def flags_of_difference)
  ultimately show ?thesis by simp
qed

theorem interest_set_semantics_witness:
  "Interest_remove (Interest_add READABLE WRITABLE) READABLE = Some WRITABLE
   \<and> flags_of WRITABLE = flags_of (Interest_add READABLE WRITABLE) - flags_of READABLE"
proof -
  have pub: "public_interest (Interest_add READABLE WRITABLE)"
    by (intro public_interest.add public_interest.one_flag) simp_all
  have rm: "Interest_remove (Interest_add READABLE WRITABLE) READABLE = Some WRITABLE"
    by (simp add: interest_ops interest_consts)
  show ?thesis using interest_set_semantics [OF pub, of READABLE] rm by simp
qed

end
