(* ===== verification/Backend_Flags.thy ===== *)
theory Backend_Flags
  imports Core_Types
begin

text \<open>
  The translations between interests and the event masks of the back ends, and the
  conversions of the timeout, from \<^verbatim>\<open>src/core.cpp\<close>: epoll, kqueue, the AFD
  driver and the fallback on \<open>poll\<close>. The lemmas show that a mask asks for exactly
  what the interest names, and that what is reported back was asked for.
\<close>

section \<open>Masks of the system headers\<close>

definition EPOLLIN :: u32 where [flag_simps]: "EPOLLIN = 0x001"
definition EPOLLPRI :: u32 where [flag_simps]: "EPOLLPRI = 0x002"
definition EPOLLOUT :: u32 where [flag_simps]: "EPOLLOUT = 0x004"
definition EPOLLERR :: u32 where [flag_simps]: "EPOLLERR = 0x008"
definition EPOLLHUP :: u32 where [flag_simps]: "EPOLLHUP = 0x010"
definition EPOLLRDHUP :: u32 where [flag_simps]: "EPOLLRDHUP = 0x2000"
definition EPOLLET :: u32 where [flag_simps]: "EPOLLET = 0x80000000"

definition POLLIN :: u16 where [flag_simps]: "POLLIN = 0x01"
definition POLLPRI :: u16 where [flag_simps]: "POLLPRI = 0x02"
definition POLLOUT :: u16 where [flag_simps]: "POLLOUT = 0x04"
definition POLLERR :: u16 where [flag_simps]: "POLLERR = 0x08"
definition POLLHUP :: u16 where [flag_simps]: "POLLHUP = 0x10"

definition EV_ADD :: u16 where [flag_simps]: "EV_ADD = 0x0001"
definition EV_DELETE :: u16 where [flag_simps]: "EV_DELETE = 0x0002"
definition EV_CLEAR :: u16 where [flag_simps]: "EV_CLEAR = 0x0020"
definition EV_ERROR :: u16 where [flag_simps]: "EV_ERROR = 0x4000"
definition EV_EOF :: u16 where [flag_simps]: "EV_EOF = 0x8000"

section \<open>Timeouts\<close>

definition clamp_timeout :: "int option \<Rightarrow> int" where
  "clamp_timeout timeout = (case timeout of None \<Rightarrow> -1 | Some t \<Rightarrow> if t < 0 then 0 else t)"

definition epoll_timeout_ms :: "int option \<Rightarrow> int" where
  "epoll_timeout_ms timeout = int64_to_int (min (clamp_timeout timeout) INT_MAX)"

definition poll_timeout_ms :: "int option \<Rightarrow> int" where
  "poll_timeout_ms timeout = int64_to_int (clamp_timeout timeout)"

abbreviation (input) INFINITE :: int where "INFINITE \<equiv> 4294967295"

definition iocp_timeout_ms :: "int option \<Rightarrow> int" where
  "iocp_timeout_ms timeout = (let v = clamp_timeout timeout in
     if v < 0 then INFINITE else min v (INFINITE - 1))"

text \<open>\<open>duration_cast\<close> truncates towards zero.\<close>

definition to_timespec :: "int \<Rightarrow> timespec" where
  "to_timespec timeout = (let seconds = sgn timeout * (\<bar>timeout\<bar> div 1000) in
     \<lparr>tv_sec = seconds, tv_nsec = (timeout - seconds * 1000) * 1000000\<rparr>)"

section \<open>epoll\<close>

definition to_epoll_events :: "interest \<Rightarrow> u32" where
  "to_epoll_events interests =
     (let events = EPOLLERR OR EPOLLHUP OR EPOLLET;
          events = (if is_readable interests then events OR (EPOLLIN OR EPOLLRDHUP) else events);
          events = (if is_writable interests then events OR EPOLLOUT else events);
          events = (if is_priority interests then events OR EPOLLPRI else events)
      in events)"

definition from_epoll_events :: "u32 \<Rightarrow> interest" where
  "from_epoll_events flags =
     (let readiness = Interest_default;
          readiness = (if flags AND (EPOLLIN OR EPOLLRDHUP OR EPOLLHUP) \<noteq> 0
                       then Interest_add readiness READABLE else readiness);
          readiness = (if flags AND EPOLLOUT \<noteq> 0
                       then Interest_add readiness WRITABLE else readiness);
          readiness = (if flags AND EPOLLPRI \<noteq> 0
                       then Interest_add readiness PRIORITY else readiness)
      in readiness)"

section \<open>kqueue\<close>

definition add_kevent ::
  "kevent_s list \<Rightarrow> int \<Rightarrow> kfilter \<Rightarrow> u16 \<Rightarrow> token \<Rightarrow> kevent_s list" where
  "add_kevent changes ident filt flags token =
     changes @ [\<lparr>kev_ident = ident, kev_filter = filt, kev_flags = flags,
                 kev_udata = token_value token\<rparr>]"

definition append_kqueue_changes ::
  "(macro \<Rightarrow> bool) \<Rightarrow> kevent_s list \<Rightarrow> int \<Rightarrow> interest \<Rightarrow> token \<Rightarrow> u16 \<Rightarrow> kevent_s list" where
  "append_kqueue_changes defs changes handle interests token flags =
     (let changes = (if is_readable interests
                     then add_kevent changes handle EVFILT_READ flags token else changes);
          changes = (if is_writable interests
                     then add_kevent changes handle EVFILT_WRITE flags token else changes);
          changes = (if defs D_EVFILT_AIO \<and> is_aio interests
                     then add_kevent changes handle EVFILT_AIO flags token else changes);
          changes = (if defs D_EVFILT_LIO \<and> is_lio interests
                     then add_kevent changes handle EVFILT_LIO flags token else changes)
      in changes)"

definition from_kqueue_event :: "(macro \<Rightarrow> bool) \<Rightarrow> kevent_s \<Rightarrow> interest" where
  "from_kqueue_event defs event =
     (if kev_filter event = EVFILT_READ then Interest_add Interest_default READABLE
      else if kev_filter event = EVFILT_WRITE then Interest_add Interest_default WRITABLE
      else if defs D_EVFILT_AIO \<and> kev_filter event = EVFILT_AIO
        then Interest_add Interest_default AIO
      else if defs D_EVFILT_LIO \<and> kev_filter event = EVFILT_LIO
        then Interest_add Interest_default LIO
      else Interest_default)"

section \<open>poll\<close>

definition to_poll_events :: "interest \<Rightarrow> u16" where
  "to_poll_events interests =
     (let flags = POLLERR OR POLLHUP;
          flags = (if is_readable interests then flags OR POLLIN else flags);
          flags = (if is_writable interests then flags OR POLLOUT else flags);
          flags = (if is_priority interests then flags OR POLLPRI else flags)
      in flags)"

definition from_poll_events :: "u16 \<Rightarrow> interest" where
  "from_poll_events flags =
     (let readiness = Interest_default;
          readiness = (if flags AND (POLLIN OR POLLHUP) \<noteq> 0
                       then Interest_add readiness READABLE else readiness);
          readiness = (if flags AND POLLOUT \<noteq> 0
                       then Interest_add readiness WRITABLE else readiness);
          readiness = (if flags AND POLLPRI \<noteq> 0
                       then Interest_add readiness PRIORITY else readiness)
      in readiness)"

section \<open>AFD\<close>

definition afd_poll_receive :: u32 where [flag_simps]: "afd_poll_receive = 0x001"
definition afd_poll_receive_expedited :: u32 where [flag_simps]: "afd_poll_receive_expedited = 0x002"
definition afd_poll_send :: u32 where [flag_simps]: "afd_poll_send = 0x004"
definition afd_poll_disconnect :: u32 where [flag_simps]: "afd_poll_disconnect = 0x008"
definition afd_poll_abort :: u32 where [flag_simps]: "afd_poll_abort = 0x010"
definition afd_poll_local_close :: u32 where [flag_simps]: "afd_poll_local_close = 0x020"
definition afd_poll_accept :: u32 where [flag_simps]: "afd_poll_accept = 0x080"
definition afd_poll_connect_fail :: u32 where [flag_simps]: "afd_poll_connect_fail = 0x100"

definition afd_known_events :: u32 where [flag_simps]:
  "afd_known_events = (afd_poll_receive OR afd_poll_receive_expedited OR afd_poll_send OR
     afd_poll_disconnect OR afd_poll_abort OR afd_poll_local_close OR afd_poll_accept OR
     afd_poll_connect_fail)"

definition afd_readable_flags :: u32 where [flag_simps]:
  "afd_readable_flags = (afd_poll_receive OR afd_poll_disconnect OR afd_poll_accept OR
     afd_poll_abort OR afd_poll_connect_fail)"

definition afd_writable_flags :: u32 where [flag_simps]:
  "afd_writable_flags = (afd_poll_send OR afd_poll_abort OR afd_poll_connect_fail)"

definition afd_error_flags :: u32 where [flag_simps]:
  "afd_error_flags = afd_poll_connect_fail"

definition afd_read_closed_flags :: u32 where [flag_simps]:
  "afd_read_closed_flags = (afd_poll_disconnect OR afd_poll_abort OR afd_poll_connect_fail)"

definition afd_write_closed_flags :: u32 where [flag_simps]:
  "afd_write_closed_flags = (afd_poll_abort OR afd_poll_connect_fail)"

definition interests_to_afd_flags :: "interest \<Rightarrow> u32" where
  "interests_to_afd_flags interests =
     (let flags = 0;
          flags = (if is_readable interests
                   then flags OR (afd_readable_flags OR afd_read_closed_flags OR afd_error_flags)
                   else flags);
          flags = (if is_writable interests
                   then flags OR (afd_writable_flags OR afd_write_closed_flags OR afd_error_flags)
                   else flags);
          flags = (if is_priority interests then flags OR afd_poll_receive_expedited else flags)
      in flags OR afd_poll_abort OR afd_poll_connect_fail)"

definition afd_flags_to_interest :: "u32 \<Rightarrow> interest" where
  "afd_flags_to_interest flags =
     (let readiness = Interest_default;
          readiness = (if flags AND afd_readable_flags \<noteq> 0
                       then Interest_add readiness READABLE else readiness);
          readiness = (if flags AND afd_writable_flags \<noteq> 0
                       then Interest_add readiness WRITABLE else readiness);
          readiness = (if flags AND afd_poll_receive_expedited \<noteq> 0
                       then Interest_add readiness PRIORITY else readiness)
      in readiness)"

section \<open>Bits of the masks\<close>

lemma u32_and_bit:
  "(f :: u32) AND 0x001 \<noteq> 0 \<longleftrightarrow> bit f 0" "f AND 0x002 \<noteq> 0 \<longleftrightarrow> bit f 1"
  "f AND 0x004 \<noteq> 0 \<longleftrightarrow> bit f 2" "f AND 0x008 \<noteq> 0 \<longleftrightarrow> bit f 3"
  "f AND 0x010 \<noteq> 0 \<longleftrightarrow> bit f 4" "f AND 0x020 \<noteq> 0 \<longleftrightarrow> bit f 5"
  "f AND 0x080 \<noteq> 0 \<longleftrightarrow> bit f 7" "f AND 0x100 \<noteq> 0 \<longleftrightarrow> bit f 8"
  "f AND 0x2000 \<noteq> 0 \<longleftrightarrow> bit f 13"
  using and_push_bit_nonzero [of f 0] and_push_bit_nonzero [of f 1] and_push_bit_nonzero [of f 2]
    and_push_bit_nonzero [of f 3] and_push_bit_nonzero [of f 4] and_push_bit_nonzero [of f 5]
    and_push_bit_nonzero [of f 7] and_push_bit_nonzero [of f 8] and_push_bit_nonzero [of f 13]
  by simp_all

lemma subset_bits:
  fixes a :: "'a::len word"
  assumes "a AND NOT b = 0" "bit a n"
  shows "bit b n"
  using assms by (metis bit_and_iff bit_not_iff bit_imp_possible_bit bit_0_eq bot_apply bot_bool_def)

lemmas epoll_masks =
  EPOLLIN_def EPOLLPRI_def EPOLLOUT_def EPOLLERR_def EPOLLHUP_def EPOLLRDHUP_def EPOLLET_def

lemma bits_to_epoll_events:
  "bit (to_epoll_events i) 0 \<longleftrightarrow> is_readable i"
  "bit (to_epoll_events i) 1 \<longleftrightarrow> is_priority i"
  "bit (to_epoll_events i) 2 \<longleftrightarrow> is_writable i"
  "bit (to_epoll_events i) 13 \<longleftrightarrow> is_readable i"
  "bit (to_epoll_events i) 3" "bit (to_epoll_events i) 4" "bit (to_epoll_events i) 31"
  by (simp_all add: to_epoll_events_def epoll_masks Let_def bit_simps)

lemma tests_from_epoll_events:
  "is_readable (from_epoll_events f) \<longleftrightarrow> bit f 0 \<or> bit f 13 \<or> bit f 4"
  "is_writable (from_epoll_events f) \<longleftrightarrow> bit f 2"
  "is_priority (from_epoll_events f) \<longleftrightarrow> bit f 1"
  "\<not> is_aio (from_epoll_events f)" "\<not> is_lio (from_epoll_events f)"
  by (simp_all only: from_epoll_events_def epoll_masks Let_def and_or_nonzero u32_and_bit
      tests_add tests_consts if_distrib [where f = is_readable] if_distrib [where f = is_writable]
      if_distrib [where f = is_priority] if_distrib [where f = is_aio] if_distrib [where f = is_lio])
    auto

lemmas afd_masks =
  afd_poll_receive_def afd_poll_receive_expedited_def afd_poll_send_def afd_poll_disconnect_def
  afd_poll_abort_def afd_poll_local_close_def afd_poll_accept_def afd_poll_connect_fail_def
  afd_known_events_def afd_readable_flags_def afd_writable_flags_def afd_error_flags_def
  afd_read_closed_flags_def afd_write_closed_flags_def

lemma bits_interests_to_afd_flags:
  "bit (interests_to_afd_flags i) 0 \<longleftrightarrow> is_readable i"
  "bit (interests_to_afd_flags i) 1 \<longleftrightarrow> is_priority i"
  "bit (interests_to_afd_flags i) 2 \<longleftrightarrow> is_writable i"
  "bit (interests_to_afd_flags i) 3 \<longleftrightarrow> is_readable i"
  "bit (interests_to_afd_flags i) 7 \<longleftrightarrow> is_readable i"
  "bit (interests_to_afd_flags i) 4" "bit (interests_to_afd_flags i) 8"
  "\<not> bit (interests_to_afd_flags i) 5"
  by (simp_all add: interests_to_afd_flags_def afd_masks Let_def bit_simps)

lemma tests_afd_flags_to_interest:
  "is_readable (afd_flags_to_interest f) \<longleftrightarrow> bit f 0 \<or> bit f 3 \<or> bit f 7 \<or> bit f 4 \<or> bit f 8"
  "is_writable (afd_flags_to_interest f) \<longleftrightarrow> bit f 2 \<or> bit f 4 \<or> bit f 8"
  "is_priority (afd_flags_to_interest f) \<longleftrightarrow> bit f 1"
  "\<not> is_aio (afd_flags_to_interest f)" "\<not> is_lio (afd_flags_to_interest f)"
  by (simp_all only: afd_flags_to_interest_def afd_masks Let_def and_or_nonzero u32_and_bit
      tests_add tests_consts if_distrib [where f = is_readable] if_distrib [where f = is_writable]
      if_distrib [where f = is_priority] if_distrib [where f = is_aio] if_distrib [where f = is_lio])
    auto

lemma interests_to_afd_flags_nonzero: "interests_to_afd_flags i \<noteq> 0"
  using bits_interests_to_afd_flags(6) [of i] by auto

section \<open>Properties\<close>

text \<open>
  C34. epoll readiness is sound: if the kernel reports only events of the mask that was
  registered for an interest, the readiness of the resulting event names only flags of that
  interest, except that a hang-up is also reported as readable.
\<close>

theorem epoll_readiness_sound:
  assumes "f AND NOT (to_epoll_events i) = 0"
  shows "flags_of (from_epoll_events f)
    \<subseteq> flags_of i \<union> (if f AND EPOLLHUP \<noteq> 0 then {F_Readable} else {})"
proof
  fix x
  assume "x \<in> flags_of (from_epoll_events f)"
  moreover have "bit f 0 \<Longrightarrow> is_readable i" "bit f 1 \<Longrightarrow> is_priority i"
    "bit f 2 \<Longrightarrow> is_writable i" "bit f 13 \<Longrightarrow> is_readable i"
    using subset_bits [OF assms] bits_to_epoll_events(1-4) by blast+
  moreover have "f AND EPOLLHUP \<noteq> 0 \<longleftrightarrow> bit f 4"
    unfolding EPOLLHUP_def by (rule u32_and_bit)
  ultimately show "x \<in> flags_of i \<union> (if f AND EPOLLHUP \<noteq> 0 then {F_Readable} else {})"
    by (cases x) (auto simp: mem_flags_of tests_from_epoll_events)
qed

theorem epoll_readiness_sound_witness:
  "(EPOLLIN OR EPOLLRDHUP) AND NOT (to_epoll_events READABLE) = 0
   \<and> flags_of (from_epoll_events (EPOLLIN OR EPOLLRDHUP)) \<subseteq> flags_of READABLE"
proof -
  have h: "(EPOLLIN OR EPOLLRDHUP) AND NOT (to_epoll_events READABLE) = 0"
    by (simp add: to_epoll_events_def epoll_masks Let_def)
  show ?thesis using h epoll_readiness_sound [OF h] by (simp add: epoll_masks)
qed

text \<open>
  C35. AFD readiness is sound: events within the mask issued for an interest produce readiness
  within the interest, except that an abort or a failed connection reports both directions.
\<close>

theorem afd_readiness_sound:
  assumes "f AND NOT (interests_to_afd_flags i) = 0"
  shows "flags_of (afd_flags_to_interest f) \<subseteq> flags_of i
    \<union> (if f AND (afd_poll_abort OR afd_poll_connect_fail) \<noteq> 0 then {F_Readable, F_Writable} else {})"
proof
  fix x
  assume "x \<in> flags_of (afd_flags_to_interest f)"
  moreover have "bit f 0 \<Longrightarrow> is_readable i" "bit f 1 \<Longrightarrow> is_priority i"
    "bit f 2 \<Longrightarrow> is_writable i" "bit f 3 \<Longrightarrow> is_readable i" "bit f 7 \<Longrightarrow> is_readable i"
    using subset_bits [OF assms] bits_interests_to_afd_flags(1-5) by blast+
  moreover have "f AND (afd_poll_abort OR afd_poll_connect_fail) \<noteq> 0 \<longleftrightarrow> bit f 4 \<or> bit f 8"
    unfolding afd_masks by (simp only: and_or_nonzero u32_and_bit)
  ultimately show "x \<in> flags_of i \<union>
      (if f AND (afd_poll_abort OR afd_poll_connect_fail) \<noteq> 0 then {F_Readable, F_Writable} else {})"
    by (cases x) (auto simp: mem_flags_of tests_afd_flags_to_interest)
qed

theorem afd_readiness_sound_witness:
  "afd_poll_accept AND NOT (interests_to_afd_flags READABLE) = 0
   \<and> flags_of (afd_flags_to_interest afd_poll_accept) \<subseteq> flags_of READABLE"
proof -
  have h: "afd_poll_accept AND NOT (interests_to_afd_flags READABLE) = 0"
    by (simp add: interests_to_afd_flags_def afd_masks Let_def)
  show ?thesis using h afd_readiness_sound [OF h] by (simp add: afd_masks)
qed

lemma int64_to_int_wraps: "int64_to_int v = (v + 2147483648) mod 4294967296 - 2147483648"
  by (simp add: int64_to_int_def signed_take_bit_eq_take_bit_shift take_bit_eq_mod sint_sbintrunc')

text \<open>Truncation towards zero splits a number of milliseconds without loss.\<close>

lemma to_timespec_split:
  "tv_sec (to_timespec t) * 1000000000 + tv_nsec (to_timespec t) = t * 1000000"
  "\<bar>tv_nsec (to_timespec t)\<bar> < 1000000000"
  "0 \<le> tv_sec (to_timespec t) \<and> 0 \<le> tv_nsec (to_timespec t) \<longleftrightarrow> 0 \<le> t"
proof -
  show "tv_sec (to_timespec t) * 1000000000 + tv_nsec (to_timespec t) = t * 1000000"
    by (simp add: to_timespec_def Let_def algebra_simps)
  consider (zero) "t = 0" | (pos) "0 < t" | (neg) "t < 0" by linarith
  then have "\<bar>tv_nsec (to_timespec t)\<bar> < 1000000000
      \<and> (0 \<le> tv_sec (to_timespec t) \<and> 0 \<le> tv_nsec (to_timespec t) \<longleftrightarrow> 0 \<le> t)"
  proof cases
    case pos
    then have "0 \<le> t div 1000" by (simp add: pos_imp_zdiv_nonneg_iff)
    moreover have "1000 * (t div 1000) \<le> t" "t < 1000 * (t div 1000) + 1000" by linarith+
    ultimately show ?thesis using pos by (auto simp: to_timespec_def Let_def)
  next
    case neg
    then have "0 \<le> - t div 1000" by (simp add: pos_imp_zdiv_nonneg_iff)
    moreover have "1000 * (- t div 1000) \<le> - t" "- t < 1000 * (- t div 1000) + 1000" by linarith+
    ultimately show ?thesis using neg by (auto simp: to_timespec_def Let_def)
  qed (simp add: to_timespec_def Let_def)
  then show "\<bar>tv_nsec (to_timespec t)\<bar> < 1000000000"
    "0 \<le> tv_sec (to_timespec t) \<and> 0 \<le> tv_nsec (to_timespec t) \<longleftrightarrow> 0 \<le> t" by blast+
qed

text \<open>
  C36. The timeouts handed to the four waits. For \<open>epoll_wait\<close> and the completion port
  no timeout is the value for waiting for ever, any other is the requested number of
  milliseconds with negative requests raised to 0 and large ones cut to the largest value the
  call accepts; so a finite request is never turned into an infinite wait. \<open>poll\<close> gets
  the request modulo \<open>2^32\<close> as a signed number: the request itself up to
  \<open>INT_MAX\<close>, but a negative number, an infinite wait, for the next larger one. The
  \<open>timespec\<close> for \<open>kevent\<close> is exactly the request, with less than a second
  in the nanoseconds; it is not raised to 0, so it is negative for a negative request.
\<close>

theorem timeout_conversion:
  "epoll_timeout_ms None = -1 \<and> epoll_timeout_ms (Some t) = max 0 (min t INT_MAX)
   \<and> iocp_timeout_ms None = INFINITE \<and> iocp_timeout_ms (Some t) = max 0 (min t (INFINITE - 1))
   \<and> poll_timeout_ms None = -1
   \<and> poll_timeout_ms (Some t) =
       (if t \<le> INT_MAX then max 0 t else (t + 2147483648) mod 4294967296 - 2147483648)
   \<and> poll_timeout_ms (Some (INT_MAX + 1)) < 0
   \<and> tv_sec (to_timespec t) * 1000000000 + tv_nsec (to_timespec t) = t * 1000000
   \<and> \<bar>tv_nsec (to_timespec t)\<bar> < 1000000000
   \<and> (0 \<le> tv_sec (to_timespec t) \<and> 0 \<le> tv_nsec (to_timespec t) \<longleftrightarrow> 0 \<le> t)"
proof -
  have "epoll_timeout_ms None = -1" "epoll_timeout_ms (Some t) = max 0 (min t INT_MAX)"
    "iocp_timeout_ms None = INFINITE" "iocp_timeout_ms (Some t) = max 0 (min t (INFINITE - 1))"
    by (auto simp: epoll_timeout_ms_def iocp_timeout_ms_def clamp_timeout_def int64_to_int_small Let_def)
  moreover have "poll_timeout_ms None = -1" "poll_timeout_ms (Some (INT_MAX + 1)) < 0"
    "poll_timeout_ms (Some t) = (if t \<le> INT_MAX then max 0 t else (t + 2147483648) mod 4294967296 - 2147483648)"
    by (auto simp: poll_timeout_ms_def clamp_timeout_def int64_to_int_small int64_to_int_wraps)
  ultimately show ?thesis using to_timespec_split by blast
qed

end
