(* ===== verification/Ownership.thy ===== *)
theory Ownership
  imports Os "HOL-Library.Multiset"
begin

text \<open>
  Unique ownership of a kernel handle, the contract that the sources' handle classes share
  (\<open>detail::Socket\<close>, \<open>detail::OwnedDescriptor\<close> and the descriptor
  classes of the Unix module): an object holds one handle or an invalid one, moving empties
  the source, and giving up a handle closes it once. The member functions of a class are the
  fields of a record; the step relation runs them on a set of objects, and the locale
  \<open>handle_owner\<close> states what each of them does to the handles. From it follows, for
  every sequence of constructions, moves, resets, releases and destructions, that the handles
  handed to the objects are exactly those closed, those released and those still held.
\<close>

section \<open>The life of a set of owners\<close>

record owners =
  slots :: "int list"
  acquired :: "int multiset"
  released :: "int multiset"
  own_world :: base_world

text \<open>The handles closed by the calls of a history.\<close>

fun closed_handle :: "call \<Rightarrow> int list" where
  "closed_handle (Close h) = [h]"
| "closed_handle (Closesocket h) = [h]"
| "closed_handle (Close_handle h) = [h]"
| "closed_handle _ = []"

definition closed_in :: "history \<Rightarrow> int multiset" where
  "closed_in h = mset (concat (map (closed_handle \<circ> fst) h))"

definition one :: "(int \<Rightarrow> bool) \<Rightarrow> int \<Rightarrow> int multiset" where
  "one valid h = (if valid h then {#h#} else {#})"

definition held :: "(int \<Rightarrow> bool) \<Rightarrow> owners \<Rightarrow> int multiset" where
  "held valid s = filter_mset valid (mset (slots s))"

text \<open>
  The member functions of a class with one handle, each as a function of the field: the empty
  object and the object made for a handle; \<open>release\<close> (the handle returned and the
  field after it); the move constructor (the new field and the field of the source); the move
  assignment, told whether source and target are the same object (both fields after it);
  \<open>reset\<close>, which some classes do not have; and the destructor.
\<close>

record owner_class =
  op_valid :: "int \<Rightarrow> bool"
  op_empty :: int
  op_new :: "int \<Rightarrow> int"
  op_release :: "int \<Rightarrow> int \<times> int"
  op_move :: "int \<Rightarrow> int \<times> int"
  op_move_assign :: "bool \<Rightarrow> int \<Rightarrow> int \<Rightarrow> (base_world, int \<times> int) comp"
  op_reset :: "(int \<Rightarrow> int \<Rightarrow> (base_world, int) comp) option"
  op_destroy :: "int \<Rightarrow> (base_world, unit) comp"

definition remove_nth :: "nat \<Rightarrow> 'a list \<Rightarrow> 'a list" where
  "remove_nth i xs = take i xs @ drop (Suc i) xs"

text \<open>
  One operation on the objects, numbered by their position; a destroyed object is gone. A
  handle passed in from outside is one that no object holds, as the kernel hands out free
  handles only.
\<close>

inductive owner_step :: "env \<Rightarrow> owner_class \<Rightarrow> owners \<Rightarrow> owners \<Rightarrow> bool" for env C where
  construct_empty: "owner_step env C s (s\<lparr>slots := slots s @ [op_empty C]\<rparr>)"
| construct: "op_valid C h \<Longrightarrow> h \<notin># held (op_valid C) s \<Longrightarrow> owner_step env C s
    (s\<lparr>slots := slots s @ [op_new C h], acquired := add_mset h (acquired s)\<rparr>)"
| move_construct: "i < length (slots s) \<Longrightarrow> op_move C (slots s ! i) = (h, k) \<Longrightarrow>
    owner_step env C s (s\<lparr>slots := (slots s)[i := k] @ [h]\<rparr>)"
| move_assign: "i < length (slots s) \<Longrightarrow> j < length (slots s) \<Longrightarrow>
    op_move_assign C (i = j) (slots s ! i) (slots s ! j) env (own_world s) = (Ret (h, k), w) \<Longrightarrow>
    owner_step env C s (s\<lparr>slots := (slots s)[j := k, i := h], own_world := w\<rparr>)"
| reset_to: "op_reset C = Some reset \<Longrightarrow> i < length (slots s) \<Longrightarrow> op_valid C h \<Longrightarrow>
    h \<notin># held (op_valid C) s \<Longrightarrow> reset (slots s ! i) h env (own_world s) = (Ret h', w) \<Longrightarrow>
    owner_step env C s
      (s\<lparr>slots := (slots s)[i := h'], acquired := add_mset h (acquired s), own_world := w\<rparr>)"
| reset_empty: "op_reset C = Some reset \<Longrightarrow> i < length (slots s) \<Longrightarrow>
    reset (slots s ! i) (op_empty C) env (own_world s) = (Ret h, w) \<Longrightarrow>
    owner_step env C s (s\<lparr>slots := (slots s)[i := h], own_world := w\<rparr>)"
| release: "i < length (slots s) \<Longrightarrow> op_release C (slots s ! i) = (h, k) \<Longrightarrow> owner_step env C s
    (s\<lparr>slots := (slots s)[i := k], released := released s + one (op_valid C) h\<rparr>)"
| destroy: "i < length (slots s) \<Longrightarrow> op_destroy C (slots s ! i) env (own_world s) = (Ret (), w) \<Longrightarrow>
    owner_step env C s (s\<lparr>slots := remove_nth i (slots s), own_world := w\<rparr>)"
| other_call: "closed_handle c = [] \<Longrightarrow>
    owner_step env C s (s\<lparr>own_world := logged env c (own_world s)\<rparr>)"

inductive owners_reachable :: "env \<Rightarrow> owner_class \<Rightarrow> owners \<Rightarrow> bool" for env C where
  start: "owners_reachable env C
    \<lparr>slots = [], acquired = {#}, released = {#}, own_world = \<lparr>history = [], errno = e\<rparr>\<rparr>"
| step: "owners_reachable env C s \<Longrightarrow> owner_step env C s t \<Longrightarrow> owners_reachable env C t"

definition owners_ok :: "(int \<Rightarrow> bool) \<Rightarrow> owners \<Rightarrow> bool" where
  "owners_ok valid s \<longleftrightarrow>
     acquired s = closed_in (history (own_world s)) + held valid s + released s
     \<and> (\<forall>h. count (held valid s) h \<le> 1)"

section \<open>Multisets of held handles\<close>

lemma one_simps [simp]:
  "valid h \<Longrightarrow> one valid h = {#h#}" "\<not> valid h \<Longrightarrow> one valid h = {#}"
  by (simp_all add: one_def)

lemma closed_in_append [simp]: "closed_in (h @ h') = closed_in h + closed_in h'"
  by (simp add: closed_in_def)

lemma closed_in_simps [simp]:
  "closed_in [] = {#}"
  "closed_in [(c, r)] = mset (closed_handle c)"
  by (simp_all add: closed_in_def)

lemma held_update:
  assumes "i < length xs"
  shows "filter_mset valid (mset (xs[i := v])) + one valid (xs ! i)
    = filter_mset valid (mset xs) + one valid v"
proof -
  have "mset (xs[i := v]) + {#xs ! i#} = mset xs + {#v#}"
    using assms by (simp add: mset_update)
  then have "filter_mset valid (mset (xs[i := v]) + {#xs ! i#}) = filter_mset valid (mset xs + {#v#})"
    by simp
  then show ?thesis by (cases "valid v"; cases "valid (xs ! i)") simp_all
qed

lemma held_remove_nth:
  assumes "i < length xs"
  shows "filter_mset valid (mset (remove_nth i xs)) + one valid (xs ! i) = filter_mset valid (mset xs)"
proof -
  have "mset xs = add_mset (xs ! i) (mset (remove_nth i xs))"
    using arg_cong [OF id_take_nth_drop [OF assms], of mset] by (simp add: remove_nth_def)
  then show ?thesis by (cases "valid (xs ! i)") simp_all
qed

lemma mset_exchange: "a + h = f \<Longrightarrow> f + g = s + h \<Longrightarrow> a + g = s" for a :: "'a multiset"
  by (metis union_assoc union_commute union_right_cancel)

lemma mem_held: "i < length (slots s) \<Longrightarrow> valid (slots s ! i) \<Longrightarrow> slots s ! i \<in># held valid s"
  by (simp add: held_def)

section \<open>The interface and what follows from it\<close>

locale handle_owner =
  fixes env :: env
    and C :: owner_class
    and close_call :: "int \<Rightarrow> call"
  assumes empty_invalid: "\<not> op_valid C (op_empty C)"
    and close_closes: "closed_handle (close_call h) = [h]"
    and new_holds: "op_new C h = h"
    and release_empties: "op_release C h = (h', k) \<Longrightarrow> h' = h \<and> \<not> op_valid C k"
    and move_empties: "op_move C h = (h', k) \<Longrightarrow> h' = h \<and> \<not> op_valid C k"
    and move_assign_run: "h \<noteq> h' \<or> \<not> op_valid C h \<Longrightarrow> \<exists>k. \<not> op_valid C k \<and>
      op_move_assign C False h h' env w =
        (Ret (h', k), if op_valid C h then logged env (close_call h) w else w)"
    and self_assign_run: "\<exists>k. op_move_assign C True h h env w = (Ret (h, k), w)"
    and reset_run: "op_reset C = Some reset \<Longrightarrow> h \<noteq> h' \<or> \<not> op_valid C h \<Longrightarrow> reset h h' env w =
      (Ret h', if op_valid C h then logged env (close_call h) w else w)"
    and destroy_run: "op_destroy C h env w =
      (Ret (), if op_valid C h then logged env (close_call h) w else w)"
begin

abbreviation valid :: "int \<Rightarrow> bool" where
  "valid \<equiv> op_valid C"

lemma held_emptied:
  assumes "i < length (slots s)" "\<not> valid k"
  shows "held valid (s\<lparr>slots := (slots s)[i := k]\<rparr>) + one valid (slots s ! i) = held valid s"
  using held_update [OF assms(1), of valid k] assms(2) by (simp add: held_def)

text \<open>Moving a handle from one object to another drops the handle that was there.\<close>

lemma held_move:
  assumes "i < length (slots s)" "j < length (slots s)" "i \<noteq> j" "\<not> valid k"
  shows "held valid (s\<lparr>slots := (slots s)[j := k, i := slots s ! j]\<rparr>) + one valid (slots s ! i) = held valid s"
proof -
  let ?h = "slots s ! j"
  have "filter_mset valid (mset ((slots s)[i := ?h, j := k])) + one valid ?h = filter_mset valid (mset ((slots s)[i := ?h]))"
    using held_update [of j "(slots s)[i := ?h]" valid k] assms by simp
  with held_update [OF assms(1), of valid ?h] show ?thesis
    using mset_exchange assms(3) by (simp add: held_def list_update_swap)
qed

text \<open>What replacing or dropping a handle closes.\<close>

lemma closed_after:
  "closed_in (history (if valid h then logged env (close_call h) w else w))
    = closed_in (history w) + one valid h"
  using close_closes by simp

lemma distinct_slots:
  assumes "owners_ok valid s" "i < length (slots s)" "j < length (slots s)" "i \<noteq> j"
  shows "slots s ! i \<noteq> slots s ! j \<or> \<not> valid (slots s ! i)"
proof (rule ccontr)
  let ?x = "slots s ! i"
  assume "\<not> ?thesis"
  then have eq: "slots s ! j = ?x" and v: "valid ?x" by auto
  let ?s' = "s\<lparr>slots := (slots s)[i := op_empty C]\<rparr>"
  have "slots ?s' ! j \<in># held valid ?s'"
    using assms(3,4) eq v by (intro mem_held) simp_all
  then have "?x \<in># held valid ?s'" using assms(4) eq by simp
  moreover have "held valid s = add_mset ?x (held valid ?s')"
    using held_emptied [OF assms(2) empty_invalid] v by (metis add_mset_add_single one_simps(1))
  ultimately have "2 \<le> count (held valid s) ?x"
    by (simp add: Suc_le_eq)
  with assms(1) show False by (force simp: owners_ok_def dest: spec [of _ ?x])
qed

lemma ok_transfer:
  assumes ok: "owners_ok valid s"
    and held: "held valid t + gone = held valid s + new"
    and acq: "acquired t = acquired s + new"
    and bal: "closed_in (history (own_world t)) + released t
      = closed_in (history (own_world s)) + released s + gone"
    and new: "\<And>h. count new h \<le> 1 - count (held valid s) h"
  shows "owners_ok valid t"
proof -
  have "acquired t = closed_in (history (own_world s)) + released s + (held valid s + new)"
    using ok acq by (simp add: owners_ok_def)
  also have "\<dots> = closed_in (history (own_world t)) + held valid t + released t"
    unfolding held [symmetric] using bal by (simp add: ac_simps)
  finally have eq: "acquired t = \<dots>" .
  have "count (held valid t) h \<le> 1" for h
  proof -
    have "count (held valid t) h + count gone h = count (held valid s) h + count new h"
      using arg_cong [OF held, of "\<lambda>m. count m h"] by simp
    moreover have "count (held valid s) h \<le> 1" using ok by (simp add: owners_ok_def)
    ultimately show ?thesis using new [of h] by linarith
  qed
  with eq show ?thesis by (simp add: owners_ok_def)
qed

lemma fresh_new: "h \<notin># held valid s \<Longrightarrow> count {#h#} k \<le> 1 - count (held valid s) k"
  by (cases "h = k") (simp_all add: not_in_iff)

lemma move_assign_keeps_ok:
  assumes i: "i < length (slots s)" and j: "j < length (slots s)"
    and run: "op_move_assign C (i = j) (slots s ! i) (slots s ! j) env (own_world s) = (Ret (h, k), w)"
    and ok: "owners_ok valid s"
  shows "owners_ok valid (s\<lparr>slots := (slots s)[j := k, i := h], own_world := w\<rparr>)"
proof (cases "i = j")
  case True
  with self_assign_run [of "slots s ! i" "own_world s"] run have "h = slots s ! i" "w = own_world s"
    by auto
  with True ok show ?thesis by (simp add: owners_ok_def held_def)
next
  case False
  let ?h = "slots s ! i"
  from move_assign_run [OF distinct_slots [OF ok i j False], of "own_world s"] run False
  have k: "h = slots s ! j" "\<not> valid k"
    and w: "w = (if valid ?h then logged env (close_call ?h) (own_world s) else own_world s)" by auto
  have "held valid (s\<lparr>slots := (slots s)[j := k, i := h], own_world := w\<rparr>) + one valid ?h = held valid s"
    using held_move [OF i j False k(2)] k(1) by (simp add: held_def)
  then show ?thesis
    by (intro ok_transfer [OF ok, where gone = "one valid ?h" and new = "{#}"]) (simp_all add: w closed_after)
qed

lemma step_keeps_ok:
  assumes "owner_step env C s t" "owners_ok valid s"
  shows "owners_ok valid t"
  using assms
proof (induction rule: owner_step.induct)
  case (construct_empty s)
  then show ?case using empty_invalid by (simp add: owners_ok_def held_def)
next
  case (construct h s)
  show ?case
    by (rule ok_transfer [OF construct(3), where gone = "{#}" and new = "{#h#}"])
      (use construct(1) fresh_new [OF construct(2)] in \<open>simp_all add: held_def new_holds\<close>)
next
  case (move_construct i s h k)
  note k = move_empties [OF move_construct(2)]
  have "held valid (s\<lparr>slots := (slots s)[i := k] @ [h]\<rparr>) = held valid s"
    using held_emptied [OF move_construct(1), of k] k by (cases "valid (slots s ! i)") (simp_all add: held_def)
  with move_construct(3) show ?case by (simp add: owners_ok_def)
next
  case (move_assign i s j h k w)
  then show ?case by (rule move_assign_keeps_ok)
next
  case (reset_to reset i s h h' w)
  then have "slots s ! i \<noteq> h \<or> \<not> valid (slots s ! i)" using mem_held by metis
  from reset_run [OF reset_to(1) this, of "own_world s"] reset_to(5)
  have r: "h' = h" "w = (if valid (slots s ! i) then logged env (close_call (slots s ! i)) (own_world s) else own_world s)"
    by simp_all
  show ?case
    by (rule ok_transfer [OF reset_to(6), where gone = "one valid (slots s ! i)" and new = "{#h#}"])
      (use held_update [OF reset_to(2), of valid h] reset_to(3) fresh_new [OF reset_to(4)] r in
        \<open>simp_all add: held_def one_def close_closes\<close>)
next
  case (reset_empty reset i s h w)
  have "slots s ! i \<noteq> op_empty C \<or> \<not> valid (slots s ! i)" using empty_invalid by auto
  from reset_run [OF reset_empty(1) this, of "own_world s"] reset_empty(3)
  have r: "h = op_empty C" "w = (if valid (slots s ! i) then logged env (close_call (slots s ! i)) (own_world s) else own_world s)"
    by simp_all
  have "held valid (s\<lparr>slots := (slots s)[i := h], own_world := w\<rparr>) + one valid (slots s ! i) = held valid s"
    using held_emptied [OF reset_empty(2) empty_invalid] r(1) by (simp add: held_def)
  then show ?case
    by (intro ok_transfer [OF reset_empty(4), where gone = "one valid (slots s ! i)" and new = "{#}"])
      (simp_all add: r(2) closed_after)
next
  case (release i s h k)
  note k = release_empties [OF release(2)]
  have "held valid (s\<lparr>slots := (slots s)[i := k]\<rparr>) + one valid h = held valid s"
    using held_emptied [OF release(1)] k by simp
  then show ?case
    by (intro ok_transfer [OF release(3), where gone = "one valid h" and new = "{#}"])
      (simp_all add: held_def)
next
  case (destroy i s w)
  have w: "w = (if valid (slots s ! i) then logged env (close_call (slots s ! i)) (own_world s) else own_world s)"
    using destroy(2) destroy_run [of "slots s ! i" "own_world s"] by simp
  have "held valid (s\<lparr>slots := remove_nth i (slots s), own_world := w\<rparr>) + one valid (slots s ! i) = held valid s"
    using held_remove_nth [OF destroy(1)] by (simp add: held_def)
  then show ?case
    by (intro ok_transfer [OF destroy(3), where gone = "one valid (slots s ! i)" and new = "{#}"])
      (simp_all add: w closed_after)
next
  case (other_call c s)
  then show ?case by (simp add: owners_ok_def held_def)
qed

lemma reachable_ok: "owners_reachable env C s \<Longrightarrow> owners_ok valid s"
proof (induction rule: owners_reachable.induct)
  case (start e)
  show ?case by (simp add: owners_ok_def held_def)
next
  case (step s t)
  then show ?case by (blast intro: step_keeps_ok)
qed

text \<open>No handle is closed more often than it was acquired, and none is lost.\<close>

lemma conservation:
  assumes "owners_reachable env C s"
  shows "acquired s = closed_in (history (own_world s)) + held valid s + released s"
    and "closed_in (history (own_world s)) \<subseteq># acquired s"
  using reachable_ok [OF assms] by (simp_all add: owners_ok_def)

end

end
