(* ===== verification/Descriptor.thy ===== *)
theory Descriptor
  imports Ownership
begin

text \<open>
  The POSIX descriptor helpers at the top of \<^verbatim>\<open>src/core.cpp\<close>: closing, the two
  \<open>fcntl\<close> helpers, draining, and the owning class \<open>OwnedDescriptor\<close>
  (modelled by the value of its field \<open>fd_\<close>; an operation that changes the field
  returns the new value).
\<close>

section \<open>Definitions\<close>

definition throw_errno :: "string \<Rightarrow> ('x base_world_scheme, 'a) comp" where
  "throw_errno what = bnd (gets errno) (\<lambda>e.
     throw (System_Error \<lparr>ec_value = e, ec_category = Generic\<rparr> what))"

definition close_descriptor :: "int \<Rightarrow> ('x base_world_scheme, unit) comp" where
  "close_descriptor fd = (if 0 \<le> fd then bnd (sys (Close fd)) (\<lambda>_. return ()) else return ())"

definition set_descriptor_non_blocking :: "int \<Rightarrow> ('x base_world_scheme, unit) comp" where
  "set_descriptor_non_blocking fd =
     bnd (asks platform) (\<lambda>p.
     bnd (sys (Fcntl_getfl fd)) (\<lambda>r. let flags = ret r in
     if flags = -1 then throw_errno ''fcntl(F_GETFL)'' else
     bnd (sys (Fcntl_setfl fd (flags OR O_NONBLOCK p))) (\<lambda>r.
     if ret r = -1 then throw_errno ''fcntl(F_SETFL)'' else return ())))"

definition set_descriptor_close_on_exec :: "int \<Rightarrow> ('x base_world_scheme, unit) comp" where
  "set_descriptor_close_on_exec fd =
     bnd (sys (Fcntl_getfd fd)) (\<lambda>r. let flags = ret r in
     if flags = -1 then throw_errno ''fcntl(F_GETFD)'' else
     bnd (sys (Fcntl_setfd fd (flags OR FD_CLOEXEC))) (\<lambda>r.
     if ret r = -1 then throw_errno ''fcntl(F_SETFD)'' else return ()))"

text \<open>
  The loop of \<open>drain_descriptor\<close>: read 256 bytes at a time while something is read;
  both of its returns give the same result. \<open>None\<close> is the loop that never ends.
\<close>

abbreviation (input) drain_read :: "int \<Rightarrow> call" where
  "drain_read handle \<equiv> Read handle 256"

partial_function (option) drain_loop ::
  "env \<Rightarrow> int \<Rightarrow> 'x base_world_scheme \<Rightarrow> 'x base_world_scheme option" where
  "drain_loop env handle w =
     (let n = ret (answer env (history w) (drain_read handle));
          w' = logged env (drain_read handle) w
      in if 0 < n then drain_loop env handle w' else Some w')"

definition drain_descriptor :: "int \<Rightarrow> ('x base_world_scheme, unit) comp" where
  "drain_descriptor handle = (\<lambda>env w. case drain_loop env handle w of
     None \<Rightarrow> (Diverge, w) | Some w' \<Rightarrow> (Ret (), w'))"

definition OwnedDescriptor_valid :: "int \<Rightarrow> bool" where
  "OwnedDescriptor_valid this_fd \<longleftrightarrow> 0 \<le> this_fd"

definition OwnedDescriptor_new :: "int \<Rightarrow> int" where
  "OwnedDescriptor_new fd = fd"

definition OwnedDescriptor_release :: "int \<Rightarrow> int \<times> int" where
  "OwnedDescriptor_release this_fd = (this_fd, -1)"

definition OwnedDescriptor_reset :: "int \<Rightarrow> int \<Rightarrow> ('x base_world_scheme, int) comp" where
  "OwnedDescriptor_reset this_fd fd =
     (if this_fd \<noteq> fd then bnd (close_descriptor this_fd) (\<lambda>_. return fd) else return this_fd)"

text \<open>
  The move constructor (the new field and the field of the source), and the move assignment,
  told whether \<open>this\<close> is \<open>&other\<close> (both fields after it); the destructor.
\<close>

definition OwnedDescriptor_move :: "int \<Rightarrow> int \<times> int" where
  "OwnedDescriptor_move other_fd = OwnedDescriptor_release other_fd"

definition OwnedDescriptor_move_assign :: "bool \<Rightarrow> int \<Rightarrow> int \<Rightarrow> ('x base_world_scheme, int \<times> int) comp" where
  "OwnedDescriptor_move_assign same this_fd other_fd =
     (if \<not> same then
        (let (fd, other_fd') = OwnedDescriptor_release other_fd in
         bnd (OwnedDescriptor_reset this_fd fd) (\<lambda>this_fd'. return (this_fd', other_fd')))
      else return (this_fd, other_fd))"

definition OwnedDescriptor_destroy :: "int \<Rightarrow> ('x base_world_scheme, int) comp" where
  "OwnedDescriptor_destroy this_fd = OwnedDescriptor_reset this_fd (-1)"

definition OwnedDescriptor_class :: owner_class where
  "OwnedDescriptor_class = \<lparr>op_valid = OwnedDescriptor_valid, op_empty = -1, op_new = OwnedDescriptor_new,
     op_release = OwnedDescriptor_release, op_move = OwnedDescriptor_move,
     op_move_assign = OwnedDescriptor_move_assign, op_reset = Some OwnedDescriptor_reset,
     op_destroy = (\<lambda>fd. bnd (OwnedDescriptor_destroy fd) (\<lambda>_. return ()))\<rparr>"

section \<open>Lemmas\<close>

lemma throw_errno_run [comp_simps]:
  "throw_errno what env w = (Throw (System_Error \<lparr>ec_value = errno w, ec_category = Generic\<rparr> what), w)"
  by (simp add: throw_errno_def comp_simps)

lemma bnd_throw_errno [comp_simps]:
  "bnd (throw_errno what) f env w
     = (Throw (System_Error \<lparr>ec_value = errno w, ec_category = Generic\<rparr> what), w)"
  by (simp add: throw_errno_def comp_simps)

lemma close_descriptor_run [comp_simps]:
  "close_descriptor fd env w = (Ret (), if 0 \<le> fd then logged env (Close fd) w else w)"
  by (simp add: close_descriptor_def comp_simps)

lemma bnd_close_descriptor [comp_simps]:
  "bnd (close_descriptor fd) f env w = f () env (if 0 \<le> fd then logged env (Close fd) w else w)"
  by (simp add: bnd_def close_descriptor_run)

lemma OwnedDescriptor_reset_run [comp_simps]:
  "OwnedDescriptor_reset old new env w =
     (Ret new, if old \<noteq> new \<and> 0 \<le> old then logged env (Close old) w else w)"
  by (simp add: OwnedDescriptor_reset_def comp_simps)

lemma bnd_OwnedDescriptor_reset [comp_simps]:
  "bnd (OwnedDescriptor_reset old new) f env w =
     f new env (if old \<noteq> new \<and> 0 \<le> old then logged env (Close old) w else w)"
  by (simp add: bnd_def OwnedDescriptor_reset_run)

lemma safe_descriptor [safe_intros]:
  "safe env (throw_errno what)" "safe env (close_descriptor fd)"
  "safe env (set_descriptor_non_blocking fd)" "safe env (set_descriptor_close_on_exec fd)"
  unfolding throw_errno_def close_descriptor_def set_descriptor_non_blocking_def
    set_descriptor_close_on_exec_def
  by (intro safe_intros)+

lemma completes_descriptor [returns_intros]:
  "completes env (throw_errno what)" "returns env (close_descriptor fd)"
  "completes env (set_descriptor_non_blocking fd)" "completes env (set_descriptor_close_on_exec fd)"
  unfolding throw_errno_def close_descriptor_def set_descriptor_non_blocking_def
    set_descriptor_close_on_exec_def
  by (intro returns_intros)+

lemma returns_OwnedDescriptor [returns_intros]:
  "returns env (OwnedDescriptor_reset fd fd')" "returns env (OwnedDescriptor_destroy fd)"
  unfolding OwnedDescriptor_destroy_def OwnedDescriptor_reset_def by (intro returns_intros)+

lemma OwnedDescriptor_class_simps [simp]:
  "op_valid OwnedDescriptor_class = OwnedDescriptor_valid" "op_empty OwnedDescriptor_class = -1"
  "op_new OwnedDescriptor_class = OwnedDescriptor_new" "op_release OwnedDescriptor_class = OwnedDescriptor_release"
  "op_move OwnedDescriptor_class = OwnedDescriptor_move"
  "op_move_assign OwnedDescriptor_class = OwnedDescriptor_move_assign"
  "op_reset OwnedDescriptor_class = Some OwnedDescriptor_reset"
  "op_destroy OwnedDescriptor_class fd = bnd (OwnedDescriptor_destroy fd) (\<lambda>_. return ())"
  by (simp_all add: OwnedDescriptor_class_def)

lemmas OwnedDescriptor_members = OwnedDescriptor_valid_def OwnedDescriptor_new_def OwnedDescriptor_release_def
  OwnedDescriptor_move_def OwnedDescriptor_move_assign_def OwnedDescriptor_destroy_def

interpretation owned_descriptor: handle_owner env OwnedDescriptor_class Close for env
  by unfold_locales (auto simp: OwnedDescriptor_members comp_simps)

text \<open>The worlds after each read of the drain loop.\<close>

definition after_reads :: "env \<Rightarrow> int \<Rightarrow> nat \<Rightarrow> 'x base_world_scheme \<Rightarrow> 'x base_world_scheme" where
  "after_reads env handle n w = (logged env (drain_read handle) ^^ n) w"

definition read_result :: "env \<Rightarrow> int \<Rightarrow> nat \<Rightarrow> 'x base_world_scheme \<Rightarrow> int" where
  "read_result env handle n w =
     ret (answer env (history (after_reads env handle n w)) (drain_read handle))"

lemma after_reads_simps [simp]:
  "after_reads env handle 0 w = w"
  "after_reads env handle (Suc n) w = after_reads env handle n (logged env (drain_read handle) w)"
  by (simp_all add: after_reads_def funpow_swap1)

lemma read_result_Suc:
  "read_result env handle (Suc n) w = read_result env handle n (logged env (drain_read handle) w)"
  by (simp add: read_result_def)

lemma drain_loop_stops:
  assumes "\<And>k. k < n \<Longrightarrow> 0 < read_result env handle k w" "read_result env handle n w \<le> 0"
  shows "drain_loop env handle w = Some (after_reads env handle (Suc n) w)"
  using assms
proof (induction n arbitrary: w)
  case 0
  then show ?case by (subst drain_loop.simps) (simp add: read_result_def Let_def)
next
  case (Suc n)
  have "0 < read_result env handle 0 w" using Suc.prems(1) by simp
  moreover have "drain_loop env handle (logged env (drain_read handle) w)
      = Some (after_reads env handle (Suc n) (logged env (drain_read handle) w))"
    using Suc.prems by (intro Suc.IH) (auto simp flip: read_result_Suc)
  ultimately show ?case
    by (subst drain_loop.simps) (simp add: read_result_def Let_def)
qed

lemma drain_loop_Some:
  assumes "drain_loop env handle w = Some w'"
  shows "\<exists>n. read_result env handle n w \<le> 0"
proof (rule drain_loop.raw_induct [where P = "\<lambda>env handle w w'. \<exists>n. read_result env handle n w \<le> 0",
      OF _ assms])
  fix f env handle w w'
  assume IH: "\<And>env handle w w'. f env handle w = Some w' \<Longrightarrow> \<exists>n. read_result env handle n w \<le> 0"
    and eq: "(let n = ret (answer env (history w) (drain_read handle));
          w' = logged env (drain_read handle) w
      in if 0 < n then f env handle w' else Some w') = Some w'"
  show "\<exists>n. read_result env handle n w \<le> 0"
  proof (cases "read_result env handle 0 w \<le> 0")
    case True
    then show ?thesis ..
  next
    case False
    then have "f env handle (logged env (drain_read handle) w) = Some w'"
      using eq by (simp add: read_result_def Let_def)
    from IH [OF this] show ?thesis by (metis read_result_Suc)
  qed
qed

section \<open>Properties\<close>

text \<open>
  C21. Ownership of descriptors: for every sequence of constructions, moves, resets, releases
  and destructions of \<open>OwnedDescriptor\<close> objects, the descriptors given to them are
  exactly the ones closed, the ones released to the caller and the ones still held, and no
  descriptor is held twice. In particular none is closed twice and none is lost.
\<close>

theorem OwnedDescriptor_conservation:
  assumes "owners_reachable env OwnedDescriptor_class s"
  shows "acquired s = closed_in (history (own_world s)) + held OwnedDescriptor_valid s + released s
    \<and> (\<forall>h. count (held OwnedDescriptor_valid s) h \<le> 1)"
  using owned_descriptor.reachable_ok [OF assms] by (simp add: owners_ok_def)

text \<open>
  A run with descriptors 7 and 8: the object of 7 is move-assigned to the object of 8, which
  closes 8, and then released; both objects are destroyed.
\<close>

definition demo_env :: env where
  "demo_env = \<lparr>platform = Linux, host_endian = Little, macro_defined = (\<lambda>_. True),
     answer = (\<lambda>h c. plain 0 0)\<rparr>"

lemma two_constructed:
  assumes "op_valid C 7" "op_valid C 8" "op_new C 7 = 7" "op_new C 8 = 8"
  shows "owners_reachable env C \<lparr>slots = [7, 8], acquired = {#8, 7#}, released = {#},
    own_world = \<lparr>history = [], errno = 0\<rparr>\<rparr>"
proof -
  let ?s0 = "\<lparr>slots = [], acquired = {#}, released = {#}, own_world = \<lparr>history = [], errno = 0\<rparr>\<rparr>"
  let ?s1 = "?s0\<lparr>slots := slots ?s0 @ [op_new C 7], acquired := add_mset 7 (acquired ?s0)\<rparr>"
  let ?s2 = "?s1\<lparr>slots := slots ?s1 @ [op_new C 8], acquired := add_mset 8 (acquired ?s1)\<rparr>"
  have "owners_reachable env C ?s0" by (rule owners_reachable.start)
  then have "owners_reachable env C ?s1"
    by (rule owners_reachable.step, intro owner_step.construct) (use assms in \<open>simp_all add: held_def\<close>)
  then have "owners_reachable env C ?s2"
    by (rule owners_reachable.step, intro owner_step.construct) (use assms in \<open>simp_all add: held_def\<close>)
  then show ?thesis using assms by simp
qed

lemma one_moved_and_released:
  assumes start: "owners_reachable env C s" "slots s = [7, 8]" "released s = {#}"
    and assign: "op_move_assign C False 8 7 env (own_world s) = (Ret (7, none), w)"
    and release: "op_release C 7 = (7, none')" "op_valid C 7"
    and destroy: "op_destroy C none env w = (Ret (), w)" "op_destroy C none' env w = (Ret (), w)"
  shows "owners_reachable env C (s\<lparr>slots := [], released := {#7#}, own_world := w\<rparr>)"
proof -
  let ?s1 = "s\<lparr>slots := (slots s)[0 := none, 1 := 7], own_world := w\<rparr>"
  let ?s2 = "?s1\<lparr>slots := (slots ?s1)[1 := none'], released := released ?s1 + one (op_valid C) 7\<rparr>"
  let ?s3 = "?s2\<lparr>slots := remove_nth 0 (slots ?s2), own_world := w\<rparr>"
  let ?s4 = "?s3\<lparr>slots := remove_nth 0 (slots ?s3), own_world := w\<rparr>"
  have "owners_reachable env C ?s1"
    using start(1) by (rule owners_reachable.step, intro owner_step.move_assign) (use start assign in simp_all)
  then have "owners_reachable env C ?s2"
    by (rule owners_reachable.step, intro owner_step.release) (use start release in simp_all)
  then have "owners_reachable env C ?s3"
    by (rule owners_reachable.step, intro owner_step.destroy) (use start destroy in simp_all)
  then have "owners_reachable env C ?s4"
    by (rule owners_reachable.step, intro owner_step.destroy) (use start destroy in \<open>simp_all add: remove_nth_def\<close>)
  then show ?thesis using start release by (cases s) (simp add: remove_nth_def)
qed

theorem OwnedDescriptor_conservation_witness:
  "\<exists>s. owners_reachable demo_env OwnedDescriptor_class s \<and> acquired s = {#8, 7#}
     \<and> closed_in (history (own_world s)) = {#8#} \<and> released s = {#7#}"
proof -
  let ?s = "\<lparr>slots = [7, 8], acquired = {#8, 7#}, released = {#}, own_world = \<lparr>history = [], errno = 0\<rparr>\<rparr>"
  let ?w = "logged demo_env (Close 8) (own_world ?s)"
  have "owners_reachable demo_env OwnedDescriptor_class ?s"
    by (rule two_constructed) (simp_all add: OwnedDescriptor_members)
  then have r: "owners_reachable demo_env OwnedDescriptor_class (?s\<lparr>slots := [], released := {#7#}, own_world := ?w\<rparr>)"
    by (rule one_moved_and_released [where none = "-1" and none' = "-1"])
      (simp_all add: OwnedDescriptor_members comp_simps)
  show ?thesis
    by (rule exI, rule conjI [OF r]) (use OwnedDescriptor_conservation [OF r] in \<open>simp add: held_def\<close>)
qed

lemma history_after_reads:
  "\<exists>rs. history (after_reads env handle n w) = history w @ rs
     \<and> map fst rs = replicate n (drain_read handle)"
proof (induction n arbitrary: w)
  case (Suc n)
  obtain rs where "history (after_reads env handle n (logged env (drain_read handle) w))
      = history (logged env (drain_read handle) w) @ rs"
    "map fst rs = replicate n (drain_read handle)" using Suc by blast
  then show ?case
    by (intro exI [of _ "(drain_read handle, answer env (history w) (drain_read handle)) # rs"]) simp
qed simp

lemma drain_loop_least:
  assumes "read_result env handle n w \<le> 0"
  shows "\<exists>m\<le>n. drain_loop env handle w = Some (after_reads env handle (Suc m) w)"
proof -
  define m where "m = (LEAST n. read_result env handle n w \<le> 0)"
  have "read_result env handle m w \<le> 0" unfolding m_def using assms by (rule LeastI)
  moreover have "0 < read_result env handle k w" if "k < m" for k
    using not_less_Least [of k] that by (force simp: m_def)
  ultimately have "drain_loop env handle w = Some (after_reads env handle (Suc m) w)"
    by (intro drain_loop_stops)
  moreover have "m \<le> n" unfolding m_def using assms by (rule Least_le)
  ultimately show ?thesis by blast
qed

lemma drain_loop_result:
  assumes "drain_loop env handle w = Some w'"
  obtains m where "w' = after_reads env handle (Suc m) w"
  using drain_loop_least [of env handle _ w] drain_loop_Some [OF assms] assms by (metis option.inject)

text \<open>
  C32. Draining ends exactly when some read of the sequence returns nothing, an error or end of
  file; and the only calls it issues are reads of 256 bytes from the descriptor.
\<close>

theorem drain_descriptor_ends_iff:
  "(outcome_of (drain_descriptor handle) env w = Ret () \<longleftrightarrow> (\<exists>n. read_result env handle n w \<le> 0))
   \<and> (\<exists>m. trace (drain_descriptor handle) env w = replicate m (Read handle 256))"
proof
  show "outcome_of (drain_descriptor handle) env w = Ret () \<longleftrightarrow> (\<exists>n. read_result env handle n w \<le> 0)"
    using drain_loop_least drain_loop_Some
    by (fastforce simp: drain_descriptor_def outcome_of_def split: option.splits)
  show "\<exists>m. trace (drain_descriptor handle) env w = replicate m (Read handle 256)"
  proof (cases "drain_loop env handle w")
    case None
    then show ?thesis by (auto simp: trace_def drain_descriptor_def intro: exI [of _ 0])
  next
    case (Some w')
    then obtain m where "drain_loop env handle w = Some (after_reads env handle (Suc m) w)"
      by (metis drain_loop_result)
    moreover obtain rs where "history (after_reads env handle (Suc m) w) = history w @ rs"
      "map fst rs = replicate (Suc m) (Read handle 256)" using history_after_reads by metis
    ultimately show ?thesis by (auto simp: trace_def drain_descriptor_def simp del: after_reads_simps
          intro: exI [of _ "Suc m"])
  qed
qed

end
