(* ===== verification/World.thy ===== *)
theory World
  imports Backend_Flags Descriptor
begin

text \<open>
  The objects of \<^verbatim>\<open>src/core.cpp\<close> that several owners share through pointers live in
  the world under addresses: the selectors, the AFD socket states, the AFD operations handed to
  the kernel and the packets posted to a completion port. A \<open>std::shared_ptr\<close> is an
  address; following an address that holds no object is undefined behaviour. \<open>cur_events\<close> is the buffer
  the caller handed to the running \<open>poll\<close>. Mutexes and the condition variable have
  no state here: the model runs one operation at a time.
\<close>

section \<open>Definitions\<close>

record registration =
  reg_handle :: int
  reg_kind :: source_kind
  reg_token :: token
  reg_interests :: interest
  reg_auto_drain :: bool
  reg_afd_state :: "nat option"

datatype AfdPollStatus = Afd_idle | Afd_pending | Afd_cancelled

record AfdSocketState =
  afd_helper :: int
  afd_socket :: int
  base_socket :: int
  afd_token :: token
  afd_interests :: interest
  user_events :: u32
  pending_events :: u32
  afd_status :: AfdPollStatus
  delete_pending :: bool

text \<open>
  \<open>std::unordered_map\<close> is an association list with distinct keys; nothing below
  depends on its order.
\<close>

record selector =
  registrations :: "(int \<times> registration) list"
  waker_handle :: int
  backend :: int
  iocp :: int
  afd_handle :: int
  waker_active :: bool

text \<open>
  The object behind a \<open>Signals\<close>, one record for its three declarations: the
  descriptor that is polled (\<open>read_sock\<close>, \<open>sfd\<close>,
  \<open>pipe_fds[0]\<close>) and the one the handler writes to; the address it sends to is
  that of Windows and the mask that of Linux.
\<close>

record SignalsImpl =
  sig_read :: int
  sig_write :: int
  target_addr :: bytes
  sig_mask :: "int set"
  registered_signals :: "int set"

record io_world = base_world +
  selectors :: "nat \<rightharpoonup> selector"
  afd_states :: "nat \<rightharpoonup> AfdSocketState"
  operations :: "(nat \<times> nat) list"
  packets :: "(nat \<times> event) list"
  next_addr :: nat
  nt_loaded :: bool
  wsa_started :: bool
  cur_events :: events
  signal_impls :: "nat \<rightharpoonup> SignalsImpl"
  global_instance :: "nat option"

definition invalid_native_handle :: "platform \<Rightarrow> int" where
  "invalid_native_handle p = (if p = Windows then 2 ^ 64 - 1 else -1)"

definition with_selector :: "nat \<Rightarrow> (selector \<Rightarrow> (io_world, 'a) comp) \<Rightarrow> (io_world, 'a) comp" where
  "with_selector this k = bnd (gets selectors) (\<lambda>m.
     case m this of None \<Rightarrow> undefined_behaviour | Some s \<Rightarrow> k s)"

definition set_selector :: "nat \<Rightarrow> selector \<Rightarrow> (io_world, unit) comp" where
  "set_selector this s = modify (\<lambda>w. w\<lparr>selectors := (selectors w)(this \<mapsto> s)\<rparr>)"

definition with_afd :: "nat \<Rightarrow> (AfdSocketState \<Rightarrow> (io_world, 'a) comp) \<Rightarrow> (io_world, 'a) comp" where
  "with_afd a k = bnd (gets afd_states) (\<lambda>m.
     case m a of None \<Rightarrow> undefined_behaviour | Some s \<Rightarrow> k s)"

definition set_afd :: "nat \<Rightarrow> AfdSocketState \<Rightarrow> (io_world, unit) comp" where
  "set_afd a s = modify (\<lambda>w. w\<lparr>afd_states := (afd_states w)(a \<mapsto> s)\<rparr>)"

definition fresh_addr :: "(io_world, nat) comp" where
  "fresh_addr = bnd (gets next_addr) (\<lambda>a. bnd (modify (\<lambda>w. w\<lparr>next_addr := Suc a\<rparr>)) (\<lambda>_. return a))"

definition push_event :: "token \<Rightarrow> interest \<Rightarrow> bool \<Rightarrow> bool \<Rightarrow> bool \<Rightarrow> (io_world, unit) comp" where
  "push_event token readiness error read_closed write_closed =
     bnd (gets cur_events) (\<lambda>evs.
     bnd (if Events_size evs < ev_capacity evs then return () else allocate) (\<lambda>_.
     modify (\<lambda>w. w\<lparr>cur_events :=
       Events_push token readiness error read_closed write_closed (cur_events w)\<rparr>)))"

definition last_system_error :: "('x base_world_scheme, error_code) comp" where
  "last_system_error = bnd (gets errno) (\<lambda>e. return \<lparr>ec_value = e, ec_category = System\<rparr>)"

definition throw_last_system_error :: "string \<Rightarrow> ('x base_world_scheme, 'a) comp" where
  "throw_last_system_error what = bnd last_system_error (\<lambda>ec. throw (System_Error ec what))"

text \<open>\<open>std::error_code{errno, std::generic_category()}\<close>.\<close>

definition errno_code :: "('x base_world_scheme, error_code) comp" where
  "errno_code = bnd (gets errno) (\<lambda>n. return \<lparr>ec_value = n, ec_category = Generic\<rparr>)"

section \<open>Lemmas\<close>

lemma allocate_run [comp_simps]:
  "allocate env w = ((if ret (answer env (history w) Alloc) = 0 then Throw Bad_Alloc else Ret ()),
     logged env Alloc w)"
  "bnd allocate f env w = (if ret (answer env (history w) Alloc) = 0
     then (Throw Bad_Alloc, logged env Alloc w) else f () env (logged env Alloc w))"
  by (simp_all add: allocate_def comp_simps)

lemma with_selector_run [comp_simps]:
  "with_selector this k env w =
     (case selectors w this of None \<Rightarrow> (Undefined, w) | Some s \<Rightarrow> k s env w)"
  by (simp add: with_selector_def comp_simps split: option.splits)

lemma bnd_with_selector [comp_simps]:
  "bnd (with_selector this k) f env w =
     (case selectors w this of None \<Rightarrow> (Undefined, w) | Some s \<Rightarrow> bnd (k s) f env w)"
  by (simp add: with_selector_def comp_simps split: option.splits)

lemma set_selector_run [comp_simps]:
  "set_selector this s env w = (Ret (), w\<lparr>selectors := (selectors w)(this \<mapsto> s)\<rparr>)"
  by (simp add: set_selector_def comp_simps)

lemma bnd_set_selector [comp_simps]:
  "bnd (set_selector this s) f env w = f () env (w\<lparr>selectors := (selectors w)(this \<mapsto> s)\<rparr>)"
  by (simp add: set_selector_def comp_simps)

lemma with_afd_run [comp_simps]:
  "with_afd a k env w = (case afd_states w a of None \<Rightarrow> (Undefined, w) | Some s \<Rightarrow> k s env w)"
  by (simp add: with_afd_def comp_simps split: option.splits)

lemma bnd_with_afd [comp_simps]:
  "bnd (with_afd a k) f env w =
     (case afd_states w a of None \<Rightarrow> (Undefined, w) | Some s \<Rightarrow> bnd (k s) f env w)"
  by (simp add: with_afd_def comp_simps split: option.splits)

lemma set_afd_run [comp_simps]:
  "set_afd a s env w = (Ret (), w\<lparr>afd_states := (afd_states w)(a \<mapsto> s)\<rparr>)"
  by (simp add: set_afd_def comp_simps)

lemma bnd_set_afd [comp_simps]:
  "bnd (set_afd a s) f env w = f () env (w\<lparr>afd_states := (afd_states w)(a \<mapsto> s)\<rparr>)"
  by (simp add: set_afd_def comp_simps)

lemma fresh_addr_run [comp_simps]:
  "bnd fresh_addr f env w = f (next_addr w) env (w\<lparr>next_addr := Suc (next_addr w)\<rparr>)"
  by (simp add: fresh_addr_def comp_simps)

lemma bnd_push_event_room [comp_simps]:
  "Events_size (cur_events w) < ev_capacity (cur_events w) \<Longrightarrow>
   bnd (push_event t r e rc wc) f env w
     = f () env (w\<lparr>cur_events := Events_push t r e rc wc (cur_events w)\<rparr>)"
  by (simp add: push_event_def comp_simps)

lemma push_event_room [comp_simps]:
  "Events_size (cur_events w) < ev_capacity (cur_events w) \<Longrightarrow>
   push_event t r e rc wc env w
     = (Ret (), w\<lparr>cur_events := Events_push t r e rc wc (cur_events w)\<rparr>)"
  by (simp add: push_event_def comp_simps)

lemma throw_last_system_error_run [comp_simps]:
  "throw_last_system_error what env w
     = (Throw (System_Error \<lparr>ec_value = errno w, ec_category = System\<rparr> what), w)"
  by (simp add: throw_last_system_error_def last_system_error_def comp_simps)

lemma bnd_throw_last_system_error [comp_simps]:
  "bnd (throw_last_system_error what) f env w
     = (Throw (System_Error \<lparr>ec_value = errno w, ec_category = System\<rparr> what), w)"
  by (simp add: throw_last_system_error_def last_system_error_def comp_simps)

lemma errno_code_run [comp_simps]:
  "errno_code env w = (Ret \<lparr>ec_value = errno w, ec_category = Generic\<rparr>, w)"
  "bnd errno_code l env w = l \<lparr>ec_value = errno w, ec_category = Generic\<rparr> env w"
  by (simp_all add: errno_code_def comp_simps)

lemma logged_io [simp]:
  "selectors (logged env c w) = selectors w"
  "afd_states (logged env c w) = afd_states w"
  "operations (logged env c w) = operations w"
  "packets (logged env c w) = packets w"
  "next_addr (logged env c w) = next_addr w"
  "nt_loaded (logged env c w) = nt_loaded w"
  "wsa_started (logged env c w) = wsa_started w"
  "cur_events (logged env c w) = cur_events w"
  "signal_impls (logged env c w) = signal_impls w"
  "global_instance (logged env c w) = global_instance w"
  by (simp_all add: logged_def)

lemma safe_world [safe_intros]:
  "safe env (throw_last_system_error what)" "safe env fresh_addr" "safe env (set_afd a st)"
  "safe env (set_selector this s)" "safe env (push_event t i e rc wc)"
  unfolding throw_last_system_error_def last_system_error_def fresh_addr_def set_afd_def
    set_selector_def push_event_def
  by (intro safe_intros)+

section \<open>Computations that leave the objects alone\<close>

text \<open>
  Most calls of the sources only talk to the system. Such a computation is quiet: whatever
  its outcome, the objects are the same, and so is everything that is stated about them.
\<close>

definition objects where
  "objects w = (selectors w, afd_states w, operations w, packets w, next_addr w, cur_events w)"

definition quiet :: "env \<Rightarrow> (io_world, 'a) comp \<Rightarrow> bool" where
  "quiet env m \<longleftrightarrow> (\<forall>obj. keeps env (\<lambda>w. objects w = obj) m)"

lemma quietI: "(\<And>obj. keeps env (\<lambda>w. objects w = obj) m) \<Longrightarrow> quiet env m"
  unfolding quiet_def by blast

lemma keeps_quiet [keeps_intros]: "quiet env m \<Longrightarrow> keeps env (\<lambda>w. objects w = obj) m"
  unfolding quiet_def by blast

lemma quiet_objects: "quiet env m \<Longrightarrow> m env w = (r, w') \<Longrightarrow> objects w' = objects w"
  unfolding quiet_def using keeps_result by fastforce

lemma quiet_fields:
  assumes "quiet env m" "m env w = (r, w')"
  shows "selectors w' = selectors w" "afd_states w' = afd_states w" "operations w' = operations w"
    "packets w' = packets w" "next_addr w' = next_addr w" "cur_events w' = cur_events w"
  using quiet_objects [OF assms] by (simp_all add: objects_def)

lemma keeps_by_quiet:
  assumes "quiet env m" "\<And>w w'. objects w' = objects w \<Longrightarrow> I w \<Longrightarrow> I w'"
  shows "keeps env I m"
proof (rule keepsI)
  fix w
  assume "I w"
  moreover have "objects (snd (m env w)) = objects w"
    using quiet_objects [OF assms(1)] by (metis prod.collapse)
  ultimately show "I (snd (m env w))" using assms(2) by blast
qed

lemma objects_logged [simp]: "objects (logged env c w) = objects w"
  by (simp add: objects_def)

lemma quiet_sys [keeps_intros]: "quiet env (sys c)"
  by (intro quietI keeps_sys) simp

lemma quiet_allocate [keeps_intros]: "quiet env allocate"
  unfolding allocate_def by (rule quietI) (intro keeps_intros)

lemma quiet_throw_last_system_error [keeps_intros]: "quiet env (throw_last_system_error what)"
  unfolding throw_last_system_error_def last_system_error_def by (rule quietI) (intro keeps_intros)

lemma quiet_throw_errno [keeps_intros]: "quiet env (throw_errno what)"
  unfolding throw_errno_def by (rule quietI) (intro keeps_intros)

lemma quiet_close_descriptor [keeps_intros]: "quiet env (close_descriptor fd)"
  unfolding close_descriptor_def by (rule quietI) (intro keeps_intros)

lemma quiet_set_descriptor_flags [keeps_intros]:
  "quiet env (set_descriptor_non_blocking fd)" "quiet env (set_descriptor_close_on_exec fd)"
  unfolding set_descriptor_non_blocking_def set_descriptor_close_on_exec_def
  by (rule quietI, intro keeps_intros)+

lemma objects_after_reads [simp]: "objects (after_reads env handle n w) = objects w"
  by (induction n arbitrary: w) simp_all

lemma quiet_drain_descriptor [keeps_intros]: "quiet env (drain_descriptor handle)"
proof (rule quietI, rule keepsI)
  fix w :: io_world and obj
  assume "objects w = obj"
  then show "objects (snd (drain_descriptor handle env w)) = obj"
    by (auto simp: drain_descriptor_def simp del: after_reads_simps split: option.splits
        elim!: drain_loop_result)
qed

text \<open>A quiet first statement either ends the computation or leaves the objects to the rest.\<close>

lemma quiet_bnd_cases:
  assumes "quiet env m" "bnd m f env w = (r, w')"
  obtains (fails) "objects w' = objects w" "\<forall>x. r \<noteq> Ret x"
  | (returns) x w1 where "m env w = (Ret x, w1)" "objects w1 = objects w" "f x env w1 = (r, w')"
proof (cases "m env w")
  case (Pair r1 w1)
  then show ?thesis using assms(2) quiet_objects [OF assms(1) Pair] fails returns
    by (cases r1) (auto simp: bnd_def)
qed

lemma quiet_safe_cases:
  assumes "quiet env m" "safe env m" "bnd m f env w = (r, w')"
  obtains (fails) "objects w' = objects w" "\<forall>x. r \<noteq> Ret x" "r \<noteq> Undefined" "r \<noteq> Diverge"
  | (returns) x w1 where "m env w = (Ret x, w1)" "objects w1 = objects w" "f x env w1 = (r, w')"
proof (cases "m env w")
  case (Pair r1 w1)
  then show ?thesis using assms(3) quiet_objects [OF assms(1) Pair] safeD [OF assms(2) Pair] fails returns
    by (cases r1) (auto simp: bnd_def)
qed

end
