(* ===== verification/Afd.thy ===== *)
theory Afd
  imports World
begin

text \<open>
  The AFD driver layer of the Windows back end in \<^verbatim>\<open>src/core.cpp\<close>: loading the native
  functions, the helper handle, the state machine of one socket (idle, a poll pending, a poll
  cancelled) and the completion of a poll. The \<open>iosb\<close> and \<open>poll_info\<close> of a
  socket state are memory the kernel writes at any time while a poll is in flight, so reading
  them is asking the environment.
\<close>

section \<open>Definitions\<close>

abbreviation (input) status_success :: int where "status_success \<equiv> 0"
abbreviation (input) status_pending :: int where "status_pending \<equiv> 0x103"
abbreviation (input) status_cancelled :: int where "status_cancelled \<equiv> -1073741536"
abbreviation (input) status_not_found :: int where "status_not_found \<equiv> -1073741275"
abbreviation (input) INVALID_SOCKET :: int where "INVALID_SOCKET \<equiv> 2 ^ 64 - 1"
abbreviation (input) afd_completion_key :: int where "afd_completion_key \<equiv> 2"

text \<open>
  The static local of \<open>native_nt\<close> is initialised by the first call that does not
  throw. The reply 0 means that \<open>GetModuleHandleW\<close> failed, 1 that every function
  was found.
\<close>

definition native_nt :: "(io_world, unit) comp" where
  "native_nt =
     bnd (gets nt_loaded) (\<lambda>loaded.
     if loaded then return ()
     else
       bnd (sys Load_ntdll) (\<lambda>r.
       if ret r = 0 then throw_last_system_error ''GetModuleHandleW(ntdll.dll)''
       else if ret r \<noteq> 1 then
         bnd (asks platform) (\<lambda>p.
         throw (System_Error (make_error_code p function_not_supported) ''missing ntdll native API''))
       else modify (\<lambda>w. w\<lparr>nt_loaded := True\<rparr>)))"

definition nt_error :: "int \<Rightarrow> (io_world, error_code) comp" where
  "nt_error status = noexcept
     (bnd native_nt (\<lambda>_.
      bnd (sys (Nt_to_dos status)) (\<lambda>r.
      return \<lparr>ec_value = ret r, ec_category = System\<rparr>)))"

definition throw_nt :: "string \<Rightarrow> int \<Rightarrow> (io_world, 'a) comp" where
  "throw_nt operation status = bnd (nt_error status) (\<lambda>ec. throw (System_Error ec operation))"

definition try_get_base_socket :: "int \<Rightarrow> base_ioctl \<Rightarrow> (io_world, int) comp" where
  "try_get_base_socket socket ioctl =
     bnd (sys (Wsa_ioctl_base socket ioctl)) (\<lambda>r.
     return (if ret r \<noteq> -1 then out_int r else INVALID_SOCKET))"

fun get_base_socket_loop :: "int \<Rightarrow> base_ioctl list \<Rightarrow> (io_world, int) comp" where
  "get_base_socket_loop socket [] = throw_last_system_error ''WSAIoctl(SIO_BASE_HANDLE)''"
| "get_base_socket_loop socket (ioctl # rest) =
     bnd (try_get_base_socket socket ioctl) (\<lambda>base.
     if base \<noteq> INVALID_SOCKET \<and> base \<noteq> socket then return base
     else get_base_socket_loop socket rest)"

definition get_base_socket :: "int \<Rightarrow> (io_world, int) comp" where
  "get_base_socket socket =
     bnd (try_get_base_socket socket SIO_BASE_HANDLE) (\<lambda>base.
     if base \<noteq> INVALID_SOCKET then return base
     else get_base_socket_loop socket [SIO_BSP_HANDLE_SELECT, SIO_BSP_HANDLE_POLL, SIO_BSP_HANDLE])"

text \<open>The helper: its handle on the AFD device, bound to the completion port.\<close>

definition AfdHelper_new :: "int \<Rightarrow> (io_world, int) comp" where
  "AfdHelper_new iocp_handle =
     bnd allocate (\<lambda>_.
     bnd native_nt (\<lambda>_.
     bnd (sys Nt_create_afd) (\<lambda>r.
     if ret r \<noteq> status_success then throw_nt ''NtCreateFile(Device Afd Mio)'' (ret r)
     else
       (let handle = out_int r in
        bnd (sys (Associate_iocp handle iocp_handle afd_completion_key)) (\<lambda>r.
        if ret r = 0 then
          bnd (gets errno) (\<lambda>error.
          bnd (sys (Close_handle handle)) (\<lambda>_.
          throw (System_Error \<lparr>ec_value = error, ec_category = System\<rparr> ''CreateIoCompletionPort(AFD)'')))
        else
          bnd (sys (Set_skip_event handle)) (\<lambda>r.
          if ret r = 0 then
            bnd (gets errno) (\<lambda>error.
            bnd (sys (Close_handle handle)) (\<lambda>_.
            throw (System_Error \<lparr>ec_value = error, ec_category = System\<rparr>
              ''SetFileCompletionNotificationModes(AFD)'')))
          else return handle))))))"

definition AfdHelper_destroy :: "int \<Rightarrow> (io_world, unit) comp" where
  "AfdHelper_destroy handle =
     (if handle \<noteq> INVALID_SOCKET then bnd (sys (Close_handle handle)) (\<lambda>_. return ()) else return ())"

text \<open>
  \<open>poll\<close> passes the operation as the context and the socket state's \<open>iosb\<close>
  and \<open>poll_info\<close>; \<open>cancel\<close> reads the status of that \<open>iosb\<close>.
\<close>

definition AfdHelper_poll :: "int \<Rightarrow> nat \<Rightarrow> nat \<Rightarrow> int \<Rightarrow> u32 \<Rightarrow> (io_world, bool) comp" where
  "AfdHelper_poll helper state context socket events =
     bnd native_nt (\<lambda>_.
     bnd (sys (Nt_poll helper context state socket events)) (\<lambda>r.
     if ret r = status_success then return True
     else if ret r = status_pending then return False
     else throw_nt ''NtDeviceIoControlFile(IOCTL_AFD_POLL)'' (ret r)))"

definition AfdHelper_cancel :: "int \<Rightarrow> nat \<Rightarrow> (io_world, unit) comp" where
  "AfdHelper_cancel helper state =
     bnd (sys (Iosb_status state)) (\<lambda>r.
     if ret r \<noteq> status_pending then return ()
     else
       bnd native_nt (\<lambda>_.
       bnd (sys (Nt_cancel helper state)) (\<lambda>r.
       if ret r = status_success \<or> ret r = status_not_found then return ()
       else throw_nt ''NtCancelIoFileEx(AFD)'' (ret r))))"

definition AfdSocketState_new :: "int \<Rightarrow> int \<Rightarrow> (io_world, nat) comp" where
  "AfdSocketState_new socket_handle helper =
     bnd (get_base_socket socket_handle) (\<lambda>base.
     bnd fresh_addr (\<lambda>a.
     bnd (set_afd a \<lparr>afd_helper = helper, afd_socket = socket_handle, base_socket = base,
       afd_token = Token_default, afd_interests = Interest_default, user_events = 0,
       pending_events = 0, afd_status = Afd_idle, delete_pending = False\<rparr>) (\<lambda>_.
     return a)))"

text \<open>
  The operation object is created first and destroyed on every path that does not hand it to
  the kernel; only then does it enter \<open>operations\<close>.
\<close>

definition issue_afd_poll :: "nat \<Rightarrow> (io_world, unit) comp" where
  "issue_afd_poll a =
     bnd allocate (\<lambda>_.
     bnd fresh_addr (\<lambda>operation.
     with_afd a (\<lambda>state.
       if delete_pending state \<or> user_events state = 0 then return ()
       else if afd_status state = Afd_pending then
         (if user_events state AND afd_known_events AND NOT (pending_events state) = 0 then return ()
          else
            bnd (AfdHelper_cancel (afd_helper state) a) (\<lambda>_.
            set_afd a (state\<lparr>afd_status := Afd_cancelled, pending_events := 0\<rparr>)))
       else if afd_status state = Afd_cancelled then return ()
       else
         bnd (AfdHelper_poll (afd_helper state) a operation (base_socket state)
                (user_events state OR afd_poll_local_close)) (\<lambda>_.
         bnd (set_afd a (state\<lparr>afd_status := Afd_pending, pending_events := user_events state\<rparr>)) (\<lambda>_.
         modify (\<lambda>w. w\<lparr>operations := (operation, a) # operations w\<rparr>))))))"

definition set_afd_interest :: "nat \<Rightarrow> token \<Rightarrow> interest \<Rightarrow> (io_world, unit) comp" where
  "set_afd_interest a token interests =
     bnd (with_afd a (\<lambda>state. set_afd a (state\<lparr>afd_token := token, afd_interests := interests,
       user_events := interests_to_afd_flags interests\<rparr>))) (\<lambda>_.
     issue_afd_poll a)"

text \<open>
  The locked part of \<open>complete_afd_operation\<close>: from the status, the number of handles
  and the events of the finished poll, the state after it, the events to emit (none is 0) and
  whether to poll again.
\<close>

definition deliver_afd_events ::
  "u32 \<Rightarrow> bool \<Rightarrow> AfdSocketState \<Rightarrow> AfdSocketState \<times> u32 \<times> bool" where
  "deliver_afd_events afd_events reissue state =
     (let afd_events = afd_events AND user_events state;
          state = (if afd_events \<noteq> 0
                   then state\<lparr>user_events := user_events state AND NOT afd_events\<rparr> else state)
      in (state, afd_events, reissue \<or> user_events state \<noteq> 0))"

definition complete_afd_state ::
  "int \<Rightarrow> nat \<Rightarrow> u32 \<Rightarrow> AfdSocketState \<Rightarrow> AfdSocketState \<times> u32 \<times> bool" where
  "complete_afd_state status handles events state =
     (if status = status_cancelled then deliver_afd_events 0 (user_events state \<noteq> 0) state
      else if status < 0 then deliver_afd_events afd_poll_connect_fail False state
      else if handles < 1 then deliver_afd_events 0 (user_events state \<noteq> 0) state
      else if events AND afd_poll_local_close \<noteq> 0 then (state\<lparr>delete_pending := True\<rparr>, 0, False)
      else deliver_afd_events events False state)"

definition complete_afd_operation :: "nat \<Rightarrow> (io_world, unit) comp" where
  "complete_afd_operation operation =
     bnd (gets operations) (\<lambda>ops.
     case map_of ops operation of
       None \<Rightarrow> undefined_behaviour
     | Some a \<Rightarrow>
       bnd (modify (\<lambda>w. w\<lparr>operations := AList.delete operation (operations w)\<rparr>)) (\<lambda>_.
       with_afd a (\<lambda>state0. let state = state0\<lparr>afd_status := Afd_idle, pending_events := 0\<rparr> in
       bnd (set_afd a state) (\<lambda>_.
       if delete_pending state then return ()
       else
         bnd (sys (Iosb_status a)) (\<lambda>rs.
         bnd (sys (Poll_info a)) (\<lambda>ri.
         let (state', afd_events, reissue) =
               complete_afd_state (ret rs) (out_handles ri) (out_flags ri) state in
         bnd (set_afd a state') (\<lambda>_.
         bnd (if afd_events \<noteq> 0 then
                push_event (afd_token state') (afd_flags_to_interest afd_events)
                  (afd_events AND afd_error_flags \<noteq> 0)
                  (afd_events AND afd_read_closed_flags \<noteq> 0)
                  (afd_events AND afd_write_closed_flags \<noteq> 0)
              else return ()) (\<lambda>_.
         if reissue then issue_afd_poll a else return ()))))))))"

section \<open>The invariant of the operations in flight\<close>

text \<open>
  \<open>afd_ok\<close>: a socket state has one operation in flight exactly when it is not idle,
  never two, and addresses are fresh. \<open>afd_armed\<close>: a state the user still waits on
  has a poll in flight that covers the events of interest, or a cancelled one whose completion
  will poll again.
\<close>

definition afd_ok :: "io_world \<Rightarrow> bool" where
  "afd_ok w \<longleftrightarrow>
     distinct (map fst (operations w)) \<and> distinct (map snd (operations w))
     \<and> (\<forall>op \<in> fst ` set (operations w). op < next_addr w)
     \<and> (\<forall>a. next_addr w \<le> a \<longrightarrow> afd_states w a = None)
     \<and> (\<forall>a. a \<in> snd ` set (operations w) \<longleftrightarrow>
          (case afd_states w a of None \<Rightarrow> False | Some st \<Rightarrow> afd_status st \<noteq> Afd_idle))"

definition afd_armed :: "AfdSocketState \<Rightarrow> bool" where
  "afd_armed st \<longleftrightarrow> delete_pending st \<or> user_events st = 0 \<or> afd_status st = Afd_cancelled
     \<or> (afd_status st = Afd_pending \<and> user_events st AND afd_known_events AND NOT (pending_events st) = 0)"

section \<open>Lemmas\<close>

lemma quiet_native_nt [keeps_intros]: "quiet env native_nt"
  unfolding native_nt_def
  by (rule quietI, intro keeps_intros keeps_modify) (simp add: objects_def)

lemma quiet_nt_error [keeps_intros]: "quiet env (nt_error status)" "quiet env (throw_nt op status)"
  unfolding throw_nt_def nt_error_def by (rule quietI, intro keeps_intros)+

lemma quiet_try_get_base_socket [keeps_intros]: "quiet env (try_get_base_socket socket ioctl)"
  unfolding try_get_base_socket_def by (rule quietI) (intro keeps_intros)

lemma quiet_get_base_socket_loop [keeps_intros]: "quiet env (get_base_socket_loop socket ioctls)"
proof (induction ioctls)
  case (Cons a ioctls)
  show ?case unfolding get_base_socket_loop.simps
    by (rule quietI) (intro keeps_intros Cons.IH)
qed (simp add: keeps_intros)

lemma quiet_get_base_socket [keeps_intros]: "quiet env (get_base_socket socket)"
  unfolding get_base_socket_def by (rule quietI) (intro keeps_intros)

lemma quiet_AfdHelper [keeps_intros]:
  "quiet env (AfdHelper_new iocp_handle)" "quiet env (AfdHelper_destroy handle)"
  "quiet env (AfdHelper_poll helper a op socket events)" "quiet env (AfdHelper_cancel helper a)"
  unfolding AfdHelper_new_def AfdHelper_destroy_def AfdHelper_poll_def AfdHelper_cancel_def
  by (rule quietI, intro keeps_intros)+

lemma safe_native_nt [safe_intros]: "safe env native_nt"
  unfolding native_nt_def by (intro safe_intros)

lemma safe_nt_error [safe_intros]: "safe env (nt_error status)" "safe env (throw_nt op status)"
  unfolding throw_nt_def nt_error_def by (intro safe_intros)+

lemma safe_get_base_socket_loop [safe_intros]: "safe env (get_base_socket_loop socket ioctls)"
proof (induction ioctls)
  case (Cons a ioctls)
  then show ?case by (simp add: try_get_base_socket_def safe_intros)
qed (simp add: safe_intros)

lemma safe_AfdHelper [safe_intros]:
  "safe env (get_base_socket socket)"
  "safe env (AfdHelper_new iocp_handle)" "safe env (AfdHelper_destroy handle)"
  "safe env (AfdHelper_poll helper a op socket events)" "safe env (AfdHelper_cancel helper a)"
  "safe env (AfdSocketState_new handle helper)"
  unfolding AfdSocketState_new_def get_base_socket_def try_get_base_socket_def AfdHelper_new_def
    AfdHelper_destroy_def AfdHelper_poll_def AfdHelper_cancel_def
  by (intro safe_intros)+

text \<open>Working on an existing socket state never goes wrong.\<close>

lemma safe_at_afd:
  assumes "afd_states w a = Some st" "safe env (k st)" "with_afd a k env w = (r, w')"
  shows "r \<noteq> Undefined \<and> r \<noteq> Diverge"
  using assms by (auto simp: comp_simps dest: safeD)

lemma afd_ok_cong: "objects w' = objects w \<Longrightarrow> afd_ok w \<Longrightarrow> afd_ok w'"
  by (simp add: afd_ok_def objects_def)

lemma keeps_afd_ok_quiet [keeps_intros]: "quiet env m \<Longrightarrow> keeps env afd_ok m"
  by (erule keeps_by_quiet) (rule afd_ok_cong)

text \<open>Changing a state without changing whether it is idle.\<close>

lemma afd_ok_same_idle:
  assumes "afd_ok w" "afd_states w a = Some st" "afd_status st' = Afd_idle \<longleftrightarrow> afd_status st = Afd_idle"
  shows "afd_ok (w\<lparr>afd_states := (afd_states w)(a \<mapsto> st')\<rparr>)"
  using assms by (auto simp: afd_ok_def)

lemma afd_ok_next: "afd_ok w \<Longrightarrow> afd_ok (w\<lparr>next_addr := Suc (next_addr w)\<rparr>)"
  by (auto simp: afd_ok_def)

lemma afd_ok_new_operation:
  assumes "afd_ok w" "afd_states w a = Some st" "afd_status st = Afd_idle" "afd_status st' \<noteq> Afd_idle"
    "op \<notin> fst ` set (operations w)" "op < next_addr w"
  shows "afd_ok (w\<lparr>afd_states := (afd_states w)(a \<mapsto> st'), operations := (op, a) # operations w\<rparr>)"
  using assms unfolding afd_ok_def
  by (auto simp: image_iff split: option.splits if_splits)

text \<open>
  What a computation on the socket state \<open>a\<close> may change: the invariant holds
  afterwards, everything but that state is the same, in that state what the user asked for is
  the same, and if the computation returns the state is armed.
\<close>

definition afd_request :: "AfdSocketState \<Rightarrow> token \<times> interest \<times> u32 \<times> bool" where
  "afd_request st = (afd_token st, afd_interests st, user_events st, delete_pending st)"

definition afd_change :: "nat \<Rightarrow> io_world \<Rightarrow> unit outcome \<Rightarrow> io_world \<Rightarrow> bool" where
  "afd_change a w r w' \<longleftrightarrow>
     afd_ok w' \<and> selectors w' = selectors w \<and> packets w' = packets w \<and> cur_events w' = cur_events w
     \<and> next_addr w \<le> next_addr w'
     \<and> (\<forall>b. b \<noteq> a \<longrightarrow> afd_states w' b = afd_states w b)
     \<and> map_option afd_request (afd_states w' a) = map_option afd_request (afd_states w a)
     \<and> (r = Ret () \<longrightarrow> (\<exists>st. afd_states w' a = Some st \<and> afd_armed st))"

lemma afd_change_fails:
  "afd_ok w \<Longrightarrow> objects w' = objects w \<Longrightarrow> \<forall>x. r \<noteq> Ret x \<Longrightarrow> afd_change a w r w'"
  unfolding afd_change_def using afd_ok_cong [of w' w] by (auto simp: objects_def)

lemma afd_change_objects:
  "afd_change a w1 r w' \<Longrightarrow> objects w1 = objects w \<Longrightarrow> afd_change a w r w'"
  unfolding afd_change_def by (auto simp: objects_def)

lemma afd_change_next:
  "afd_change a (w\<lparr>next_addr := n\<rparr>) r w' \<Longrightarrow> next_addr w \<le> n \<Longrightarrow> afd_change a w r w'"
  by (simp add: afd_change_def)

lemma issue_cancel_change:
  assumes "afd_ok w" "afd_states w a = Some st" "afd_status st = Afd_pending"
    and run: "bnd (AfdHelper_cancel helper a)
      (\<lambda>_. set_afd a (st\<lparr>afd_status := Afd_cancelled, pending_events := 0\<rparr>)) env w = (r, w')"
  shows "afd_change a w r w'"
  using quiet_AfdHelper(4) run
proof (cases rule: quiet_bnd_cases)
  case fails
  with assms(1) show ?thesis by (rule afd_change_fails)
next
  case (returns y w3)
  have ok: "afd_ok w3" using afd_ok_cong assms(1) returns(2) by blast
  have "afd_states w3 a = Some st" using returns(2) assms(2) by (simp add: objects_def)
  from afd_ok_same_idle [OF ok this, of "st\<lparr>afd_status := Afd_cancelled, pending_events := 0\<rparr>"]
  show ?thesis using returns assms(2,3) by (auto simp: comp_simps objects_def afd_armed_def afd_change_def afd_request_def)
qed

lemma issue_poll_change:
  assumes "afd_ok w" "afd_states w a = Some st" "afd_status st = Afd_idle"
    and op: "operation \<notin> fst ` set (operations w)" "operation < next_addr w"
    and run: "bnd (AfdHelper_poll helper a operation socket events)
      (\<lambda>_. bnd (set_afd a (st\<lparr>afd_status := Afd_pending, pending_events := user_events st\<rparr>))
      (\<lambda>_. modify (\<lambda>w. w\<lparr>operations := (operation, a) # operations w\<rparr>))) env w = (r, w')"
  shows "afd_change a w r w'"
  using quiet_AfdHelper(3) run
proof (cases rule: quiet_bnd_cases)
  case fails
  with assms(1) show ?thesis by (rule afd_change_fails)
next
  case (returns y w3)
  have ok: "afd_ok w3" using afd_ok_cong assms(1) returns(2) by blast
  have st: "afd_states w3 a = Some st" using returns(2) assms(2) by (simp add: objects_def)
  have "operation \<notin> fst ` set (operations w3)" "operation < next_addr w3"
    using returns(2) op by (auto simp: objects_def)
  from afd_ok_new_operation [OF ok st assms(3) _ this,
      of "st\<lparr>afd_status := Afd_pending, pending_events := user_events st\<rparr>"]
  show ?thesis using returns assms(2)
    by (auto simp: comp_simps objects_def afd_armed_def afd_change_def afd_request_def and.assoc and.left_commute)
qed

lemma issue_afd_poll_change:
  assumes "issue_afd_poll a env w = (r, w')" "afd_ok w"
  shows "afd_change a w r w'"
  using quiet_allocate assms(1)
  unfolding issue_afd_poll_def
proof (cases rule: quiet_bnd_cases)
  case fails
  with assms(2) show ?thesis by (rule afd_change_fails)
next
  case (returns x w1)
  let ?w2 = "w1\<lparr>next_addr := Suc (next_addr w1)\<rparr>"
  have ok: "afd_ok ?w2" using returns(2) assms(2) afd_ok_cong afd_ok_next by blast
  have op: "next_addr w1 \<notin> fst ` set (operations ?w2)" "next_addr w1 < next_addr ?w2"
    using returns(2) assms(2) by (auto simp: objects_def afd_ok_def)
  have "afd_change a ?w2 r w'"
  proof (cases "afd_states w1 a")
    case None
    then show ?thesis using returns(3) ok by (auto simp: comp_simps afd_change_def)
  next
    case (Some st)
    then have st: "afd_states ?w2 a = Some st" by simp
    show ?thesis
      using returns(3) Some ok issue_cancel_change [OF ok st] issue_poll_change [OF ok st _ op]
      by (cases "afd_status st")
        (auto simp: comp_simps afd_change_def afd_armed_def split: if_splits)
  qed
  then have "afd_change a w1 r w'" by (rule afd_change_next) simp
  then show ?thesis using returns(2) by (rule afd_change_objects)
qed

lemma issue_afd_poll_safe:
  assumes "afd_states w a = Some st" "issue_afd_poll a env w = (r, w')"
  shows "r \<noteq> Undefined \<and> r \<noteq> Diverge"
  using quiet_allocate safe_allocate assms(2)
  unfolding issue_afd_poll_def
proof (cases rule: quiet_safe_cases)
  case fails
  then show ?thesis by blast
next
  case (returns x w1)
  then have st: "afd_states (w1\<lparr>next_addr := Suc (next_addr w1)\<rparr>) a = Some st"
    using assms(1) by (simp add: objects_def)
  show ?thesis
    by (rule safe_at_afd [OF st _ returns(3) [unfolded fresh_addr_run]]) (intro safe_intros)
qed

lemma keeps_issue_afd_poll [keeps_intros]: "keeps env afd_ok (issue_afd_poll a)"
  unfolding keeps_def using issue_afd_poll_change by (metis afd_change_def prod.collapse)

lemma set_afd_interest_change:
  assumes "set_afd_interest a token interests env w = (r, w')" "afd_ok w" "afd_states w a = Some st"
  shows "afd_change a (w\<lparr>afd_states := (afd_states w)(a \<mapsto> st\<lparr>afd_token := token,
    afd_interests := interests, user_events := interests_to_afd_flags interests\<rparr>)\<rparr>) r w'"
    (is "afd_change a ?w r w'")
proof -
  have "afd_ok ?w" using assms(2,3) by (rule afd_ok_same_idle) simp
  moreover have "issue_afd_poll a env ?w = (r, w')"
    using assms(1,3) by (simp add: set_afd_interest_def comp_simps)
  ultimately show ?thesis by (intro issue_afd_poll_change)
qed

lemma keeps_set_afd_interest [keeps_intros]: "keeps env afd_ok (set_afd_interest a token interests)"
proof (rule keepsI)
  fix w
  assume ok: "afd_ok w"
  obtain r w' where run: "set_afd_interest a token interests env w = (r, w')"
    by (cases "set_afd_interest a token interests env w")
  show "afd_ok (snd (set_afd_interest a token interests env w))"
  proof (cases "afd_states w a")
    case None
    then show ?thesis using ok by (simp add: set_afd_interest_def comp_simps)
  next
    case (Some st)
    from set_afd_interest_change [OF run ok Some] show ?thesis
      using run by (simp add: afd_change_def)
  qed
qed

text \<open>Finishing an operation: its state becomes idle and the operation is gone.\<close>

lemma afd_ok_finish:
  assumes ok: "afd_ok w" and op: "map_of (operations w) op = Some a"
    and st: "afd_states w a = Some st" and idle: "afd_status st' = Afd_idle"
  shows "afd_ok (w\<lparr>operations := AList.delete op (operations w), afd_states := (afd_states w)(a \<mapsto> st')\<rparr>)"
proof -
  have rest: "snd ` set (AList.delete op (operations w)) = snd ` set (operations w) - {a}"
    using ok op by (intro snd_set_delete) (simp_all add: afd_ok_def)
  have "distinct (map fst (AList.delete op (operations w)))"
    "distinct (map snd (AList.delete op (operations w)))"
    using ok by (simp_all add: afd_ok_def distinct_delete distinct_snd_delete)
  moreover have "set (AList.delete op (operations w)) \<subseteq> set (operations w)"
    by (auto simp: AList.delete_eq)
  ultimately show ?thesis using ok st idle rest by (auto simp: afd_ok_def)
qed

lemma deliver_afd_events_result:
  assumes "deliver_afd_events g reissue0 st = (st', f, reissue)"
  shows "f AND NOT (user_events st) = 0" "user_events st' = user_events st AND NOT f"
    "afd_status st' = afd_status st" "afd_token st' = afd_token st" "delete_pending st' = delete_pending st"
    "reissue \<longleftrightarrow> reissue0 \<or> user_events st' \<noteq> 0"
proof -
  have f: "f = g AND user_events st"
    and st': "st' = (if f \<noteq> 0 then st\<lparr>user_events := user_events st AND NOT f\<rparr> else st)"
    and reissue: "reissue \<longleftrightarrow> reissue0 \<or> user_events st' \<noteq> 0"
    using assms unfolding deliver_afd_events_def Let_def by auto
  show "f AND NOT (user_events st) = 0" by (simp add: f and.assoc)
  show "user_events st' = user_events st AND NOT f" "afd_status st' = afd_status st"
    "afd_token st' = afd_token st" "delete_pending st' = delete_pending st"
    "reissue \<longleftrightarrow> reissue0 \<or> user_events st' \<noteq> 0"
    by (cases "f = 0"; simp add: st' reissue)+
qed

text \<open>What a finished poll reports: nothing if it was cancelled or found no handle or the socket closed.\<close>

definition afd_report :: "int \<Rightarrow> nat \<Rightarrow> u32 \<Rightarrow> u32" where
  "afd_report status handles events =
     (if status = status_cancelled then 0 else if status < 0 then afd_poll_connect_fail
      else if handles < 1 \<or> events AND afd_poll_local_close \<noteq> 0 then 0 else events)"

lemma complete_afd_state_report:
  "complete_afd_state status handles events st = (st', f, reissue) \<Longrightarrow>
     f = afd_report status handles events AND user_events st"
  by (auto simp: complete_afd_state_def afd_report_def deliver_afd_events_def Let_def split: if_splits)

lemma complete_afd_state_result:
  assumes "complete_afd_state status handles events st = (st', f, reissue)"
  shows "f AND NOT (user_events st) = 0 \<and> user_events st' = user_events st AND NOT f
    \<and> afd_status st' = afd_status st \<and> afd_token st' = afd_token st
    \<and> (\<not> reissue \<longrightarrow> delete_pending st' \<or> user_events st' = 0)"
proof (cases "\<exists>g r. complete_afd_state status handles events st = deliver_afd_events g r st")
  case True
  then show ?thesis using assms deliver_afd_events_result by (metis (no_types, lifting))
next
  case False
  then have "complete_afd_state status handles events st = (st\<lparr>delete_pending := True\<rparr>, 0, False)"
    by (auto simp: complete_afd_state_def split: if_splits)
  then show ?thesis using assms by auto
qed

text \<open>
  The part of \<open>complete_afd_operation\<close> after the locked section: emit, then poll
  again if asked to.
\<close>

lemma emit_and_reissue_change:
  assumes "afd_ok w" "afd_states w a = Some st" "\<not> reissue \<longrightarrow> delete_pending st \<or> user_events st = 0"
    and room: "Events_size (cur_events w) < ev_capacity (cur_events w)"
    and run: "bnd (if f \<noteq> 0 then push_event t i e rc wc else return ())
      (\<lambda>_. if reissue then issue_afd_poll a else return ()) env w = (r, w')"
  shows "afd_change a (w\<lparr>cur_events :=
    (if f \<noteq> 0 then Events_push t i e rc wc (cur_events w) else cur_events w)\<rparr>) r w'"
    (is "afd_change a ?w r w'")
proof -
  have "afd_ok ?w" using assms(1) by (simp add: afd_ok_def)
  moreover have "(if reissue then issue_afd_poll a else return ()) env ?w = (r, w')"
    using run room by (simp add: comp_simps split: if_splits)
  ultimately show ?thesis
    using assms(2,3) issue_afd_poll_change [of a env ?w r w']
    by (auto simp: comp_simps afd_change_def afd_armed_def split: if_splits)
qed

lemma afd_ok_operation:
  assumes "afd_ok w" "map_of (operations w) op = Some a"
  obtains st where "afd_states w a = Some st"
proof -
  have "a \<in> snd ` set (operations w)" using assms(2) by (force dest: map_of_SomeD)
  with assms(1) have "case afd_states w a of None \<Rightarrow> False | Some st \<Rightarrow> afd_status st \<noteq> Afd_idle"
    unfolding afd_ok_def by blast
  with that show thesis by (cases "afd_states w a") auto
qed

text \<open>The report of the poll that completes for a socket, from the status and the information it left.\<close>

definition afd_reported :: "env \<Rightarrow> nat \<Rightarrow> io_world \<Rightarrow> u32" where
  "afd_reported env a w =
     (let rs = answer env (history w) (Iosb_status a);
          ri = answer env (history w @ [(Iosb_status a, rs)]) (Poll_info a)
      in afd_report (ret rs) (out_handles ri) (out_flags ri))"

lemma complete_afd_operation_runs:
  assumes ok: "afd_ok w" and op: "map_of (operations w) op = Some a"
    and room: "Events_size (cur_events w) < ev_capacity (cur_events w)"
    and run: "complete_afd_operation op env w = (r, w')"
  shows "\<exists>st st1 f. afd_states w a = Some st \<and> f AND NOT (user_events st) = 0
    \<and> user_events st1 = user_events st AND NOT f
    \<and> f = (if delete_pending st then 0 else afd_reported env a w AND user_events st)
    \<and> afd_change a (w\<lparr>afd_states := (afd_states w)(a \<mapsto> st1), cur_events :=
        (if f \<noteq> 0 then Events_push (afd_token st) (afd_flags_to_interest f)
           (f AND afd_error_flags \<noteq> 0) (f AND afd_read_closed_flags \<noteq> 0)
           (f AND afd_write_closed_flags \<noteq> 0) (cur_events w) else cur_events w)\<rparr>) r w'"
proof -
  obtain st where st: "afd_states w a = Some st" using ok op by (rule afd_ok_operation)
  define st0 where "st0 = st\<lparr>afd_status := Afd_idle, pending_events := 0\<rparr>"
  define w0 where "w0 = w\<lparr>operations := AList.delete op (operations w), afd_states := (afd_states w)(a \<mapsto> st0)\<rparr>"
  have ok0: "afd_ok w0" unfolding w0_def using ok op st by (rule afd_ok_finish) (simp add: st0_def)
  show ?thesis
  proof (cases "delete_pending st")
    case True
    then have "r = Ret ()" "w' = w0"
      using run op st by (auto simp: complete_afd_operation_def comp_simps st0_def w0_def Let_def)
    then have "afd_change a (w\<lparr>afd_states := (afd_states w)(a \<mapsto> st0)\<rparr>) r w'"
      using ok0 True by (auto simp: afd_change_def w0_def st0_def afd_armed_def)
    then show ?thesis using st True by (intro exI [of _ st] exI [of _ st0] exI [of _ 0]) (simp add: st0_def)
  next
    case False
    define w2 where "w2 = logged env (Poll_info a) (logged env (Iosb_status a) w0)"
    obtain st1 f reissue where c: "complete_afd_state (ret (answer env (history w0) (Iosb_status a)))
        (out_handles (answer env (history (logged env (Iosb_status a) w0)) (Poll_info a)))
        (out_flags (answer env (history (logged env (Iosb_status a) w0)) (Poll_info a))) st0 = (st1, f, reissue)"
      by (metis prod_cases3)
    note res = complete_afd_state_result [OF c]
    let ?w3 = "w2\<lparr>afd_states := (afd_states w2)(a \<mapsto> st1)\<rparr>"
    have ok2: "afd_ok w2" using ok0 by (rule afd_ok_cong [rotated]) (simp add: w2_def)
    have st2: "afd_states w2 a = Some st0" by (simp add: w2_def w0_def)
    have ok3: "afd_ok ?w3" using ok2 st2 res by (intro afd_ok_same_idle [where st = st0]) simp_all
    have "bnd (if f \<noteq> 0 then push_event (afd_token st1) (afd_flags_to_interest f)
          (f AND afd_error_flags \<noteq> 0) (f AND afd_read_closed_flags \<noteq> 0) (f AND afd_write_closed_flags \<noteq> 0)
        else return ()) (\<lambda>_. if reissue then issue_afd_poll a else return ()) env ?w3 = (r, w')"
      using run op st False c
      by (simp add: complete_afd_operation_def comp_simps w2_def w0_def st0_def Let_def del: bnd_if)
    note run3 = this
    have "afd_states ?w3 a = Some st1" "Events_size (cur_events ?w3) < ev_capacity (cur_events ?w3)"
      using room by (simp_all add: w2_def w0_def)
    moreover have "\<not> reissue \<longrightarrow> delete_pending st1 \<or> user_events st1 = 0" using res by blast
    ultimately
    have "afd_change a (?w3\<lparr>cur_events := (if f \<noteq> 0 then Events_push (afd_token st1) (afd_flags_to_interest f)
           (f AND afd_error_flags \<noteq> 0) (f AND afd_read_closed_flags \<noteq> 0)
           (f AND afd_write_closed_flags \<noteq> 0) (cur_events ?w3) else cur_events ?w3)\<rparr>) r w'"
      by (intro emit_and_reissue_change [OF ok3 _ _ _ run3])
    moreover have "f = afd_reported env a w AND user_events st"
      using complete_afd_state_report [OF c] by (simp add: afd_reported_def w0_def st0_def history_logged Let_def)
    ultimately show ?thesis using st res False
      by (intro exI [of _ st] exI [of _ st1] exI [of _ f])
        (auto simp: afd_change_def w2_def w0_def st0_def)
  qed
qed

section \<open>Properties\<close>

text \<open>
  A concrete system for the witnesses: allocations succeed, polls are accepted, and a finished
  poll reports that data was received.
\<close>

fun afd_demo_answer :: "call \<Rightarrow> reply" where
  "afd_demo_answer Alloc = plain 1 0"
| "afd_demo_answer Load_ntdll = plain 1 0"
| "afd_demo_answer (Nt_poll _ _ _ _ _) = plain status_pending 0"
| "afd_demo_answer (Poll_info _) = (plain 0 0)\<lparr>out_handles := 1, out_flags := 1\<rparr>"
| "afd_demo_answer _ = plain 0 0"

definition afd_demo_env :: env where
  "afd_demo_env = \<lparr>platform = Windows, host_endian = Little, macro_defined = (\<lambda>_. False),
     answer = (\<lambda>_. afd_demo_answer)\<rparr>"

definition afd_demo_state :: "AfdPollStatus \<Rightarrow> AfdSocketState" where
  "afd_demo_state status = \<lparr>afd_helper = 9, afd_socket = 5, base_socket = 5, afd_token = Token 3,
     afd_interests = READABLE, user_events = 0x199, pending_events = 0, afd_status = status,
     delete_pending = False\<rparr>"

definition afd_demo_world :: "(nat \<times> nat) list \<Rightarrow> io_world" where
  "afd_demo_world ops = \<lparr>history = [], errno = 0, selectors = Map.empty,
     afd_states = [1 \<mapsto> afd_demo_state (if ops = [] then Afd_idle else Afd_pending)],
     operations = ops, packets = [], next_addr = 10, nt_loaded = False, wsa_started = True,
     cur_events = Events_new 4, signal_impls = Map.empty, global_instance = None\<rparr>"

lemmas afd_demo = afd_demo_env_def afd_demo_world_def afd_demo_state_def native_nt_def
  AfdHelper_poll_def allocate_def plain_def



text \<open>
  C10. Completion of a poll: if there is room in the buffer, at most one event is added, with the
  token of the socket and exactly the readiness that the driver reported and that was still waited
  for; what is reported is no longer waited for afterwards; a socket whose deregistration is pending reports nothing; the operations in
  flight stay consistent; and if the call returns, the socket is armed for what is left.
\<close>

theorem complete_afd_operation_delivers:
  assumes "afd_ok w" "map_of (operations w) op = Some a"
    and "Events_size (cur_events w) < ev_capacity (cur_events w)"
    and "complete_afd_operation op env w = (r, w')"
  shows "afd_ok w' \<and> (\<exists>st st' f. afd_states w a = Some st \<and> afd_states w' a = Some st'
    \<and> (r = Ret () \<longrightarrow> afd_armed st')
    \<and> f = (if delete_pending st then 0 else afd_reported env a w AND user_events st)
    \<and> f AND NOT (user_events st) = 0 \<and> user_events st' = user_events st AND NOT f
    \<and> (delete_pending st \<longrightarrow> f = 0)
    \<and> ev_items (cur_events w') = ev_items (cur_events w) @
        (if f = 0 then [] else [Event_new (afd_token st) (afd_flags_to_interest f)
           (f AND afd_error_flags \<noteq> 0) (f AND afd_read_closed_flags \<noteq> 0)
           (f AND afd_write_closed_flags \<noteq> 0)]))"
proof -
  from complete_afd_operation_runs [OF assms] obtain st st1 f where
    *: "afd_states w a = Some st" "f AND NOT (user_events st) = 0"
    "user_events st1 = user_events st AND NOT f"
    "f = (if delete_pending st then 0 else afd_reported env a w AND user_events st)"
    and ch: "afd_change a (w\<lparr>afd_states := (afd_states w)(a \<mapsto> st1), cur_events :=
        (if f \<noteq> 0 then Events_push (afd_token st) (afd_flags_to_interest f)
           (f AND afd_error_flags \<noteq> 0) (f AND afd_read_closed_flags \<noteq> 0)
           (f AND afd_write_closed_flags \<noteq> 0) (cur_events w) else cur_events w)\<rparr>) r w'"
    by blast
  from ch obtain st' where st': "afd_states w' a = Some st'" "user_events st' = user_events st1"
    by (auto simp: afd_change_def afd_request_def)
  show ?thesis using * ch st' unfolding afd_change_def
    by (intro conjI exI [of _ st] exI [of _ st'] exI [of _ f]) (simp_all add: Events_push_def)
qed

theorem complete_afd_operation_delivers_witness:
  "\<exists>st'. afd_states (snd (complete_afd_operation 2 afd_demo_env (afd_demo_world [(2, 1)]))) 1 = Some st'
     \<and> afd_armed st'"
proof -
  let ?w = "afd_demo_world [(2, 1)]"
  obtain r w' where run: "complete_afd_operation 2 afd_demo_env ?w = (r, w')" by (meson surj_pair)
  then have "r = Ret ()"
    by (auto simp: complete_afd_operation_def complete_afd_state_def deliver_afd_events_def
        issue_afd_poll_def push_event_def Events_size_def Events_new_def afd_masks Let_def comp_simps afd_demo)
  moreover have ok: "afd_ok ?w" by (auto simp: afd_ok_def afd_demo)
  moreover have op: "map_of (operations ?w) 2 = Some 1"
    and room: "Events_size (cur_events ?w) < ev_capacity (cur_events ?w)"
    by (simp_all add: afd_demo_world_def Events_size_def Events_new_def)
  ultimately show ?thesis using complete_afd_operation_delivers [OF ok op room run] run by auto
qed

end
