(* ===== verification/Addr.thy ===== *)
theory Addr
  imports Os
begin

text \<open>
  Internet addresses of \<^verbatim>\<open>include/ioxx/net.hpp\<close> and their layout in a
  \<open>sockaddr_storage\<close>, written by \<open>resolve_endpoint\<close> and read by
  \<open>endpoint_from_sockaddr\<close> (\<^verbatim>\<open>src/socket.cpp\<close>). The layouts are those of the
  system headers: 128 bytes, the family in the first two bytes in host order (one byte after
  the length byte on the BSDs), the port at offset 2, an IPv4 address at 4; for IPv6 the flow
  information at 4, the address at 8 and the scope at 24.
\<close>

section \<open>Definitions\<close>

datatype Ipv4Addr = Ipv4Addr (v4_octets: bytes)
datatype Ipv6Addr = Ipv6Addr (v6_octets: bytes)

definition Ipv4Addr_new :: "byte \<Rightarrow> byte \<Rightarrow> byte \<Rightarrow> byte \<Rightarrow> Ipv4Addr" where
  "Ipv4Addr_new a b c d = Ipv4Addr [a, b, c, d]"

definition Ipv6Addr_new ::
  "u16 \<Rightarrow> u16 \<Rightarrow> u16 \<Rightarrow> u16 \<Rightarrow> u16 \<Rightarrow> u16 \<Rightarrow> u16 \<Rightarrow> u16 \<Rightarrow> Ipv6Addr" where
  "Ipv6Addr_new a b c d e f g h = Ipv6Addr
     [ucast (drop_bit 8 a), ucast a, ucast (drop_bit 8 b), ucast b,
      ucast (drop_bit 8 c), ucast c, ucast (drop_bit 8 d), ucast d,
      ucast (drop_bit 8 e), ucast e, ucast (drop_bit 8 f), ucast f,
      ucast (drop_bit 8 g), ucast g, ucast (drop_bit 8 h), ucast h]"

record SocketAddrV4 =
  v4_ip :: Ipv4Addr
  v4_port :: u16

record SocketAddrV6 =
  v6_ip :: Ipv6Addr
  v6_port :: u16
  v6_flowinfo :: u32
  v6_scope_id :: u32

datatype SocketAddr = V4 SocketAddrV4 | V6 SocketAddrV6

definition SocketAddr_default :: SocketAddr where
  "SocketAddr_default = V4 \<lparr>v4_ip = Ipv4Addr_new 0 0 0 0, v4_port = 0\<rparr>"

fun is_v4 :: "SocketAddr \<Rightarrow> bool" where
  "is_v4 (V4 _) = True" | "is_v4 (V6 _) = False"

fun is_v6 :: "SocketAddr \<Rightarrow> bool" where
  "is_v6 (V4 _) = False" | "is_v6 (V6 _) = True"

fun SocketAddr_port :: "SocketAddr \<Rightarrow> u16" where
  "SocketAddr_port (V4 a) = v4_port a" | "SocketAddr_port (V6 a) = v6_port a"

text \<open>The arrays have a fixed size in C++.\<close>

fun wf_addr :: "SocketAddr \<Rightarrow> bool" where
  "wf_addr (V4 a) \<longleftrightarrow> length (v4_octets (v4_ip a)) = 4"
| "wf_addr (V6 a) \<longleftrightarrow> length (v6_octets (v6_ip a)) = 16"

definition AF_INET_value :: u16 where "AF_INET_value = 2"

definition AF_INET6_value :: "platform \<Rightarrow> u16" where
  "AF_INET6_value p = (case p of Windows \<Rightarrow> 23 | Kqueue \<Rightarrow> 30 | _ \<Rightarrow> 10)"

definition put_family :: "platform \<Rightarrow> endian \<Rightarrow> u16 \<Rightarrow> bytes \<Rightarrow> bytes" where
  "put_family p e f mem =
     (if p = Kqueue then put_at 1 [ucast f] mem else put_at 0 (mem_of_u16 e f) mem)"

definition get_family :: "platform \<Rightarrow> endian \<Rightarrow> bytes \<Rightarrow> u16" where
  "get_family p e mem =
     (if p = Kqueue then ucast (hd (get_at 1 1 mem)) else u16_of_mem e (get_at 0 2 mem))"

abbreviation (input) zero_storage :: bytes where
  "zero_storage \<equiv> replicate 128 0"

record ResolvedAddress =
  ra_storage :: bytes
  ra_length :: nat
  ra_family :: family
  ra_type :: sock_type
  ra_protocol :: protocol

fun resolve_sockaddr ::
  "platform \<Rightarrow> endian \<Rightarrow> SocketAddr \<Rightarrow> sock_type \<Rightarrow> protocol \<Rightarrow> ResolvedAddress" where
  "resolve_sockaddr p e (V4 v4) socket_type protocol =
     \<lparr>ra_storage =
        put_at 4 (v4_octets (v4_ip v4))
          (put_at 2 (mem_of_u16 e (htons e (v4_port v4)))
            (put_family p e AF_INET_value zero_storage)),
      ra_length = 16, ra_family = AF_INET, ra_type = socket_type, ra_protocol = protocol\<rparr>"
| "resolve_sockaddr p e (V6 v6) socket_type protocol =
     \<lparr>ra_storage =
        put_at 8 (v6_octets (v6_ip v6))
          (put_at 24 (mem_of_u32 e (v6_scope_id v6))
            (put_at 4 (mem_of_u32 e (htonl e (v6_flowinfo v6)))
              (put_at 2 (mem_of_u16 e (htons e (v6_port v6)))
                (put_family p e (AF_INET6_value p) zero_storage)))),
      ra_length = 28, ra_family = AF_INET6, ra_type = socket_type, ra_protocol = protocol\<rparr>"

definition endpoint_from_sockaddr ::
  "platform \<Rightarrow> endian \<Rightarrow> bytes \<Rightarrow> nat \<Rightarrow> SocketAddr \<times> error_code" where
  "endpoint_from_sockaddr p e address len =
     (if get_family p e address = AF_INET_value then
        (V4 \<lparr>v4_ip = Ipv4Addr (get_at 4 4 address),
             v4_port = ntohs e (u16_of_mem e (get_at 2 2 address))\<rparr>, cleared)
      else if get_family p e address = AF_INET6_value p then
        (V6 \<lparr>v6_ip = Ipv6Addr (get_at 8 16 address),
             v6_port = ntohs e (u16_of_mem e (get_at 2 2 address)),
             v6_flowinfo = ntohl e (u32_of_mem e (get_at 4 4 address)),
             v6_scope_id = u32_of_mem e (get_at 24 4 address)\<rparr>, cleared)
      else (SocketAddr_default, make_error_code p address_family_not_supported))"

section \<open>Lemmas\<close>

lemma ntoh_bytes [layout_simps]:
  "ntohs e (u16_of_mem e (bytes_of_u16 v)) = v" "ntohl e (u32_of_mem e (bytes_of_u32 u)) = u"
  using u16_of_mem_of [of e "htons e v"] u32_of_mem_of [of e "htonl e u"]
  by (simp_all add: mem_of_htons mem_of_htonl)

lemma length_put_family [layout_simps]: "length mem = 128 \<Longrightarrow> length (put_family p e f mem) = 128"
  by (simp add: put_family_def)

lemma get_family_put_at [layout_simps]:
  "2 \<le> off \<Longrightarrow> off \<le> length mem \<Longrightarrow> get_family p e (put_at off bs mem) = get_family p e mem"
  by (simp add: get_family_def get_put_before)

lemma get_put_family [layout_simps]:
  assumes "length mem = 128" "f < 256"
  shows "get_family p e (put_family p e f mem) = f"
proof (cases "p = Kqueue")
  case True
  have "ucast (ucast f :: byte) = f"
    using assms(2) by (simp add: word_unat_eq_iff word_less_nat_alt unsigned_ucast_eq
        unsigned_take_bit_eq take_bit_nat_eq_self)
  then show ?thesis using True assms(1) by (simp add: get_family_def put_family_def get_put_same)
next
  case False
  then show ?thesis using assms(1) by (simp add: get_family_def put_family_def get_put_same)
qed

lemma family_values:
  "AF_INET_value < 256" "AF_INET6_value p < 256" "AF_INET6_value p \<noteq> AF_INET_value"
  by (simp_all add: AF_INET_value_def AF_INET6_value_def split: platform.splits)

lemma endpoint_of_resolved:
  assumes "wf_addr endpoint"
  shows "endpoint_from_sockaddr p e (ra_storage (resolve_sockaddr p e endpoint t pr)) len = (endpoint, cleared)"
  using assms family_values
  by (cases endpoint) (simp_all add: endpoint_from_sockaddr_def layout_simps)

section \<open>Properties\<close>

text \<open>
  C20. Addresses survive the trip through the system's representation: reading back the
  \<open>sockaddr\<close> written for an endpoint gives the same endpoint without an error, on
  every platform and byte order; and the port lies in network order at offset 2.
\<close>

theorem sockaddr_roundtrip:
  assumes "wf_addr endpoint"
  shows "endpoint_from_sockaddr p e (ra_storage (resolve_sockaddr p e endpoint t pr)) len = (endpoint, cleared)
    \<and> get_at 2 2 (ra_storage (resolve_sockaddr p e endpoint t pr)) = bytes_of_u16 (SocketAddr_port endpoint)
    \<and> length (ra_storage (resolve_sockaddr p e endpoint t pr)) = 128"
  using assms endpoint_of_resolved [OF assms] by (cases endpoint) (simp_all add: layout_simps)

theorem sockaddr_roundtrip_witness:
  "endpoint_from_sockaddr Linux Little (ra_storage (resolve_sockaddr Linux Little
     (V4 \<lparr>v4_ip = Ipv4Addr_new 127 0 0 1, v4_port = 8080\<rparr>) SOCK_STREAM IPPROTO_TCP)) 16
   = (V4 \<lparr>v4_ip = Ipv4Addr_new 127 0 0 1, v4_port = 8080\<rparr>, cleared)"
  by (rule conjunct1 [OF sockaddr_roundtrip]) (simp add: Ipv4Addr_new_def)

end
