(* ===== verification/Socket.thy ===== *)
theory Socket
  imports Addr World
begin

text \<open>
  The socket helpers of \<^verbatim>\<open>src/socket.cpp\<close>: the Winsock runtime, error
  classification, non-blocking and close-on-exec modes, the options, the address conversions
  and the owning class \<open>detail::Socket\<close> (modelled, like \<open>OwnedDescriptor\<close>,
  by its field \<open>handle_\<close>). An operation with an \<open>error_code&\<close> parameter
  returns the code it stores; every path of these functions stores one. The suffix
  \<open>_throws\<close> marks the overload that throws instead.
\<close>

section \<open>Definitions\<close>

definition invalid_socket_handle :: "platform \<Rightarrow> int" where
  "invalid_socket_handle p = (if p = Windows then 2 ^ 64 - 1 else -1)"

definition socket_error_from_code :: "platform \<Rightarrow> int \<Rightarrow> error_code" where
  "socket_error_from_code p code =
     (if p = Windows then \<lparr>ec_value = code, ec_category = System\<rparr>
      else \<lparr>ec_value = code, ec_category = Generic\<rparr>)"

definition last_socket_error :: "('x base_world_scheme, error_code) comp" where
  "last_socket_error = bnd (asks platform) (\<lambda>p. bnd (gets errno) (\<lambda>e. return (socket_error_from_code p e)))"

definition ensure_socket_runtime :: "(io_world, unit) comp" where
  "ensure_socket_runtime =
     bnd (asks platform) (\<lambda>p. bnd (gets wsa_started) (\<lambda>started.
     if p \<noteq> Windows \<or> started then return ()
     else
       bnd (sys Wsa_startup) (\<lambda>r.
       if ret r \<noteq> 0 then throw (System_Error (socket_error_from_code p (ret r)) ''WSAStartup'')
       else modify (\<lambda>w. w\<lparr>wsa_started := True\<rparr>))))"

text \<open>
  Comparing a code with \<open>std::errc::operation_would_block\<close> compares its value with
  that of the condition, in the generic category and in the system category of POSIX.
\<close>

definition is_would_block_error :: "platform \<Rightarrow> error_code \<Rightarrow> bool" where
  "is_would_block_error p error \<longleftrightarrow>
     (if p = Windows then ec_value error = WSAEWOULDBLOCK
      else ec_value error = errc_value p operation_would_block \<or> ec_value error = EAGAIN p
        \<or> ec_value error = EWOULDBLOCK p)"

definition is_would_block :: "platform \<Rightarrow> error_code \<Rightarrow> bool" where
  "is_would_block = is_would_block_error"

definition is_connect_in_progress :: "platform \<Rightarrow> error_code \<Rightarrow> bool" where
  "is_connect_in_progress p error \<longleftrightarrow>
     is_would_block_error p error
     \<or> (if p = Windows then ec_value error = WSAEINPROGRESS \<or> ec_value error = WSAEALREADY
          \<or> ec_value error = WSAEINVAL
        else ec_value error = EINPROGRESS p \<or> ec_value error = EALREADY p)"

definition socket_is_valid :: "platform \<Rightarrow> int \<Rightarrow> bool" where
  "socket_is_valid p handle \<longleftrightarrow> handle \<noteq> invalid_socket_handle p"

definition close_socket :: "int \<Rightarrow> ('x base_world_scheme, unit) comp" where
  "close_socket handle = bnd (asks platform) (\<lambda>p.
     if \<not> socket_is_valid p handle then return ()
     else bnd (sys (if p = Windows then Closesocket handle else Close handle)) (\<lambda>_. return ()))"

definition set_non_blocking :: "int \<Rightarrow> bool \<Rightarrow> ('x base_world_scheme, error_code) comp" where
  "set_non_blocking handle enabled = bnd (asks platform) (\<lambda>p.
     if p = Windows then
       bnd (sys (Ioctl_fionbio handle enabled)) (\<lambda>r.
       if ret r = -1 then last_socket_error else return cleared)
     else
       bnd (sys (Fcntl_getfl handle)) (\<lambda>r. let flags = ret r in
       if flags = -1 then last_socket_error
       else
         (let next = (if enabled then flags OR O_NONBLOCK p else flags AND NOT (O_NONBLOCK p)) in
          bnd (sys (Fcntl_setfl handle next)) (\<lambda>r.
          if ret r = -1 then last_socket_error else return cleared))))"

definition set_non_blocking_throws :: "int \<Rightarrow> bool \<Rightarrow> ('x base_world_scheme, unit) comp" where
  "set_non_blocking_throws handle enabled =
     throwing_void ''set_non_blocking'' (set_non_blocking handle enabled)"

definition set_close_on_exec :: "int \<Rightarrow> ('x base_world_scheme, error_code) comp" where
  "set_close_on_exec handle = bnd (asks platform) (\<lambda>p.
     if p = Windows then return cleared
     else
       bnd (sys (Fcntl_getfd handle)) (\<lambda>r. let flags = ret r in
       if flags = -1 then last_socket_error
       else
         bnd (sys (Fcntl_setfd handle (flags OR FD_CLOEXEC))) (\<lambda>r.
         if ret r = -1 then last_socket_error else return cleared)))"

definition set_close_on_exec_throws :: "int \<Rightarrow> ('x base_world_scheme, unit) comp" where
  "set_close_on_exec_throws handle = throwing_void ''set_close_on_exec'' (set_close_on_exec handle)"

definition set_socket_int_option ::
  "int \<Rightarrow> sockopt_level \<Rightarrow> sockopt \<Rightarrow> int \<Rightarrow> ('x base_world_scheme, error_code) comp" where
  "set_socket_int_option handle level option value =
     bnd (sys (Setsockopt handle level option value)) (\<lambda>r.
     if ret r \<noteq> 0 then last_socket_error else return cleared)"

definition set_socket_bool_option ::
  "int \<Rightarrow> sockopt_level \<Rightarrow> sockopt \<Rightarrow> bool \<Rightarrow> ('x base_world_scheme, error_code) comp" where
  "set_socket_bool_option handle level option enabled =
     (let value = (if enabled then 1 else 0) in
      bnd (sys (Setsockopt handle level option value)) (\<lambda>r.
      if ret r \<noteq> 0 then last_socket_error else return cleared))"

definition set_socket_bool_option_throws ::
  "int \<Rightarrow> sockopt_level \<Rightarrow> sockopt \<Rightarrow> bool \<Rightarrow> ('x base_world_scheme, unit) comp" where
  "set_socket_bool_option_throws handle level option enabled =
     throwing_void ''setsockopt'' (set_socket_bool_option handle level option enabled)"

definition get_socket_int_option ::
  "int \<Rightarrow> sockopt_level \<Rightarrow> sockopt \<Rightarrow> ('x base_world_scheme, int \<times> error_code) comp" where
  "get_socket_int_option handle level option =
     bnd (sys (Getsockopt handle level option)) (\<lambda>r.
     if ret r \<noteq> 0 then bnd last_socket_error (\<lambda>ec. return (0, ec))
     else return (out_int r, cleared))"

definition get_socket_bool_option ::
  "int \<Rightarrow> sockopt_level \<Rightarrow> sockopt \<Rightarrow> ('x base_world_scheme, bool \<times> error_code) comp" where
  "get_socket_bool_option handle level option =
     bnd (get_socket_int_option handle level option) (\<lambda>(v, ec). return (v \<noteq> 0, ec))"

definition get_socket_bool_option_throws ::
  "int \<Rightarrow> sockopt_level \<Rightarrow> sockopt \<Rightarrow> ('x base_world_scheme, bool) comp" where
  "get_socket_bool_option_throws handle level option =
     throwing ''getsockopt'' (get_socket_bool_option handle level option)"

definition set_socket_int_option_throws ::
  "int \<Rightarrow> sockopt_level \<Rightarrow> sockopt \<Rightarrow> int \<Rightarrow> ('x base_world_scheme, unit) comp" where
  "set_socket_int_option_throws handle level option value =
     throwing_void ''setsockopt'' (set_socket_int_option handle level option value)"

definition get_socket_int_option_throws ::
  "int \<Rightarrow> sockopt_level \<Rightarrow> sockopt \<Rightarrow> ('x base_world_scheme, int) comp" where
  "get_socket_int_option_throws handle level option =
     throwing ''getsockopt'' (get_socket_int_option handle level option)"

definition set_reuse_addr :: "int \<Rightarrow> bool \<Rightarrow> ('x base_world_scheme, error_code) comp" where
  "set_reuse_addr handle enabled = set_socket_bool_option handle SOL_SOCKET SO_REUSEADDR enabled"

definition set_reuse_addr_throws :: "int \<Rightarrow> bool \<Rightarrow> ('x base_world_scheme, unit) comp" where
  "set_reuse_addr_throws handle enabled = throwing_void ''set_reuse_addr'' (set_reuse_addr handle enabled)"

definition not_supported :: "('x base_world_scheme, error_code) comp" where
  "not_supported = bnd (asks platform) (\<lambda>p. return (make_error_code p function_not_supported))"

definition set_reuse_port :: "int \<Rightarrow> bool \<Rightarrow> ('x base_world_scheme, error_code) comp" where
  "set_reuse_port handle enabled = bnd (asks macro_defined) (\<lambda>defs.
     if defs D_SO_REUSEPORT then set_socket_bool_option handle SOL_SOCKET SO_REUSEPORT enabled
     else not_supported)"

definition set_reuse_port_throws :: "int \<Rightarrow> bool \<Rightarrow> ('x base_world_scheme, unit) comp" where
  "set_reuse_port_throws handle enabled = throwing_void ''setsockopt'' (set_reuse_port handle enabled)"

definition set_keepalive :: "int \<Rightarrow> bool \<Rightarrow> ('x base_world_scheme, error_code) comp" where
  "set_keepalive handle enabled = set_socket_bool_option handle SOL_SOCKET SO_KEEPALIVE enabled"

definition set_keepalive_throws :: "int \<Rightarrow> bool \<Rightarrow> ('x base_world_scheme, unit) comp" where
  "set_keepalive_throws handle enabled = throwing_void ''setsockopt'' (set_keepalive handle enabled)"

definition set_tcp_fastopen :: "int \<Rightarrow> int \<Rightarrow> ('x base_world_scheme, error_code) comp" where
  "set_tcp_fastopen handle backlog = bnd (asks macro_defined) (\<lambda>defs.
     if defs D_TCP_FASTOPEN then set_socket_int_option handle LEVEL_TCP TCP_FASTOPEN backlog
     else not_supported)"

definition set_tcp_fastopen_throws :: "int \<Rightarrow> int \<Rightarrow> ('x base_world_scheme, unit) comp" where
  "set_tcp_fastopen_throws handle backlog = throwing_void ''setsockopt'' (set_tcp_fastopen handle backlog)"

text \<open>The kqueue platform of the model is macOS where the sources test \<open>__APPLE__\<close>.\<close>

definition set_tcp_fastopen_connect :: "int \<Rightarrow> bool \<Rightarrow> ('x base_world_scheme, error_code) comp" where
  "set_tcp_fastopen_connect handle enabled = bnd (asks macro_defined) (\<lambda>defs. bnd (asks platform) (\<lambda>p.
     if defs D_TCP_FASTOPEN_CONNECT
       then set_socket_bool_option handle LEVEL_TCP TCP_FASTOPEN_CONNECT enabled
     else if defs D_TCP_FASTOPEN \<and> p = Windows
       then set_socket_bool_option handle LEVEL_TCP TCP_FASTOPEN enabled
     else if defs D_TCP_FASTOPEN \<and> p = Kqueue
       then set_socket_int_option handle LEVEL_TCP TCP_FASTOPEN (if enabled then 1 else 0)
     else not_supported))"

definition set_tcp_fastopen_connect_throws :: "int \<Rightarrow> bool \<Rightarrow> ('x base_world_scheme, unit) comp" where
  "set_tcp_fastopen_connect_throws handle enabled = throwing_void ''setsockopt'' (set_tcp_fastopen_connect handle enabled)"

text \<open>
  The IPv4 option first and the IPv6 one if that fails. \<open>IP_PMTUDISC_DO\<close> is 2 and
  \<open>IP_PMTUDISC_WANT\<close> is 1.
\<close>

definition set_dont_fragment :: "int \<Rightarrow> bool \<Rightarrow> ('x base_world_scheme, error_code) comp" where
  "set_dont_fragment handle enabled = bnd (asks platform) (\<lambda>p.
     if p = Linux then
       (let val = (if enabled then 2 else 1) in
        bnd (set_socket_int_option handle LEVEL_IP IP_MTU_DISCOVER val) (\<lambda>ec.
        if failed ec then set_socket_int_option handle LEVEL_IPV6 IPV6_MTU_DISCOVER val else return ec))
     else if p = Windows then
       bnd (set_socket_bool_option handle LEVEL_IP IP_DONTFRAGMENT enabled) (\<lambda>ec.
       if failed ec then set_socket_bool_option handle LEVEL_IPV6 IPV6_DONTFRAG enabled else return ec)
     else if p = Kqueue then
       bnd (set_socket_int_option handle LEVEL_IP IP_DONTFRAG (if enabled then 1 else 0)) (\<lambda>ec.
       if failed ec then set_socket_int_option handle LEVEL_IPV6 IPV6_DONTFRAG (if enabled then 1 else 0)
       else return ec)
     else not_supported)"

definition set_dont_fragment_throws :: "int \<Rightarrow> bool \<Rightarrow> ('x base_world_scheme, unit) comp" where
  "set_dont_fragment_throws handle enabled = throwing_void ''setsockopt'' (set_dont_fragment handle enabled)"

definition get_mtu :: "int \<Rightarrow> ('x base_world_scheme, u32 \<times> error_code) comp" where
  "get_mtu handle = bnd (asks platform) (\<lambda>p.
     if p = Linux \<or> p = Windows then
       bnd (bnd (get_socket_int_option handle LEVEL_IP IP_MTU) (\<lambda>(mtu, ec).
         if failed ec then get_socket_int_option handle LEVEL_IPV6 IPV6_MTU else return (mtu, ec)))
       (\<lambda>(mtu, ec). return (if failed ec then 0 else word_of_int mtu, ec))
     else bnd not_supported (\<lambda>ec. return (0, ec)))"

definition get_mtu_throws :: "int \<Rightarrow> ('x base_world_scheme, u32) comp" where
  "get_mtu_throws handle = throwing ''getsockopt'' (get_mtu handle)"

definition get_socket_error :: "int \<Rightarrow> ('x base_world_scheme, error_code option \<times> error_code) comp" where
  "get_socket_error handle = bnd (asks platform) (\<lambda>p.
     bnd (get_socket_int_option handle SOL_SOCKET SO_ERROR) (\<lambda>(error, ec).
     if failed ec then return (None, ec)
     else if error = 0 then return (None, ec)
     else return (Some (socket_error_from_code p error), ec)))"

definition get_socket_error_throws :: "int \<Rightarrow> ('x base_world_scheme, error_code option) comp" where
  "get_socket_error_throws handle = throwing ''getsockopt'' (get_socket_error handle)"

definition resolve_endpoint ::
  "SocketAddr \<Rightarrow> sock_type \<Rightarrow> protocol \<Rightarrow> (io_world, ResolvedAddress \<times> error_code) comp" where
  "resolve_endpoint endpoint socket_type protocol = noexcept
     (bnd ensure_socket_runtime (\<lambda>_. bnd (asks platform) (\<lambda>p. bnd (asks host_endian) (\<lambda>e.
      return (resolve_sockaddr p e endpoint socket_type protocol, cleared)))))"

definition resolve_endpoint_throws ::
  "SocketAddr \<Rightarrow> sock_type \<Rightarrow> protocol \<Rightarrow> (io_world, ResolvedAddress) comp" where
  "resolve_endpoint_throws endpoint socket_type protocol =
     throwing ''resolve endpoint'' (resolve_endpoint endpoint socket_type protocol)"

definition endpoint_of_reply :: "reply \<Rightarrow> ('x base_world_scheme, SocketAddr \<times> error_code) comp" where
  "endpoint_of_reply r = bnd (asks platform) (\<lambda>p. bnd (asks host_endian) (\<lambda>e.
     return (endpoint_from_sockaddr p e (out_addr r) (out_len r))))"

definition local_endpoint :: "int \<Rightarrow> ('x base_world_scheme, SocketAddr \<times> error_code) comp" where
  "local_endpoint handle = bnd (sys (Getsockname handle)) (\<lambda>r.
     if ret r \<noteq> 0 then bnd last_socket_error (\<lambda>ec. return (SocketAddr_default, ec))
     else endpoint_of_reply r)"

definition local_endpoint_throws :: "int \<Rightarrow> ('x base_world_scheme, SocketAddr) comp" where
  "local_endpoint_throws handle = throwing ''getsockname'' (local_endpoint handle)"

definition peer_endpoint :: "int \<Rightarrow> ('x base_world_scheme, SocketAddr \<times> error_code) comp" where
  "peer_endpoint handle = bnd (sys (Getpeername handle)) (\<lambda>r.
     if ret r \<noteq> 0 then bnd last_socket_error (\<lambda>ec. return (SocketAddr_default, ec))
     else endpoint_of_reply r)"

definition peer_endpoint_throws :: "int \<Rightarrow> ('x base_world_scheme, SocketAddr) comp" where
  "peer_endpoint_throws handle = throwing ''getpeername'' (peer_endpoint handle)"

text \<open>The class \<open>Socket\<close>.\<close>

definition Socket_new :: "int \<Rightarrow> int" where
  "Socket_new handle = handle"

definition Socket_release :: "platform \<Rightarrow> int \<Rightarrow> int \<times> int" where
  "Socket_release p handle = (handle, invalid_socket_handle p)"

definition Socket_reset :: "int \<Rightarrow> int \<Rightarrow> ('x base_world_scheme, int) comp" where
  "Socket_reset this_handle handle =
     (if this_handle \<noteq> handle then bnd (close_socket this_handle) (\<lambda>_. return handle)
      else return this_handle)"

text \<open>
  The move constructor gives the new field and the field of the source; the move assignment is
  told whether \<open>this\<close> is \<open>&other\<close>.
\<close>

definition Socket_move :: "platform \<Rightarrow> int \<Rightarrow> int \<times> int" where
  "Socket_move p other_handle = Socket_release p other_handle"

definition Socket_move_assign :: "bool \<Rightarrow> int \<Rightarrow> int \<Rightarrow> ('x base_world_scheme, int \<times> int) comp" where
  "Socket_move_assign same this_handle other_handle = bnd (asks platform) (\<lambda>p.
     if \<not> same then
       (let (handle, other_handle') = Socket_release p other_handle in
        bnd (Socket_reset this_handle handle) (\<lambda>this_handle'. return (this_handle', other_handle')))
     else return (this_handle, other_handle))"

definition Socket_destroy :: "int \<Rightarrow> ('x base_world_scheme, int) comp" where
  "Socket_destroy this_handle =
     bnd (asks platform) (\<lambda>p. Socket_reset this_handle (invalid_socket_handle p))"

definition Socket_class :: "platform \<Rightarrow> owner_class" where
  "Socket_class p = \<lparr>op_valid = socket_is_valid p, op_empty = invalid_socket_handle p, op_new = Socket_new,
     op_release = Socket_release p, op_move = Socket_move p, op_move_assign = Socket_move_assign,
     op_reset = Some Socket_reset, op_destroy = (\<lambda>h. bnd (Socket_destroy h) (\<lambda>_. return ()))\<rparr>"

section \<open>Lemmas\<close>

lemma last_socket_error_run [comp_simps]:
  "last_socket_error env w = (Ret (socket_error_from_code (platform env) (errno w)), w)"
  "bnd last_socket_error f env w = f (socket_error_from_code (platform env) (errno w)) env w"
  by (simp_all add: last_socket_error_def comp_simps)

lemma failed_socket_error [simp]: "failed (socket_error_from_code p code) \<longleftrightarrow> code \<noteq> 0"
  by (simp add: socket_error_from_code_def)

lemma quiet_ensure_socket_runtime [keeps_intros]: "quiet env ensure_socket_runtime"
  unfolding ensure_socket_runtime_def
  by (rule quietI, intro keeps_intros keeps_modify) (simp add: objects_def)

lemma quiet_last_socket_error [keeps_intros]: "quiet env last_socket_error" "quiet env not_supported"
  unfolding last_socket_error_def not_supported_def by (rule quietI, intro keeps_intros)+

lemma quiet_socket_modes [keeps_intros]:
  "quiet env (close_socket h)" "quiet env (set_non_blocking h b)" "quiet env (set_close_on_exec h)"
  unfolding close_socket_def set_non_blocking_def set_close_on_exec_def
  by (rule quietI, intro keeps_intros)+

lemma quiet_throwing [keeps_intros]:
  "quiet env m \<Longrightarrow> quiet env (throwing what m)"
  "quiet env m' \<Longrightarrow> quiet env (throwing_void what m')"
  by (rule quietI, intro keeps_intros, assumption)+

lemma quiet_socket_options [keeps_intros]:
  "quiet env (set_socket_int_option h l opt v)" "quiet env (set_socket_bool_option h l opt b)"
  "quiet env (get_socket_int_option h l opt)"
  unfolding set_socket_int_option_def set_socket_bool_option_def get_socket_int_option_def
  by (rule quietI, intro keeps_intros)+

lemma quiet_socket_options2 [keeps_intros]:
  "quiet env (get_socket_bool_option h l opt)" "quiet env (set_reuse_addr h b)"
  "quiet env (set_reuse_port h b)" "quiet env (set_keepalive h b)" "quiet env (set_tcp_fastopen h n)"
  "quiet env (set_tcp_fastopen_connect h b)" "quiet env (set_dont_fragment h b)"
  "quiet env (get_mtu h)" "quiet env (get_socket_error h)"
  unfolding get_socket_bool_option_def set_reuse_addr_def set_reuse_port_def set_keepalive_def
    set_tcp_fastopen_def set_tcp_fastopen_connect_def set_dont_fragment_def get_mtu_def get_socket_error_def
  by (rule quietI, intro keeps_intros)+

lemma quiet_endpoints [keeps_intros]:
  "quiet env (resolve_endpoint a t pr)" "quiet env (local_endpoint h)" "quiet env (peer_endpoint h)"
  "quiet env (endpoint_of_reply r)"
  unfolding resolve_endpoint_def local_endpoint_def peer_endpoint_def endpoint_of_reply_def
  by (rule quietI, intro keeps_intros)+

lemma returns_socket_helpers [returns_intros]:
  "returns env last_socket_error" "returns env not_supported" "returns env (close_socket h)"
  "returns env (set_non_blocking h b)" "returns env (set_close_on_exec h)"
  "returns env (set_socket_int_option h l opt v)" "returns env (set_socket_bool_option h l opt b)"
  "returns env (get_socket_int_option h l opt)" "returns env (endpoint_of_reply r)"
  unfolding last_socket_error_def not_supported_def close_socket_def set_non_blocking_def
    set_close_on_exec_def set_socket_int_option_def set_socket_bool_option_def get_socket_int_option_def
    endpoint_of_reply_def
  by (intro returns_intros)+

lemma returns_socket_options [returns_intros]:
  "returns env (get_socket_bool_option h l opt)" "returns env (set_reuse_addr h b)"
  "returns env (set_reuse_port h b)" "returns env (set_keepalive h b)" "returns env (set_tcp_fastopen h n)"
  "returns env (set_tcp_fastopen_connect h b)" "returns env (set_dont_fragment h b)"
  "returns env (get_mtu h)" "returns env (get_socket_error h)"
  "returns env (local_endpoint h)" "returns env (peer_endpoint h)"
  "returns env (Socket_reset h h')" "returns env (Socket_destroy h)"
  unfolding get_socket_bool_option_def set_reuse_addr_def set_reuse_port_def set_keepalive_def
    set_tcp_fastopen_def set_tcp_fastopen_connect_def set_dont_fragment_def get_mtu_def get_socket_error_def
    local_endpoint_def peer_endpoint_def Socket_destroy_def Socket_reset_def
  by (intro returns_intros)+

lemma safe_ensure_socket_runtime [safe_intros]: "safe env ensure_socket_runtime"
  unfolding ensure_socket_runtime_def by (intro safe_intros)

abbreviation (input) close_call :: "env \<Rightarrow> int \<Rightarrow> call" where
  "close_call env h \<equiv> (if platform env = Windows then Closesocket h else Close h)"

lemma close_socket_run [comp_simps]:
  "close_socket h env w =
     (Ret (), if socket_is_valid (platform env) h then logged env (close_call env h) w else w)"
  by (simp add: close_socket_def comp_simps)

lemma bnd_close_socket [comp_simps]:
  "bnd (close_socket h) f env w =
     f () env (if socket_is_valid (platform env) h then logged env (close_call env h) w else w)"
  by (simp add: bnd_def close_socket_run)

lemma Socket_reset_run [comp_simps]:
  "Socket_reset old new env w = (Ret new,
     if old \<noteq> new \<and> socket_is_valid (platform env) old then logged env (close_call env old) w else w)"
  by (simp add: Socket_reset_def comp_simps)

lemma Socket_class_simps [simp]:
  "op_valid (Socket_class p) = socket_is_valid p" "op_empty (Socket_class p) = invalid_socket_handle p"
  "op_new (Socket_class p) = Socket_new" "op_release (Socket_class p) = Socket_release p"
  "op_move (Socket_class p) = Socket_move p" "op_move_assign (Socket_class p) = Socket_move_assign"
  "op_reset (Socket_class p) = Some Socket_reset"
  "op_destroy (Socket_class p) h = bnd (Socket_destroy h) (\<lambda>_. return ())"
  by (simp_all add: Socket_class_def)

lemmas Socket_members = socket_is_valid_def Socket_new_def Socket_release_def Socket_move_def
  Socket_move_assign_def Socket_destroy_def

interpretation owned_socket: handle_owner env "Socket_class (platform env)" "close_call env" for env
  by unfold_locales (auto simp: Socket_members comp_simps bnd_def)

lemma set_option_runs [comp_simps]:
  "set_socket_int_option h l opt v env w =
     (Ret (if ret (answer env (history w) (Setsockopt h l opt v)) \<noteq> 0
           then socket_error_from_code (platform env) (err (answer env (history w) (Setsockopt h l opt v)))
           else cleared), logged env (Setsockopt h l opt v) w)"
  "set_socket_bool_option h l opt b = set_socket_int_option h l opt (if b then 1 else 0)"
  "bnd (set_socket_int_option h l opt v) f env w =
     f (if ret (answer env (history w) (Setsockopt h l opt v)) \<noteq> 0
        then socket_error_from_code (platform env) (err (answer env (history w) (Setsockopt h l opt v)))
        else cleared) env (logged env (Setsockopt h l opt v) w)"
  by (simp_all add: set_socket_int_option_def set_socket_bool_option_def Let_def comp_simps)

section \<open>Properties\<close>

text \<open>
  C22. Ownership of sockets: for every sequence of constructions, moves, resets, releases and
  destructions of \<open>detail::Socket\<close> objects on any platform, the sockets given to them
  are exactly the ones closed, the ones released and the ones still held: none is closed twice
  and none is lost.
\<close>

theorem Socket_conservation:
  assumes "owners_reachable env (Socket_class (platform env)) s"
  shows "acquired s = closed_in (history (own_world s)) + held (socket_is_valid (platform env)) s + released s
    \<and> (\<forall>h. count (held (socket_is_valid (platform env)) s) h \<le> 1)"
  using owned_socket.reachable_ok [OF assms] by (simp add: owners_ok_def)

theorem Socket_conservation_witness:
  "\<exists>s. owners_reachable demo_env (Socket_class (platform demo_env)) s \<and> acquired s = {#8, 7#}
     \<and> closed_in (history (own_world s)) = {#8#} \<and> released s = {#7#}"
proof -
  let ?C = "Socket_class (platform demo_env)"
  let ?s = "\<lparr>slots = [7, 8], acquired = {#8, 7#}, released = {#}, own_world = \<lparr>history = [], errno = 0\<rparr>\<rparr>"
  let ?w = "logged demo_env (Close 8) (own_world ?s)"
  have env: "platform demo_env = Linux" "invalid_socket_handle Linux = -1"
    by (simp_all add: demo_env_def invalid_socket_handle_def)
  have "owners_reachable demo_env ?C ?s" by (rule two_constructed) (simp_all add: Socket_members env)
  then have r: "owners_reachable demo_env ?C (?s\<lparr>slots := [], released := {#7#}, own_world := ?w\<rparr>)"
    by (rule one_moved_and_released [where none = "-1" and none' = "-1"])
      (simp_all add: Socket_members comp_simps bnd_def env)
  show ?thesis
    by (rule exI, rule conjI [OF r]) (use Socket_conservation [OF r] in \<open>simp add: held_def\<close>)
qed

text \<open>
  C38. Non-blocking mode on POSIX: the call reports success exactly when both
  \<open>fcntl\<close> calls do, and the flags it sets are the old ones with exactly the
  non-blocking bit switched on or off.
\<close>

theorem set_non_blocking_effect:
  assumes "platform env \<noteq> Windows" "sets_errno env"
  shows "\<exists>ec w' nxt. set_non_blocking handle enabled env w = (Ret ec, w')
    \<and> (let mask = O_NONBLOCK (platform env);
           r1 = answer env (history w) (Fcntl_getfl handle);
           r2 = answer env (history w @ [(Fcntl_getfl handle, r1)]) (Fcntl_setfl handle nxt)
       in (\<not> failed ec \<longleftrightarrow> ret r1 \<noteq> -1 \<and> ret r2 \<noteq> -1)
          \<and> history w' = history w @ (Fcntl_getfl handle, r1)
              # (if ret r1 = -1 then [] else [(Fcntl_setfl handle nxt, r2)])
          \<and> nxt AND NOT mask = ret r1 AND NOT mask
          \<and> nxt AND mask = (if enabled then mask else 0))"
proof -
  let ?o = "O_NONBLOCK (platform env)"
  define flags where "flags = ret (answer env (history w) (Fcntl_getfl handle))"
  define nxt where "nxt = (if enabled then flags OR ?o else flags AND NOT ?o)"
  have bits: "nxt AND NOT ?o = flags AND NOT ?o" "nxt AND ?o = (if enabled then ?o else 0)"
    by (auto simp: nxt_def bit_simps intro!: bit_eqI)
  obtain r w' where run: "set_non_blocking handle enabled env w = (r, w')" by (meson surj_pair)
  then obtain ec where "r = Ret ec"
    using assms(1) by (auto simp: set_non_blocking_def comp_simps Let_def split: if_splits)
  note run = run [unfolded this]
  show ?thesis
    using run bits assms(1) sets_errnoD [OF assms(2)] unfolding nxt_def flags_def
    by (intro exI [of _ ec] exI [of _ w'] exI [of _ nxt])
      (auto simp: set_non_blocking_def comp_simps Let_def nxt_def flags_def split: if_splits)
qed

theorem set_non_blocking_effect_witness:
  "\<exists>ec w'. set_non_blocking 5 True demo_env \<lparr>history = [], errno = 0\<rparr> = (Ret ec, w')
     \<and> \<not> failed ec"
proof -
  have h: "platform demo_env \<noteq> Windows" "sets_errno demo_env"
    by (simp_all add: demo_env_def sets_errno_def)
  show ?thesis
    using set_non_blocking_effect [OF h, of 5 True "\<lparr>history = [], errno = 0\<rparr>"]
    by (auto simp: Let_def demo_env_def)
qed

text \<open>Documented result of \<open>setsockopt\<close> on every platform: 0 or \<open>-1\<close>.\<close>

definition setsockopt_documented :: "env \<Rightarrow> bool" where
  "setsockopt_documented env \<longleftrightarrow> (\<forall>h s l opt v. ret (answer env h (Setsockopt s l opt v)) \<in> {0, -1})"

text \<open>
  C39. The fragmentation option falls back from IPv4 to IPv6: on Linux, Windows and macOS the
  call succeeds exactly when one of the two options can be set, and the IPv6 option is tried
  only after the IPv4 one failed. The hypotheses are the documented results of
  \<open>setsockopt\<close>, which sets an error code when it fails.
\<close>

theorem set_dont_fragment_fallback:
  assumes "platform env \<noteq> Poll_Unix" "sets_errno env"
    and "setsockopt_documented env"
  shows "\<exists>ec w' c4 c6. set_dont_fragment handle enabled env w = (Ret ec, w')
    \<and> (let r4 = answer env (history w) c4; r6 = answer env (history w @ [(c4, r4)]) c6
       in (\<not> failed ec \<longleftrightarrow> ret r4 = 0 \<or> ret r6 = 0)
          \<and> history w' = history w @ (c4, r4) # (if ret r4 = 0 then [] else [(c6, r6)])
          \<and> (\<exists>o4 o6 v. c4 = Setsockopt handle LEVEL_IP o4 v \<and> c6 = Setsockopt handle LEVEL_IPV6 o6 v))"
proof -
  have e: "err (answer env h (Setsockopt s l opt v)) \<noteq> 0"
    if "ret (answer env h (Setsockopt s l opt v)) \<noteq> 0" for h s l opt v
    using that assms(3) sets_errnoD [OF assms(2)] unfolding setsockopt_documented_def by blast
  define o4 where "o4 = (case platform env of Linux \<Rightarrow> IP_MTU_DISCOVER | Windows \<Rightarrow> IP_DONTFRAGMENT | _ \<Rightarrow> IP_DONTFRAG)"
  define o6 where "o6 = (case platform env of Linux \<Rightarrow> IPV6_MTU_DISCOVER | _ \<Rightarrow> IPV6_DONTFRAG)"
  define v :: int where "v = (if platform env = Linux then if enabled then 2 else 1 else if enabled then 1 else 0)"
  have run: "set_dont_fragment handle enabled env w =
      bnd (set_socket_int_option handle LEVEL_IP o4 v) (\<lambda>ec.
        if failed ec then set_socket_int_option handle LEVEL_IPV6 o6 v else return ec) env w"
    using assms(1) by (cases "platform env")
      (simp_all add: set_dont_fragment_def comp_simps Let_def o4_def o6_def v_def)
  let ?c4 = "Setsockopt handle LEVEL_IP o4 v" and ?c6 = "Setsockopt handle LEVEL_IPV6 o6 v"
  obtain ec w' where run': "set_dont_fragment handle enabled env w = (Ret ec, w')"
    unfolding run using e by (cases "ret (answer env (history w) ?c4) = 0") (simp_all add: comp_simps)
  show ?thesis
    using run' e unfolding run
    by (intro exI [of _ ec] exI [of _ w'] exI [of _ ?c4] exI [of _ ?c6])
      (auto simp: comp_simps Let_def split: if_splits)
qed

theorem set_dont_fragment_fallback_witness:
  "\<exists>ec w'. set_dont_fragment 5 True demo_env \<lparr>history = [], errno = 0\<rparr> = (Ret ec, w') \<and> \<not> failed ec"
proof -
  have h: "platform demo_env \<noteq> Poll_Unix" "sets_errno demo_env"
    "setsockopt_documented demo_env"
    by (simp_all add: demo_env_def sets_errno_def setsockopt_documented_def)
  show ?thesis
    using set_dont_fragment_fallback [OF h, of 5 True "\<lparr>history = [], errno = 0\<rparr>"]
    by (auto simp: Let_def demo_env_def)
qed

text \<open>
  The portable condition for "would block" is recognised as such on every platform but
  Windows, where only the Winsock code is; socket errors are recognised everywhere.
\<close>

lemma would_block_classification:
  "(is_would_block p (make_error_code p operation_would_block) \<longleftrightarrow> p \<noteq> Windows)
   \<and> is_would_block p (socket_error_from_code p (if p = Windows then WSAEWOULDBLOCK else EAGAIN p))
   \<and> (is_connect_in_progress p ec \<longleftrightarrow> is_would_block p ec \<or> ec_value ec \<in>
        (if p = Windows then {WSAEINPROGRESS, WSAEALREADY, WSAEINVAL} else {EINPROGRESS p, EALREADY p}))"
  by (simp add: is_would_block_def is_would_block_error_def is_connect_in_progress_def
      make_error_code_def socket_error_from_code_def EWOULDBLOCK_def EAGAIN_def)

end
