(* ===== verification/Selector.thy ===== *)
theory Selector
  imports Afd Socket
begin

text \<open>
  The class \<open>Selector\<close> of \<^verbatim>\<open>src/core.cpp\<close>: the table of registrations, its mirror in
  the back end of the platform (epoll, kqueue, a completion port with AFD, or \<open>poll\<close>
  over a snapshot) and the wait. A method runs on the selector at the address
  \<open>this\<close>. The buffer of the wait is \<open>cur_events\<close>. The iteration order of
  the unordered map is the order of the association list. A container that is filled once is
  one allocation.
\<close>

section \<open>Construction and destruction\<close>

definition Selector_new :: "(io_world, nat) comp" where
  "Selector_new =
     bnd ensure_socket_runtime (\<lambda>_.
     bnd (asks platform) (\<lambda>p.
     bnd (case p of
            Windows \<Rightarrow>
              bnd (sys Create_iocp) (\<lambda>r.
              if ret r = 0 then throw_last_system_error ''CreateIoCompletionPort''
              else bnd allocate (\<lambda>_. bnd (AfdHelper_new (ret r)) (\<lambda>helper. return (-1, ret r, helper))))
          | Linux \<Rightarrow>
              bnd (sys Epoll_create1) (\<lambda>r.
              if ret r = -1 then throw_errno ''epoll_create1'' else return (ret r, 0, 0))
          | Kqueue \<Rightarrow>
              bnd (sys Kqueue_create) (\<lambda>r.
              if ret r = -1 then throw_errno ''kqueue''
              else bnd (set_descriptor_close_on_exec (ret r)) (\<lambda>_. return (ret r, 0, 0)))
          | Poll_Unix \<Rightarrow> return (-1, 0, 0))
     (\<lambda>(backend, iocp, helper).
     bnd fresh_addr (\<lambda>this.
     bnd (set_selector this \<lparr>registrations = [], waker_handle = invalid_native_handle p,
       backend = backend, iocp = iocp, afd_handle = helper, waker_active = False\<rparr>) (\<lambda>_.
     return this)))))"

text \<open>
  The helper is shared with the socket states, which registrations and operations in flight
  keep alive: the destructor's body drops the selector's share, and the registrations go with
  the members afterwards.
\<close>

definition helper_used_by_operations :: "int \<Rightarrow> io_world \<Rightarrow> bool" where
  "helper_used_by_operations helper w \<longleftrightarrow>
     list_ex (\<lambda>(op, a). case afd_states w a of None \<Rightarrow> False | Some st \<Rightarrow> afd_helper st = helper) (operations w)"

definition Selector_destroy :: "nat \<Rightarrow> (io_world, unit) comp" where
  "Selector_destroy this = bnd (asks platform) (\<lambda>p.
     with_selector this (\<lambda>s.
     bnd (case p of
            Windows \<Rightarrow>
              bnd (gets (helper_used_by_operations (afd_handle s))) (\<lambda>by_ops.
              let by_regs = list_ex (\<lambda>(h, r). reg_afd_state r \<noteq> None) (registrations s) in
              bnd (if by_ops \<or> by_regs then return () else AfdHelper_destroy (afd_handle s)) (\<lambda>_.
              bnd (if iocp s \<noteq> 0 then bnd (sys (Close_handle (iocp s))) (\<lambda>_. return ()) else return ()) (\<lambda>_.
              if by_regs \<and> \<not> by_ops then AfdHelper_destroy (afd_handle s) else return ())))
          | Linux \<Rightarrow> close_descriptor (backend s)
          | Kqueue \<Rightarrow> close_descriptor (backend s)
          | Poll_Unix \<Rightarrow> return ()) (\<lambda>_.
     modify (\<lambda>w. w\<lparr>selectors := (selectors w)(this := None)\<rparr>))))"

section \<open>The back ends\<close>

definition validate :: "int \<Rightarrow> interest \<Rightarrow> (io_world, unit) comp" where
  "validate handle interests = bnd (asks platform) (\<lambda>p.
     if handle = invalid_native_handle p \<and> (p = Windows \<longrightarrow> handle \<noteq> 0)
     then throw (System_Error (make_error_code p bad_file_descriptor) ''invalid native handle'')
     else if Interest_empty interests
     then throw (System_Error (make_error_code p invalid_argument) ''interest set must not be empty'')
     else return ())"

definition Selector_find :: "nat \<Rightarrow> int \<Rightarrow> (io_world, registration option) comp" where
  "Selector_find this handle = with_selector this (\<lambda>s. return (map_of (registrations s) handle))"

definition snapshot :: "nat \<Rightarrow> (io_world, registration list) comp" where
  "snapshot this = with_selector this (\<lambda>s. bnd allocate (\<lambda>_. return (map snd (registrations s))))"

definition epoll_registration :: "int \<Rightarrow> interest \<Rightarrow> epoll_event" where
  "epoll_registration handle interests = \<lparr>ep_events = to_epoll_events interests, ep_fd = handle\<rparr>"

definition attach_afd_state :: "nat \<Rightarrow> int \<Rightarrow> nat \<Rightarrow> (io_world, unit) comp" where
  "attach_afd_state this handle a = with_selector this (\<lambda>s.
     case map_of (registrations s) handle of
       None \<Rightarrow> throw Out_Of_Range
     | Some r \<Rightarrow> set_selector this (s\<lparr>registrations :=
         AList.update handle (r\<lparr>reg_afd_state := Some a\<rparr>) (registrations s)\<rparr>))"

text \<open>One definition per branch of the preprocessor.\<close>

definition add_iocp :: "nat \<Rightarrow> selector \<Rightarrow> int \<Rightarrow> source_kind \<Rightarrow> token \<Rightarrow> interest \<Rightarrow> (io_world, unit) comp" where
  "add_iocp this s handle kind token interests =
     (if kind = Kind_socket then
        bnd allocate (\<lambda>_.
        bnd (AfdSocketState_new handle (afd_handle s)) (\<lambda>a.
        bnd (attach_afd_state this handle a) (\<lambda>_.
        set_afd_interest a token interests)))
      else if kind = Kind_handle then
        bnd (sys (Associate_iocp handle (iocp s) handle)) (\<lambda>r.
        if ret r = 0 then throw_last_system_error ''CreateIoCompletionPort(handle)'' else return ())
      else return ())"

definition add_epoll :: "selector \<Rightarrow> int \<Rightarrow> interest \<Rightarrow> (io_world, unit) comp" where
  "add_epoll s handle interests =
     bnd (sys (Epoll_ctl (backend s) EPOLL_CTL_ADD handle (Some (epoll_registration handle interests)))) (\<lambda>r.
     if ret r = -1 then throw_errno ''epoll_ctl(ADD)'' else return ())"

definition add_kqueue :: "selector \<Rightarrow> int \<Rightarrow> token \<Rightarrow> interest \<Rightarrow> (io_world, unit) comp" where
  "add_kqueue s handle token interests = bnd (asks macro_defined) (\<lambda>defs.
     let changes = append_kqueue_changes defs [] handle interests token (EV_ADD OR EV_CLEAR) in
     if changes = [] then return ()
     else
       bnd allocate (\<lambda>_.
       bnd (sys (Kevent (backend s) changes 0 None)) (\<lambda>r.
       if ret r = -1 then throw_errno ''kevent(ADD)'' else return ())))"

definition add_to_backend :: "nat \<Rightarrow> int \<Rightarrow> source_kind \<Rightarrow> token \<Rightarrow> interest \<Rightarrow> (io_world, unit) comp" where
  "add_to_backend this handle kind token interests =
     bnd (asks platform) (\<lambda>p. with_selector this (\<lambda>s.
     case p of
       Windows \<Rightarrow> add_iocp this s handle kind token interests
     | Linux \<Rightarrow> add_epoll s handle interests
     | Kqueue \<Rightarrow> add_kqueue s handle token interests
     | Poll_Unix \<Rightarrow> return ()))"

definition all_interests :: interest where
  "all_interests = Interest_add (Interest_add (Interest_add (Interest_add READABLE WRITABLE) AIO) LIO) PRIORITY"

definition update_iocp :: "nat \<Rightarrow> int \<Rightarrow> source_kind \<Rightarrow> token \<Rightarrow> interest \<Rightarrow> (io_world, unit) comp" where
  "update_iocp this handle kind token interests =
     (if kind = Kind_socket then
        bnd (Selector_find this handle) (\<lambda>registration.
        case registration of
          None \<Rightarrow> return ()
        | Some r \<Rightarrow> (case reg_afd_state r of None \<Rightarrow> return () | Some a \<Rightarrow> set_afd_interest a token interests))
      else return ())"

definition update_epoll :: "selector \<Rightarrow> int \<Rightarrow> interest \<Rightarrow> (io_world, unit) comp" where
  "update_epoll s handle interests =
     bnd (sys (Epoll_ctl (backend s) EPOLL_CTL_MOD handle (Some (epoll_registration handle interests)))) (\<lambda>r.
     if ret r = -1 then throw_errno ''epoll_ctl(MOD)'' else return ())"

definition update_kqueue :: "selector \<Rightarrow> int \<Rightarrow> token \<Rightarrow> interest \<Rightarrow> (io_world, unit) comp" where
  "update_kqueue s handle token interests = bnd (asks macro_defined) (\<lambda>defs.
     let changes = append_kqueue_changes defs
           (append_kqueue_changes defs [] handle all_interests token EV_DELETE)
           handle interests token (EV_ADD OR EV_CLEAR) in
     if changes = [] then return ()
     else bnd allocate (\<lambda>_. bnd (sys (Kevent (backend s) changes 0 None)) (\<lambda>_. return ())))"

definition update_backend :: "nat \<Rightarrow> int \<Rightarrow> source_kind \<Rightarrow> token \<Rightarrow> interest \<Rightarrow> (io_world, unit) comp" where
  "update_backend this handle kind token interests =
     bnd (asks platform) (\<lambda>p. with_selector this (\<lambda>s.
     case p of
       Windows \<Rightarrow> update_iocp this handle kind token interests
     | Linux \<Rightarrow> update_epoll s handle interests
     | Kqueue \<Rightarrow> update_kqueue s handle token interests
     | Poll_Unix \<Rightarrow> return ()))"

definition remove_iocp :: "registration \<Rightarrow> (io_world, unit) comp" where
  "remove_iocp registration =
     (case reg_afd_state registration of
        None \<Rightarrow> return ()
      | Some a \<Rightarrow>
          with_afd a (\<lambda>state.
          bnd (set_afd a (state\<lparr>delete_pending := True\<rparr>)) (\<lambda>_.
          if afd_status state = Afd_pending then
            catch
              (bnd (AfdHelper_cancel (afd_helper state) a) (\<lambda>_.
               set_afd a (state\<lparr>delete_pending := True, afd_status := Afd_cancelled\<rparr>)))
              (\<lambda>_. return ())
          else return ())))"

definition remove_epoll :: "selector \<Rightarrow> registration \<Rightarrow> (io_world, unit) comp" where
  "remove_epoll s registration =
     bnd (sys (Epoll_ctl (backend s) EPOLL_CTL_DEL (reg_handle registration) None)) (\<lambda>_. return ())"

definition remove_kqueue :: "selector \<Rightarrow> registration \<Rightarrow> (io_world, unit) comp" where
  "remove_kqueue s registration = bnd (asks macro_defined) (\<lambda>defs.
     let changes = append_kqueue_changes defs [] (reg_handle registration)
           (reg_interests registration) (reg_token registration) EV_DELETE in
     if changes = [] then return ()
     else bnd allocate (\<lambda>_. bnd (sys (Kevent (backend s) changes 0 None)) (\<lambda>_. return ())))"

definition remove_from_backend :: "nat \<Rightarrow> registration \<Rightarrow> (io_world, unit) comp" where
  "remove_from_backend this registration = noexcept
     (bnd (asks platform) (\<lambda>p. with_selector this (\<lambda>s.
      case p of
        Windows \<Rightarrow> remove_iocp registration
      | Linux \<Rightarrow> remove_epoll s registration
      | Kqueue \<Rightarrow> remove_kqueue s registration
      | Poll_Unix \<Rightarrow> return ())))"

section \<open>Registration\<close>

definition erase_registration :: "nat \<Rightarrow> int \<Rightarrow> (io_world, unit) comp" where
  "erase_registration this handle = with_selector this (\<lambda>s.
     set_selector this (s\<lparr>registrations := AList.delete handle (registrations s)\<rparr>))"

definition emplace_registration :: "nat \<Rightarrow> registration \<Rightarrow> (io_world, bool) comp" where
  "emplace_registration this r = bnd allocate (\<lambda>_. with_selector this (\<lambda>s.
     case map_of (registrations s) (reg_handle r) of
       Some _ \<Rightarrow> return False
     | None \<Rightarrow>
         bnd (set_selector this (s\<lparr>registrations := (reg_handle r, r) # registrations s\<rparr>)) (\<lambda>_.
         return True)))"

definition Selector_add ::
  "nat \<Rightarrow> int \<Rightarrow> source_kind \<Rightarrow> token \<Rightarrow> interest \<Rightarrow> bool \<Rightarrow> (io_world, unit) comp" where
  "Selector_add this handle kind token interests auto_drain =
     bnd (asks platform) (\<lambda>p.
     bnd (validate handle interests) (\<lambda>_.
     bnd (emplace_registration this \<lparr>reg_handle = handle, reg_kind = kind, reg_token = token,
       reg_interests = interests, reg_auto_drain = auto_drain, reg_afd_state = None\<rparr>) (\<lambda>inserted.
     if \<not> inserted
     then throw (System_Error (make_error_code p file_exists) ''source is already registered'')
     else
       catch (add_to_backend this handle kind token interests)
         (\<lambda>e. bnd (erase_registration this handle) (\<lambda>_. throw e)))))"

definition Selector_update ::
  "nat \<Rightarrow> int \<Rightarrow> source_kind \<Rightarrow> token \<Rightarrow> interest \<Rightarrow> (io_world, unit) comp" where
  "Selector_update this handle kind token interests =
     bnd (asks platform) (\<lambda>p.
     bnd (validate handle interests) (\<lambda>_.
     bnd (with_selector this (\<lambda>s.
       case map_of (registrations s) handle of
         None \<Rightarrow> throw (System_Error (make_error_code p no_such_file_or_directory) ''source is not registered'')
       | Some r \<Rightarrow> set_selector this (s\<lparr>registrations := AList.update handle
           (r\<lparr>reg_kind := kind, reg_token := token, reg_interests := interests\<rparr>) (registrations s)\<rparr>))) (\<lambda>_.
     update_backend this handle kind token interests)))"

definition Selector_remove :: "nat \<Rightarrow> int \<Rightarrow> (io_world, unit) comp" where
  "Selector_remove this handle =
     bnd (asks platform) (\<lambda>p.
     with_selector this (\<lambda>s.
     case map_of (registrations s) handle of
       None \<Rightarrow> throw (System_Error (make_error_code p no_such_file_or_directory) ''source is not registered'')
     | Some registration \<Rightarrow>
         bnd (set_selector this (s\<lparr>registrations := AList.delete handle (registrations s),
           waker_handle := (if waker_handle s = handle then invalid_native_handle p else waker_handle s)\<rparr>)) (\<lambda>_.
         remove_from_backend this registration)))"

definition add_waker :: "nat \<Rightarrow> int \<Rightarrow> token \<Rightarrow> (io_world, unit) comp" where
  "add_waker this handle token = bnd (asks platform) (\<lambda>p.
     if p = Windows then
       with_selector this (\<lambda>s.
       if waker_active s
       then throw (System_Error (make_error_code p device_or_resource_busy) ''only one Waker can be active per Poll'')
       else set_selector this (s\<lparr>waker_active := True\<rparr>))
     else
       bnd (Selector_add this handle Kind_raw_descriptor token READABLE True) (\<lambda>_.
       with_selector this (\<lambda>s. set_selector this (s\<lparr>waker_handle := handle\<rparr>))))"

definition remove_waker :: "nat \<Rightarrow> int \<Rightarrow> (io_world, unit) comp" where
  "remove_waker this handle = bnd (asks platform) (\<lambda>p.
     if p = Windows then with_selector this (\<lambda>s. set_selector this (s\<lparr>waker_active := False\<rparr>))
     else catch (Selector_remove this handle) (\<lambda>_. return ()))"

definition post_packet :: "nat \<Rightarrow> token \<Rightarrow> interest \<Rightarrow> bool \<Rightarrow> bool \<Rightarrow> bool \<Rightarrow> (io_world, unit) comp" where
  "post_packet this token readiness error read_closed write_closed = with_selector this (\<lambda>s.
     bnd allocate (\<lambda>_.
     bnd fresh_addr (\<lambda>raw.
     bnd (modify (\<lambda>w. w\<lparr>packets :=
       (raw, Event_new token readiness error read_closed write_closed) # packets w\<rparr>)) (\<lambda>_.
     bnd (sys (Post_packet (iocp s) raw)) (\<lambda>r.
     if ret r = 0 then
       bnd (modify (\<lambda>w. w\<lparr>packets := AList.delete raw (packets w)\<rparr>)) (\<lambda>_.
       throw_last_system_error ''PostQueuedCompletionStatus'')
     else return ())))))"

definition post_waker :: "nat \<Rightarrow> token \<Rightarrow> (io_world, unit) comp" where
  "post_waker this token = bnd (asks platform) (\<lambda>p.
     if p = Windows then post_packet this token READABLE False False False else return ())"

end
