(* ===== verification/Selector_Invariant.thy ===== *)
theory Selector_Invariant
  imports Selector
begin

text \<open>
  The invariant of the selectors and that every operation keeps it, whatever its outcome: the
  keys of a table are distinct and valid, each registration carries its own handle and a
  non-empty interest, the waker's handle is registered, and the AFD states that registrations
  refer to exist and have at most one operation in flight.
\<close>

section \<open>Definitions\<close>

definition registrations_ok :: "platform \<Rightarrow> selector \<Rightarrow> bool" where
  "registrations_ok p s \<longleftrightarrow>
     distinct (map fst (registrations s))
     \<and> (\<forall>(h, r) \<in> set (registrations s). reg_handle r = h \<and> h \<noteq> invalid_native_handle p
          \<and> \<not> Interest_empty (reg_interests r))
     \<and> (waker_handle s = invalid_native_handle p \<or> waker_handle s \<in> fst ` set (registrations s))"

definition refs_ok :: "io_world \<Rightarrow> selector \<Rightarrow> bool" where
  "refs_ok w s \<longleftrightarrow> (\<forall>e \<in> set (registrations s). \<forall>a. reg_afd_state (snd e) = Some a \<longrightarrow> afd_states w a \<noteq> None)"

definition tables_ok :: "platform \<Rightarrow> io_world \<Rightarrow> bool" where
  "tables_ok p w \<longleftrightarrow>
     (\<forall>this s. selectors w this = Some s \<longrightarrow> this < next_addr w \<and> registrations_ok p s \<and> refs_ok w s)"

definition io_ok :: "env \<Rightarrow> io_world \<Rightarrow> bool" where
  "io_ok env w \<longleftrightarrow> tables_ok (platform env) w \<and> afd_ok w"

section \<open>Running the small operations\<close>

definition validation_error :: "platform \<Rightarrow> int \<Rightarrow> interest \<Rightarrow> exn option" where
  "validation_error p handle interests =
     (if handle = invalid_native_handle p
      then Some (System_Error (make_error_code p bad_file_descriptor) ''invalid native handle'')
      else if Interest_empty interests
      then Some (System_Error (make_error_code p invalid_argument) ''interest set must not be empty'')
      else None)"

lemma invalid_native_handle_nonzero [simp]: "invalid_native_handle p \<noteq> 0"
  by (simp add: invalid_native_handle_def)

lemma validate_run [comp_simps]:
  "validate handle interests env w =
     (case validation_error (platform env) handle interests of Some e \<Rightarrow> (Throw e, w) | None \<Rightarrow> (Ret (), w))"
  "bnd (validate handle interests) f env w =
     (case validation_error (platform env) handle interests of Some e \<Rightarrow> (Throw e, w) | None \<Rightarrow> f () env w)"
  by (cases "handle = invalid_native_handle (platform env)"; cases "Interest_empty interests";
      simp add: validate_def validation_error_def comp_simps)+

lemma Selector_find_run [comp_simps]:
  "bnd (Selector_find this handle) f env w = (case selectors w this of
     None \<Rightarrow> (Undefined, w) | Some s \<Rightarrow> f (map_of (registrations s) handle) env w)"
  by (simp add: Selector_find_def comp_simps split: option.splits)

section \<open>Keeping the invariant\<close>

lemma refs_ok_mono:
  assumes "refs_ok w s" "\<And>a. afd_states w a \<noteq> None \<Longrightarrow> afd_states w' a \<noteq> None"
  shows "refs_ok w' s"
  using assms unfolding refs_ok_def by blast

lemma tables_ok_grow:
  assumes "tables_ok p w" "selectors w' = selectors w" "next_addr w \<le> next_addr w'"
    "\<And>a. afd_states w a \<noteq> None \<Longrightarrow> afd_states w' a \<noteq> None"
  shows "tables_ok p w'"
  unfolding tables_ok_def
proof (intro allI impI)
  fix this s
  assume "selectors w' this = Some s"
  then have "this < next_addr w" "registrations_ok p s" "refs_ok w s"
    using assms(1,2) by (simp_all add: tables_ok_def)
  with assms(3,4) show "this < next_addr w' \<and> registrations_ok p s \<and> refs_ok w' s"
    using refs_ok_mono by fastforce
qed

lemma io_ok_cong: "objects w' = objects w \<Longrightarrow> io_ok env w \<Longrightarrow> io_ok env w'"
  unfolding io_ok_def using afd_ok_cong [of w' w] by (auto simp: tables_ok_def refs_ok_def objects_def)

lemma io_ok_logged [simp]: "io_ok env w \<Longrightarrow> io_ok env (logged env c w)"
  by (rule io_ok_cong) simp_all

lemma keeps_io_ok_quiet [keeps_intros]: "quiet env m \<Longrightarrow> keeps env (io_ok env) m"
  by (erule keeps_by_quiet) (rule io_ok_cong)

lemma io_ok_selector:
  "io_ok env w \<Longrightarrow> selectors w this = Some s \<Longrightarrow> registrations_ok (platform env) s"
  by (auto simp: io_ok_def tables_ok_def)

lemma io_ok_afd_ref:
  assumes "io_ok env w" "selectors w this = Some s" "map_of (registrations s) h = Some r"
    "reg_afd_state r = Some a"
  obtains st where "afd_states w a = Some st"
  using assms map_of_SomeD [OF assms(3)] by (fastforce simp: io_ok_def tables_ok_def refs_ok_def)

lemma io_ok_refs: "io_ok env w \<Longrightarrow> selectors w this = Some s \<Longrightarrow> refs_ok w s"
  by (simp add: io_ok_def tables_ok_def refs_ok_def)

lemma io_ok_set_selector:
  assumes "io_ok env w" "selectors w this = Some s" "registrations_ok (platform env) s'" "refs_ok w s'"
  shows "io_ok env (w\<lparr>selectors := (selectors w)(this \<mapsto> s')\<rparr>)"
proof -
  have "afd_ok (w\<lparr>selectors := (selectors w)(this \<mapsto> s')\<rparr>)"
    using assms(1) by (simp add: io_ok_def afd_ok_def)
  then show ?thesis using assms by (simp add: io_ok_def tables_ok_def refs_ok_def)
qed

lemma io_ok_afd_change:
  assumes "io_ok env w" "afd_change a w r w'"
  shows "io_ok env w'"
proof -
  have dom: "afd_states w b \<noteq> None \<Longrightarrow> afd_states w' b \<noteq> None" for b
    using assms(2) by (cases "b = a") (auto simp: afd_change_def)
  have "tables_ok (platform env) w'"
    by (rule tables_ok_grow [of _ w, OF _ _ _ dom]) (use assms in \<open>simp_all add: io_ok_def afd_change_def\<close>)
  then show ?thesis using assms(2) by (simp add: io_ok_def afd_change_def)
qed

lemma io_ok_set_afd:
  assumes "io_ok env w" "afd_states w a = Some st" "afd_status st' = Afd_idle \<longleftrightarrow> afd_status st = Afd_idle"
  shows "io_ok env (w\<lparr>afd_states := (afd_states w)(a \<mapsto> st')\<rparr>)"
  unfolding io_ok_def
proof
  show "tables_ok (platform env) (w\<lparr>afd_states := (afd_states w)(a \<mapsto> st')\<rparr>)"
    by (rule tables_ok_grow [of _ w]) (use assms(1) in \<open>simp_all add: io_ok_def\<close>)
  show "afd_ok (w\<lparr>afd_states := (afd_states w)(a \<mapsto> st')\<rparr>)"
    using assms by (intro afd_ok_same_idle) (simp_all add: io_ok_def)
qed

lemma keeps_io_ok_issue [keeps_intros]: "keeps env (io_ok env) (issue_afd_poll a)"
proof (rule keepsI)
  fix w
  assume "io_ok env w"
  moreover obtain r w' where run: "issue_afd_poll a env w = (r, w')" by (meson surj_pair)
  ultimately have "afd_change a w r w'" by (intro issue_afd_poll_change) (simp_all add: io_ok_def)
  with \<open>io_ok env w\<close> show "io_ok env (snd (issue_afd_poll a env w))"
    using run io_ok_afd_change by simp
qed

lemma keeps_io_ok_set_afd_interest [keeps_intros]: "keeps env (io_ok env) (set_afd_interest a token interests)"
proof (rule keepsI)
  fix w
  assume ok: "io_ok env w"
  show "io_ok env (snd (set_afd_interest a token interests env w))"
  proof (cases "afd_states w a")
    case None
    then show ?thesis using ok by (simp add: set_afd_interest_def comp_simps)
  next
    case (Some st)
    let ?st = "st\<lparr>afd_token := token, afd_interests := interests, user_events := interests_to_afd_flags interests\<rparr>"
    have "io_ok env (w\<lparr>afd_states := (afd_states w)(a \<mapsto> ?st)\<rparr>)"
      using ok Some by (rule io_ok_set_afd) simp
    from keepsD [OF keeps_io_ok_issue this] show ?thesis
      using Some by (simp add: set_afd_interest_def comp_simps)
  qed
qed

lemma io_ok_next: "io_ok env w \<Longrightarrow> io_ok env (w\<lparr>next_addr := Suc (next_addr w)\<rparr>)"
  using afd_ok_next tables_ok_grow [of _ w "w\<lparr>next_addr := Suc (next_addr w)\<rparr>"] by (simp add: io_ok_def)

lemma io_ok_new_state:
  assumes "io_ok env w" "afd_status st = Afd_idle" "a = next_addr w"
  shows "io_ok env (w\<lparr>next_addr := Suc a, afd_states := (afd_states w)(a \<mapsto> st)\<rparr>)" (is "io_ok env ?w")
proof -
  have "afd_states w (next_addr w) = None" using assms(1) by (simp add: io_ok_def afd_ok_def)
  moreover from this have "next_addr w \<notin> snd ` set (operations w)"
    using assms(1) by (auto simp: io_ok_def afd_ok_def split: option.splits)
  ultimately have "afd_ok ?w" using assms by (auto simp: io_ok_def afd_ok_def)
  moreover have "tables_ok (platform env) ?w"
    by (rule tables_ok_grow [of _ w]) (use assms in \<open>simp_all add: io_ok_def\<close>)
  ultimately show ?thesis by (simp add: io_ok_def)
qed

lemma AfdSocketState_new_result:
  assumes "AfdSocketState_new h helper env w = (r, w')" "io_ok env w"
  shows "io_ok env w' \<and> selectors w' = selectors w \<and> (\<forall>a. r = Ret a \<longrightarrow> afd_states w' a \<noteq> None)"
  using quiet_get_base_socket assms(1) unfolding AfdSocketState_new_def
proof (cases rule: quiet_bnd_cases)
  case fails
  then show ?thesis using assms(2) io_ok_cong by (auto simp: objects_def)
next
  case (returns base w1)
  have "selectors w1 = selectors w" using returns(2) by (simp add: objects_def)
  moreover have "io_ok env w1" using assms(2) returns(2) io_ok_cong by blast
  ultimately show ?thesis using returns(3) by (auto simp: comp_simps intro: io_ok_new_state)
qed

text \<open>The first statement of a sequence, at one world.\<close>

lemma after_bnd:
  assumes "\<And>r w1. m env w = (r, w1) \<Longrightarrow> I w1" "\<And>x w1. m env w = (Ret x, w1) \<Longrightarrow> I (snd (f x env w1))"
  shows "I (snd (bnd m f env w))"
proof (cases "m env w")
  case (Pair r w1)
  with assms show ?thesis by (cases r) (auto simp: bnd_def)
qed

lemma refs_ok_map_of:
  "refs_ok w s \<Longrightarrow> map_of (registrations s) h = Some r \<Longrightarrow> reg_afd_state r = Some a \<Longrightarrow> afd_states w a \<noteq> None"
  unfolding refs_ok_def using map_of_SomeD by fastforce

text \<open>Changes of a table that keep it well-formed.\<close>

lemma set_AList_update: "set (AList.update k v xs) \<subseteq> insert (k, v) (set xs)"
  by (induction xs) auto

lemma set_AList_delete: "set (AList.delete k xs) = {e \<in> set xs. fst e \<noteq> k}"
  by (auto simp: AList.delete_eq)

lemma registrations_ok_update:
  assumes "registrations_ok p s" "map_of (registrations s) h = Some r0" "reg_handle r = h"
    "\<not> Interest_empty (reg_interests r)"
  shows "registrations_ok p (s\<lparr>registrations := AList.update h r (registrations s)\<rparr>)"
proof -
  have "h \<noteq> invalid_native_handle p" using assms(1) map_of_SomeD [OF assms(2)] by (auto simp: registrations_ok_def)
  moreover have "fst ` set (registrations s) \<subseteq> fst ` set (AList.update h r (registrations s))"
    by (auto simp: dom_update)
  ultimately show ?thesis using assms set_AList_update [of h r "registrations s"]
    unfolding registrations_ok_def by auto
qed

lemma registrations_ok_insert:
  assumes "registrations_ok p s" "map_of (registrations s) (reg_handle r) = None"
    "reg_handle r \<noteq> invalid_native_handle p" "\<not> Interest_empty (reg_interests r)"
  shows "registrations_ok p (s\<lparr>registrations := (reg_handle r, r) # registrations s\<rparr>)"
  using assms by (auto simp: registrations_ok_def map_of_eq_None_iff)

lemma registrations_ok_delete:
  assumes "registrations_ok p s" "waker = invalid_native_handle p \<or> waker = waker_handle s \<and> waker \<noteq> h"
  shows "registrations_ok p (s\<lparr>registrations := AList.delete h (registrations s), waker_handle := waker\<rparr>)"
  using assms by (auto simp: registrations_ok_def set_AList_delete distinct_delete)

lemma refs_ok_registrations:
  assumes "refs_ok w s" "\<And>e a. e \<in> set (registrations s') \<Longrightarrow> e \<notin> set (registrations s) \<Longrightarrow>
    reg_afd_state (snd e) = Some a \<Longrightarrow> afd_states w a \<noteq> None"
  shows "refs_ok w s'"
  using assms unfolding refs_ok_def by blast

section \<open>The table as the user sees it\<close>

text \<open>
  The reference to an AFD state is internal to the Windows back end. What the back end does to
  a selector leaves its view, the table without these references, unchanged; and on a live
  selector it never reaches undefined behaviour.
\<close>

definition strip :: "registration \<Rightarrow> registration" where
  "strip r = r\<lparr>reg_afd_state := None\<rparr>"

definition view :: "selector \<Rightarrow> selector" where
  "view s = s\<lparr>registrations := map (map_prod id strip) (registrations s)\<rparr>"

definition backend_ok :: "env \<Rightarrow> nat \<Rightarrow> selector \<Rightarrow> io_world \<Rightarrow> 'a outcome \<Rightarrow> io_world \<Rightarrow> bool" where
  "backend_ok env this s w r w' \<longleftrightarrow>
     io_ok env w' \<and> (\<exists>s'. selectors w' = (selectors w)(this \<mapsto> s') \<and> view s' = view s)
     \<and> packets w' = packets w \<and> cur_events w' = cur_events w \<and> r \<noteq> Undefined \<and> r \<noteq> Diverge"

lemma map_of_view: "map_of (registrations (view s)) h = map_option strip (map_of (registrations s) h)"
proof -
  have "map_of (map (map_prod id strip) xs) h = map_option strip (map_of xs h)" for xs :: "(int \<times> registration) list"
    by (induction xs) auto
  then show ?thesis by (simp add: view_def)
qed

lemma view_lookup:
  assumes "view s' = view s"
  shows "map_option strip (map_of (registrations s') h) = map_option strip (map_of (registrations s) h)"
  using map_of_view [of s h] map_of_view [of s' h] assms by simp

lemma view_registered:
  assumes "view s' = view s" "map_of (registrations s) h = Some r"
  obtains r' where "map_of (registrations s') h = Some r'" "strip r' = strip r"
  using view_lookup [OF assms(1), of h] assms(2) by (cases "map_of (registrations s') h") auto

lemma view_fields:
  assumes "view s' = view s"
  shows "waker_handle s' = waker_handle s" "waker_active s' = waker_active s" "backend s' = backend s"
  using arg_cong [OF assms, of waker_handle] arg_cong [OF assms, of waker_active]
    arg_cong [OF assms, of backend]
  by (simp_all add: view_def)

lemma strip_update: "map_of xs h = Some r0 \<Longrightarrow> strip r = strip r0 \<Longrightarrow>
  map (map_prod id strip) (AList.update h r xs) = map (map_prod id strip) xs"
  by (induction xs) auto

lemma backend_ok_quiet:
  assumes "quiet env m" "safe env m" "m env w = (r, w')" "io_ok env w" "selectors w this = Some s"
  shows "backend_ok env this s w r w'"
  using quiet_fields [OF assms(1,3)] safeD [OF assms(2,3)] io_ok_cong [OF quiet_objects [OF assms(1,3)]] assms(4,5)
  by (auto simp: backend_ok_def intro!: exI [of _ s])

lemma backend_ok_refl:
  "io_ok env w \<Longrightarrow> selectors w this = Some s \<Longrightarrow> r \<noteq> Undefined \<Longrightarrow> r \<noteq> Diverge \<Longrightarrow>
   backend_ok env this s w r w"
  by (auto simp: backend_ok_def intro!: exI [of _ s])

lemma backend_ok_objects:
  assumes "backend_ok env this s w r w1" "objects w2 = objects w1" "r' \<noteq> Undefined" "r' \<noteq> Diverge"
  shows "backend_ok env this s w r' w2"
  using assms io_ok_cong [OF assms(2)] by (auto simp: backend_ok_def objects_def)

lemma backend_ok_bnd:
  assumes run: "bnd m f env w = (r, w')"
    and m: "\<And>r1 w1. m env w = (r1, w1) \<Longrightarrow> backend_ok env this s w r1 w1"
    and f: "\<And>x w1 s1. m env w = (Ret x, w1) \<Longrightarrow> io_ok env w1 \<Longrightarrow> selectors w1 this = Some s1 \<Longrightarrow>
      view s1 = view s \<Longrightarrow> f x env w1 = (r, w') \<Longrightarrow> backend_ok env this s1 w1 r w'"
  shows "backend_ok env this s w r w'"
proof (cases "m env w")
  case (Pair r1 w1)
  note ok1 = m [OF Pair]
  show ?thesis
  proof (cases "\<exists>x. r1 = Ret x")
    case True
    then obtain x where x: "m env w = (Ret x, w1)" using Pair by blast
    from ok1 obtain s1 where s1: "selectors w1 = (selectors w)(this \<mapsto> s1)" "view s1 = view s"
      by (auto simp: backend_ok_def)
    have "backend_ok env this s1 w1 r w'"
      by (rule f [OF x]) (use ok1 s1 run x in \<open>auto simp: backend_ok_def bnd_def\<close>)
    then show ?thesis using ok1 s1 by (auto simp: backend_ok_def)
  next
    case False
    then show ?thesis using run Pair ok1 by (cases r1) (auto simp: bnd_def backend_ok_def)
  qed
qed

lemma attach_afd_state_ok:
  assumes "attach_afd_state this h a env w = (r, w')" "io_ok env w" "selectors w this = Some s"
    and "map_of (registrations s) h = Some r0" "afd_states w a \<noteq> None"
  shows "backend_ok env this s w r w'"
proof -
  let ?r = "r0\<lparr>reg_afd_state := Some a\<rparr>"
  let ?s = "s\<lparr>registrations := AList.update h ?r (registrations s)\<rparr>"
  have "reg_handle r0 = h" "\<not> Interest_empty (reg_interests r0)"
    using io_ok_selector [OF assms(2,3)] map_of_SomeD [OF assms(4)] by (auto simp: registrations_ok_def)
  then have ok: "registrations_ok (platform env) ?s"
    using io_ok_selector [OF assms(2,3)] assms(4) by (intro registrations_ok_update) simp_all
  have "refs_ok w ?s"
    by (rule refs_ok_registrations [OF io_ok_refs [OF assms(2,3)]])
      (use set_AList_update [of h ?r "registrations s"] assms(5) in auto)
  from io_ok_set_selector [OF assms(2,3) ok this]
  show ?thesis using assms(1,3,4) strip_update [OF assms(4), of ?r]
    by (auto simp: attach_afd_state_def comp_simps backend_ok_def view_def strip_def)
qed

lemma set_afd_interest_ok:
  assumes "set_afd_interest a token interests env w = (r, w')" "io_ok env w" "selectors w this = Some s"
    and "afd_states w a \<noteq> None"
  shows "backend_ok env this s w r w'"
proof -
  from assms(4) obtain st where st: "afd_states w a = Some st" by blast
  let ?w = "w\<lparr>afd_states := (afd_states w)(a \<mapsto> st\<lparr>afd_token := token, afd_interests := interests,
    user_events := interests_to_afd_flags interests\<rparr>)\<rparr>"
  have run: "issue_afd_poll a env ?w = (r, w')"
    using assms(1) st by (simp add: set_afd_interest_def comp_simps)
  have "afd_change a ?w r w'" using set_afd_interest_change [OF assms(1) _ st] assms(2) by (simp add: io_ok_def)
  moreover have "io_ok env w'" using keeps_result [OF keeps_io_ok_set_afd_interest assms(1,2)] .
  moreover have "r \<noteq> Undefined \<and> r \<noteq> Diverge" by (rule issue_afd_poll_safe [OF _ run]) simp
  ultimately show ?thesis using assms(3) by (auto simp: backend_ok_def afd_change_def intro!: exI [of _ s])
qed

lemma AfdSocketState_new_ok:
  assumes "AfdSocketState_new h helper env w = (r, w')" "io_ok env w" "selectors w this = Some s"
  shows "backend_ok env this s w r w'"
proof -
  have "packets w' = packets w \<and> cur_events w' = cur_events w"
    using quiet_get_base_socket assms(1) unfolding AfdSocketState_new_def
    by (cases rule: quiet_bnd_cases) (auto simp: comp_simps objects_def)
  moreover have "r \<noteq> Undefined \<and> r \<noteq> Diverge"
    using safeD [OF safe_AfdHelper(6) assms(1)] .
  ultimately show ?thesis using AfdSocketState_new_result [OF assms(1,2)] assms(3)
    by (auto simp: backend_ok_def intro!: exI [of _ s])
qed

text \<open>Every branch that only talks to the system is quiet and safe.\<close>

lemma add_afd_socket_ok:
  assumes run: "bnd allocate (\<lambda>_. bnd (AfdSocketState_new h helper) (\<lambda>a.
      bnd (attach_afd_state this h a) (\<lambda>_. set_afd_interest a token interests))) env w = (r, w')"
    and ok: "io_ok env w" "selectors w this = Some s" and r0: "map_of (registrations s) h = Some r0"
  shows "backend_ok env this s w r w'"
  using run
proof (rule backend_ok_bnd)
  show "backend_ok env this s w r1 w1" if "allocate env w = (r1, w1)" for r1 w1
    using backend_ok_quiet [OF quiet_allocate safe_allocate that ok] .
next
  fix x w1 s1
  assume ok1: "io_ok env w1" "selectors w1 this = Some s1" and v1: "view s1 = view s"
    and run1: "bnd (AfdSocketState_new h helper) (\<lambda>a.
      bnd (attach_afd_state this h a) (\<lambda>_. set_afd_interest a token interests)) env w1 = (r, w')"
  from run1 show "backend_ok env this s1 w1 r w'"
  proof (rule backend_ok_bnd)
    show "backend_ok env this s1 w1 r2 w2" if "AfdSocketState_new h helper env w1 = (r2, w2)" for r2 w2
      using AfdSocketState_new_ok [OF that ok1] .
  next
    fix a w2 s2
    assume new: "AfdSocketState_new h helper env w1 = (Ret a, w2)"
      and ok2: "io_ok env w2" "selectors w2 this = Some s2" and v2: "view s2 = view s1"
      and run2: "bnd (attach_afd_state this h a) (\<lambda>_. set_afd_interest a token interests) env w2 = (r, w')"
    have a: "afd_states w2 a \<noteq> None" using AfdSocketState_new_result [OF new ok1(1)] by blast
    obtain r2 where r2: "map_of (registrations s2) h = Some r2"
      using view_registered [of s2 s h r0] v1 v2 r0 by metis
    from run2 show "backend_ok env this s2 w2 r w'"
    proof (rule backend_ok_bnd)
      show "backend_ok env this s2 w2 r3 w3" if "attach_afd_state this h a env w2 = (r3, w3)" for r3 w3
        using attach_afd_state_ok [OF that ok2 r2 a] .
    next
      fix x w3 s3
      assume att: "attach_afd_state this h a env w2 = (Ret x, w3)" and ok3: "io_ok env w3" "selectors w3 this = Some s3"
        and run3: "set_afd_interest a token interests env w3 = (r, w')"
      have "afd_states w3 a \<noteq> None" using att a ok2(2) r2 by (auto simp: attach_afd_state_def comp_simps)
      from set_afd_interest_ok [OF run3 ok3 this] show "backend_ok env this s3 w3 r w'" .
    qed
  qed
qed

lemma quiet_return [keeps_intros]: "quiet env (return x)"
  by (rule quietI) (intro keeps_intros)

lemma quiet_backends [keeps_intros]:
  "quiet env (add_epoll s h i)" "quiet env (add_kqueue s h t i)"
  "quiet env (update_epoll s h i)" "quiet env (update_kqueue s h t i)"
  "quiet env (remove_epoll s reg)" "quiet env (remove_kqueue s reg)"
  unfolding add_epoll_def add_kqueue_def update_epoll_def update_kqueue_def remove_epoll_def remove_kqueue_def
  by (rule quietI, intro keeps_intros)+

lemma safe_backends [safe_intros]:
  "safe env (add_epoll s h i)" "safe env (add_kqueue s h t i)"
  "safe env (update_epoll s h i)" "safe env (update_kqueue s h t i)"
  "safe env (remove_epoll s reg)" "safe env (remove_kqueue s reg)"
  unfolding add_epoll_def add_kqueue_def update_epoll_def update_kqueue_def remove_epoll_def remove_kqueue_def
  by (intro safe_intros)+

lemma add_iocp_ok:
  assumes "add_iocp this s h kind token interests env w = (r, w')"
    and ok: "io_ok env w" "selectors w this = Some s" and r0: "map_of (registrations s) h = Some r0"
  shows "backend_ok env this s w r w'"
proof (cases "kind = Kind_socket")
  case True
  with assms show ?thesis by (intro add_afd_socket_ok [OF _ ok r0]) (simp add: add_iocp_def)
next
  case False
  have "quiet env (add_iocp this s h kind token interests)"
    unfolding add_iocp_def by (rule quietI) (intro keeps_intros; simp add: False)
  moreover have "safe env (add_iocp this s h kind token interests)"
    unfolding add_iocp_def by (intro safe_intros; simp add: False)
  ultimately show ?thesis using assms by (intro backend_ok_quiet)
qed

lemma add_to_backend_ok:
  assumes "add_to_backend this h kind token interests env w = (r, w')"
    and ok: "io_ok env w" "selectors w this = Some s" and r0: "map_of (registrations s) h = Some r0"
  shows "backend_ok env this s w r w'"
  using assms add_iocp_ok [OF _ ok r0, of kind token interests r w']
    backend_ok_quiet [OF _ _ _ ok, of "add_epoll s h interests" r w']
    backend_ok_quiet [OF _ _ _ ok, of "add_kqueue s h token interests" r w']
    backend_ok_quiet [OF _ _ _ ok, of "return ()" r w']
  by (cases "platform env")
    (simp_all add: add_to_backend_def comp_simps quiet_backends safe_backends quiet_return safe_basic)

lemma update_iocp_ok:
  assumes run: "update_iocp this h kind token interests env w = (r, w')"
    and ok: "io_ok env w" "selectors w this = Some s"
  shows "backend_ok env this s w r w'"
proof -
  show ?thesis
  proof (cases "kind = Kind_socket \<and> (\<exists>r1 a. map_of (registrations s) h = Some r1 \<and> reg_afd_state r1 = Some a)")
    case True
    then obtain r1 a where r1: "map_of (registrations s) h = Some r1" "reg_afd_state r1 = Some a" by blast
    have "set_afd_interest a token interests env w = (r, w')"
      using run True ok(2) r1 by (simp add: update_iocp_def comp_simps)
    moreover have "afd_states w a \<noteq> None" using refs_ok_map_of [OF io_ok_refs [OF ok] r1] .
    ultimately show ?thesis using ok by (intro set_afd_interest_ok)
  next
    case False
    then have "r = Ret () \<and> w' = w"
      using run ok(2) by (auto simp: update_iocp_def comp_simps split: if_splits option.splits)
    then show ?thesis using ok by (simp add: backend_ok_refl)
  qed
qed

lemma update_backend_ok:
  assumes "update_backend this h kind token interests env w = (r, w')"
    and ok: "io_ok env w" "selectors w this = Some s"
  shows "backend_ok env this s w r w'"
  using assms update_iocp_ok [OF _ ok, of h kind token interests r w']
    backend_ok_quiet [OF _ _ _ ok, of "update_epoll s h interests" r w']
    backend_ok_quiet [OF _ _ _ ok, of "update_kqueue s h token interests" r w']
    backend_ok_quiet [OF _ _ _ ok, of "return ()" r w']
  by (cases "platform env")
    (simp_all add: update_backend_def comp_simps quiet_backends safe_backends quiet_return safe_basic)

lemma set_afd_ok:
  assumes "io_ok env w" "selectors w this = Some s" "afd_states w a = Some st"
    "afd_status st' = Afd_idle \<longleftrightarrow> afd_status st = Afd_idle"
  shows "backend_ok env this s w (Ret ()) (w\<lparr>afd_states := (afd_states w)(a \<mapsto> st')\<rparr>)"
  using io_ok_set_afd [OF assms(1,3,4)] assms(2) by (auto simp: backend_ok_def intro!: exI [of _ s])

text \<open>Deregistering on Windows: mark the state, and cancel a pending poll if that works.\<close>

lemma remove_iocp_ok:
  assumes run: "remove_iocp reg env w = (r, w')" and ok: "io_ok env w" "selectors w this = Some s"
    and ref: "\<And>a. reg_afd_state reg = Some a \<Longrightarrow> afd_states w a \<noteq> None"
  shows "backend_ok env this s w r w' \<and> (r = Ret () \<or> r = Terminate)"
proof (cases "reg_afd_state reg")
  case None
  then show ?thesis using run ok by (auto simp: remove_iocp_def comp_simps intro: backend_ok_refl)
next
  case (Some a)
  with ref obtain st where st: "afd_states w a = Some st" by blast
  let ?w = "w\<lparr>afd_states := (afd_states w)(a \<mapsto> st\<lparr>delete_pending := True\<rparr>)\<rparr>"
  have ok1: "backend_ok env this s w (Ret ()) ?w" using ok st by (rule set_afd_ok) simp
  show ?thesis
  proof (cases "afd_status st = Afd_pending")
    case False
    then show ?thesis using run Some st ok1 by (simp add: remove_iocp_def comp_simps)
  next
    case True
    let ?m = "bnd (AfdHelper_cancel (afd_helper st) a)
      (\<lambda>_. set_afd a (st\<lparr>delete_pending := True, afd_status := Afd_cancelled\<rparr>)) :: (io_world, unit) comp"
    have run': "catch ?m (\<lambda>_. return ()) env ?w = (r, w')"
      using run Some st True by (simp add: remove_iocp_def comp_simps)
    obtain r1 w1 where m: "?m env ?w = (r1, w1)" by (meson surj_pair)
    from quiet_AfdHelper(4) safe_AfdHelper(5) m show ?thesis
    proof (cases rule: quiet_safe_cases)
      case fails
      then have "objects w' = objects ?w \<and> (r = Ret () \<or> r = Terminate)"
        using run' m by (cases r1) (auto simp: catch_def comp_simps)
      then show ?thesis by (auto intro: backend_ok_objects [OF ok1])
    next
      case (returns x w2)
      have ok2: "backend_ok env this s w (Ret ()) w2" by (rule backend_ok_objects [OF ok1 returns(2)]) simp_all
      have st2: "afd_states w2 a = Some (st\<lparr>delete_pending := True\<rparr>)" using returns(2) by (simp add: objects_def)
      have "r = Ret ()" "w' = w2\<lparr>afd_states := (afd_states w2)(a \<mapsto>
          st\<lparr>delete_pending := True, afd_status := Afd_cancelled\<rparr>)\<rparr>"
        using run' m returns(3) by (auto simp: catch_def comp_simps)
      moreover have "io_ok env w'" unfolding calculation(2)
        by (rule io_ok_set_afd [OF _ st2]) (use ok2 True in \<open>simp_all add: backend_ok_def\<close>)
      ultimately show ?thesis using ok2 by (auto simp: backend_ok_def)
    qed
  qed
qed

lemma noexcept_result:
  assumes "noexcept m env w = (r, w')"
  obtains r1 where "m env w = (r1, w')" "r = r1 \<or> r = Terminate" "\<forall>e. r \<noteq> Throw e"
  using assms by (cases "m env w"; cases "fst (m env w)") (auto simp: noexcept_def catch_def)

lemma remove_from_backend_ok:
  assumes run: "remove_from_backend this reg env w = (r, w')"
    and ok: "io_ok env w" "selectors w this = Some s"
    and ref: "\<And>a. reg_afd_state reg = Some a \<Longrightarrow> afd_states w a \<noteq> None"
  shows "backend_ok env this s w r w' \<and> (\<forall>e. r \<noteq> Throw e)"
proof -
  let ?body = "bnd (asks platform) (\<lambda>p. with_selector this (\<lambda>s.
      case p of Windows \<Rightarrow> remove_iocp reg | Linux \<Rightarrow> remove_epoll s reg
      | Kqueue \<Rightarrow> remove_kqueue s reg | Poll_Unix \<Rightarrow> return ())) :: (io_world, unit) comp"
  from run obtain r1 where r1: "?body env w = (r1, w')" "r = r1 \<or> r = Terminate" "\<forall>e. r \<noteq> Throw e"
    unfolding remove_from_backend_def by (rule noexcept_result)
  have "backend_ok env this s w r1 w'"
    using r1(1) ok remove_iocp_ok [OF _ ok ref, where r = r1 and w' = w' and reg = reg]
      backend_ok_quiet [OF _ _ _ ok, of "remove_epoll s reg" r1 w']
      backend_ok_quiet [OF _ _ _ ok, of "remove_kqueue s reg" r1 w']
      backend_ok_quiet [OF _ _ _ ok, of "return ()" r1 w']
    by (cases "platform env")
      (simp_all add: comp_simps quiet_backends safe_backends quiet_return safe_basic)
  then show ?thesis using r1(2,3) by (auto simp: backend_ok_def)
qed

end
