(* ===== verification/Registration.thy ===== *)
theory Registration
  imports Selector_Invariant
begin

text \<open>
  The functional behaviour of the operations on the table of a selector, and their refinement of
  an abstract table, a partial map from handles to registrations. The locale
  \<open>registration_table\<close> is the contract that the registry relies on; it is interpreted
  on the operations of \<open>Selector\<close>.
\<close>

section \<open>The abstract table\<close>

type_synonym table = "int \<rightharpoonup> registration"

definition reg_map :: "selector \<Rightarrow> table" where
  "reg_map s h = map_option strip (map_of (registrations s) h)"

definition entry :: "int \<Rightarrow> source_kind \<Rightarrow> token \<Rightarrow> interest \<Rightarrow> bool \<Rightarrow> registration" where
  "entry h kind token interests auto_drain = \<lparr>reg_handle = h, reg_kind = kind, reg_token = token,
     reg_interests = interests, reg_auto_drain = auto_drain, reg_afd_state = None\<rparr>"

datatype table_op =
    Add int source_kind token interest bool
  | Update int source_kind token interest
  | Remove int

text \<open>
  One operation on the table and whether it succeeds. An addition that fails changes nothing. A
  change that is refused changes nothing either, but one that the back end rejects has already
  been recorded.
\<close>

inductive table_step :: "platform \<Rightarrow> table_op \<Rightarrow> table \<Rightarrow> bool \<Rightarrow> table \<Rightarrow> bool" for p where
  add: "validation_error p h i = None \<Longrightarrow> m h = None \<Longrightarrow>
    table_step p (Add h k t i d) m True (m(h \<mapsto> entry h k t i d))"
| add_fails: "table_step p (Add h k t i d) m False m"
| update: "validation_error p h i = None \<Longrightarrow> m h = Some r \<Longrightarrow>
    table_step p (Update h k t i) m ok (m(h \<mapsto> r\<lparr>reg_kind := k, reg_token := t, reg_interests := i\<rparr>))"
| update_refused: "validation_error p h i \<noteq> None \<or> m h = None \<Longrightarrow>
    table_step p (Update h k t i) m False m"
| remove: "m h = Some r \<Longrightarrow> table_step p (Remove h) m True (m(h := None))"
| remove_refused: "m h = None \<Longrightarrow> table_step p (Remove h) m False m"

inductive table_run :: "platform \<Rightarrow> (table_op \<times> bool) list \<Rightarrow> table \<Rightarrow> table \<Rightarrow> bool" for p where
  finish: "table_run p [] m m"
| step: "table_step p c m ok m1 \<Longrightarrow> table_run p cs m1 m2 \<Longrightarrow> table_run p ((c, ok) # cs) m m2"

text \<open>A sequence of operations, each continuing after the exceptions of the previous ones.\<close>

fun exec_all ::
  "(table_op \<Rightarrow> 'w \<Rightarrow> unit outcome \<times> 'w) \<Rightarrow> table_op list \<Rightarrow> 'w \<Rightarrow> (table_op \<times> unit outcome) list \<times> 'w" where
  "exec_all ex [] w = ([], w)"
| "exec_all ex (c # cs) w = (case ex c w of (r, w1) \<Rightarrow>
     if r = Terminate then ([(c, r)], w1)
     else (case exec_all ex cs w1 of (rs, w2) \<Rightarrow> ((c, r) # rs, w2)))"

inductive_cases table_step_AddE: "table_step p (Add h k t i d) m ok m'"
inductive_cases table_step_UpdateE: "table_step p (Update h k t i) m ok m'"
inductive_cases table_step_RemoveE: "table_step p (Remove h) m ok m'"

section \<open>Lemmas on the table\<close>

lemma reg_map_view: "view s' = view s \<Longrightarrow> reg_map s' = reg_map s"
  by (rule ext) (unfold reg_map_def, rule view_lookup)

lemma reg_map_simps [simp]:
  "reg_map (s\<lparr>registrations := AList.delete h xs\<rparr>) = (reg_map (s\<lparr>registrations := xs\<rparr>))(h := None)"
  "reg_map (s\<lparr>registrations := AList.update h r xs\<rparr>) = (reg_map (s\<lparr>registrations := xs\<rparr>))(h \<mapsto> strip r)"
  "reg_map (s\<lparr>registrations := (h, r) # xs\<rparr>) = (reg_map (s\<lparr>registrations := xs\<rparr>))(h \<mapsto> strip r)"
  "reg_map (s\<lparr>waker_handle := wh\<rparr>) = reg_map s"
  by (auto simp: reg_map_def fun_eq_iff delete_conv' update_conv')

lemma reg_map_None: "reg_map s h = None \<longleftrightarrow> map_of (registrations s) h = None"
  by (simp add: reg_map_def)

lemma strip_entry [simp]: "strip (entry h k t i d) = entry h k t i d"
  by (simp add: strip_def entry_def)

text \<open>What an operation does to the world besides the table.\<close>

definition on_selector :: "env \<Rightarrow> nat \<Rightarrow> io_world \<Rightarrow> 'a outcome \<Rightarrow> io_world \<Rightarrow> selector \<Rightarrow> bool" where
  "on_selector env this w r w' s' \<longleftrightarrow>
     io_ok env w' \<and> selectors w' = (selectors w)(this \<mapsto> s') \<and> packets w' = packets w
     \<and> cur_events w' = cur_events w \<and> r \<noteq> Undefined \<and> r \<noteq> Diverge"

lemma on_selector_refl:
  assumes "io_ok env w" "selectors w this = Some s" "objects w' = objects w" "r \<noteq> Undefined" "r \<noteq> Diverge"
  shows "on_selector env this w r w' s"
  using assms io_ok_cong [OF assms(3)] by (auto simp: on_selector_def objects_def)

lemma on_selector_backend:
  assumes "backend_ok env this s1 w1 r w'" "selectors w1 = (selectors w)(this \<mapsto> s1)"
    "packets w1 = packets w" "cur_events w1 = cur_events w"
  obtains s' where "on_selector env this w r w' s'" "view s' = view s1"
  using assms by (auto simp: backend_ok_def on_selector_def)

section \<open>Adding\<close>

lemma erase_registration_ok:
  assumes "io_ok env w" "selectors w this = Some s" "waker_handle s \<noteq> h"
  shows "\<exists>w'. erase_registration this h env w = (Ret (), w')
    \<and> on_selector env this w (Throw e) w' (s\<lparr>registrations := AList.delete h (registrations s)\<rparr>)"
proof -
  let ?s = "s\<lparr>registrations := AList.delete h (registrations s)\<rparr>"
  have "registrations_ok (platform env) ?s"
    using registrations_ok_delete [OF io_ok_selector [OF assms(1,2)], of "waker_handle s" h] assms(3) by simp
  moreover have "refs_ok w ?s"
    by (rule refs_ok_registrations [OF io_ok_refs [OF assms(1,2)]]) (simp add: set_AList_delete)
  ultimately have "io_ok env (w\<lparr>selectors := (selectors w)(this \<mapsto> ?s)\<rparr>)"
    using assms by (intro io_ok_set_selector)
  then show ?thesis using assms(2) by (simp add: erase_registration_def comp_simps on_selector_def)
qed

lemma waker_registered:
  assumes "io_ok env w" "selectors w this = Some s" "map_of (registrations s) h = None"
    "h \<noteq> invalid_native_handle (platform env)"
  shows "waker_handle s \<noteq> h"
  using io_ok_selector [OF assms(1,2)] assms(3,4) by (auto simp: registrations_ok_def map_of_eq_None_iff)

lemma add_inserted:
  assumes ok: "io_ok env w" "selectors w this = Some s" and new: "map_of (registrations s) h = None"
    and valid: "validation_error (platform env) h i = None"
    and run: "catch (add_to_backend this h k t i) (\<lambda>e. bnd (erase_registration this h) (\<lambda>_. throw e)) env
      (w\<lparr>selectors := (selectors w)(this \<mapsto> s\<lparr>registrations := (h, entry h k t i d) # registrations s\<rparr>)\<rparr>) = (r, w')"
      (is "catch _ _ env ?w = _")
  shows "\<exists>s'. on_selector env this w r w' s' \<and> (r = Ret () \<longrightarrow> reg_map s' = (reg_map s)(h \<mapsto> entry h k t i d))
    \<and> (\<forall>e. r = Throw e \<longrightarrow> reg_map s' = reg_map s)"
proof -
  let ?s = "s\<lparr>registrations := (h, entry h k t i d) # registrations s\<rparr>"
  have h: "h \<noteq> invalid_native_handle (platform env)" "\<not> Interest_empty i"
    using valid by (auto simp: validation_error_def split: if_splits)
  have ok1: "io_ok env ?w"
    by (rule io_ok_set_selector [OF ok])
      (use registrations_ok_insert [OF io_ok_selector [OF ok], of "entry h k t i d"] new h io_ok_refs [OF ok]
       in \<open>simp_all add: entry_def refs_ok_def\<close>)
  obtain r2 w2 where run2: "add_to_backend this h k t i env ?w = (r2, w2)" by (meson surj_pair)
  have b: "backend_ok env this ?s ?w r2 w2" by (rule add_to_backend_ok [OF run2 ok1]) simp_all
  obtain s2 where s2: "on_selector env this w r2 w2 s2" "view s2 = view ?s"
    by (rule on_selector_backend [OF b, of w]) simp_all
  show ?thesis
  proof (cases "\<exists>e. r2 = Throw e")
    case False
    then have "r = r2" "w' = w2" using run run2 by (cases r2; auto simp: catch_def)+
    then show ?thesis using s2 False reg_map_view [OF s2(2)] by auto
  next
    case True
    then obtain e where e: "r2 = Throw e" by blast
    have io2: "io_ok env w2" "selectors w2 this = Some s2" using s2(1) by (simp_all add: on_selector_def)
    have "waker_handle s2 \<noteq> h" using waker_registered [OF ok new h(1)] view_fields(1) [OF s2(2)] by simp
    from erase_registration_ok [OF io2 this, of e] obtain w3 where
      w3: "erase_registration this h env w2 = (Ret (), w3)"
      "on_selector env this w2 (Throw e) w3 (s2\<lparr>registrations := AList.delete h (registrations s2)\<rparr>)" by blast
    have "r = Throw e" "w' = w3" using run run2 e w3(1) by (auto simp: catch_def bnd_def throw_def)
    moreover have "reg_map (s2\<lparr>registrations := AList.delete h (registrations s2)\<rparr>) = reg_map s"
      using reg_map_view [OF s2(2)] new by (simp add: fun_upd_idem reg_map_None)
    ultimately show ?thesis using w3(2) s2(1) by (auto simp: on_selector_def)
  qed
qed

lemma Selector_add_result:
  assumes run: "Selector_add this h k t i d env w = (r, w')"
    and ok: "io_ok env w" "selectors w this = Some s"
  shows "\<exists>s'. on_selector env this w r w' s'
    \<and> (r = Ret () \<longrightarrow> validation_error (platform env) h i = None \<and> reg_map s h = None
         \<and> reg_map s' = (reg_map s)(h \<mapsto> entry h k t i d))
    \<and> (\<forall>e. r = Throw e \<longrightarrow> reg_map s' = reg_map s)"
proof (cases "validation_error (platform env) h i")
  case (Some e)
  then show ?thesis using run ok by (auto simp: Selector_add_def comp_simps intro!: exI [of _ s] on_selector_refl)
next
  case valid: None
  let ?w = "logged env Alloc w"
  show ?thesis
  proof (cases "ret (answer env (history w) Alloc) \<noteq> 0 \<and> map_of (registrations s) h = None")
    case False
    then show ?thesis using run ok valid
      by (auto simp: Selector_add_def emplace_registration_def comp_simps split: if_splits option.splits
          intro!: exI [of _ s] on_selector_refl)
  next
    case True
    have okl: "io_ok env ?w" "selectors ?w this = Some s" using ok by simp_all
    from add_inserted [OF okl _ valid, of k t d r w'] True run ok(2) valid show ?thesis
      by (auto simp: Selector_add_def emplace_registration_def comp_simps entry_def on_selector_def reg_map_None)
  qed
qed

section \<open>Changing and removing\<close>

lemma Selector_update_refused:
  assumes "Selector_update this h k t i env w = (r, w')" "io_ok env w" "selectors w this = Some s"
    "validation_error (platform env) h i \<noteq> None \<or> reg_map s h = None"
  shows "(\<exists>e. r = Throw e) \<and> on_selector env this w r w' s"
  using assms
  by (auto simp: Selector_update_def comp_simps reg_map_None split: option.splits intro!: on_selector_refl)

lemma Selector_update_recorded:
  assumes run: "Selector_update this h k t i env w = (r, w')"
    and ok: "io_ok env w" "selectors w this = Some s"
    and valid: "validation_error (platform env) h i = None" and r0: "reg_map s h = Some r0"
  shows "\<exists>s'. on_selector env this w r w' s'
    \<and> reg_map s' = (reg_map s)(h \<mapsto> r0\<lparr>reg_kind := k, reg_token := t, reg_interests := i\<rparr>)"
proof -
  obtain r1 where r1: "map_of (registrations s) h = Some r1" "r0 = strip r1"
    using r0 by (auto simp: reg_map_def)
  let ?r = "r1\<lparr>reg_kind := k, reg_token := t, reg_interests := i\<rparr>"
  let ?s = "s\<lparr>registrations := AList.update h ?r (registrations s)\<rparr>"
  let ?w = "w\<lparr>selectors := (selectors w)(this \<mapsto> ?s)\<rparr>"
  have "\<not> Interest_empty i" using valid by (auto simp: validation_error_def split: if_splits)
  moreover have "reg_handle r1 = h"
    using io_ok_selector [OF ok] map_of_SomeD [OF r1(1)] by (auto simp: registrations_ok_def)
  ultimately have s1: "registrations_ok (platform env) ?s"
    using io_ok_selector [OF ok] r1(1) by (intro registrations_ok_update) simp_all
  have "refs_ok w ?s"
    by (rule refs_ok_registrations [OF io_ok_refs [OF ok]])
      (use set_AList_update [of h ?r "registrations s"] refs_ok_map_of [OF io_ok_refs [OF ok] r1(1)] in auto)
  with ok s1 have ok1: "io_ok env ?w" by (intro io_ok_set_selector)
  have "update_backend this h k t i env ?w = (r, w')"
    using run ok(2) valid r1(1) by (simp add: Selector_update_def comp_simps)
  then have b: "backend_ok env this ?s ?w r w'" by (rule update_backend_ok [OF _ ok1]) simp
  obtain s' where "on_selector env this w r w' s'" "view s' = view ?s"
    by (rule on_selector_backend [OF b, of w]) simp_all
  moreover have "reg_map ?s = (reg_map s)(h \<mapsto> r0\<lparr>reg_kind := k, reg_token := t, reg_interests := i\<rparr>)"
    by (cases r1) (simp add: r1(2) strip_def)
  ultimately show ?thesis using reg_map_view by metis
qed

lemma Selector_remove_refused:
  assumes "Selector_remove this h env w = (r, w')" "io_ok env w" "selectors w this = Some s" "reg_map s h = None"
  shows "r = Throw (System_Error (make_error_code (platform env) no_such_file_or_directory) ''source is not registered'')
    \<and> w' = w \<and> on_selector env this w r w' s"
  using assms by (auto simp: Selector_remove_def comp_simps reg_map_None intro!: on_selector_refl)

lemma Selector_remove_done:
  assumes run: "Selector_remove this h env w = (r, w')"
    and ok: "io_ok env w" "selectors w this = Some s" and r0: "reg_map s h = Some r0"
  shows "\<exists>s'. on_selector env this w r w' s' \<and> reg_map s' = (reg_map s)(h := None)
    \<and> (r = Ret () \<or> r = Terminate)"
proof -
  obtain r1 where r1: "map_of (registrations s) h = Some r1" using r0 by (auto simp: reg_map_def)
  let ?wh = "if waker_handle s = h then invalid_native_handle (platform env) else waker_handle s"
  let ?s = "s\<lparr>registrations := AList.delete h (registrations s), waker_handle := ?wh\<rparr>"
  let ?w = "w\<lparr>selectors := (selectors w)(this \<mapsto> ?s)\<rparr>"
  have s1: "registrations_ok (platform env) ?s"
    by (rule registrations_ok_delete [OF io_ok_selector [OF ok]]) auto
  have "refs_ok w ?s"
    by (rule refs_ok_registrations [OF io_ok_refs [OF ok]]) (simp add: set_AList_delete)
  with ok s1 have ok1: "io_ok env ?w" by (intro io_ok_set_selector)
  have "remove_from_backend this r1 env ?w = (r, w')"
    using run ok(2) r1 by (simp add: Selector_remove_def comp_simps)
  then have b: "backend_ok env this ?s ?w r w' \<and> (\<forall>e. r \<noteq> Throw e)"
    by (rule remove_from_backend_ok [OF _ ok1])
      (use refs_ok_map_of [OF io_ok_refs [OF ok] r1] in simp_all)
  obtain s' where "on_selector env this w r w' s'" "view s' = view ?s"
    by (rule on_selector_backend [OF conjunct1 [OF b], of w]) simp_all
  moreover have "reg_map ?s = (reg_map s)(h := None)" by simp
  moreover have "r = Ret () \<or> r = Terminate" using b by (cases r) (auto simp: backend_ok_def)
  ultimately show ?thesis using reg_map_view by metis
qed

section \<open>The contract and its clients\<close>

text \<open>
  A component that keeps a table: its operations simulate the steps of the abstract table
  unless the process is terminated, and keep the invariant.
\<close>

locale registration_table =
  fixes p :: platform
    and invar :: "'w \<Rightarrow> bool"
    and table_of :: "'w \<Rightarrow> table"
    and exec :: "table_op \<Rightarrow> 'w \<Rightarrow> unit outcome \<times> 'w"
  assumes invar_exec: "invar w \<Longrightarrow> exec c w = (r, w') \<Longrightarrow> invar w'"
    and exec_defined: "invar w \<Longrightarrow> exec c w = (r, w') \<Longrightarrow> r = Ret () \<or> (\<exists>e. r = Throw e) \<or> r = Terminate"
    and exec_step: "invar w \<Longrightarrow> exec c w = (r, w') \<Longrightarrow> r \<noteq> Terminate \<Longrightarrow>
      table_step p c (table_of w) (r = Ret ()) (table_of w')"
begin

lemma refinement:
  assumes "invar w" "exec_all exec cs w = (rs, w')" "Terminate \<notin> snd ` set rs"
  shows "invar w' \<and> table_run p (map (\<lambda>(c, r). (c, r = Ret ())) rs) (table_of w) (table_of w')"
  using assms
proof (induction cs arbitrary: w rs)
  case Nil
  then show ?case by (auto intro: table_run.finish)
next
  case (Cons c cs)
  obtain r w1 where e: "exec c w = (r, w1)" by (meson surj_pair)
  obtain rs2 w2 where a: "exec_all exec cs w1 = (rs2, w2)" by (meson surj_pair)
  from Cons.prems e a have r: "r \<noteq> Terminate" and eq: "rs = (c, r) # rs2" "w' = w2"
    by (auto split: if_splits)
  have "invar w' \<and> table_run p (map (\<lambda>(c, r). (c, r = Ret ())) rs2) (table_of w1) (table_of w')"
    using Cons.IH [OF invar_exec [OF Cons.prems(1) e]] a Cons.prems(3) eq by auto
  then show ?case using exec_step [OF Cons.prems(1) e r] by (auto simp: eq intro: table_run.step)
qed

text \<open>Adding a handle twice is refused, and the table keeps the first registration.\<close>

lemma add_twice:
  assumes "invar w" "exec (Add h k t i d) w = (Ret (), w1)" "exec (Add h k2 t2 i2 d2) w1 = (r, w2)" "r \<noteq> Terminate"
  shows "(\<exists>e. r = Throw e) \<and> table_of w2 = (table_of w)(h \<mapsto> entry h k t i d)"
proof -
  have w1: "invar w1" "table_of w1 = (table_of w)(h \<mapsto> entry h k t i d)"
    using invar_exec [OF assms(1,2)] exec_step [OF assms(1,2)] by (auto elim: table_step_AddE)
  then have "r \<noteq> Ret ()" "table_of w2 = table_of w1"
    using exec_step [OF w1(1) assms(3,4)] by (auto elim: table_step_AddE)
  then show ?thesis using exec_defined [OF w1(1) assms(3)] assms(4) w1(2) by auto
qed

text \<open>Adding and removing restores the table.\<close>

lemma add_remove:
  assumes "invar w" "exec (Add h k t i d) w = (Ret (), w1)" "exec (Remove h) w1 = (r, w2)" "r \<noteq> Terminate"
  shows "r = Ret () \<and> table_of w2 = table_of w"
proof -
  have w1: "invar w1" "table_of w1 = (table_of w)(h \<mapsto> entry h k t i d)" "table_of w h = None"
    using invar_exec [OF assms(1,2)] exec_step [OF assms(1,2)] by (auto elim: table_step_AddE)
  then show ?thesis
    using exec_step [OF w1(1) assms(3,4)] by (auto elim!: table_step_RemoveE simp: fun_upd_idem)
qed

end

section \<open>The selector keeps the contract\<close>

fun selector_exec :: "env \<Rightarrow> nat \<Rightarrow> table_op \<Rightarrow> io_world \<Rightarrow> unit outcome \<times> io_world" where
  "selector_exec env this (Add h k t i d) w = Selector_add this h k t i d env w"
| "selector_exec env this (Update h k t i) w = Selector_update this h k t i env w"
| "selector_exec env this (Remove h) w = Selector_remove this h env w"

definition selector_live :: "env \<Rightarrow> nat \<Rightarrow> io_world \<Rightarrow> bool" where
  "selector_live env this w \<longleftrightarrow> io_ok env w \<and> selectors w this \<noteq> None"

definition selector_table :: "nat \<Rightarrow> io_world \<Rightarrow> table" where
  "selector_table this w = (case selectors w this of None \<Rightarrow> Map.empty | Some s \<Rightarrow> reg_map s)"

lemma selector_exec_simulates:
  assumes "io_ok env w" "selectors w this = Some s" "selector_exec env this c w = (r, w')"
  shows "\<exists>s'. on_selector env this w r w' s'
    \<and> (r \<noteq> Terminate \<longrightarrow> table_step (platform env) c (reg_map s) (r = Ret ()) (reg_map s'))"
proof (cases c)
  case (Add h k t i d)
  then have "Selector_add this h k t i d env w = (r, w')" using assms(3) by simp
  from Selector_add_result [OF this assms(1,2)] obtain s' where s': "on_selector env this w r w' s'"
    "r = Ret () \<longrightarrow> validation_error (platform env) h i = None \<and> reg_map s h = None
       \<and> reg_map s' = (reg_map s)(h \<mapsto> entry h k t i d)"
    "\<forall>e. r = Throw e \<longrightarrow> reg_map s' = reg_map s" by blast
  show ?thesis
    using s' by (intro exI [of _ s'], cases r)
      (auto simp: Add on_selector_def intro: table_step.add table_step.add_fails)
next
  case (Update h k t i)
  then have run: "Selector_update this h k t i env w = (r, w')" using assms(3) by simp
  show ?thesis
  proof (cases "validation_error (platform env) h i \<noteq> None \<or> reg_map s h = None")
    case True
    then show ?thesis using Selector_update_refused [OF run assms(1,2) True]
      by (auto simp: Update intro!: exI [of _ s] table_step.update_refused)
  next
    case False
    then obtain r0 where "validation_error (platform env) h i = None" "reg_map s h = Some r0" by auto
    with Selector_update_recorded [OF run assms(1,2) this] show ?thesis
      unfolding Update by (metis table_step.update)
  qed
next
  case (Remove h)
  then have run: "Selector_remove this h env w = (r, w')" using assms(3) by simp
  show ?thesis
  proof (cases "reg_map s h")
    case None
    then show ?thesis using Selector_remove_refused [OF run assms(1,2) None]
      by (auto simp: Remove intro!: exI [of _ s] table_step.remove_refused)
  next
    case (Some r0)
    from Selector_remove_done [OF run assms(1,2) Some] Some show ?thesis
      by (auto simp: Remove) (metis table_step.remove)
  qed
qed

interpretation selector: registration_table
  "platform env" "selector_live env this" "selector_table this" "selector_exec env this" for env this
proof
  fix w c r w'
  assume "selector_live env this w" and run: "selector_exec env this c w = (r, w')"
  then obtain s where s: "io_ok env w" "selectors w this = Some s" by (auto simp: selector_live_def)
  from selector_exec_simulates [OF s run] obtain s' where s': "on_selector env this w r w' s'"
    "r \<noteq> Terminate \<longrightarrow> table_step (platform env) c (reg_map s) (r = Ret ()) (reg_map s')" by blast
  show "selector_live env this w'" using s'(1) by (simp add: selector_live_def on_selector_def)
  show "r = Ret () \<or> (\<exists>e. r = Throw e) \<or> r = Terminate" using s'(1) by (cases r) (auto simp: on_selector_def)
  show "table_step (platform env) c (selector_table this w) (r = Ret ()) (selector_table this w')" if "r \<noteq> Terminate"
    using s' s that by (simp add: selector_table_def on_selector_def)
qed

lemma selector_liveE:
  assumes "selector_live env this w"
  obtains s where "io_ok env w" "selectors w this = Some s" "selector_table this w = reg_map s"
  using assms by (auto simp: selector_live_def selector_table_def)

lemma on_selector_live:
  "on_selector env this w r w' s' \<Longrightarrow> selector_live env this w' \<and> selector_table this w' = reg_map s'"
  by (auto simp: on_selector_def selector_live_def selector_table_def)

section \<open>Wakers\<close>

lemma set_selector_live:
  assumes "io_ok env w" "selectors w this = Some s" "registrations s' = registrations s"
    "waker_handle s' = waker_handle s \<or> waker_handle s' \<in> fst ` set (registrations s)"
  shows "io_ok env (w\<lparr>selectors := (selectors w)(this \<mapsto> s')\<rparr>)"
proof (rule io_ok_set_selector [OF assms(1,2)])
  show "registrations_ok (platform env) s'"
    using io_ok_selector [OF assms(1,2)] assms(4) unfolding registrations_ok_def assms(3)
    by (elim disjE) simp_all
  show "refs_ok w s'" using io_ok_refs [OF assms(1,2)] assms(3) by (simp add: refs_ok_def)
qed

lemma add_waker_live:
  assumes "selector_live env this w" "add_waker this h t env w = (r, w')"
  shows "selector_live env this w' \<and> r \<noteq> Undefined \<and> r \<noteq> Diverge"
proof -
  obtain s where s: "io_ok env w" "selectors w this = Some s" using assms(1) by (rule selector_liveE)
  show ?thesis
  proof (cases "platform env = Windows")
    case True
    with assms(2) s set_selector_live [OF s, of "s\<lparr>waker_active := True\<rparr>"] show ?thesis
      by (auto simp: add_waker_def comp_simps selector_live_def split: if_splits)
  next
    case False
    obtain r1 w1 where run1: "Selector_add this h Kind_raw_descriptor t READABLE True env w = (r1, w1)"
      by (meson surj_pair)
    from Selector_add_result [OF run1 s] obtain s1 where s1: "on_selector env this w r1 w1 s1"
      "r1 = Ret () \<longrightarrow> reg_map s1 h \<noteq> None" by (metis fun_upd_same option.distinct(1))
    show ?thesis
    proof (cases "r1 = Ret ()")
      case True
      then have "h \<in> fst ` set (registrations s1)" using s1(2) by (auto simp: reg_map_None map_of_eq_None_iff)
      then have "io_ok env (w1\<lparr>selectors := (selectors w1)(this \<mapsto> s1\<lparr>waker_handle := h\<rparr>)\<rparr>)"
        using s1(1) by (intro set_selector_live [of _ _ _ s1]) (simp_all add: on_selector_def)
      then show ?thesis using assms(2) False run1 True s1(1)
        by (auto simp: add_waker_def bnd_def comp_simps on_selector_def selector_live_def)
    next
      case False': False
      then have "r = r1 \<and> w' = w1" using assms(2) False run1
        by (cases r1) (auto simp: add_waker_def bnd_def comp_simps)
      then show ?thesis using on_selector_live [OF s1(1)] s1(1) by (auto simp: on_selector_def)
    qed
  qed
qed

lemma remove_waker_live:
  assumes "selector_live env this w" "remove_waker this h env w = (r, w')"
  shows "selector_live env this w' \<and> (r = Ret () \<or> r = Terminate)"
proof -
  obtain s where s: "io_ok env w" "selectors w this = Some s" using assms(1) by (rule selector_liveE)
  show ?thesis
  proof (cases "platform env = Windows")
    case True
    with assms(2) s set_selector_live [OF s, of "s\<lparr>waker_active := False\<rparr>"] show ?thesis
      by (auto simp: remove_waker_def comp_simps selector_live_def)
  next
    case False
    obtain r1 w1 where run1: "Selector_remove this h env w = (r1, w1)" by (meson surj_pair)
    have "selector_exec env this (Remove h) w = (r1, w1)" using run1 by simp
    from selector.invar_exec [OF assms(1) this] selector.exec_defined [OF assms(1) this]
    show ?thesis using assms(2) False run1
      by (auto simp: remove_waker_def comp_simps catch_def)
  qed
qed

section \<open>Properties\<close>

text \<open>
  A concrete system for the witnesses: allocations succeed, and so does every call except a
  modification of an epoll registration.
\<close>

fun linux_answer :: "call \<Rightarrow> reply" where
  "linux_answer Alloc = plain 1 0"
| "linux_answer (Epoll_ctl _ EPOLL_CTL_MOD _ _) = plain (-1) 2"
| "linux_answer _ = plain 0 0"

definition linux_env :: env where
  "linux_env = \<lparr>platform = Linux, host_endian = Little, macro_defined = (\<lambda>_. True),
     answer = (\<lambda>_. linux_answer)\<rparr>"

definition one_selector :: "platform \<Rightarrow> (int \<times> registration) list \<Rightarrow> io_world" where
  "one_selector p regs = \<lparr>history = [], errno = 0,
     selectors = [1 \<mapsto> \<lparr>registrations = regs, waker_handle = invalid_native_handle p, backend = 3,
       iocp = 0, afd_handle = 0, waker_active = False\<rparr>],
     afd_states = Map.empty, operations = [], packets = [], next_addr = 2, nt_loaded = False,
     wsa_started = False, cur_events = Events_new 4,
     signal_impls = Map.empty, global_instance = None\<rparr>"

lemma one_selector_live:
  assumes "regs = [] \<or> regs = [(5, entry 5 k t READABLE d)]"
  shows "selector_live \<lparr>platform = p, host_endian = e, macro_defined = m, answer = ans\<rparr> 1 (one_selector p regs)"
  using assms
  by (auto simp: selector_live_def one_selector_def io_ok_def tables_ok_def registrations_ok_def refs_ok_def
      afd_ok_def entry_def invalid_native_handle_def)

text \<open>
  C1. The selector refines the abstract table: for every sequence of additions, changes and
  removals on a live selector, on every platform and against every behaviour of the system, as
  long as the process is not terminated, there is a run of the abstract table with the same
  successes and failures from the table before to the table after, and the selector is still
  live and well-formed.
\<close>

theorem selector_refines_table:
  assumes "selector_live env this w" "exec_all (selector_exec env this) cs w = (rs, w')"
    "Terminate \<notin> snd ` set rs"
  shows "selector_live env this w'
    \<and> table_run (platform env) (map (\<lambda>(c, r). (c, r = Ret ())) rs) (selector_table this w) (selector_table this w')"
  using selector.refinement [OF assms] .

theorem selector_refines_table_witness:
  "\<exists>w'. exec_all (selector_exec linux_env 1) [Add 5 Kind_socket (Token 7) READABLE False, Remove 5]
       (one_selector Linux []) = ([(Add 5 Kind_socket (Token 7) READABLE False, Ret ()), (Remove 5, Ret ())], w')
     \<and> selector_live linux_env 1 w'
     \<and> table_run (platform linux_env) [(Add 5 Kind_socket (Token 7) READABLE False, True), (Remove 5, True)]
         (selector_table 1 (one_selector Linux [])) (selector_table 1 w')"
proof -
  let ?cs = "[Add 5 Kind_socket (Token 7) READABLE False, Remove 5]"
  obtain rs w' where run: "exec_all (selector_exec linux_env 1) ?cs (one_selector Linux []) = (rs, w')"
    by (meson surj_pair)
  then have rs: "rs = [(Add 5 Kind_socket (Token 7) READABLE False, Ret ()), (Remove 5, Ret ())]"
    by (auto simp: linux_env_def one_selector_def Selector_add_def Selector_remove_def emplace_registration_def
        add_to_backend_def add_epoll_def remove_from_backend_def remove_epoll_def noexcept_def
        validation_error_def invalid_native_handle_def catch_def comp_simps)
  have live: "selector_live linux_env 1 (one_selector Linux [])"
    unfolding linux_env_def by (rule one_selector_live) simp
  from selector_refines_table [OF live run] rs run show ?thesis by simp
qed

text \<open>
  C5. Registering is all or nothing: if it returns, the handle was valid and unregistered and
  is now registered as asked; if it throws, the table is as before. A registered handle is
  refused with \<open>file_exists\<close>, whatever the back end would say.
\<close>

theorem Selector_add_all_or_nothing:
  assumes "selector_live env this w" "Selector_add this h k t i d env w = (r, w')"
  shows "selector_live env this w'
    \<and> (r = Ret () \<longrightarrow> validation_error (platform env) h i = None \<and> selector_table this w h = None
         \<and> selector_table this w' = (selector_table this w)(h \<mapsto> entry h k t i d))
    \<and> (\<forall>e. r = Throw e \<longrightarrow> selector_table this w' = selector_table this w)
    \<and> (validation_error (platform env) h i = None \<and> ret (answer env (history w) Alloc) \<noteq> 0
         \<and> selector_table this w h \<noteq> None
       \<longrightarrow> r = Throw (System_Error (make_error_code (platform env) file_exists) ''source is already registered''))"
proof -
  from assms(1) obtain s where s: "io_ok env w" "selectors w this = Some s" "selector_table this w = reg_map s"
    by (rule selector_liveE)
  from Selector_add_result [OF assms(2) s(1,2)] obtain s' where s': "on_selector env this w r w' s'"
    "r = Ret () \<longrightarrow> validation_error (platform env) h i = None \<and> reg_map s h = None
       \<and> reg_map s' = (reg_map s)(h \<mapsto> entry h k t i d)"
    "\<forall>e. r = Throw e \<longrightarrow> reg_map s' = reg_map s" by blast
  have "r = Throw (System_Error (make_error_code (platform env) file_exists) ''source is already registered'')"
    if "validation_error (platform env) h i = None" "ret (answer env (history w) Alloc) \<noteq> 0" "reg_map s h \<noteq> None"
    using that assms(2) s(2) by (auto simp: Selector_add_def emplace_registration_def comp_simps reg_map_def)
  then show ?thesis using s' s on_selector_live [OF s'(1)] by simp
qed

theorem Selector_add_all_or_nothing_witness:
  "\<exists>w'. Selector_add 1 5 Kind_socket (Token 9) WRITABLE False linux_env
      (one_selector Linux [(5, entry 5 Kind_socket (Token 7) READABLE False)])
    = (Throw (System_Error (make_error_code Linux file_exists) ''source is already registered''), w')
    \<and> selector_table 1 w' 5 = Some (entry 5 Kind_socket (Token 7) READABLE False)"
proof -
  let ?w = "one_selector Linux [(5, entry 5 Kind_socket (Token 7) READABLE False)]"
  obtain r w' where run: "Selector_add 1 5 Kind_socket (Token 9) WRITABLE False linux_env ?w = (r, w')"
    by (meson surj_pair)
  have live: "selector_live linux_env 1 ?w" unfolding linux_env_def by (rule one_selector_live) blast
  have "selector_table 1 ?w = [5 \<mapsto> entry 5 Kind_socket (Token 7) READABLE False]"
    by (rule ext) (simp add: selector_table_def one_selector_def reg_map_def)
  moreover have "validation_error (platform linux_env) 5 WRITABLE = None"
    "ret (answer linux_env (history ?w) Alloc) \<noteq> 0" "platform linux_env = Linux"
    by (simp_all add: linux_env_def validation_error_def invalid_native_handle_def)
  ultimately show ?thesis using Selector_add_all_or_nothing [OF live run] run by auto
qed

text \<open>
  C25. Changing a registration is not all or nothing: when epoll rejects the change the caller
  gets the error, but the table already holds the new token and interest, under which further
  events will be reported.
\<close>

theorem Selector_update_not_rolled_back:
  assumes "selector_live env this w" "platform env = Linux" "validation_error Linux h i = None"
    "selector_table this w h = Some r0"
    and rejected: "\<And>hist ep e. ret (answer env hist (Epoll_ctl ep EPOLL_CTL_MOD h e)) = -1"
  shows "\<exists>e w'. Selector_update this h k t i env w = (Throw e, w')
    \<and> selector_table this w' h = Some (r0\<lparr>reg_kind := k, reg_token := t, reg_interests := i\<rparr>)"
proof -
  from assms(1) obtain s where s: "io_ok env w" "selectors w this = Some s" "selector_table this w = reg_map s"
    by (rule selector_liveE)
  obtain r w' where run: "Selector_update this h k t i env w = (r, w')" by (meson surj_pair)
  have "\<exists>s'. on_selector env this w r w' s'
      \<and> reg_map s' = (reg_map s)(h \<mapsto> r0\<lparr>reg_kind := k, reg_token := t, reg_interests := i\<rparr>)"
    using Selector_update_recorded [OF run s(1,2)] assms(2-4) s(3) by simp
  then have "selector_table this w' h = Some (r0\<lparr>reg_kind := k, reg_token := t, reg_interests := i\<rparr>)"
    using on_selector_live by fastforce
  moreover have "\<exists>e. r = Throw e"
    using run s(2,3) assms(2-4) rejected
    by (auto simp: Selector_update_def update_backend_def update_epoll_def comp_simps reg_map_def)
  ultimately show ?thesis using run by blast
qed

theorem Selector_update_not_rolled_back_witness:
  "\<exists>e w'. Selector_update 1 5 Kind_socket (Token 9) WRITABLE linux_env
      (one_selector Linux [(5, entry 5 Kind_socket (Token 7) READABLE False)]) = (Throw e, w')
    \<and> selector_table 1 w' 5 = Some (entry 5 Kind_socket (Token 9) WRITABLE False)"
proof -
  let ?w = "one_selector Linux [(5, entry 5 Kind_socket (Token 7) READABLE False)]"
  have live: "selector_live linux_env 1 ?w" unfolding linux_env_def by (rule one_selector_live) blast
  have h: "platform linux_env = Linux" "validation_error Linux 5 WRITABLE = None"
    "selector_table 1 ?w 5 = Some (entry 5 Kind_socket (Token 7) READABLE False)"
    "\<And>hist ep e. ret (answer linux_env hist (Epoll_ctl ep EPOLL_CTL_MOD 5 e)) = -1"
    by (simp_all add: linux_env_def validation_error_def invalid_native_handle_def selector_table_def
        one_selector_def reg_map_def)
  from Selector_update_not_rolled_back [OF live h, of Kind_socket "Token 9"] show ?thesis
    by (simp add: entry_def)
qed

text \<open>
  C24. On Windows at most one waker is active per selector: a second \<open>add_waker\<close> is
  refused as busy and changes nothing, and after \<open>remove_waker\<close> a new one is accepted.
\<close>

theorem one_active_waker:
  assumes "selector_live env this w" "platform env = Windows" "add_waker this h t env w = (Ret (), w1)"
  shows "add_waker this h2 t2 env w1 = (Throw (System_Error (make_error_code Windows device_or_resource_busy)
       ''only one Waker can be active per Poll''), w1)
    \<and> (\<exists>w2 w3. remove_waker this h env w1 = (Ret (), w2) \<and> add_waker this h2 t2 env w2 = (Ret (), w3)
         \<and> selector_live env this w3)"
proof -
  from assms(1) obtain s where s: "io_ok env w" "selectors w this = Some s" by (rule selector_liveE)
  have w1: "w1 = w\<lparr>selectors := (selectors w)(this \<mapsto> s\<lparr>waker_active := True\<rparr>)\<rparr>"
    using assms(2,3) s(2) by (auto simp: add_waker_def comp_simps split: if_splits)
  have live1: "selector_live env this w1" using add_waker_live [OF assms(1,3)] by blast
  obtain r2 w2 where r2: "remove_waker this h env w1 = (r2, w2)" by (meson surj_pair)
  obtain r3 w3 where r3: "add_waker this h2 t2 env w2 = (r3, w3)" by (meson surj_pair)
  have "selector_live env this w2" using remove_waker_live [OF live1 r2] by blast
  then have "selector_live env this w3" using add_waker_live [OF _ r3] by blast
  moreover have "r2 = Ret ()" "r3 = Ret ()"
    using r2 r3 assms(2) w1 by (auto simp: add_waker_def remove_waker_def comp_simps split: if_splits)
  ultimately show ?thesis using r2 r3 assms(2) w1 by (auto simp: add_waker_def comp_simps)
qed

theorem one_active_waker_witness:
  "\<exists>w1. add_waker 1 0 (Token 3) (linux_env\<lparr>platform := Windows\<rparr>) (one_selector Windows []) = (Ret (), w1)
     \<and> add_waker 1 0 (Token 4) (linux_env\<lparr>platform := Windows\<rparr>) w1 =
       (Throw (System_Error (make_error_code Windows device_or_resource_busy)
         ''only one Waker can be active per Poll''), w1)"
proof -
  let ?env = "linux_env\<lparr>platform := Windows\<rparr>"
  have live: "selector_live ?env 1 (one_selector Windows [])"
    using one_selector_live [of "[]" _ _ _ Windows] by (simp add: linux_env_def)
  obtain r w1 where run: "add_waker 1 0 (Token 3) ?env (one_selector Windows []) = (r, w1)" by (meson surj_pair)
  then have "r = Ret ()" by (auto simp: add_waker_def one_selector_def comp_simps)
  with one_active_waker [OF live _ run [unfolded this], of 0 "Token 4"] run show ?thesis by simp
qed

end
