(* ===== verification/Select.thy ===== *)
theory Select
  imports Registration
begin

text \<open>
  The wait of the selector in \<^verbatim>\<open>src/core.cpp\<close>: \<open>select\<close> and its four
  implementations. The vector handed to the kernel is filled with zeros first; the kernel
  overwrites a prefix. Walking past its end is undefined behaviour.
\<close>

section \<open>Definitions\<close>

definition filled :: "nat \<Rightarrow> 'a \<Rightarrow> 'a list \<Rightarrow> 'a list" where
  "filled n zero xs = take n xs @ replicate (n - length xs) zero"

definition for_index :: "int \<Rightarrow> 'a list \<Rightarrow> ('a \<Rightarrow> ('w, unit) comp) \<Rightarrow> ('w, unit) comp" where
  "for_index cnt buffer body =
     bnd (for_each (take (nat cnt) buffer) body) (\<lambda>_.
     if length buffer < nat cnt then undefined_behaviour else return ())"

definition deliver_epoll :: "nat \<Rightarrow> epoll_event \<Rightarrow> (io_world, unit) comp" where
  "deliver_epoll this raw =
     bnd (Selector_find this (ep_fd raw)) (\<lambda>registration.
     case registration of
       None \<Rightarrow> return ()
     | Some r \<Rightarrow>
       (let flags = ep_events raw;
            error = flags AND EPOLLERR \<noteq> 0;
            read_closed = flags AND (EPOLLRDHUP OR EPOLLHUP) \<noteq> 0;
            write_closed = flags AND EPOLLHUP \<noteq> 0 \<or> (flags AND EPOLLERR \<noteq> 0 \<and> flags AND EPOLLOUT \<noteq> 0)
        in
        bnd (push_event (reg_token r) (from_epoll_events flags) error read_closed write_closed) (\<lambda>_.
        if reg_auto_drain r \<and> flags AND EPOLLIN \<noteq> 0 then drain_descriptor (reg_handle r) else return ())))"

definition select_epoll :: "nat \<Rightarrow> int option \<Rightarrow> (io_world, unit) comp" where
  "select_epoll this timeout =
     bnd (gets (ev_capacity \<circ> cur_events)) (\<lambda>capacity.
     bnd allocate (\<lambda>_.
     with_selector this (\<lambda>s.
     bnd (sys (Epoll_wait (backend s) (int64_to_int (int capacity)) (epoll_timeout_ms timeout))) (\<lambda>r.
     if ret r = -1 then
       bnd (gets errno) (\<lambda>e. if e = EINTR then return () else throw_errno ''epoll_wait'')
     else
       for_index (ret r) (filled capacity \<lparr>ep_events = 0, ep_fd = 0\<rparr> (out_events r)) (deliver_epoll this)))))"

definition deliver_kqueue :: "nat \<Rightarrow> kevent_s \<Rightarrow> (io_world, unit) comp" where
  "deliver_kqueue this event =
     bnd (asks macro_defined) (\<lambda>defs.
     bnd (Selector_find this (kev_ident event)) (\<lambda>registration.
     case registration of
       None \<Rightarrow> return ()
     | Some r \<Rightarrow>
       (let error = kev_flags event AND EV_ERROR \<noteq> 0; closed = kev_flags event AND EV_EOF \<noteq> 0 in
        bnd (push_event (reg_token r) (from_kqueue_event defs event) error closed closed) (\<lambda>_.
        if reg_auto_drain r \<and> kev_filter event = EVFILT_READ then drain_descriptor (reg_handle r)
        else return ()))))"

definition select_kqueue :: "nat \<Rightarrow> int option \<Rightarrow> (io_world, unit) comp" where
  "select_kqueue this timeout =
     bnd (gets (ev_capacity \<circ> cur_events)) (\<lambda>capacity.
     bnd allocate (\<lambda>_.
     with_selector this (\<lambda>s.
     bnd (sys (Kevent (backend s) [] (int64_to_int (int capacity)) (map_option to_timespec timeout))) (\<lambda>r.
     if ret r = -1 then
       bnd (gets errno) (\<lambda>e. if e = EINTR then return () else throw_errno ''kevent(wait)'')
     else
       for_index (ret r)
         (filled capacity \<lparr>kev_ident = 0, kev_filter = EVFILT_OTHER 0, kev_flags = 0, kev_udata = 0\<rparr> (out_kevents r))
         (deliver_kqueue this)))))"

definition deliver_poll :: "registration \<times> u16 \<Rightarrow> (io_world, unit) comp" where
  "deliver_poll ready = (case ready of (r, flags) \<Rightarrow>
     if flags = 0 then return ()
     else
       (let closed = flags AND POLLHUP \<noteq> 0 in
        bnd (push_event (reg_token r) (from_poll_events flags) (flags AND POLLERR \<noteq> 0) closed closed) (\<lambda>_.
        if reg_auto_drain r \<and> flags AND POLLIN \<noteq> 0 then drain_descriptor (reg_handle r) else return ())))"

definition select_poll :: "nat \<Rightarrow> int option \<Rightarrow> (io_world, unit) comp" where
  "select_poll this timeout =
     bnd (snapshot this) (\<lambda>registrations.
     bnd allocate (\<lambda>_.
     let poll_fds = map (\<lambda>r. \<lparr>pfd_fd = reg_handle r, pfd_events = to_poll_events (reg_interests r)\<rparr>) registrations in
     bnd (sys (Poll_call poll_fds (poll_timeout_ms timeout))) (\<lambda>r.
     if ret r = -1 then
       bnd (gets errno) (\<lambda>e. if e = EINTR then return () else throw_errno ''poll'')
     else for_each (zip registrations (filled (length registrations) 0 (out_revents r))) deliver_poll)))"

abbreviation (input) packet_key :: int where "packet_key \<equiv> 2 ^ 64 - 1"
abbreviation (input) WAIT_TIMEOUT :: int where "WAIT_TIMEOUT \<equiv> 258"

definition receive_packet :: "nat \<Rightarrow> (io_world, unit) comp" where
  "receive_packet raw = bnd (gets packets) (\<lambda>ps.
     case map_of ps raw of
       None \<Rightarrow> undefined_behaviour
     | Some e \<Rightarrow>
         bnd (push_event (ev_token e) (ev_readiness e) (ev_error e) (ev_read_closed e) (ev_write_closed e)) (\<lambda>_.
         modify (\<lambda>w. w\<lparr>packets := AList.delete raw (packets w)\<rparr>)))"

definition deliver_iocp :: "nat \<Rightarrow> bool \<Rightarrow> int \<Rightarrow> overlapped \<Rightarrow> (io_world, unit) comp" where
  "deliver_iocp this ok key overlapped =
     (if key = packet_key \<and> overlapped \<noteq> Null_Overlapped then
        (case overlapped of Packet_Ptr raw \<Rightarrow> receive_packet raw | _ \<Rightarrow> undefined_behaviour)
      else if key = afd_completion_key \<and> overlapped \<noteq> Null_Overlapped then
        (case overlapped of Afd_Op op \<Rightarrow> complete_afd_operation op | _ \<Rightarrow> undefined_behaviour)
      else
        bnd (Selector_find this key) (\<lambda>registration.
        case registration of
          None \<Rightarrow> return ()
        | Some r \<Rightarrow> push_event (reg_token r) (reg_interests r) (\<not> ok) (\<not> ok) (\<not> ok)))"

definition select_iocp_step :: "nat \<Rightarrow> int \<Rightarrow> (io_world, bool) comp" where
  "select_iocp_step this timeout_ms = with_selector this (\<lambda>s.
     bnd (gets (Events_is_empty \<circ> cur_events)) (\<lambda>is_empty.
     bnd (sys (Get_queued (iocp s) (if is_empty then timeout_ms else 0))) (\<lambda>r.
     let ok = ret r \<noteq> 0 in
     if \<not> ok \<and> out_overlapped r = Null_Overlapped then
       bnd (gets errno) (\<lambda>error.
       if error = WAIT_TIMEOUT then return False
       else throw_last_system_error ''GetQueuedCompletionStatus'')
     else
       bnd (deliver_iocp this ok (out_key r) (out_overlapped r)) (\<lambda>_. return True))))"

definition select_iocp :: "nat \<Rightarrow> int option \<Rightarrow> (io_world, unit) comp" where
  "select_iocp this timeout =
     while_comp (\<lambda>w. Events_size (cur_events w) < ev_capacity (cur_events w))
       (select_iocp_step this (iocp_timeout_ms timeout))"

definition select :: "nat \<Rightarrow> int option \<Rightarrow> (io_world, unit) comp" where
  "select this timeout =
     bnd (modify (\<lambda>w. w\<lparr>cur_events := Events_clear (cur_events w)\<rparr>)) (\<lambda>_.
     bnd (gets cur_events) (\<lambda>events.
     if ev_capacity events = 0 then return ()
     else bnd (asks platform) (\<lambda>p.
       case p of
         Windows \<Rightarrow> select_iocp this timeout
       | Linux \<Rightarrow> select_epoll this timeout
       | Kqueue \<Rightarrow> select_kqueue this timeout
       | Poll_Unix \<Rightarrow> select_poll this timeout)))"

section \<open>Delivering a batch of readiness records\<close>

text \<open>
  Three of the back ends turn a vector of records into events one by one. The contract of
  such a step: it appends the event that the record reports, if any, and touches neither the
  tables nor, while there is room, the capacity of the buffer. From it follows what the loop
  appends.
\<close>

definition roomy :: "io_world \<Rightarrow> bool" where
  "roomy w \<longleftrightarrow> Events_size (cur_events w) < ev_capacity (cur_events w)"

definition allocations_succeed :: "env \<Rightarrow> bool" where
  "allocations_succeed env \<longleftrightarrow> (\<forall>h. ret (answer env h Alloc) \<noteq> 0)"

abbreviation (input) items :: "io_world \<Rightarrow> event list" where
  "items w \<equiv> ev_items (cur_events w)"

abbreviation (input) capacity :: "io_world \<Rightarrow> nat" where
  "capacity w \<equiv> ev_capacity (cur_events w)"

locale event_delivery =
  fixes env :: env
    and tables :: "nat \<rightharpoonup> selector"
    and body :: "'x \<Rightarrow> (io_world, unit) comp"
    and report :: "'x \<Rightarrow> event option"
    and drains :: "'x \<Rightarrow> bool"
  assumes delivers: "selectors w = tables \<Longrightarrow> roomy w \<or> allocations_succeed env \<Longrightarrow> body x env w = (r, w') \<Longrightarrow>
      selectors w' = tables \<and> (r = Ret () \<or> r = Diverge \<and> drains x) \<and> items w' = items w @ List.map_filter report [x]
      \<and> (roomy w \<longrightarrow> capacity w' = capacity w)"
begin

lemma deliver_all:
  assumes "selectors w = tables" "for_each xs body env w = (r, w')"
    and room: "Events_size (cur_events w) + length xs \<le> capacity w \<or> allocations_succeed env"
  shows "selectors w' = tables \<and> (r = Ret () \<or> r = Diverge \<and> list_ex drains xs)
    \<and> (r = Ret () \<longrightarrow> items w' = items w @ List.map_filter report xs)
    \<and> (Events_size (cur_events w) + length xs \<le> capacity w \<longrightarrow>
        capacity w' = capacity w \<and> Events_size (cur_events w') \<le> capacity w)"
  using assms
proof (induction xs arbitrary: w)
  case Nil
  then show ?case by (auto simp: comp_simps map_filter_simps)
next
  case (Cons x xs)
  obtain r1 w1 where run: "body x env w = (r1, w1)" by (meson surj_pair)
  have "roomy w \<or> allocations_succeed env" using Cons.prems(3) by (auto simp: roomy_def)
  note d = delivers [OF Cons.prems(1) this run]
  have len: "Events_size (cur_events w1) \<le> Suc (Events_size (cur_events w))"
    using d by (simp add: Events_size_def List.map_filter_def)
  have cap: "Events_size (cur_events w) + length (x # xs) \<le> capacity w \<Longrightarrow> capacity w1 = capacity w"
    using d by (simp add: roomy_def)
  show ?case
  proof (cases "r1 = Ret ()")
    case True
    then have "for_each xs body env w1 = (r, w')" using Cons.prems(2) run by (simp add: bnd_def)
    from Cons.IH [OF _ this] d Cons.prems(3) len cap True show ?thesis
      by (auto simp: List.map_filter_def)
  next
    case False
    then have "r = Diverge" "w' = w1" "drains x" using Cons.prems(2) run d by (auto simp: bnd_def)
    then show ?thesis using d len cap by auto
  qed
qed

text \<open>The loop over what the kernel stored in the zeroed vector.\<close>

lemma deliver_reported:
  assumes "selectors w = tables" "items w = []" "capacity w = cap" "length out = nat n" "nat n \<le> cap"
    and "for_index n (filled cap zero out) body env w = (r, w')"
  shows "selectors w' = tables \<and> capacity w' = cap \<and> Events_size (cur_events w') \<le> cap
    \<and> (r = Ret () \<and> items w' = List.map_filter report out \<or> r = Diverge \<and> list_ex drains out)"
proof -
  have buf: "take (nat n) (filled cap zero out) = out" "\<not> length (filled cap zero out) < nat n"
    using assms(4,5) by (simp_all add: filled_def)
  obtain r1 w1 where run: "for_each out body env w = (r1, w1)" by (meson surj_pair)
  have room: "Events_size (cur_events w) + length out \<le> capacity w"
    using assms by (simp add: Events_size_def)
  note all = deliver_all [OF assms(1) run disjI1 [OF room]]
  then have "r = r1 \<and> w' = w1"
    using assms(6) run buf by (auto simp: for_index_def bnd_def comp_simps)
  with all room assms(2,3) show ?thesis by auto
qed

end

lemma push_event_result:
  assumes "roomy w \<or> allocations_succeed env" "push_event t i e rc wc env w = (r, w')"
  shows "r = Ret () \<and> selectors w' = selectors w \<and> items w' = items w @ [Event_new t i e rc wc]
    \<and> (roomy w \<longrightarrow> capacity w' = capacity w)"
  using assms
  by (auto simp: push_event_def comp_simps roomy_def allocations_succeed_def Events_push_def Events_size_def
      split: if_splits)

lemma drain_result:
  fixes w :: io_world
  assumes "drain_descriptor h env w = (r, w')"
  shows "objects w' = objects w \<and> (r = Ret () \<or> r = Diverge)"
  using quiet_objects [OF quiet_drain_descriptor assms] assms
  by (auto simp: drain_descriptor_def split: option.splits)

text \<open>Push an event, then drain the descriptor if asked to: the end of every step.\<close>

lemma push_and_drain:
  assumes "roomy w \<or> allocations_succeed env"
    "bnd (push_event t i e rc wc) (\<lambda>_. if b then drain_descriptor h else return ()) env w = (r, w')"
  shows "selectors w' = selectors w \<and> (r = Ret () \<or> r = Diverge \<and> b)
    \<and> items w' = items w @ [Event_new t i e rc wc] \<and> (roomy w \<longrightarrow> capacity w' = capacity w)"
proof -
  obtain r1 w1 where p: "push_event t i e rc wc env w = (r1, w1)" by (meson surj_pair)
  note push = push_event_result [OF assms(1) p]
  then have "(if b then drain_descriptor h else return ()) env w1 = (r, w')"
    using assms(2) p by (simp add: bnd_def)
  then have "objects w' = objects w1 \<and> (r = Ret () \<or> r = Diverge \<and> b)"
    using drain_result by (cases b) (auto simp: comp_simps)
  with push show ?thesis by (simp add: objects_def)
qed

definition epoll_report :: "selector \<Rightarrow> epoll_event \<Rightarrow> event option" where
  "epoll_report s raw = map_option (\<lambda>r. let flags = ep_events raw in
     Event_new (reg_token r) (from_epoll_events flags) (flags AND EPOLLERR \<noteq> 0)
       (flags AND (EPOLLRDHUP OR EPOLLHUP) \<noteq> 0)
       (flags AND EPOLLHUP \<noteq> 0 \<or> (flags AND EPOLLERR \<noteq> 0 \<and> flags AND EPOLLOUT \<noteq> 0)))
     (map_of (registrations s) (ep_fd raw))"

definition kqueue_report :: "(macro \<Rightarrow> bool) \<Rightarrow> selector \<Rightarrow> kevent_s \<Rightarrow> event option" where
  "kqueue_report defs s event = map_option (\<lambda>r.
     let closed = kev_flags event AND EV_EOF \<noteq> 0 in
     Event_new (reg_token r) (from_kqueue_event defs event) (kev_flags event AND EV_ERROR \<noteq> 0) closed closed)
     (map_of (registrations s) (kev_ident event))"

definition poll_report :: "registration \<times> u16 \<Rightarrow> event option" where
  "poll_report ready = (case ready of (r, flags) \<Rightarrow> if flags = 0 then None
     else (let closed = flags AND POLLHUP \<noteq> 0 in
       Some (Event_new (reg_token r) (from_poll_events flags) (flags AND POLLERR \<noteq> 0) closed closed)))"

text \<open>Whether the step for a record drains a descriptor.\<close>

definition epoll_drains :: "selector \<Rightarrow> epoll_event \<Rightarrow> bool" where
  "epoll_drains s raw = (case map_of (registrations s) (ep_fd raw) of
     None \<Rightarrow> False | Some r \<Rightarrow> reg_auto_drain r \<and> ep_events raw AND EPOLLIN \<noteq> 0)"

definition kqueue_drains :: "selector \<Rightarrow> kevent_s \<Rightarrow> bool" where
  "kqueue_drains s event = (case map_of (registrations s) (kev_ident event) of
     None \<Rightarrow> False | Some r \<Rightarrow> reg_auto_drain r \<and> kev_filter event = EVFILT_READ)"

definition poll_drains :: "registration \<times> u16 \<Rightarrow> bool" where
  "poll_drains ready = (case ready of (r, flags) \<Rightarrow> reg_auto_drain r \<and> flags AND POLLIN \<noteq> 0)"

lemma map_filter_single: "List.map_filter f [x] = (case f x of None \<Rightarrow> [] | Some y \<Rightarrow> [y])"
  by (simp add: map_filter_simps split: option.splits)

lemma epoll_delivery:
  assumes "tables this = Some s"
  shows "event_delivery env tables (deliver_epoll this) (epoll_report s) (epoll_drains s)"
proof
  fix w x r w'
  assume w: "selectors w = tables" "roomy w \<or> allocations_succeed env" and run: "deliver_epoll this x env w = (r, w')"
  show "selectors w' = tables \<and> (r = Ret () \<or> r = Diverge \<and> epoll_drains s x)
      \<and> items w' = items w @ List.map_filter (epoll_report s) [x]
      \<and> (roomy w \<longrightarrow> capacity w' = capacity w)"
  proof (cases "map_of (registrations s) (ep_fd x)")
    case None
    then show ?thesis using run w(1) assms
      by (auto simp: deliver_epoll_def comp_simps epoll_report_def map_filter_single)
  next
    case (Some reg)
    have "bnd (push_event (reg_token reg) (from_epoll_events (ep_events x)) (ep_events x AND EPOLLERR \<noteq> 0)
        (ep_events x AND (EPOLLRDHUP OR EPOLLHUP) \<noteq> 0)
        (ep_events x AND EPOLLHUP \<noteq> 0 \<or> (ep_events x AND EPOLLERR \<noteq> 0 \<and> ep_events x AND EPOLLOUT \<noteq> 0)))
        (\<lambda>_. if reg_auto_drain reg \<and> ep_events x AND EPOLLIN \<noteq> 0 then drain_descriptor (reg_handle reg)
          else return ()) env w = (r, w')"
      using run w(1) assms Some by (simp add: deliver_epoll_def comp_simps Let_def)
    from push_and_drain [OF w(2) this] show ?thesis
      using w(1) Some by (auto simp: epoll_report_def epoll_drains_def map_filter_single Let_def)
  qed
qed

lemma kqueue_delivery:
  assumes "tables this = Some s"
  shows "event_delivery env tables (deliver_kqueue this) (kqueue_report (macro_defined env) s) (kqueue_drains s)"
proof
  fix w x r w'
  assume w: "selectors w = tables" "roomy w \<or> allocations_succeed env" and run: "deliver_kqueue this x env w = (r, w')"
  show "selectors w' = tables \<and> (r = Ret () \<or> r = Diverge \<and> kqueue_drains s x)
      \<and> items w' = items w @ List.map_filter (kqueue_report (macro_defined env) s) [x]
      \<and> (roomy w \<longrightarrow> capacity w' = capacity w)"
  proof (cases "map_of (registrations s) (kev_ident x)")
    case None
    then show ?thesis using run w(1) assms
      by (auto simp: deliver_kqueue_def comp_simps kqueue_report_def map_filter_single)
  next
    case (Some reg)
    have "bnd (push_event (reg_token reg) (from_kqueue_event (macro_defined env) x) (kev_flags x AND EV_ERROR \<noteq> 0)
        (kev_flags x AND EV_EOF \<noteq> 0) (kev_flags x AND EV_EOF \<noteq> 0))
        (\<lambda>_. if reg_auto_drain reg \<and> kev_filter x = EVFILT_READ then drain_descriptor (reg_handle reg)
          else return ()) env w = (r, w')"
      using run w(1) assms Some by (simp add: deliver_kqueue_def comp_simps Let_def)
    from push_and_drain [OF w(2) this] show ?thesis
      using w(1) Some by (auto simp: kqueue_report_def kqueue_drains_def map_filter_single Let_def)
  qed
qed

lemma poll_delivery: "event_delivery env tables deliver_poll poll_report poll_drains"
proof
  fix w x r w'
  assume w: "selectors w = tables" "roomy w \<or> allocations_succeed env" and run: "deliver_poll x env w = (r, w')"
  obtain reg flags where x: "x = (reg, flags)" by (cases x)
  show "selectors w' = tables \<and> (r = Ret () \<or> r = Diverge \<and> poll_drains x)
      \<and> items w' = items w @ List.map_filter poll_report [x]
      \<and> (roomy w \<longrightarrow> capacity w' = capacity w)"
  proof (cases "flags = 0")
    case True
    then show ?thesis using run w(1) x
      by (auto simp: deliver_poll_def comp_simps poll_report_def map_filter_single)
  next
    case False
    then have "bnd (push_event (reg_token reg) (from_poll_events flags) (flags AND POLLERR \<noteq> 0)
        (flags AND POLLHUP \<noteq> 0) (flags AND POLLHUP \<noteq> 0))
        (\<lambda>_. if reg_auto_drain reg \<and> flags AND POLLIN \<noteq> 0 then drain_descriptor (reg_handle reg)
          else return ()) env w = (r, w')"
      using run x by (simp add: deliver_poll_def comp_simps Let_def)
    from push_and_drain [OF w(2) this] show ?thesis
      using w(1) x False by (auto simp: poll_report_def poll_drains_def map_filter_single Let_def)
  qed
qed

interpretation epoll_events: event_delivery env "tables(this \<mapsto> s)" "deliver_epoll this" "epoll_report s" "epoll_drains s"
  for env tables this s
  by (rule epoll_delivery) simp

interpretation kqueue_events: event_delivery env "tables(this \<mapsto> s)" "deliver_kqueue this"
    "kqueue_report (macro_defined env) s" "kqueue_drains s"
  for env tables this s
  by (rule kqueue_delivery) simp

interpretation poll_events: event_delivery env tables deliver_poll poll_report poll_drains
  for env tables
  by (rule poll_delivery)

section \<open>The wait on epoll and kqueue\<close>

text \<open>
  What a wait whose reply is \<open>k\<close> does, given the events that the records of the
  kernel report: an interrupted wait yields no events, another failure is thrown, and
  otherwise exactly the reported events are in the buffer. Only draining a descriptor that
  never runs dry keeps it from returning.
\<close>

definition wait_outcome ::
  "string \<Rightarrow> reply \<Rightarrow> event list \<Rightarrow> bool \<Rightarrow> io_world \<Rightarrow> unit outcome \<Rightarrow> io_world \<Rightarrow> bool" where
  "wait_outcome what k reported drained w r w' \<longleftrightarrow>
     selectors w' = selectors w \<and> ev_capacity (cur_events w') = ev_capacity (cur_events w)
     \<and> Events_size (cur_events w') \<le> ev_capacity (cur_events w)
     \<and> (if ret k = -1 then
          ev_items (cur_events w') = []
          \<and> r = (if err k = EINTR then Ret ()
                 else Throw (System_Error \<lparr>ec_value = err k, ec_category = Generic\<rparr> what))
        else r = Ret () \<and> ev_items (cur_events w') = reported \<or> r = Diverge \<and> drained)"

lemma cleared_simps [simp]:
  "ev_items (Events_clear evs) = []" "ev_capacity (Events_clear evs) = ev_capacity evs"
  "Events_size (Events_clear evs) = 0"
  by (simp_all add: Events_clear_def Events_size_def)

lemma logged_cur_events [simp]: "logged env c (w\<lparr>cur_events := evs\<rparr>) = (logged env c w)\<lparr>cur_events := evs\<rparr>"
  by (simp add: logged_def)

text \<open>The wait on epoll, for whatever its delivery step drains.\<close>

lemma select_epoll_delivers:
  assumes "platform env = Linux" "selectors w this = Some s"
    and cap: "0 < ev_capacity (cur_events w)" "int (ev_capacity (cur_events w)) \<le> INT_MAX"
    and mem: "ret (answer env (history w) Alloc) \<noteq> 0"
    and k: "k = answer env (history w @ [(Alloc, answer env (history w) Alloc)])
      (Epoll_wait (backend s) (int (ev_capacity (cur_events w))) (epoll_timeout_ms timeout))"
    and contract: "ret k = -1 \<or> ret k = int (length (out_events k)) \<and> ret k \<le> int (ev_capacity (cur_events w))"
    and delivery: "event_delivery env (selectors w) (deliver_epoll this) (epoll_report s) drains"
    and run: "select this timeout env w = (r, w')"
  shows "wait_outcome ''epoll_wait'' k (List.map_filter (epoll_report s) (out_events k))
    (list_ex drains (out_events k)) w r w'"
proof -
  let ?c = "Epoll_wait (backend s) (int (ev_capacity (cur_events w))) (epoll_timeout_ms timeout)"
  let ?w = "logged env ?c (logged env Alloc (w\<lparr>cur_events := Events_clear (cur_events w)\<rparr>))"
  have int: "int64_to_int (int (ev_capacity (cur_events w))) = int (ev_capacity (cur_events w))"
    using cap by (intro int64_to_int_small) simp_all
  have k': "answer env (history (logged env Alloc w)) ?c = k" using k by simp
  show ?thesis
  proof (cases "ret k = -1")
    case True
    then show ?thesis using run assms(1,2) cap(1) mem int k'
      by (auto simp: select_def select_epoll_def comp_simps wait_outcome_def)
  next
    case False
    have loop: "for_index (ret k) (filled (ev_capacity (cur_events w)) \<lparr>ep_events = 0, ep_fd = 0\<rparr> (out_events k))
        (deliver_epoll this) env ?w = (r, w')"
      using run assms(1,2) cap(1) mem int k' False by (simp add: select_def select_epoll_def comp_simps)
    have "selectors ?w = selectors w" by simp
    from event_delivery.deliver_reported [OF delivery this _ _ _ _ loop] contract False show ?thesis
      by (auto simp: wait_outcome_def)
  qed
qed

text \<open>
  C6. A wait on Linux. Under the contract of \<open>epoll_wait\<close>, which stores as many
  records as it returns and at most as many as asked for, the buffer holds afterwards exactly
  the events of the records whose descriptor is registered, in the kernel's order, with the
  registered token, and never more than its capacity; the table is untouched. An interrupted
  wait returns with no events and every other failure is thrown.
\<close>

theorem select_epoll_reports:
  assumes "platform env = Linux" "selectors w this = Some s"
    and cap: "0 < ev_capacity (cur_events w)" "int (ev_capacity (cur_events w)) \<le> INT_MAX"
    and mem: "ret (answer env (history w) Alloc) \<noteq> 0"
    and k: "k = answer env (history w @ [(Alloc, answer env (history w) Alloc)])
      (Epoll_wait (backend s) (int (ev_capacity (cur_events w))) (epoll_timeout_ms timeout))"
    and contract: "ret k = -1 \<or> ret k = int (length (out_events k)) \<and> ret k \<le> int (ev_capacity (cur_events w))"
    and run: "select this timeout env w = (r, w')"
  shows "wait_outcome ''epoll_wait'' k (List.map_filter (epoll_report s) (out_events k))
    (list_ex (epoll_drains s) (out_events k)) w r w'"
proof -
  have "event_delivery env (selectors w) (deliver_epoll this) (epoll_report s) (epoll_drains s)"
    using epoll_events.event_delivery_axioms [of env "selectors w" this s] assms(2) by (simp add: fun_upd_idem)
  from select_epoll_delivers [OF assms(1-7) this run] show ?thesis .
qed

text \<open>
  A concrete system for the witnesses: one registered descriptor 5, and a kernel that reports
  it readable together with a stale record of descriptor 9.
\<close>

definition ready_answer :: "call \<Rightarrow> reply" where
  "ready_answer c = (case c of
     Alloc \<Rightarrow> plain 1 0
   | Epoll_wait _ _ _ \<Rightarrow>
       (plain 2 0)\<lparr>out_events := [\<lparr>ep_events = EPOLLIN, ep_fd = 9\<rparr>, \<lparr>ep_events = EPOLLIN, ep_fd = 5\<rparr>]\<rparr>
   | Kevent _ _ _ _ \<Rightarrow>
       (plain 1 0)\<lparr>out_kevents := [\<lparr>kev_ident = 5, kev_filter = EVFILT_READ, kev_flags = 0, kev_udata = 7\<rparr>]\<rparr>
   | Poll_call _ _ \<Rightarrow> (plain 2 0)\<lparr>out_revents := [POLLIN, POLLIN]\<rparr>
   | _ \<Rightarrow> plain 0 0)"

definition ready_env :: "platform \<Rightarrow> env" where
  "ready_env p = \<lparr>platform = p, host_endian = Little, macro_defined = (\<lambda>_. True), answer = (\<lambda>_. ready_answer)\<rparr>"

definition ready_world :: "platform \<Rightarrow> io_world" where
  "ready_world p = one_selector p [(5, entry 5 Kind_socket (Token 7) READABLE False)]"

lemmas ready_demo = ready_env_def ready_world_def one_selector_def ready_answer_def plain_def
  Events_new_def entry_def

theorem select_epoll_reports_witness:
  "\<exists>r w'. select 1 None (ready_env Linux) (ready_world Linux) = (r, w') \<and> r = Ret ()
     \<and> ev_items (cur_events w') = [Event_new (Token 7) READABLE False False False]"
proof -
  let ?w = "ready_world Linux" and ?s = "the (selectors (ready_world Linux) 1)"
  let ?k = "ready_answer (Epoll_wait 3 4 (-1))"
  obtain r w' where run: "select 1 None (ready_env Linux) ?w = (r, w')" by (meson surj_pair)
  have "wait_outcome ''epoll_wait'' ?k (List.map_filter (epoll_report ?s) (out_events ?k))
      (list_ex (epoll_drains ?s) (out_events ?k)) ?w r w'"
    by (rule select_epoll_reports [OF _ _ _ _ _ _ _ run]) (simp_all add: ready_demo epoll_timeout_ms_def)
  moreover have "List.map_filter (epoll_report ?s) (out_events ?k) = [Event_new (Token 7) READABLE False False False]"
    "\<not> list_ex (epoll_drains ?s) (out_events ?k)" "ret ?k = 2"
    by (simp_all add: ready_demo epoll_report_def epoll_drains_def map_filter_simps from_epoll_events_def
        flag_simps interest_consts Interest_add_def)
  ultimately show ?thesis using run by (auto simp: wait_outcome_def)
qed

text \<open>
  C18. A wait on kqueue: the same, for the records that \<open>kevent\<close> stores; an end
  of file closes both directions.
\<close>

theorem select_kqueue_reports:
  assumes "platform env = Kqueue" "selectors w this = Some s"
    and cap: "0 < ev_capacity (cur_events w)" "int (ev_capacity (cur_events w)) \<le> INT_MAX"
    and mem: "ret (answer env (history w) Alloc) \<noteq> 0"
    and k: "k = answer env (history w @ [(Alloc, answer env (history w) Alloc)])
      (Kevent (backend s) [] (int (ev_capacity (cur_events w))) (map_option to_timespec timeout))"
    and contract: "ret k = -1 \<or> ret k = int (length (out_kevents k)) \<and> ret k \<le> int (ev_capacity (cur_events w))"
    and run: "select this timeout env w = (r, w')"
  shows "wait_outcome ''kevent(wait)'' k (List.map_filter (kqueue_report (macro_defined env) s) (out_kevents k))
    (list_ex (kqueue_drains s) (out_kevents k)) w r w'"
proof -
  let ?c = "Kevent (backend s) [] (int (ev_capacity (cur_events w))) (map_option to_timespec timeout)"
  let ?w = "logged env ?c (logged env Alloc (w\<lparr>cur_events := Events_clear (cur_events w)\<rparr>))"
  have int: "int64_to_int (int (ev_capacity (cur_events w))) = int (ev_capacity (cur_events w))"
    using cap by (intro int64_to_int_small) simp_all
  have k': "answer env (history (logged env Alloc w)) ?c = k" using k by simp
  show ?thesis
  proof (cases "ret k = -1")
    case True
    then show ?thesis using run assms(1,2) cap(1) mem int k'
      by (auto simp: select_def select_kqueue_def comp_simps wait_outcome_def)
  next
    case False
    have loop: "for_index (ret k) (filled (ev_capacity (cur_events w))
        \<lparr>kev_ident = 0, kev_filter = EVFILT_OTHER 0, kev_flags = 0, kev_udata = 0\<rparr> (out_kevents k))
        (deliver_kqueue this) env ?w = (r, w')"
      using run assms(1,2) cap(1) mem int k' False by (simp add: select_def select_kqueue_def comp_simps)
    have "selectors ?w = (selectors w)(this \<mapsto> s)" using assms(2) by (simp add: fun_upd_idem)
    from kqueue_events.deliver_reported [OF this _ _ _ _ loop] contract False show ?thesis
      using assms(2) by (auto simp: wait_outcome_def fun_upd_idem)
  qed
qed

theorem select_kqueue_reports_witness:
  "\<exists>r w'. select 1 (Some 1500) (ready_env Kqueue) (ready_world Kqueue) = (r, w') \<and> r = Ret ()
     \<and> ev_items (cur_events w') = [Event_new (Token 7) READABLE False False False]"
proof -
  let ?w = "ready_world Kqueue" and ?s = "the (selectors (ready_world Kqueue) 1)"
  let ?k = "ready_answer (Kevent 3 [] 4 (Some \<lparr>tv_sec = 1, tv_nsec = 500000000\<rparr>))"
  let ?defs = "macro_defined (ready_env Kqueue)"
  obtain r w' where run: "select 1 (Some 1500) (ready_env Kqueue) ?w = (r, w')" by (meson surj_pair)
  have "wait_outcome ''kevent(wait)'' ?k (List.map_filter (kqueue_report ?defs ?s) (out_kevents ?k))
      (list_ex (kqueue_drains ?s) (out_kevents ?k)) ?w r w'"
    by (rule select_kqueue_reports [OF _ _ _ _ _ _ _ run]) (simp_all add: ready_demo to_timespec_def)
  moreover have "List.map_filter (kqueue_report ?defs ?s) (out_kevents ?k)
      = [Event_new (Token 7) READABLE False False False]"
    "\<not> list_ex (kqueue_drains ?s) (out_kevents ?k)" "ret ?k = 1"
    by (simp_all add: ready_demo kqueue_report_def kqueue_drains_def map_filter_simps from_kqueue_event_def
        interest_consts Interest_add_def)
  ultimately show ?thesis using run by (auto simp: wait_outcome_def)
qed

section \<open>The wait on poll\<close>

text \<open>
  C19. A wait on the \<open>poll\<close> fallback, when memory can be had. With a buffer of
  capacity 0 it returns at once without an event or a call. Otherwise every registration is handed to the kernel with
  the mask of its interest, and the buffer holds afterwards exactly one event per registration
  with returned events, in the order of the snapshot. A positive capacity bounds nothing: the
  buffer grows when more registrations are ready than it was made for.
\<close>

theorem select_poll_reports:
  assumes "platform env = Poll_Unix" "selectors w this = Some s"
    and mem: "allocations_succeed env"
    and k: "k = answer env (history (logged env Alloc (logged env Alloc w)))
      (Poll_call (map (\<lambda>(h, reg). \<lparr>pfd_fd = reg_handle reg, pfd_events = to_poll_events (reg_interests reg)\<rparr>)
        (registrations s)) (poll_timeout_ms timeout))"
    and contract: "ret k = -1 \<or> length (out_revents k) = length (registrations s)"
    and run: "select this timeout env w = (r, w')"
  shows "selectors w' = selectors w
    \<and> (if ev_capacity (cur_events w) = 0 then r = Ret () \<and> ev_items (cur_events w') = [] \<and> history w' = history w
       else if ret k = -1 then ev_items (cur_events w') = []
         \<and> r = (if err k = EINTR then Ret ()
                else Throw (System_Error \<lparr>ec_value = err k, ec_category = Generic\<rparr> ''poll''))
       else r = Ret () \<and> ev_items (cur_events w')
              = List.map_filter poll_report (zip (map snd (registrations s)) (out_revents k))
         \<or> r = Diverge \<and> list_ex poll_drains (zip (map snd (registrations s)) (out_revents k)))"
proof -
  let ?c = "Poll_call (map (\<lambda>(h, reg). \<lparr>pfd_fd = reg_handle reg, pfd_events = to_poll_events (reg_interests reg)\<rparr>)
        (registrations s)) (poll_timeout_ms timeout)"
  let ?w = "logged env ?c (logged env Alloc (logged env Alloc (w\<lparr>cur_events := Events_clear (cur_events w)\<rparr>)))"
  have fds: "map (\<lambda>r. \<lparr>pfd_fd = reg_handle r, pfd_events = to_poll_events (reg_interests r)\<rparr>) (map snd (registrations s))
      = map (\<lambda>(h, reg). \<lparr>pfd_fd = reg_handle reg, pfd_events = to_poll_events (reg_interests reg)\<rparr>) (registrations s)"
    by (simp add: split_def comp_def)
  have mem': "ret (answer env h Alloc) \<noteq> 0" for h using mem by (simp add: allocations_succeed_def)
  have k': "answer env (history (logged env Alloc (logged env Alloc w))) ?c = k" using k by simp
  note steps = select_def select_poll_def snapshot_def Let_def fds comp_simps
  consider (none) "ev_capacity (cur_events w) = 0" | (err) "0 < ev_capacity (cur_events w)" "ret k = -1"
    | (ok) "0 < ev_capacity (cur_events w)" "ret k \<noteq> -1" by blast
  then show ?thesis
  proof cases
    case none
    then show ?thesis using run by (auto simp: steps)
  next
    case err
    then show ?thesis using run assms(1,2) mem' k' by (auto simp: steps simp del: map_map)
  next
    case ok
    with run assms(1,2) mem' k'
    have "for_each (zip (map snd (registrations s)) (filled (length (map snd (registrations s))) 0 (out_revents k)))
        deliver_poll env ?w = (r, w')"
      by (simp add: steps del: map_map)
    with contract ok(2)
    have "for_each (zip (map snd (registrations s)) (out_revents k)) deliver_poll env ?w = (r, w')"
      by (simp add: filled_def)
    from poll_events.deliver_all [OF refl this disjI2 [OF mem]] ok show ?thesis by auto
  qed
qed

theorem select_poll_reports_witness:
  "\<exists>w'. select 1 None (ready_env Poll_Unix) ((one_selector Poll_Unix [(5, entry 5 Kind_socket (Token 7) READABLE False),
       (6, entry 6 Kind_socket (Token 8) READABLE False)])\<lparr>cur_events := Events_new 1\<rparr>) = (Ret (), w')
     \<and> ev_items (cur_events w') = [Event_new (Token 7) READABLE False False False,
         Event_new (Token 8) READABLE False False False]"
proof -
  let ?env = "ready_env Poll_Unix"
  let ?w = "(one_selector Poll_Unix [(5, entry 5 Kind_socket (Token 7) READABLE False),
       (6, entry 6 Kind_socket (Token 8) READABLE False)])\<lparr>cur_events := Events_new 1\<rparr>"
  let ?s = "the (selectors ?w 1)"
  let ?k = "ready_answer (Poll_call (map (\<lambda>(h, reg). \<lparr>pfd_fd = reg_handle reg,
      pfd_events = to_poll_events (reg_interests reg)\<rparr>) (registrations ?s)) (-1))"
  obtain r w' where run: "select 1 None ?env ?w = (r, w')" by (meson surj_pair)
  have "selectors w' = selectors ?w
    \<and> (if ev_capacity (cur_events ?w) = 0 then r = Ret () \<and> ev_items (cur_events w') = [] \<and> history w' = history ?w
       else if ret ?k = -1 then ev_items (cur_events w') = []
         \<and> r = (if err ?k = EINTR then Ret ()
                else Throw (System_Error \<lparr>ec_value = err ?k, ec_category = Generic\<rparr> ''poll''))
       else r = Ret () \<and> ev_items (cur_events w')
              = List.map_filter poll_report (zip (map snd (registrations ?s)) (out_revents ?k))
         \<or> r = Diverge \<and> list_ex poll_drains (zip (map snd (registrations ?s)) (out_revents ?k)))"
    by (rule select_poll_reports [OF _ _ _ _ _ run])
      (simp_all add: ready_demo allocations_succeed_def poll_timeout_ms_def clamp_timeout_def int64_to_int_small)
  moreover have "List.map_filter poll_report (zip (map snd (registrations ?s)) (out_revents ?k))
      = [Event_new (Token 7) READABLE False False False, Event_new (Token 8) READABLE False False False]"
    "\<not> list_ex poll_drains (zip (map snd (registrations ?s)) (out_revents ?k))" "ret ?k = 2" "ev_capacity (cur_events ?w) = 1"
    by (simp_all add: ready_demo poll_report_def poll_drains_def map_filter_simps from_poll_events_def
        flag_simps interest_consts Interest_add_def)
  ultimately show ?thesis using run by auto
qed

section \<open>The wait on a completion port\<close>

text \<open>The invariant of the loop that collects completions.\<close>

definition collecting :: "env \<Rightarrow> (nat \<rightharpoonup> selector) \<Rightarrow> nat \<Rightarrow> io_world \<Rightarrow> bool" where
  "collecting env tables cap w \<longleftrightarrow> io_ok env w \<and> selectors w = tables
     \<and> ev_capacity (cur_events w) = cap \<and> Events_size (cur_events w) \<le> cap"

lemma io_ok_buffers: "io_ok env (w\<lparr>cur_events := evs, packets := ps\<rparr>) = io_ok env w"
  "io_ok env (w\<lparr>cur_events := evs\<rparr>) = io_ok env w" "io_ok env (w\<lparr>packets := ps\<rparr>) = io_ok env w"
  by (simp_all add: io_ok_def tables_ok_def refs_ok_def afd_ok_def)

lemma Events_push_room:
  "Events_size evs < ev_capacity evs \<Longrightarrow> ev_capacity (Events_push t i e rc wc evs) = ev_capacity evs"
  "Events_size (Events_push t i e rc wc evs) = Suc (Events_size evs)"
  by (simp_all add: Events_push_def Events_size_def)

lemma receive_packet_run:
  assumes "roomy w" "map_of (packets w) raw = Some e"
  shows "receive_packet raw env w = (Ret (), w\<lparr>cur_events :=
    Events_push (ev_token e) (ev_readiness e) (ev_error e) (ev_read_closed e) (ev_write_closed e) (cur_events w),
    packets := AList.delete raw (packets w)\<rparr>)"
  using assms by (simp add: receive_packet_def roomy_def comp_simps)

lemma complete_afd_operation_collects:
  assumes "collecting env tables cap w" "roomy w" "complete_afd_operation op env w = (r, w')"
  shows "collecting env tables cap w'"
proof (cases "map_of (operations w) op")
  case None
  then show ?thesis using assms by (auto simp: complete_afd_operation_def comp_simps)
next
  case (Some a)
  have "afd_ok w" "Events_size (cur_events w) < ev_capacity (cur_events w)"
    using assms(1,2) by (simp_all add: collecting_def io_ok_def roomy_def)
  from complete_afd_operation_runs [OF this(1) Some this(2) assms(3)] obtain st :: AfdSocketState and st1 f where
    ch0: "afd_change a (w\<lparr>afd_states := (afd_states w)(a \<mapsto> st1), cur_events :=
        (if f \<noteq> 0 then Events_push (afd_token st) (afd_flags_to_interest f)
           (f AND afd_error_flags \<noteq> 0) (f AND afd_read_closed_flags \<noteq> 0)
           (f AND afd_write_closed_flags \<noteq> 0) (cur_events w) else cur_events w)\<rparr>) r w'"
    by blast
  define evs where "evs = (if f \<noteq> 0 then Events_push (afd_token st) (afd_flags_to_interest f)
           (f AND afd_error_flags \<noteq> 0) (f AND afd_read_closed_flags \<noteq> 0)
           (f AND afd_write_closed_flags \<noteq> 0) (cur_events w) else cur_events w)"
  have evs: "evs = cur_events w \<or> (\<exists>t i e rc wc. evs = Events_push t i e rc wc (cur_events w))"
    unfolding evs_def by (cases "f = 0") (simp, simp, blast)
  have ch: "afd_change a (w\<lparr>afd_states := (afd_states w)(a \<mapsto> st1), cur_events := evs\<rparr>) r w'"
    using ch0 unfolding evs_def .
  let ?w = "w\<lparr>afd_states := (afd_states w)(a \<mapsto> st1), cur_events := evs\<rparr>"
  have "tables_ok (platform env) w'"
  proof (rule tables_ok_grow [of _ ?w])
    show "tables_ok (platform env) ?w"
      by (rule tables_ok_grow [of _ w]) (use assms(1) in \<open>simp_all add: collecting_def io_ok_def\<close>)
    show "afd_states w' b \<noteq> None" if "afd_states ?w b \<noteq> None" for b
      using ch that by (cases "b = a") (auto simp: afd_change_def)
  qed (use ch in \<open>simp_all add: afd_change_def\<close>)
  then have "io_ok env w'" using ch by (simp add: io_ok_def afd_change_def)
  with ch evs assms(1,2) show ?thesis
    by (auto simp: collecting_def afd_change_def Events_push_room roomy_def)
qed

lemma deliver_iocp_collects:
  assumes "collecting env tables cap w" "roomy w" "deliver_iocp this ok key ov env w = (r, w')"
  shows "collecting env tables cap w'"
proof -
  consider (packet) raw where "receive_packet raw env w = (r, w')"
    | (afd) op where "complete_afd_operation op env w = (r, w')"
    | (quiet) "w' = w" | (key) t i e rc wc where "push_event t i e rc wc env w = (r, w')"
    using assms(3)
    by (auto simp: deliver_iocp_def comp_simps split: if_splits overlapped.splits option.splits)
  then show ?thesis
  proof cases
    case packet
    then show ?thesis using assms(1,2) receive_packet_run [OF assms(2), of raw]
      by (cases "map_of (packets w) raw")
        (auto simp: receive_packet_def comp_simps collecting_def io_ok_buffers Events_push_room roomy_def)
  next
    case afd
    then show ?thesis by (rule complete_afd_operation_collects [OF assms(1,2)])
  next
    case key
    then show ?thesis using assms(1,2)
      by (auto simp: roomy_def comp_simps collecting_def io_ok_buffers Events_push_room)
  qed (use assms(1) in simp)
qed

lemma select_iocp_step_collects:
  assumes "collecting env tables cap w" "roomy w"
  shows "collecting env tables cap (snd (select_iocp_step this ms env w))"
proof (cases "selectors w this")
  case None
  then show ?thesis using assms(1) by (simp add: select_iocp_step_def comp_simps)
next
  case (Some s)
  let ?c = "Get_queued (iocp s) (if Events_is_empty (cur_events w) then ms else 0)"
  let ?k = "answer env (history w) ?c"
  have log: "collecting env tables cap (logged env ?c w)" "roomy (logged env ?c w)"
    using assms by (simp_all add: collecting_def roomy_def)
  obtain r1 w1 where d: "deliver_iocp this (ret ?k \<noteq> 0) (out_key ?k) (out_overlapped ?k) env (logged env ?c w) = (r1, w1)"
    by (meson surj_pair)
  note deliver_iocp_collects [OF log d]
  with Some log d show ?thesis
    by (auto simp: select_iocp_step_def comp_simps bnd_def [of "deliver_iocp _ _ _ _"] Let_def
        split: outcome.splits)
qed

text \<open>
  C8. A wait on Windows, against every sequence of completions: whatever the outcome, the
  invariant of selectors and AFD states holds, the tables are untouched, and the buffer
  has its capacity and holds no more events than that.
\<close>

theorem select_iocp_collects:
  assumes "platform env = Windows" "io_ok env w" "select this timeout env w = (r, w')"
  shows "io_ok env w' \<and> selectors w' = selectors w
    \<and> ev_capacity (cur_events w') = ev_capacity (cur_events w)
    \<and> Events_size (cur_events w') \<le> ev_capacity (cur_events w)"
proof -
  let ?I = "collecting env (selectors w) (ev_capacity (cur_events w))"
  let ?w = "w\<lparr>cur_events := Events_clear (cur_events w)\<rparr>"
  have init: "?I ?w" using assms(2) by (simp add: collecting_def io_ok_buffers)
  have "?I (snd (select_iocp this timeout env ?w))"
  proof (cases "while_loop env (\<lambda>w. Events_size (cur_events w) < ev_capacity (cur_events w))
      (select_iocp_step this (iocp_timeout_ms timeout)) ?w")
    case (Some res)
    have "?I (snd res)"
      by (rule while_loop_invariant [OF Some, of ?I, OF init]) (simp add: select_iocp_step_collects roomy_def)
    with Some show ?thesis by (simp add: select_iocp_def while_comp_def)
  qed (use init in \<open>simp add: select_iocp_def while_comp_def\<close>)
  then have "?I w'" using assms(1,3) init by (auto simp: select_def comp_simps split: if_splits)
  then show ?thesis by (simp add: collecting_def)
qed

text \<open>The witness waits on a port that delivers one finished AFD poll and then times out.\<close>

definition port_env :: env where
  "port_env = afd_demo_env\<lparr>answer := (\<lambda>h c. case c of
     Get_queued _ _ \<Rightarrow>
       if h = [] then (plain 1 0)\<lparr>out_key := afd_completion_key, out_overlapped := Afd_Op 2\<rparr>
       else plain 0 258
   | _ \<Rightarrow> afd_demo_answer c)\<rparr>"

definition port_world :: io_world where
  "port_world = (afd_demo_world [(2, 1)])\<lparr>selectors := [3 \<mapsto> \<lparr>registrations =
       [(5, (entry 5 Kind_socket (Token 3) READABLE False)\<lparr>reg_afd_state := Some 1\<rparr>)],
     waker_handle = invalid_native_handle Windows, backend = -1, iocp = 8, afd_handle = 9, waker_active = False\<rparr>]\<rparr>"

lemma port_world_ok: "io_ok port_env port_world"
  by (auto simp: io_ok_def tables_ok_def registrations_ok_def refs_ok_def afd_ok_def port_world_def port_env_def
      entry_def invalid_native_handle_def afd_demo)

lemma while_comp_step:
  assumes "cond w" "body env w = (Ret True, w1)" "while_comp cond body env w1 = (Ret (), w2)"
  shows "while_comp cond body env w = (Ret (), w2)"
  using assms by (simp add: while_comp_def while_loop.simps [of env cond body w] split: option.splits)

lemma while_comp_stop:
  assumes "cond w" "body env w = (Ret False, w1)"
  shows "while_comp cond body env w = (Ret (), w1)"
  using assms by (simp add: while_comp_def while_loop.simps)

lemma port_first_step:
  "\<exists>w1. select_iocp_step 3 ms port_env (port_world\<lparr>cur_events := Events_clear (cur_events port_world)\<rparr>) = (Ret True, w1)
     \<and> history w1 \<noteq> [] \<and> selectors w1 = selectors port_world
     \<and> cur_events w1 = \<lparr>ev_items = [Event_new (Token 3) READABLE False False False], ev_capacity = 4\<rparr>"
proof -
  obtain r w1 where run: "select_iocp_step 3 ms port_env (port_world\<lparr>cur_events := Events_clear (cur_events port_world)\<rparr>) = (r, w1)"
    by (meson surj_pair)
  then have "r = Ret True \<and> history w1 \<noteq> [] \<and> selectors w1 = selectors port_world
     \<and> cur_events w1 = \<lparr>ev_items = [Event_new (Token 3) READABLE False False False], ev_capacity = 4\<rparr>"
    by (auto simp: select_iocp_step_def deliver_iocp_def complete_afd_operation_def complete_afd_state_def
        deliver_afd_events_def issue_afd_poll_def push_event_def Events_push_def Events_size_def Events_new_def
        Events_clear_def Events_is_empty_def afd_flags_to_interest_def afd_masks interest_consts Interest_add_def
        port_world_def port_env_def afd_demo Let_def comp_simps)
  with run show ?thesis by auto
qed

theorem select_iocp_collects_witness:
  "\<exists>w'. select 3 (Some 100) port_env port_world = (Ret (), w') \<and> io_ok port_env w'
     \<and> ev_items (cur_events w') = [Event_new (Token 3) READABLE False False False]"
proof -
  let ?w = "port_world\<lparr>cur_events := Events_clear (cur_events port_world)\<rparr>"
  have port: "platform port_env = Windows" "ev_capacity (cur_events port_world) = 4"
    by (simp_all add: port_env_def port_world_def afd_demo Events_new_def)
  obtain w1 where step: "select_iocp_step 3 (iocp_timeout_ms (Some 100)) port_env ?w = (Ret True, w1)"
    "history w1 \<noteq> []" "selectors w1 = selectors port_world"
    "cur_events w1 = \<lparr>ev_items = [Event_new (Token 3) READABLE False False False], ev_capacity = 4\<rparr>"
    using port_first_step by blast
  obtain w' where stop: "select_iocp_step 3 (iocp_timeout_ms (Some 100)) port_env w1 = (Ret False, w')"
    "cur_events w' = cur_events w1"
    using step(2,3,4)
    by (auto simp: select_iocp_step_def port_world_def port_env_def Events_is_empty_def plain_def comp_simps)
  have "select_iocp 3 (Some 100) port_env ?w = (Ret (), w')"
    unfolding select_iocp_def
    by (rule while_comp_step [where ?w1.0 = w1], use port in \<open>simp add: Events_size_def\<close>, rule step(1),
        rule while_comp_stop, use step(4) in \<open>simp add: Events_size_def\<close>, rule stop(1))
  then have run: "select 3 (Some 100) port_env port_world = (Ret (), w')"
    using port by (simp add: select_def comp_simps)
  show ?thesis using select_iocp_collects [OF port(1) port_world_ok run] run step(4) stop(2) by simp
qed





end
