(* ===== verification/Registry.thy ===== *)
theory Registry
  imports Select
begin

text \<open>
  The public classes of \<^verbatim>\<open>include/ioxx/core.hpp\<close> over the selector, from the end of
  \<^verbatim>\<open>src/core.cpp\<close>: \<open>Source\<close>, \<open>Registry\<close>, \<open>Poll\<close> and
  \<open>Waker\<close> with its \<open>WakerState\<close>. A \<open>std::shared_ptr<Selector>\<close>
  is an address or null; a \<open>Registry\<close> is its only field. The object behind a
  \<open>Source&\<close> is a value of the type \<open>'s\<close> with the virtual functions
  \<open>'s source_ops\<close>, and an operation that calls a hook returns the object after it.
  Reference counts are arguments: a selector lives until \<open>Selector_destroy\<close>.
\<close>

section \<open>Reporting through an error code\<close>

type_synonym registry = "nat option"

definition deref :: "registry \<Rightarrow> (nat \<Rightarrow> (io_world, 'a) comp) \<Rightarrow> (io_world, 'a) comp" where
  "deref p k = (case p of None \<Rightarrow> undefined_behaviour | Some this \<Rightarrow> k this)"

text \<open>
  The bodies \<open>try { m; ec.clear(); } catch ...\<close> of the \<open>noexcept\<close>
  overloads: some also catch \<open>std::bad_alloc\<close>, some only \<open>std::system_error\<close>;
  what is not caught terminates the process.
\<close>

fun catch_all :: "platform \<Rightarrow> exn \<Rightarrow> error_code option" where
  "catch_all p (System_Error ec what) = Some ec"
| "catch_all p Bad_Alloc = Some (make_error_code p not_enough_memory)"
| "catch_all p Out_Of_Range = None"

fun catch_system :: "platform \<Rightarrow> exn \<Rightarrow> error_code option" where
  "catch_system p (System_Error ec what) = Some ec"
| "catch_system p Bad_Alloc = None"
| "catch_system p Out_Of_Range = None"

definition reporting ::
  "(platform \<Rightarrow> exn \<Rightarrow> error_code option) \<Rightarrow> ('w, 'a) comp \<Rightarrow> ('w, 'a option \<times> error_code) comp" where
  "reporting handler m = noexcept
     (catch (bnd m (\<lambda>x. return (Some x, cleared)))
       (\<lambda>e. bnd (asks platform) (\<lambda>p.
        case handler p e of None \<Rightarrow> throw e | Some ec \<Rightarrow> return (None, ec))))"

definition reporting_void ::
  "(platform \<Rightarrow> exn \<Rightarrow> error_code option) \<Rightarrow> ('w, unit) comp \<Rightarrow> ('w, error_code) comp" where
  "reporting_void handler m = bnd (reporting handler m) (\<lambda>(_, ec). return ec)"

text \<open>Destructors of locals that run when an exception leaves their scope.\<close>

definition unwind :: "('w, 'a) comp \<Rightarrow> ('w, 'b) comp \<Rightarrow> ('w, 'a) comp" where
  "unwind m cleanup = catch m (\<lambda>e. bnd cleanup (\<lambda>_. throw e))"

section \<open>Sources and the registry\<close>

record 's source_ops =
  native_handle :: "platform \<Rightarrow> 's \<Rightarrow> int"
  source_kind_of :: "'s \<Rightarrow> source_kind"
  on_registered :: "registry \<Rightarrow> token \<Rightarrow> interest \<Rightarrow> 's \<Rightarrow> (io_world, 's) comp"
  on_reregistered :: "registry \<Rightarrow> token \<Rightarrow> interest \<Rightarrow> 's \<Rightarrow> (io_world, 's) comp"
  on_deregistered :: "registry \<Rightarrow> 's \<Rightarrow> (io_world, 's) comp"

text \<open>The default bodies of the virtual functions.\<close>

definition default_source_kind :: source_kind where
  "default_source_kind = Kind_raw_descriptor"

definition default_hook :: "'s \<Rightarrow> (io_world, 's) comp" where
  "default_hook s = return s"

definition register_handle ::
  "registry \<Rightarrow> int \<Rightarrow> source_kind \<Rightarrow> token \<Rightarrow> interest \<Rightarrow> (io_world, error_code) comp" where
  "register_handle this handle kind token interests = reporting_void catch_all
     (deref this (\<lambda>s. Selector_add s handle kind token interests False))"

definition register_handle_throws ::
  "registry \<Rightarrow> int \<Rightarrow> source_kind \<Rightarrow> token \<Rightarrow> interest \<Rightarrow> (io_world, unit) comp" where
  "register_handle_throws this handle kind token interests =
     throwing_void ''register_handle'' (register_handle this handle kind token interests)"

definition reregister_handle ::
  "registry \<Rightarrow> int \<Rightarrow> source_kind \<Rightarrow> token \<Rightarrow> interest \<Rightarrow> (io_world, error_code) comp" where
  "reregister_handle this handle kind token interests = reporting_void catch_all
     (deref this (\<lambda>s. Selector_update s handle kind token interests))"

definition reregister_handle_throws ::
  "registry \<Rightarrow> int \<Rightarrow> source_kind \<Rightarrow> token \<Rightarrow> interest \<Rightarrow> (io_world, unit) comp" where
  "reregister_handle_throws this handle kind token interests =
     throwing_void ''reregister_handle'' (reregister_handle this handle kind token interests)"

definition deregister_handle :: "registry \<Rightarrow> int \<Rightarrow> (io_world, error_code) comp" where
  "deregister_handle this handle = reporting_void catch_all (deref this (\<lambda>s. Selector_remove s handle))"

definition deregister_handle_throws :: "registry \<Rightarrow> int \<Rightarrow> (io_world, unit) comp" where
  "deregister_handle_throws this handle = throwing_void ''deregister_handle'' (deregister_handle this handle)"

definition register_source ::
  "'s source_ops \<Rightarrow> registry \<Rightarrow> 's \<Rightarrow> token \<Rightarrow> interest \<Rightarrow> (io_world, 's \<times> error_code) comp" where
  "register_source ops this source token interests = noexcept (bnd (asks platform) (\<lambda>p.
     bnd (register_handle this (native_handle ops p source) (source_kind_of ops source) token interests) (\<lambda>ec.
     if \<not> failed ec
     then bnd (on_registered ops this token interests source) (\<lambda>source. return (source, ec))
     else return (source, ec))))"

definition register_source_throws ::
  "'s source_ops \<Rightarrow> registry \<Rightarrow> 's \<Rightarrow> token \<Rightarrow> interest \<Rightarrow> (io_world, 's) comp" where
  "register_source_throws ops this source token interests =
     throwing ''register_source'' (register_source ops this source token interests)"

definition reregister ::
  "'s source_ops \<Rightarrow> registry \<Rightarrow> 's \<Rightarrow> token \<Rightarrow> interest \<Rightarrow> (io_world, 's \<times> error_code) comp" where
  "reregister ops this source token interests = noexcept (bnd (asks platform) (\<lambda>p.
     bnd (reregister_handle this (native_handle ops p source) (source_kind_of ops source) token interests) (\<lambda>ec.
     if \<not> failed ec
     then bnd (on_reregistered ops this token interests source) (\<lambda>source. return (source, ec))
     else return (source, ec))))"

definition reregister_throws ::
  "'s source_ops \<Rightarrow> registry \<Rightarrow> 's \<Rightarrow> token \<Rightarrow> interest \<Rightarrow> (io_world, 's) comp" where
  "reregister_throws ops this source token interests =
     throwing ''reregister'' (reregister ops this source token interests)"

definition deregister :: "'s source_ops \<Rightarrow> registry \<Rightarrow> 's \<Rightarrow> (io_world, 's \<times> error_code) comp" where
  "deregister ops this source = noexcept (bnd (asks platform) (\<lambda>p.
     bnd (deregister_handle this (native_handle ops p source)) (\<lambda>ec.
     if \<not> failed ec
     then bnd (on_deregistered ops this source) (\<lambda>source. return (source, ec))
     else return (source, ec))))"

definition deregister_throws :: "'s source_ops \<Rightarrow> registry \<Rightarrow> 's \<Rightarrow> (io_world, 's) comp" where
  "deregister_throws ops this source = throwing ''deregister'' (deregister ops this source)"

section \<open>Poll\<close>

record Poll =
  poll_selector :: registry
  poll_registry :: registry

definition Poll_new :: "(io_world, Poll \<times> error_code) comp" where
  "Poll_new =
     bnd (reporting catch_all (bnd allocate (\<lambda>_. Selector_new))) (\<lambda>(selector, ec).
     return (\<lparr>poll_selector = selector, poll_registry = selector\<rparr>, ec))"

definition Poll_new_throws :: "(io_world, Poll) comp" where
  "Poll_new_throws = bnd allocate (\<lambda>_. bnd Selector_new (\<lambda>selector.
     return \<lparr>poll_selector = Some selector, poll_registry = Some selector\<rparr>))"

text \<open>Move construction: the new object and what remains of the old one.\<close>

definition Poll_move :: "Poll \<Rightarrow> Poll \<times> Poll" where
  "Poll_move other =
     (\<lparr>poll_selector = poll_selector other, poll_registry = poll_registry other\<rparr>,
      \<lparr>poll_selector = None, poll_registry = None\<rparr>)"

text \<open>
  Destruction and move assignment between two different objects. A \<open>Poll\<close> holds two
  references to its selector; \<open>others\<close> is the number of references that registries
  and wakers hold besides, and the last one destroys the selector.
\<close>

definition Poll_destroy :: "nat \<Rightarrow> Poll \<Rightarrow> (io_world, unit) comp" where
  "Poll_destroy others this = (case poll_selector this of
     None \<Rightarrow> return () | Some s \<Rightarrow> if others = 0 then Selector_destroy s else return ())"

definition Poll_move_assign :: "nat \<Rightarrow> Poll \<Rightarrow> Poll \<Rightarrow> (io_world, Poll \<times> Poll) comp" where
  "Poll_move_assign others this other = bnd (Poll_destroy others this) (\<lambda>_. return (Poll_move other))"

definition Poll_poll :: "Poll \<Rightarrow> int option \<Rightarrow> (io_world, error_code) comp" where
  "Poll_poll this timeout = reporting_void catch_system
     (deref (poll_selector this) (\<lambda>s. select s timeout))"

definition Poll_poll_throws :: "Poll \<Rightarrow> int option \<Rightarrow> (io_world, unit) comp" where
  "Poll_poll_throws this timeout = throwing_void ''poll'' (Poll_poll this timeout)"

section \<open>Waker\<close>

text \<open>
  The descriptors exist only off Windows; there the fields hold \<open>-1\<close>, which no
  operation closes.
\<close>

record WakerState =
  ws_selector :: registry
  ws_token :: token
  read_handle :: int
  write_handle :: int
  owned_read :: int
  owned_write :: int

definition WakerState_new :: "registry \<Rightarrow> token \<Rightarrow> (io_world, WakerState) comp" where
  "WakerState_new selector token = bnd (asks platform) (\<lambda>p.
     if p = Windows then
       bnd (deref selector (\<lambda>s. add_waker s 0 token)) (\<lambda>_.
       return \<lparr>ws_selector = selector, ws_token = token, read_handle = 0, write_handle = 0,
         owned_read = -1, owned_write = -1\<rparr>)
     else if p = Linux then
       bnd (sys Eventfd) (\<lambda>r. let event = ret r in
       if \<not> OwnedDescriptor_valid event then throw_errno ''eventfd''
       else
         bnd (unwind (deref selector (\<lambda>s. add_waker s event token)) (OwnedDescriptor_destroy event)) (\<lambda>_.
         return \<lparr>ws_selector = selector, ws_token = token, read_handle = event, write_handle = event,
           owned_read = event, owned_write = -1\<rparr>))
     else
       bnd (sys Pipe) (\<lambda>r.
       if ret r = -1 then throw_errno ''pipe''
       else
         (let (rd, wr) = out_fds r in
          bnd (unwind
            (bnd (set_descriptor_non_blocking rd) (\<lambda>_.
             bnd (set_descriptor_non_blocking wr) (\<lambda>_.
             bnd (set_descriptor_close_on_exec rd) (\<lambda>_.
             bnd (set_descriptor_close_on_exec wr) (\<lambda>_.
             deref selector (\<lambda>s. add_waker s rd token))))))
            (bnd (OwnedDescriptor_destroy wr) (\<lambda>_. OwnedDescriptor_destroy rd))) (\<lambda>_.
          return \<lparr>ws_selector = selector, ws_token = token, read_handle = rd, write_handle = wr,
            owned_read = rd, owned_write = wr\<rparr>))))"

definition WakerState_destroy :: "WakerState \<Rightarrow> (io_world, unit) comp" where
  "WakerState_destroy this = noexcept
     (bnd (case ws_selector this of None \<Rightarrow> return () | Some s \<Rightarrow> remove_waker s (read_handle this)) (\<lambda>_.
      bnd (OwnedDescriptor_destroy (owned_write this)) (\<lambda>_.
      bnd (OwnedDescriptor_destroy (owned_read this)) (\<lambda>_. return ()))))"

definition uint64_one :: "endian \<Rightarrow> bytes" where
  "uint64_one e = (if e = Little then [1, 0, 0, 0, 0, 0, 0, 0] else [0, 0, 0, 0, 0, 0, 0, 1])"

definition WakerState_wake :: "WakerState \<Rightarrow> (io_world, unit) comp" where
  "WakerState_wake this = bnd (asks platform) (\<lambda>p. bnd (asks host_endian) (\<lambda>e.
     if p = Windows then deref (ws_selector this) (\<lambda>s. post_waker s (ws_token this))
     else
       bnd (sys (Write (write_handle this) (if p = Linux then uint64_one e else [0x77]))) (\<lambda>r.
       bnd (gets errno) (\<lambda>n.
       if ret r = -1 \<and> n \<noteq> EAGAIN p \<and> n \<noteq> EWOULDBLOCK p
       then throw_errno (if p = Linux then ''write(eventfd)'' else ''write(waker pipe)'')
       else return ()))))"

text \<open>A \<open>Waker\<close> is a \<open>std::unique_ptr\<close> to its state.\<close>

definition Waker_new :: "registry \<Rightarrow> token \<Rightarrow> (io_world, WakerState option \<times> error_code) comp" where
  "Waker_new registry token = reporting catch_all (bnd allocate (\<lambda>_. WakerState_new registry token))"

definition Waker_new_throws :: "registry \<Rightarrow> token \<Rightarrow> (io_world, WakerState option) comp" where
  "Waker_new_throws registry token =
     bnd allocate (\<lambda>_. bnd (WakerState_new registry token) (\<lambda>state. return (Some state)))"

definition Waker_destroy :: "WakerState option \<Rightarrow> (io_world, unit) comp" where
  "Waker_destroy this = (case this of None \<Rightarrow> return () | Some state \<Rightarrow> WakerState_destroy state)"

text \<open>Move assignment: the old state is destroyed after the pointer was taken over.\<close>

definition Waker_move_assign ::
  "WakerState option \<Rightarrow> WakerState option \<Rightarrow> (io_world, WakerState option \<times> WakerState option) comp" where
  "Waker_move_assign this other = bnd (Waker_destroy this) (\<lambda>_. return (other, None))"

definition Waker_wake :: "WakerState option \<Rightarrow> (io_world, error_code) comp" where
  "Waker_wake this = reporting_void catch_system
     (case this of None \<Rightarrow> undefined_behaviour | Some state \<Rightarrow> WakerState_wake state)"

definition Waker_wake_throws :: "WakerState option \<Rightarrow> (io_world, unit) comp" where
  "Waker_wake_throws this = throwing_void ''wake'' (Waker_wake this)"

section \<open>What the reporting overloads return\<close>

fun report_outcome :: "(platform \<Rightarrow> exn \<Rightarrow> error_code option) \<Rightarrow> platform \<Rightarrow> unit outcome \<Rightarrow> error_code outcome" where
  "report_outcome handler p (Ret x) = Ret cleared"
| "report_outcome handler p (Throw e) = (case handler p e of None \<Rightarrow> Terminate | Some ec \<Rightarrow> Ret ec)"
| "report_outcome handler p Terminate = Terminate"
| "report_outcome handler p Undefined = Undefined"
| "report_outcome handler p Diverge = Diverge"

lemma reporting_void_run:
  "m env w = (r, w') \<Longrightarrow> reporting_void handler m env w = (report_outcome handler (platform env) r, w')"
  by (cases r) (auto simp: reporting_void_def reporting_def noexcept_def catch_def bnd_def comp_simps
      split: option.splits)

lemma reporting_run:
  "m env w = (Ret x, w') \<Longrightarrow> reporting handler m env w = (Ret (Some x, cleared), w')"
  "m env w = (Throw e, w') \<Longrightarrow> reporting handler m env w =
     ((case handler (platform env) e of None \<Rightarrow> Terminate | Some ec \<Rightarrow> Ret (None, ec)), w')"
  by (auto simp: reporting_def noexcept_def catch_def bnd_def comp_simps split: option.splits)

lemma deref_Some [simp]: "deref (Some this) k = k this"
  by (simp add: deref_def)

text \<open>
  A computation whose exceptions are all caught and reported as an error: never an
  \<open>out_of_range\<close>, never a \<open>system_error\<close> with the code 0, which the
  caller would read as success. Off Windows this follows from \<open>errno\<close> being set
  by the calls that fail.
\<close>

definition errors_reported :: "env \<Rightarrow> ('w, 'a) comp \<Rightarrow> bool" where
  "errors_reported env m \<longleftrightarrow> (\<forall>w e w'. m env w = (Throw e, w') \<longrightarrow>
     (\<exists>ec. catch_all (platform env) e = Some ec \<and> failed ec))"

lemma errors_reportedD:
  "errors_reported env m \<Longrightarrow> m env w = (Throw e, w') \<Longrightarrow> \<exists>ec. catch_all (platform env) e = Some ec \<and> failed ec"
  by (auto simp: errors_reported_def)

lemma errors_reported_basic [reported_intros]:
  "errors_reported env (return x)" "errors_reported env (gets g)" "errors_reported env (asks k)"
  "errors_reported env (modify u)" "errors_reported env (sys c)" "errors_reported env undefined_behaviour"
  "errors_reported env (throw (System_Error (make_error_code p c1) what))" "errors_reported env allocate"
  by (auto simp: errors_reported_def comp_simps split: if_splits)

lemma errors_reported_bnd [reported_intros]:
  "errors_reported env m \<Longrightarrow> (\<And>x. errors_reported env (f x)) \<Longrightarrow> errors_reported env (bnd m f)"
  unfolding errors_reported_def bnd_def by (force split: prod.splits outcome.splits)

lemma errors_reported_if [reported_intros]:
  "(b \<Longrightarrow> errors_reported env m) \<Longrightarrow> (\<not> b \<Longrightarrow> errors_reported env n) \<Longrightarrow> errors_reported env (if b then m else n)"
  by simp

lemma errors_reported_let [reported_intros]: "(\<And>x. errors_reported env (k x)) \<Longrightarrow> errors_reported env (let x = a in k x)"
  by simp

lemma errors_reported_option [reported_intros]:
  "errors_reported env m \<Longrightarrow> (\<And>y. x = Some y \<Longrightarrow> errors_reported env (n y)) \<Longrightarrow>
   errors_reported env (case x of None \<Rightarrow> m | Some y \<Rightarrow> n y)"
  by (cases x) simp_all

lemma errors_reported_objects [reported_intros]:
  "(\<And>s. errors_reported env (k s)) \<Longrightarrow> errors_reported env (with_selector this k)"
  "errors_reported env (set_selector this s')"
  by (auto simp: errors_reported_def comp_simps split: option.splits)

lemma errors_reported_rethrow [reported_intros]:
  assumes "errors_reported env m" "errors_reported env c"
  shows "errors_reported env (catch m (\<lambda>e. bnd c (\<lambda>_. throw e)))"
  unfolding errors_reported_def
proof (intro allI impI)
  fix w e w'
  assume run: "catch m (\<lambda>e. bnd c (\<lambda>_. throw e)) env w = (Throw e, w')"
  obtain r1 w1 where m: "m env w = (r1, w1)" by (meson surj_pair)
  show "\<exists>ec. catch_all (platform env) e = Some ec \<and> failed ec"
  proof (cases r1)
    case (Throw e1)
    obtain r2 w2 where c: "c env w1 = (r2, w2)" by (meson surj_pair)
    have "errors_reported env m" "errors_reported env c" by fact+
    with run m Throw c show ?thesis
      by (cases r2) (auto simp: catch_def bnd_def comp_simps dest: errors_reportedD)
  qed (use run m in \<open>auto simp: catch_def\<close>)
qed

lemma errors_reported_sys [reported_intros]:
  "sets_errno env \<Longrightarrow> (\<And>r. errors_reported env (f r)) \<Longrightarrow>
   errors_reported env (bnd (sys c) (\<lambda>r. if ret r = -1 then throw_errno what else f r))"
  by (auto simp: errors_reported_def comp_simps dest: sets_errnoD)

lemma errors_reported_noexcept [reported_intros]: "errors_reported env (noexcept m)"
  using noexcept_never_throws [of m env] by (auto simp: errors_reported_def) (metis fst_conv)

lemma errors_reported_validate [reported_intros]: "errors_reported env (validate h i)"
  unfolding validate_def by (intro reported_intros)

lemma errors_reported_backend [reported_intros]:
  assumes "sets_errno env"
  shows "errors_reported env (add_epoll s h i)" "errors_reported env (update_epoll s h i)"
    "errors_reported env (add_kqueue s h t i)" "errors_reported env (update_kqueue s h t i)"
  unfolding add_epoll_def update_epoll_def add_kqueue_def update_kqueue_def
  by (intro reported_intros assms)+

lemma errors_reported_add:
  assumes "sets_errno env" "platform env \<noteq> Windows"
  shows "errors_reported env (Selector_add this h k t i d)"
proof -
  have "errors_reported env (add_to_backend this h k t i)"
    using assms(2) errors_reported_backend [OF assms(1)] errors_reported_basic(1)
    by (cases "platform env") (auto simp: add_to_backend_def errors_reported_def comp_simps split: option.splits)
  moreover have "errors_reported env (erase_registration this h)"
    unfolding erase_registration_def by (intro reported_intros)
  moreover have "errors_reported env (emplace_registration this r)" for r
    unfolding emplace_registration_def by (intro reported_intros)
  ultimately show ?thesis unfolding Selector_add_def by (intro reported_intros)
qed

lemma errors_reported_update:
  assumes "sets_errno env" "platform env \<noteq> Windows"
  shows "errors_reported env (Selector_update this h k t i)"
proof -
  have "errors_reported env (update_backend this h k t i)"
    using assms(2) errors_reported_backend [OF assms(1)] errors_reported_basic(1)
    by (cases "platform env") (auto simp: update_backend_def errors_reported_def comp_simps split: option.splits)
  then show ?thesis unfolding Selector_update_def by (intro reported_intros)
qed

lemma errors_reported_remove: "errors_reported env (Selector_remove this h)"
  unfolding Selector_remove_def remove_from_backend_def by (intro reported_intros)

text \<open>The shape of the three operations on a source: report, then run the hook on success.\<close>

lemma reported_then_hook:
  assumes m: "m env w = (r1, w1)" "errors_reported env m" "r1 \<noteq> Undefined" "r1 \<noteq> Diverge"
    and hook: "hook env w1 = (Ret s', w1)"
    and run: "noexcept (bnd (reporting_void catch_all m) (\<lambda>ec.
      if \<not> failed ec then bnd hook (\<lambda>s. return (s, ec)) else return (s, ec))) env w = (r, w')"
  obtains (succeeds) "r1 = Ret ()" "r = Ret (s', cleared)" "w' = w1"
  | (refused) e ec where "r1 = Throw e" "failed ec" "r = Ret (s, ec)" "w' = w1"
  | (terminated) "r1 = Terminate" "r = Terminate" "w' = w1"
proof -
  have h: "reporting_void catch_all m env w = (report_outcome catch_all (platform env) r1, w1)"
    using m(1) by (rule reporting_void_run)
  show thesis
  proof (cases r1)
    case (Ret u)
    with run h hook show ?thesis by (intro succeeds) (auto simp: noexcept_def catch_def bnd_def comp_simps)
  next
    case (Throw e)
    from errors_reportedD [OF m(2), of w e w1] m(1) Throw obtain ec where
      "catch_all (platform env) e = Some ec" "failed ec" by auto
    with run h Throw show ?thesis by (intro refused [of e ec]) (auto simp: noexcept_def catch_def bnd_def comp_simps)
  next
    case Terminate
    with run h show ?thesis by (intro terminated) (auto simp: noexcept_def catch_def bnd_def comp_simps)
  qed (use m in simp_all)
qed

lemma Selector_update_result:
  assumes run: "Selector_update this h k t i env w = (r, w')" and ok: "io_ok env w" "selectors w this = Some s"
  shows "\<exists>s'. on_selector env this w r w' s' \<and> (r \<noteq> Ret () \<and> reg_map s' = reg_map s \<or> (\<exists>r0. reg_map s h = Some r0 \<and>
      reg_map s' = (reg_map s)(h \<mapsto> r0\<lparr>reg_kind := k, reg_token := t, reg_interests := i\<rparr>)))"
proof (cases "validation_error (platform env) h i \<noteq> None \<or> reg_map s h = None")
  case True
  from Selector_update_refused [OF run ok this] show ?thesis by auto
next
  case False
  then obtain r0 where "validation_error (platform env) h i = None" "reg_map s h = Some r0" by auto
  with Selector_update_recorded [OF run ok this] show ?thesis by blast
qed

lemma Selector_add_posix_returns:
  assumes "platform env \<noteq> Windows" "selectors w this = Some s"
  shows "fst (Selector_add this h k t i d env w) \<noteq> Terminate"
  using assms
  by (cases "platform env") (auto simp: Selector_add_def emplace_registration_def add_to_backend_def add_epoll_def
      add_kqueue_def erase_registration_def catch_def comp_simps Let_def split: option.splits)

section \<open>The contract of a source\<close>

text \<open>
  A source whose hooks only remember or forget where it is registered. What the registry's
  operations do to such a source and to the table is proved from this contract; the socket
  classes meet it.
\<close>

locale event_source =
  fixes ops :: "'s source_ops"
    and remembers :: "'s \<Rightarrow> (registry \<times> token \<times> interest) option"
  assumes registered: "\<exists>s'. on_registered ops reg t i s env w = (Ret s', w)
      \<and> remembers s' = Some (reg, t, i) \<and> native_handle ops p s' = native_handle ops p s"
    and reregistered: "\<exists>s'. on_reregistered ops reg t i s env w = (Ret s', w)
      \<and> remembers s' = Some (reg, t, i) \<and> native_handle ops p s' = native_handle ops p s"
    and deregistered: "\<exists>s'. on_deregistered ops reg s env w = (Ret s', w)
      \<and> remembers s' = None \<and> native_handle ops p s' = native_handle ops p s"
begin

lemma registration_agrees:
  assumes posix: "sets_errno env" "platform env \<noteq> Windows" and live: "selector_live env this w"
    and run: "register_source ops (Some this) s t i env w = (r, w')"
    and h: "h = native_handle ops (platform env) s"
  shows "selector_live env this w' \<and> (\<exists>s' ec. r = Ret (s', ec) \<and> native_handle ops (platform env) s' = h
    \<and> (if failed ec then s' = s \<and> selector_table this w' = selector_table this w
       else remembers s' = Some (Some this, t, i) \<and> selector_table this w h = None
         \<and> selector_table this w' = (selector_table this w)(h \<mapsto> entry h (source_kind_of ops s) t i False)))"
proof -
  let ?k = "source_kind_of ops s"
  obtain r1 w1 where add: "Selector_add this h ?k t i False env w = (r1, w1)" by (meson surj_pair)
  obtain sel where sel: "io_ok env w" "selectors w this = Some sel" "selector_table this w = reg_map sel"
    using live by (rule selector_liveE)
  from Selector_add_result [OF add sel(1,2)] obtain sel' where
    on: "on_selector env this w r1 w1 sel'"
    and ok: "r1 = Ret () \<Longrightarrow> reg_map sel h = None \<and> reg_map sel' = (reg_map sel)(h \<mapsto> entry h ?k t i False)"
    and bad: "\<And>e. r1 = Throw e \<Longrightarrow> reg_map sel' = reg_map sel"
    by blast
  have r1: "r1 \<noteq> Undefined" "r1 \<noteq> Diverge" using on by (simp_all add: on_selector_def)
  have "r1 \<noteq> Terminate" using Selector_add_posix_returns [OF posix(2) sel(2)] add by (metis fst_conv)
  obtain s' where hook: "on_registered ops (Some this) t i s env w1 = (Ret s', w1)" "remembers s' = Some (Some this, t, i)"
    "native_handle ops (platform env) s' = h"
    using registered h by blast
  have run': "noexcept (bnd (reporting_void catch_all (Selector_add this h ?k t i False)) (\<lambda>ec.
      if \<not> failed ec then bnd (on_registered ops (Some this) t i s) (\<lambda>s. return (s, ec)) else return (s, ec))) env w = (r, w')"
    using run h by (simp add: register_source_def register_handle_def noexcept_def catch_def bnd_asks)
  from add errors_reported_add [OF posix] r1 hook(1) run' show ?thesis
    by (rule reported_then_hook) (use on_selector_live [OF on] ok bad sel(3) hook(2,3) h \<open>r1 \<noteq> Terminate\<close> in auto)
qed

lemma reregistration_agrees:
  assumes posix: "sets_errno env" "platform env \<noteq> Windows" and live: "selector_live env this w"
    and run: "reregister ops (Some this) s t i env w = (r, w')"
    and h: "h = native_handle ops (platform env) s"
  shows "selector_live env this w' \<and> (r = Terminate \<or> (\<exists>s' ec. r = Ret (s', ec) \<and> native_handle ops (platform env) s' = h
    \<and> (if failed ec then s' = s else remembers s' = Some (Some this, t, i))
    \<and> (failed ec \<and> selector_table this w' = selector_table this w
       \<or> (\<exists>r0. selector_table this w h = Some r0 \<and> selector_table this w' = (selector_table this w)(h \<mapsto>
             r0\<lparr>reg_kind := source_kind_of ops s, reg_token := t, reg_interests := i\<rparr>)))))"
proof -
  let ?k = "source_kind_of ops s"
  obtain r1 w1 where upd: "Selector_update this h ?k t i env w = (r1, w1)" by (meson surj_pair)
  obtain sel where sel: "io_ok env w" "selectors w this = Some sel" "selector_table this w = reg_map sel"
    using live by (rule selector_liveE)
  from Selector_update_result [OF upd sel(1,2)] obtain sel' where
    on: "on_selector env this w r1 w1 sel'" and ok: "r1 \<noteq> Ret () \<and> reg_map sel' = reg_map sel \<or> (\<exists>r0. reg_map sel h = Some r0 \<and>
      reg_map sel' = (reg_map sel)(h \<mapsto> r0\<lparr>reg_kind := ?k, reg_token := t, reg_interests := i\<rparr>))"
    by blast
  have r1: "r1 \<noteq> Undefined" "r1 \<noteq> Diverge" using on by (simp_all add: on_selector_def)
  obtain s' where hook: "on_reregistered ops (Some this) t i s env w1 = (Ret s', w1)" "remembers s' = Some (Some this, t, i)"
    "native_handle ops (platform env) s' = h"
    using reregistered h by blast
  have run': "noexcept (bnd (reporting_void catch_all (Selector_update this h ?k t i)) (\<lambda>ec.
      if \<not> failed ec then bnd (on_reregistered ops (Some this) t i s) (\<lambda>s. return (s, ec)) else return (s, ec))) env w = (r, w')"
    using run h by (simp add: reregister_def reregister_handle_def noexcept_def catch_def bnd_asks)
  from upd errors_reported_update [OF posix] r1 hook(1) run' show ?thesis
    by (rule reported_then_hook) (use on_selector_live [OF on] ok sel(3) hook(2,3) h in auto)
qed

lemma deregistration_agrees:
  assumes live: "selector_live env this w" and run: "deregister ops (Some this) s env w = (r, w')"
    and h: "h = native_handle ops (platform env) s"
  shows "selector_live env this w' \<and> (r = Terminate \<or> (\<exists>s' ec. r = Ret (s', ec) \<and> native_handle ops (platform env) s' = h
    \<and> (if failed ec then s' = s \<and> w' = w \<and> selector_table this w h = None
       else remembers s' = None \<and> selector_table this w h \<noteq> None
         \<and> selector_table this w' = (selector_table this w)(h := None))))"
proof -
  obtain r1 w1 where rem: "Selector_remove this h env w = (r1, w1)" by (meson surj_pair)
  obtain sel where sel: "io_ok env w" "selectors w this = Some sel" "selector_table this w = reg_map sel"
    using live by (rule selector_liveE)
  obtain sel' where on: "on_selector env this w r1 w1 sel'"
    and ok: "r1 = Ret () \<Longrightarrow> reg_map sel h \<noteq> None \<and> reg_map sel' = (reg_map sel)(h := None)"
    and bad: "\<And>e. r1 = Throw e \<Longrightarrow> w1 = w \<and> reg_map sel h = None"
    using Selector_remove_refused [OF rem sel(1,2)] Selector_remove_done [OF rem sel(1,2)]
    by (cases "reg_map sel h") auto
  have r1: "r1 \<noteq> Undefined" "r1 \<noteq> Diverge" using on by (simp_all add: on_selector_def)
  obtain s' where hook: "on_deregistered ops (Some this) s env w1 = (Ret s', w1)" "remembers s' = None"
    "native_handle ops (platform env) s' = h"
    using deregistered h by blast
  have run': "noexcept (bnd (reporting_void catch_all (Selector_remove this h)) (\<lambda>ec.
      if \<not> failed ec then bnd (on_deregistered ops (Some this) s) (\<lambda>s. return (s, ec)) else return (s, ec))) env w = (r, w')"
    using run h by (simp add: deregister_def deregister_handle_def noexcept_def catch_def bnd_asks)
  from rem errors_reported_remove r1 hook(1) run' show ?thesis
    by (rule reported_then_hook) (use on_selector_live [OF on] ok bad sel(3) hook(2,3) h in auto)
qed

end

section \<open>Wakers own their descriptors\<close>

lemma add_waker_result:
  assumes posix: "platform env \<noteq> Windows" and live: "selector_live env this w"
    and run: "add_waker this h t env w = (r, w')"
  shows "selector_live env this w'
    \<and> (r = Ret () \<and> selector_table this w h = None
          \<and> selector_table this w' = (selector_table this w)(h \<mapsto> entry h Kind_raw_descriptor t READABLE True)
       \<or> (\<exists>e. r = Throw e) \<and> selector_table this w' = selector_table this w)"
proof -
  obtain s where s: "io_ok env w" "selectors w this = Some s" "selector_table this w = reg_map s"
    using live by (rule selector_liveE)
  obtain r1 w1 where add: "Selector_add this h Kind_raw_descriptor t READABLE True env w = (r1, w1)"
    by (meson surj_pair)
  from Selector_add_result [OF add s(1,2)] obtain s1 where s1: "on_selector env this w r1 w1 s1"
    "r1 = Ret () \<Longrightarrow> reg_map s h = None \<and> reg_map s1 = (reg_map s)(h \<mapsto> entry h Kind_raw_descriptor t READABLE True)"
    "\<And>e. r1 = Throw e \<Longrightarrow> reg_map s1 = reg_map s" by blast
  have "r1 \<noteq> Terminate" using Selector_add_posix_returns [OF posix s(2)] add by (metis fst_conv)
  with s1(1) consider "r1 = Ret ()" | e where "r1 = Throw e" by (cases r1) (auto simp: on_selector_def)
  then show ?thesis
  proof cases
    case 1
    with run add posix s1 have "r = Ret ()" "selectors w' = (selectors w)(this \<mapsto> s1\<lparr>waker_handle := h\<rparr>)"
      by (auto simp: add_waker_def bnd_def comp_simps on_selector_def)
    with add_waker_live [OF live run] s(3) s1(2) [OF 1] show ?thesis by (simp add: selector_table_def reg_map_def)
  next
    case 2
    with run add posix have "r = Throw e" "w' = w1"
      by (auto simp: add_waker_def bnd_def comp_simps)
    with 2 on_selector_live [OF s1(1)] s(3) s1(3) show ?thesis by auto
  qed
qed

text \<open>The descriptors that constructing a waker opens.\<close>

definition waker_descriptors :: "env \<Rightarrow> io_world \<Rightarrow> int list" where
  "waker_descriptors env w =
     (if platform env = Linux then
        (let fd = ret (answer env (history w) Eventfd) in if 0 \<le> fd then [fd] else [])
      else
        (let r = answer env (history w) Pipe in if ret r = -1 then [] else [fst (out_fds r), snd (out_fds r)]))"

text \<open>Configuring the ends of the pipe either succeeds or throws, and touches no object.\<close>

definition configure_pipe :: "int \<Rightarrow> int \<Rightarrow> (io_world, unit) comp" where
  "configure_pipe rd wr =
     bnd (set_descriptor_non_blocking rd) (\<lambda>_. bnd (set_descriptor_non_blocking wr) (\<lambda>_.
     bnd (set_descriptor_close_on_exec rd) (\<lambda>_. set_descriptor_close_on_exec wr)))"

lemma configure_pipe_outcome:
  assumes "configure_pipe rd wr env w = (r, w')"
  shows "(r = Ret () \<or> (\<exists>e. r = Throw e)) \<and> objects w' = objects w"
proof -
  have "completes env (configure_pipe rd wr)" unfolding configure_pipe_def by (intro returns_intros)
  then have "r = Ret () \<or> (\<exists>e. r = Throw e)" using assms by (rule completesE) simp_all
  moreover have "quiet env (configure_pipe rd wr)"
    unfolding configure_pipe_def by (rule quietI) (intro keeps_intros)
  then have "objects w' = objects w" using assms by (rule quiet_objects)
  ultimately show ?thesis by blast
qed

lemma configure_then_add:
  assumes posix: "platform env \<noteq> Windows" and live: "selector_live env this w"
    and run: "bnd (configure_pipe rd wr) (\<lambda>_. add_waker this rd t) env w = (r, w')"
  shows "selector_live env this w'
    \<and> (r = Ret () \<and> selector_table this w rd = None
          \<and> selector_table this w' = (selector_table this w)(rd \<mapsto> entry rd Kind_raw_descriptor t READABLE True)
       \<or> (\<exists>e. r = Throw e) \<and> selector_table this w' = selector_table this w)"
proof -
  obtain r1 w1 where conf: "configure_pipe rd wr env w = (r1, w1)" by (meson surj_pair)
  note c = configure_pipe_outcome [OF conf]
  then have same: "selectors w1 = selectors w" "io_ok env w \<Longrightarrow> io_ok env w1"
    using io_ok_cong by (auto simp: objects_def)
  then have live1: "selector_live env this w1" "selector_table this w1 = selector_table this w"
    using live by (simp_all add: selector_live_def selector_table_def)
  show ?thesis
  proof (cases "r1 = Ret ()")
    case True
    then have "add_waker this rd t env w1 = (r, w')" using run conf by (simp add: bnd_def)
    from add_waker_result [OF posix live1(1) this] live1(2) show ?thesis by simp
  next
    case False
    then show ?thesis using run conf c live1 by (auto simp: bnd_def)
  qed
qed

lemma table_after_closes [simp]:
  "selector_live env this (logged env c w) = selector_live env this w"
  "selector_table this (logged env c w) = selector_table this w"
proof -
  have "io_ok env (logged env c w) \<longleftrightarrow> io_ok env w"
    using io_ok_cong [OF objects_logged] io_ok_cong [OF objects_logged [symmetric]] by blast
  then show "selector_live env this (logged env c w) = selector_live env this w"
    by (simp add: selector_live_def)
qed (simp add: selector_table_def)

lemma bnd_unwind:
  "m env w = (Ret x, w1) \<Longrightarrow> bnd (unwind m c) f env w = f x env w1"
  "m env w = (Throw e, w1) \<Longrightarrow> bnd (unwind m c) f env w = bnd c (\<lambda>_. throw e) env w1"
  by (auto simp: unwind_def catch_def bnd_def throw_def split: prod.splits outcome.splits)

text \<open>The outcome of constructing a waker, first with an eventfd, then with a pipe.\<close>

definition waker_outcome :: "env \<Rightarrow> nat \<Rightarrow> token \<Rightarrow> io_world \<Rightarrow> WakerState outcome \<Rightarrow> io_world \<Rightarrow> bool" where
  "waker_outcome env this t w r w' \<longleftrightarrow> selector_live env this w' \<and>
    (case r of
       Ret st \<Rightarrow> waker_descriptors env w = owned_read st # (if platform env = Linux then [] else [owned_write st])
         \<and> ws_selector st = Some this \<and> write_handle st = (if platform env = Linux then owned_read st else owned_write st)
         \<and> read_handle st = owned_read st \<and> selector_table this w (owned_read st) = None
         \<and> selector_table this w' = (selector_table this w)(owned_read st \<mapsto>
             entry (owned_read st) Kind_raw_descriptor t READABLE True)
     | Throw e \<Rightarrow> selector_table this w' = selector_table this w
         \<and> (\<exists>h. map fst (history w') = h @ map Close (rev (waker_descriptors env w)))
     | _ \<Rightarrow> False)"

lemma WakerState_new_eventfd:
  assumes linux: "platform env = Linux" and live: "selector_live env this w"
    and run: "WakerState_new (Some this) t env w = (r, w')"
  shows "waker_outcome env this t w r w'"
proof -
  have posix': "platform env \<noteq> Windows" using linux by simp
  let ?fd = "ret (answer env (history w) Eventfd)" and ?w = "logged env Eventfd w"
  let ?st = "\<lparr>ws_selector = Some this, ws_token = t, read_handle = ?fd, write_handle = ?fd,
    owned_read = ?fd, owned_write = -1\<rparr>"
  show ?thesis
  proof (cases "0 \<le> ?fd")
    case False
    then show ?thesis using run linux live
      by (auto simp: WakerState_new_def waker_descriptors_def waker_outcome_def OwnedDescriptor_valid_def comp_simps)
  next
    case opened: True
    obtain r1 w1 where add: "add_waker this ?fd t env ?w = (r1, w1)" by (meson surj_pair)
    have "selector_live env this ?w" using live by simp
    note a = add_waker_result [OF posix' this add]
    have rest: "bnd (unwind (add_waker this ?fd t) (OwnedDescriptor_destroy ?fd)) (\<lambda>_. return ?st) env ?w = (r, w')"
      using run linux opened by (simp add: WakerState_new_def OwnedDescriptor_valid_def comp_simps Let_def)
    from a add have "(r = Ret ?st \<and> w' = w1 \<and> r1 = Ret ()) \<or> (\<exists>e. r1 = Throw e \<and> r = Throw e \<and> w' = logged env (Close ?fd) w1)"
      using rest opened by (auto simp: bnd_unwind OwnedDescriptor_destroy_def comp_simps)
    with a opened linux show ?thesis by (auto simp: waker_outcome_def waker_descriptors_def)
  qed
qed

lemma WakerState_new_pipe:
  assumes posix: "platform env \<noteq> Windows" and other: "platform env \<noteq> Linux" and live: "selector_live env this w"
    and fds: "\<forall>fd \<in> set (waker_descriptors env w). 0 \<le> fd"
    and run: "WakerState_new (Some this) t env w = (r, w')"
  shows "waker_outcome env this t w r w'"
proof -
  let ?k = "answer env (history w) Pipe" and ?w = "logged env Pipe w"
  obtain rd wr where ends: "out_fds ?k = (rd, wr)" by (meson surj_pair)
  let ?st = "\<lparr>ws_selector = Some this, ws_token = t, read_handle = rd, write_handle = wr,
        owned_read = rd, owned_write = wr\<rparr>"
  show ?thesis
  proof (cases "ret ?k = -1")
    case True
    then show ?thesis using run posix other live by (auto simp: WakerState_new_def waker_outcome_def waker_descriptors_def comp_simps)
  next
    case opened: False
    have fds': "0 \<le> rd" "0 \<le> wr" "waker_descriptors env w = [rd, wr]"
      using fds other opened ends by (simp_all add: waker_descriptors_def)
    obtain r1 w1 where add: "bnd (configure_pipe rd wr) (\<lambda>_. add_waker this rd t) env ?w = (r1, w1)"
      by (meson surj_pair)
    have "selector_live env this ?w" using live by simp
    note a = configure_then_add [OF posix this add]
    have rest: "bnd (unwind (bnd (configure_pipe rd wr) (\<lambda>_. add_waker this rd t))
          (bnd (OwnedDescriptor_destroy wr) (\<lambda>_. OwnedDescriptor_destroy rd))) (\<lambda>_. return ?st) env ?w = (r, w')"
      using run posix other opened ends
      by (simp add: WakerState_new_def configure_pipe_def bnd_assoc bnd_asks bnd_sys)
    from a add have "(r = Ret ?st \<and> w' = w1 \<and> r1 = Ret ())
        \<or> (\<exists>e. r1 = Throw e \<and> r = Throw e \<and> w' = logged env (Close rd) (logged env (Close wr) w1))"
      using rest fds' by (auto simp: bnd_unwind OwnedDescriptor_destroy_def comp_simps)
    with a fds' other show ?thesis by (auto simp: waker_outcome_def)
  qed
qed

lemma WakerState_new_result:
  assumes "platform env \<noteq> Windows" "selector_live env this w" "\<forall>fd \<in> set (waker_descriptors env w). 0 \<le> fd"
    "WakerState_new (Some this) t env w = (r, w')"
  shows "waker_outcome env this t w r w'"
  using assms WakerState_new_eventfd WakerState_new_pipe by blast

text \<open>
  C16. Constructing a waker on a POSIX system is all or nothing: if it returns, the descriptors
  it opened are owned by the new object and the read end is registered for reading, to be
  drained by the wait; if it throws, the table is as before and the descriptors that were
  opened are closed again, the last opened first.
\<close>

theorem WakerState_new_owns_or_closes:
  assumes posix: "platform env \<noteq> Windows" and live: "selector_live env this w"
    and fds: "\<forall>fd \<in> set (waker_descriptors env w). 0 \<le> fd"
    and run: "WakerState_new (Some this) t env w = (r, w')"
  shows "selector_live env this w' \<and>
    (case r of
       Ret st \<Rightarrow> waker_descriptors env w = owned_read st # (if platform env = Linux then [] else [owned_write st])
         \<and> read_handle st = owned_read st \<and> selector_table this w (owned_read st) = None
         \<and> selector_table this w' = (selector_table this w)(owned_read st \<mapsto>
             entry (owned_read st) Kind_raw_descriptor t READABLE True)
     | Throw e \<Rightarrow> selector_table this w' = selector_table this w
         \<and> (\<exists>h. map fst (history w') = h @ map Close (rev (waker_descriptors env w)))
     | _ \<Rightarrow> False)"
  using WakerState_new_result [OF assms] by (cases r) (simp_all add: waker_outcome_def)

text \<open>The witnesses use a Linux system that hands out the descriptor 6.\<close>

definition waker_env :: "platform \<Rightarrow> env" where
  "waker_env p = \<lparr>platform = p, host_endian = Little, macro_defined = (\<lambda>_. True),
     answer = (\<lambda>_ c. case c of Alloc \<Rightarrow> plain 1 0 | Eventfd \<Rightarrow> plain 6 0
       | Pipe \<Rightarrow> (plain 0 0)\<lparr>out_fds := (6, 7)\<rparr> | _ \<Rightarrow> plain 0 0)\<rparr>"

lemma waker_env_live: "selector_live (waker_env p) 1 (one_selector p [])"
  unfolding waker_env_def by (rule one_selector_live) simp

lemma one_selector_empty: "selector_table 1 (one_selector p []) = Map.empty"
  by (simp add: one_selector_def selector_table_def reg_map_def fun_eq_iff)

lemma waker_env_new:
  "\<exists>w1. WakerState_new (Some 1) (Token 3) (waker_env Linux) (one_selector Linux []) = (Ret \<lparr>ws_selector = Some 1,
     ws_token = Token 3, read_handle = 6, write_handle = 6, owned_read = 6, owned_write = -1\<rparr>, w1)"
proof -
  let ?env = "waker_env Linux" and ?w = "logged (waker_env Linux) Eventfd (one_selector Linux [])"
  have env: "platform ?env = Linux" "answer ?env h Eventfd = plain 6 0" "answer ?env h Alloc = plain 1 0"
    "answer ?env h (Epoll_ctl a b c d) = plain 0 0" for h a b c d
    by (simp_all add: waker_env_def)
  have sel: "selectors ?w 1 = Some \<lparr>registrations = [], waker_handle = -1, backend = 3, iocp = 0, afd_handle = 0,
      waker_active = False\<rparr>"
    by (simp add: one_selector_def invalid_native_handle_def)
  obtain r1 w1 where add: "Selector_add 1 6 Kind_raw_descriptor (Token 3) READABLE True ?env ?w = (r1, w1)"
    by (meson surj_pair)
  then have "r1 = Ret () \<and> selectors w1 1 \<noteq> None"
    using env sel by (auto simp: Selector_add_def emplace_registration_def add_to_backend_def add_epoll_def catch_def
        validation_error_def invalid_native_handle_def comp_simps)
  then obtain w2 where "add_waker 1 6 (Token 3) ?env ?w = (Ret (), w2)"
    using add env(1) by (auto simp: add_waker_def bnd_def [of "Selector_add _ _ _ _ _ _"] comp_simps)
  then show ?thesis
    using env by (auto simp: WakerState_new_def OwnedDescriptor_valid_def bnd_unwind comp_simps Let_def)
qed

theorem WakerState_new_owns_or_closes_witness:
  "\<exists>st w1. WakerState_new (Some 1) (Token 3) (waker_env Linux) (one_selector Linux []) = (Ret st, w1)
     \<and> selector_table 1 w1 = [6 \<mapsto> entry 6 Kind_raw_descriptor (Token 3) READABLE True]"
proof -
  let ?env = "waker_env Linux" and ?w = "one_selector Linux []"
  obtain w1 st where new: "WakerState_new (Some 1) (Token 3) ?env ?w = (Ret st, w1)" "owned_read st = 6"
    using waker_env_new by fastforce
  note one_selector_empty [of Linux]
  moreover have "\<forall>fd \<in> set (waker_descriptors ?env ?w). 0 \<le> fd" "platform ?env \<noteq> Windows"
    by (simp_all add: waker_descriptors_def waker_env_def one_selector_def)
  ultimately show ?thesis
    using WakerState_new_owns_or_closes [OF _ waker_env_live _ new(1)] new by auto
qed

text \<open>
  C23. The life of a waker on Linux: what construction did, destruction undoes. The destructor
  returns, the table is the one from before the construction, and it issues two calls, the
  removal from epoll and then the close of the descriptor.
\<close>

theorem WakerState_lifetime:
  assumes "platform env = Linux" "selector_live env this w"
    and new: "WakerState_new (Some this) t env w = (Ret st, w1)"
    and del: "WakerState_destroy st env w1 = (r, w2)"
  shows "r = Ret () \<and> selector_live env this w2 \<and> selector_table this w2 = selector_table this w
    \<and> (\<exists>backend. map fst (history w2) = map fst (history w1)
          @ [Epoll_ctl backend EPOLL_CTL_DEL (owned_read st) None, Close (owned_read st)])"
proof -
  have posix: "platform env \<noteq> Windows" using assms(1) by simp
  have fds: "\<forall>fd \<in> set (waker_descriptors env w). 0 \<le> fd"
    using assms(1) by (simp add: waker_descriptors_def Let_def)
  note res = WakerState_new_result [OF posix assms(2) fds new, unfolded waker_outcome_def outcome.case]
  have n: "selector_live env this w1" "read_handle st = owned_read st" "0 \<le> owned_read st"
    "selector_table this w (owned_read st) = None"
    "selector_table this w1 = (selector_table this w)(owned_read st \<mapsto> entry (owned_read st) Kind_raw_descriptor t READABLE True)"
    using res fds by auto
  have st: "owned_write st = -1" "ws_selector st = Some this"
    using new assms(1)
    by (auto simp: WakerState_new_def bnd_eq_Ret comp_simps Let_def split: if_splits)
  obtain s where s: "io_ok env w1" "selectors w1 this = Some s" "selector_table this w1 = reg_map s"
    using n(1) by (rule selector_liveE)
  obtain r1 w1' where rem: "Selector_remove this (owned_read st) env w1 = (r1, w1')" by (meson surj_pair)
  have "reg_map s (owned_read st) \<noteq> None" using n(5) s(3) by simp
  then obtain r0 where r0: "reg_map s (owned_read st) = Some r0" by blast
  then obtain z where z: "map_of (registrations s) (owned_read st) = Some z" by (auto simp: reg_map_def)
  then have "reg_handle z = owned_read st"
    using io_ok_selector [OF s(1,2)] map_of_SomeD [OF z] by (auto simp: registrations_ok_def)
  with rem z s(2) assms(1) have c: "r1 = Ret ()" "map fst (history w1') = map fst (history w1)
      @ [Epoll_ctl (backend s) EPOLL_CTL_DEL (owned_read st) None]"
    by (auto simp: Selector_remove_def remove_from_backend_def remove_epoll_def noexcept_def catch_def comp_simps)
  from Selector_remove_done [OF rem s(1,2) r0] obtain s' where
    s': "on_selector env this w1 r1 w1' s'" "reg_map s' = (reg_map s)(owned_read st := None)" by blast
  have "r = Ret ()" "w2 = logged env (Close (owned_read st)) w1'"
    using del st n(2,3) rem c(1) assms(1)
    by (auto simp: WakerState_destroy_def noexcept_def catch_def remove_waker_def bnd_def comp_simps
        OwnedDescriptor_destroy_def)
  moreover have "selector_table this w1' = selector_table this w"
    using on_selector_live [OF s'(1)] s'(2) n(4,5) s(3) by (auto simp: fun_eq_iff)
  ultimately show ?thesis using on_selector_live [OF s'(1)] c(2) by auto
qed

theorem WakerState_lifetime_witness:
  "\<exists>st w1 w2. WakerState_new (Some 1) (Token 3) (waker_env Linux) (one_selector Linux []) = (Ret st, w1)
     \<and> WakerState_destroy st (waker_env Linux) w1 = (Ret (), w2) \<and> selector_table 1 w2 = Map.empty"
proof -
  let ?env = "waker_env Linux" and ?w = "one_selector Linux []"
  obtain w1 st where new: "WakerState_new (Some 1) (Token 3) ?env ?w = (Ret st, w1)"
    using waker_env_new by fastforce
  obtain r w2 where del: "WakerState_destroy st ?env w1 = (r, w2)" by (meson surj_pair)
  note one_selector_empty [of Linux]
  moreover have "platform ?env = Linux" by (simp add: waker_env_def)
  ultimately show ?thesis using WakerState_lifetime [OF _ waker_env_live new del] new del by auto
qed

section \<open>Running out of memory\<close>

text \<open>
  C37. When memory runs out, registering a handle reports \<open>not_enough_memory\<close>, but
  waiting does not report anything: \<open>Poll::poll\<close> with an error code is
  \<open>noexcept\<close> and catches only \<open>std::system_error\<close>, so the process is
  terminated. (Stated for Linux, where both allocate first.)
\<close>

theorem out_of_memory:
  assumes "platform env = Linux" "selectors w this = Some s" "poll_selector poll = Some this"
    and "0 < ev_capacity (cur_events w)" "validation_error Linux h i = None"
    and "ret (answer env (history w) Alloc) = 0"
  shows "fst (register_handle (Some this) h k t i env w) = Ret (make_error_code Linux not_enough_memory)
    \<and> fst (Poll_poll poll timeout env w) = Terminate"
proof
  have "Selector_add this h k t i False env w = (Throw Bad_Alloc, logged env Alloc w)"
    using assms by (simp add: Selector_add_def emplace_registration_def comp_simps)
  from reporting_void_run [of "Selector_add this h k t i False", OF this, of catch_all] assms(1)
  show "fst (register_handle (Some this) h k t i env w) = Ret (make_error_code Linux not_enough_memory)"
    by (simp add: register_handle_def)
  have "\<exists>w'. select this timeout env w = (Throw Bad_Alloc, w')"
    using assms by (simp add: select_def select_epoll_def comp_simps)
  then obtain w' where "select this timeout env w = (Throw Bad_Alloc, w')" by blast
  from reporting_void_run [of "select this timeout", OF this, of catch_system] assms(3)
  show "fst (Poll_poll poll timeout env w) = Terminate" by (simp add: Poll_poll_def)
qed

theorem out_of_memory_witness:
  "fst (Poll_poll \<lparr>poll_selector = Some 1, poll_registry = Some 1\<rparr> None demo_env (one_selector Linux [])) = Terminate"
proof -
  obtain s where s: "selectors (one_selector Linux []) 1 = Some s" by (simp add: one_selector_def)
  have w: "platform demo_env = Linux" "0 < ev_capacity (cur_events (one_selector Linux []))"
    "validation_error Linux 5 READABLE = None" "ret (answer demo_env (history (one_selector Linux [])) Alloc) = 0"
    by (simp_all add: demo_env_def one_selector_def Events_new_def validation_error_def invalid_native_handle_def)
  have poll: "poll_selector \<lparr>poll_selector = Some 1, poll_registry = Some 1\<rparr> = Some 1" by simp
  show ?thesis using out_of_memory [OF w(1) s poll w(2,3,4), of Kind_socket "Token 1" None] by blast
qed

end
