(* ===== verification/Net.thy ===== *)
theory Net
  imports Registry
begin

text \<open>
  What the classes of \<^verbatim>\<open>src/net.cpp\<close> share: the helpers of its anonymous namespace and
  the fields and hooks that \<open>TcpStream\<close>, \<open>TcpListener\<close> and
  \<open>UdpSocket\<close> have in common. A \<open>std::unique_ptr<detail::Socket>\<close> is
  \<open>None\<close> or the handle inside the owned object. The three classes declare the same
  four fields, so they share the record \<open>net_source\<close>. An operation that fills a
  buffer returns the count; the bytes are those of the system's reply. The destructors of
  locals run where the scope ends.
\<close>

section \<open>Slices for vectored transfers\<close>

text \<open>
  \<open>IoSlice\<close> and \<open>IoSliceMut\<close> hold the memory and its length; on Windows the
  length is an \<open>unsigned long\<close> of 32 bits. The vectored operations below take the
  contents, or the lengths, of their slices.
\<close>

record IoSlice =
  slice_data :: bytes
  slice_len :: size_t

definition IoSlice_new :: "platform \<Rightarrow> bytes \<Rightarrow> size_t \<Rightarrow> IoSlice" where
  "IoSlice_new p data n = \<lparr>slice_data = data, slice_len = (if p = Windows then ucast (ucast n :: u32) else n)\<rparr>"

definition IoSlice_size :: "IoSlice \<Rightarrow> size_t" where
  "IoSlice_size this = slice_len this"

definition IoSliceMut_new :: "platform \<Rightarrow> bytes \<Rightarrow> size_t \<Rightarrow> IoSlice" where
  "IoSliceMut_new p data n = \<lparr>slice_data = data, slice_len = (if p = Windows then ucast (ucast n :: u32) else n)\<rparr>"

definition IoSliceMut_size :: "IoSlice \<Rightarrow> size_t" where
  "IoSliceMut_size this = slice_len this"

section \<open>The helpers of the anonymous namespace\<close>

type_synonym socket_ptr = "int option"

definition socket_destroy :: "socket_ptr \<Rightarrow> (io_world, unit) comp" where
  "socket_destroy socket = (case socket of None \<Rightarrow> return () | Some h \<Rightarrow> bnd (Socket_destroy h) (\<lambda>_. return ()))"

text \<open>
  The common tail of every function that makes a socket: close-on-exec, non-blocking, and the
  destruction of the local owner if one of them fails.
\<close>

definition configured :: "int \<Rightarrow> (io_world, socket_ptr \<times> error_code) comp" where
  "configured h =
     bnd (set_close_on_exec h) (\<lambda>ec.
     if failed ec then bnd (socket_destroy (Some h)) (\<lambda>_. return (None, ec))
     else
       bnd (set_non_blocking h True) (\<lambda>ec.
       if failed ec then bnd (socket_destroy (Some h)) (\<lambda>_. return (None, ec))
       else return (Some h, ec)))"

definition make_socket :: "ResolvedAddress \<Rightarrow> (io_world, socket_ptr \<times> error_code) comp" where
  "make_socket address = noexcept (bnd (asks platform) (\<lambda>p.
     bnd ensure_socket_runtime (\<lambda>_.
     bnd (sys Alloc) (\<lambda>a.
     if ret a = 0 then return (None, make_error_code p not_enough_memory)
     else
       bnd (sys (Socket_call (ra_family address) (ra_type address) (ra_protocol address))) (\<lambda>r.
       if \<not> socket_is_valid p (ret r) then bnd last_socket_error (\<lambda>ec. return (None, ec))
       else configured (ret r))))))"

definition make_socket_throws :: "ResolvedAddress \<Rightarrow> (io_world, socket_ptr) comp" where
  "make_socket_throws address = throwing ''socket'' (make_socket address)"

definition try_address ::
  "SocketAddr \<Rightarrow> sock_type \<Rightarrow> protocol \<Rightarrow> (int \<Rightarrow> ResolvedAddress \<Rightarrow> (io_world, error_code) comp) \<Rightarrow>
   (io_world, socket_ptr \<times> error_code) comp" where
  "try_address endpoint socket_type protocol action = noexcept
     (bnd (resolve_endpoint endpoint socket_type protocol) (\<lambda>(address, ec).
      if failed ec then return (None, ec)
      else
        bnd (make_socket address) (\<lambda>(socket, ec).
        if failed ec then bnd (socket_destroy socket) (\<lambda>_. return (None, ec))
        else
          (case socket of
             None \<Rightarrow> undefined_behaviour
           | Some h \<Rightarrow>
               bnd (action h address) (\<lambda>ec.
               if failed ec then bnd (socket_destroy (Some h)) (\<lambda>_. return (None, ec))
               else return (Some h, ec))))))"

text \<open>The throwing overload is a function of its own: the socket is destroyed when the action throws.\<close>

definition try_address_throws ::
  "SocketAddr \<Rightarrow> sock_type \<Rightarrow> protocol \<Rightarrow> (int \<Rightarrow> ResolvedAddress \<Rightarrow> (io_world, unit) comp) \<Rightarrow>
   (io_world, socket_ptr) comp" where
  "try_address_throws endpoint socket_type protocol action =
     bnd (resolve_endpoint_throws endpoint socket_type protocol) (\<lambda>address.
     bnd (make_socket_throws address) (\<lambda>socket.
     case socket of
       None \<Rightarrow> undefined_behaviour
     | Some h \<Rightarrow> bnd (unwind (action h address) (socket_destroy (Some h))) (\<lambda>_. return (Some h))))"

definition require_socket :: "platform \<Rightarrow> socket_ptr \<Rightarrow> error_code" where
  "require_socket p socket = (case socket of
     None \<Rightarrow> make_error_code p bad_file_descriptor
   | Some h \<Rightarrow> if socket_is_valid p h then cleared else make_error_code p bad_file_descriptor)"

definition require_socket_throws :: "socket_ptr \<Rightarrow> (io_world, unit) comp" where
  "require_socket_throws socket = bnd (asks platform) (\<lambda>p.
     throwing_void ''invalid socket'' (return (require_socket p socket)))"

text \<open>
  The first lines of most operations: \<open>require_socket(socket_, ec); if (ec) return
  dflt;\<close>, and what follows on \<open>socket_->get()\<close>.
\<close>

definition on_socket ::
  "socket_ptr \<Rightarrow> 'a \<Rightarrow> (int \<Rightarrow> (io_world, 'a \<times> error_code) comp) \<Rightarrow> (io_world, 'a \<times> error_code) comp" where
  "on_socket socket dflt k = bnd (asks platform) (\<lambda>p. let ec = require_socket p socket in
     if failed ec then return (dflt, ec)
     else (case socket of None \<Rightarrow> undefined_behaviour | Some h \<Rightarrow> k h))"

definition on_socket_void ::
  "socket_ptr \<Rightarrow> (int \<Rightarrow> (io_world, error_code) comp) \<Rightarrow> (io_world, error_code) comp" where
  "on_socket_void socket k = bnd (asks platform) (\<lambda>p. let ec = require_socket p socket in
     if failed ec then return ec
     else (case socket of None \<Rightarrow> undefined_behaviour | Some h \<Rightarrow> k h))"

section \<open>The shared part of the sources\<close>

record net_source =
  ns_socket :: socket_ptr
  ns_registry :: "registry option"
  ns_token :: token
  ns_interests :: interest

definition net_source_of :: "socket_ptr \<Rightarrow> net_source" where
  "net_source_of socket =
     \<lparr>ns_socket = socket, ns_registry = None, ns_token = Token_default, ns_interests = Interest_default\<rparr>"

text \<open>
  The defaulted move constructor: the source keeps an engaged \<open>optional\<close> whose
  registry lost its selector.
\<close>

definition net_source_move :: "net_source \<Rightarrow> net_source \<times> net_source" where
  "net_source_move other =
     (other, other\<lparr>ns_socket := None, ns_registry := map_option (\<lambda>_. None) (ns_registry other)\<rparr>)"

definition net_source_destroy :: "net_source \<Rightarrow> (io_world, unit) comp" where
  "net_source_destroy this = socket_destroy (ns_socket this)"

text \<open>The constructors from a native handle; the member is destroyed if the body throws.\<close>

definition net_source_from_handle :: "int \<Rightarrow> (io_world, net_source) comp" where
  "net_source_from_handle handle =
     bnd allocate (\<lambda>_.
     bnd (unwind
       (bnd (require_socket_throws (Some handle)) (\<lambda>_. set_non_blocking_throws handle True))
       (socket_destroy (Some handle))) (\<lambda>_.
     return (net_source_of (Some handle))))"

definition net_native_handle :: "platform \<Rightarrow> net_source \<Rightarrow> int" where
  "net_native_handle p this =
     (case ns_socket this of None \<Rightarrow> invalid_native_handle p | Some h \<Rightarrow> h)"

definition net_on_registered :: "registry \<Rightarrow> token \<Rightarrow> interest \<Rightarrow> net_source \<Rightarrow> (io_world, net_source) comp" where
  "net_on_registered registry token interests this =
     return (this\<lparr>ns_registry := Some registry, ns_token := token, ns_interests := interests\<rparr>)"

definition net_on_reregistered :: "registry \<Rightarrow> token \<Rightarrow> interest \<Rightarrow> net_source \<Rightarrow> (io_world, net_source) comp" where
  "net_on_reregistered registry token interests this = net_on_registered registry token interests this"

definition net_on_deregistered :: "registry \<Rightarrow> net_source \<Rightarrow> (io_world, net_source) comp" where
  "net_on_deregistered registry this =
     return (this\<lparr>ns_registry := None, ns_interests := Interest_default\<rparr>)"

definition net_rearm :: "source_kind \<Rightarrow> net_source \<Rightarrow> (io_world, unit) comp" where
  "net_rearm kind this = bnd (asks platform) (\<lambda>p.
     case ns_registry this of
       None \<Rightarrow> return ()
     | Some registry \<Rightarrow>
         if \<not> Interest_empty (ns_interests this)
         then reregister_handle_throws registry (net_native_handle p this) kind (ns_token this) (ns_interests this)
         else return ())"

text \<open>
  After a transfer: on failure the error is stored, a would-block error rearms the
  registration, and the default is returned.
\<close>

definition transferred ::
  "(io_world, unit) comp \<Rightarrow> 'a \<Rightarrow> reply \<Rightarrow> (io_world, 'a \<times> error_code) comp \<Rightarrow> (io_world, 'a \<times> error_code) comp" where
  "transferred rearm dflt r k = bnd (asks platform) (\<lambda>p.
     if ret r = -1 then
       bnd last_socket_error (\<lambda>ec.
       bnd (if is_would_block_error p ec then rearm else return ()) (\<lambda>_.
       return (dflt, ec)))
     else k)"

text \<open>The size of a buffer as it is passed on: an \<open>int\<close> on Windows.\<close>

definition buffer_size :: "platform \<Rightarrow> size_t \<Rightarrow> int" where
  "buffer_size p n = (if p = Windows then size_to_int n else uint n)"

text \<open>
  The address options shared by the classes, with the conversions between
  \<open>std::uint32_t\<close> and \<open>int\<close>.
\<close>

definition ttl_to_int :: "u32 \<Rightarrow> int" where
  "ttl_to_int ttl = sint ttl"

definition net_set_ttl :: "net_source \<Rightarrow> u32 \<Rightarrow> (io_world, error_code) comp" where
  "net_set_ttl this ttl = on_socket_void (ns_socket this) (\<lambda>h.
     set_socket_int_option h LEVEL_IP IP_TTL (ttl_to_int ttl))"

definition net_ttl :: "net_source \<Rightarrow> (io_world, u32 \<times> error_code) comp" where
  "net_ttl this = on_socket (ns_socket this) 0 (\<lambda>h.
     bnd (get_socket_int_option h LEVEL_IP IP_TTL) (\<lambda>(v, ec). return (word_of_int v, ec)))"

definition net_take_error :: "net_source \<Rightarrow> (io_world, error_code option) comp" where
  "net_take_error this = bnd (require_socket_throws (ns_socket this)) (\<lambda>_.
     case ns_socket this of None \<Rightarrow> undefined_behaviour | Some h \<Rightarrow> get_socket_error_throws h)"

definition net_valid :: "platform \<Rightarrow> net_source \<Rightarrow> bool" where
  "net_valid p this = (case ns_socket this of None \<Rightarrow> False | Some h \<Rightarrow> socket_is_valid p h)"

definition net_local_endpoint :: "net_source \<Rightarrow> (io_world, SocketAddr \<times> error_code) comp" where
  "net_local_endpoint this = on_socket (ns_socket this) SocketAddr_default local_endpoint"

definition net_peer_endpoint :: "net_source \<Rightarrow> (io_world, SocketAddr \<times> error_code) comp" where
  "net_peer_endpoint this = on_socket (ns_socket this) SocketAddr_default peer_endpoint"

section \<open>Sizes of slices\<close>

text \<open>The size of a slice is that of its memory, except for 4 GiB and more on Windows.\<close>

lemma slice_sizes:
  assumes "p \<noteq> Windows \<or> n < 2 ^ 32"
  shows "IoSlice_size (IoSlice_new p data n) = n" "IoSliceMut_size (IoSliceMut_new p data n) = n"
proof -
  have "ucast (ucast n :: u32) = n" if "n < 2 ^ 32"
  proof -
    have "unat n < 2 ^ 32" using that by (simp add: word_less_nat_alt)
    then show ?thesis
      by (intro word_unat_eq_iff [THEN iffD2]) (simp add: unsigned_ucast_eq unsigned_take_bit_eq take_bit_nat_eq_self)
  qed
  then show "IoSlice_size (IoSlice_new p data n) = n" "IoSliceMut_size (IoSliceMut_new p data n) = n"
    using assms by (auto simp: IoSlice_size_def IoSlice_new_def IoSliceMut_size_def IoSliceMut_new_def)
qed

end
