(* ===== verification/Tcp.thy ===== *)
theory Tcp
  imports Net
begin

text \<open>
  The TCP classes of \<^verbatim>\<open>src/net.cpp\<close>: \<open>TcpSocket\<close>, \<open>TcpStream\<close> and
  \<open>TcpListener\<close>. A \<open>TcpSocket\<close> is its only field. The suffix
  \<open>_throws\<close> marks the overload that throws.
\<close>

section \<open>TcpSocket\<close>

type_synonym TcpSocket = socket_ptr
type_synonym TcpStream = net_source
type_synonym TcpListener = net_source

definition new_tcp_socket :: "family \<Rightarrow> (io_world, TcpSocket \<times> error_code) comp" where
  "new_tcp_socket family = noexcept (bnd (asks platform) (\<lambda>p.
     bnd ensure_socket_runtime (\<lambda>_.
     bnd (sys Alloc) (\<lambda>a.
     if ret a = 0 then bnd last_socket_error (\<lambda>ec. return (None, ec))
     else
       bnd (sys (Socket_call family SOCK_STREAM IPPROTO_TCP)) (\<lambda>r.
       if \<not> socket_is_valid p (ret r) then bnd last_socket_error (\<lambda>ec. return (None, ec))
       else configured (ret r))))))"

definition TcpSocket_new_v4 :: "(io_world, TcpSocket \<times> error_code) comp" where
  "TcpSocket_new_v4 = new_tcp_socket AF_INET"

definition TcpSocket_new_v4_throws :: "(io_world, TcpSocket) comp" where
  "TcpSocket_new_v4_throws = throwing ''socket'' TcpSocket_new_v4"

definition TcpSocket_new_v6 :: "(io_world, TcpSocket \<times> error_code) comp" where
  "TcpSocket_new_v6 = new_tcp_socket AF_INET6"

definition TcpSocket_new_v6_throws :: "(io_world, TcpSocket) comp" where
  "TcpSocket_new_v6_throws = throwing ''socket'' TcpSocket_new_v6"

definition TcpSocket_set_reuseaddr :: "TcpSocket \<Rightarrow> bool \<Rightarrow> (io_world, error_code) comp" where
  "TcpSocket_set_reuseaddr this reuse = on_socket_void this (\<lambda>h. set_reuse_addr h reuse)"

definition TcpSocket_set_reuseaddr_throws :: "TcpSocket \<Rightarrow> bool \<Rightarrow> (io_world, unit) comp" where
  "TcpSocket_set_reuseaddr_throws this reuse = throwing_void ''setsockopt'' (TcpSocket_set_reuseaddr this reuse)"

definition TcpSocket_reuseaddr :: "TcpSocket \<Rightarrow> (io_world, bool \<times> error_code) comp" where
  "TcpSocket_reuseaddr this = on_socket this False (\<lambda>h. get_socket_bool_option h SOL_SOCKET SO_REUSEADDR)"

definition TcpSocket_reuseaddr_throws :: "TcpSocket \<Rightarrow> (io_world, bool) comp" where
  "TcpSocket_reuseaddr_throws this = throwing ''getsockopt'' (TcpSocket_reuseaddr this)"

definition TcpSocket_set_reuseport :: "TcpSocket \<Rightarrow> bool \<Rightarrow> (io_world, error_code) comp" where
  "TcpSocket_set_reuseport this reuse = on_socket_void this (\<lambda>h. set_reuse_port h reuse)"

definition TcpSocket_set_reuseport_throws :: "TcpSocket \<Rightarrow> bool \<Rightarrow> (io_world, unit) comp" where
  "TcpSocket_set_reuseport_throws this reuse = throwing_void ''setsockopt'' (TcpSocket_set_reuseport this reuse)"

definition TcpSocket_reuseport :: "TcpSocket \<Rightarrow> (io_world, bool \<times> error_code) comp" where
  "TcpSocket_reuseport this = on_socket this False (\<lambda>h. bnd (asks macro_defined) (\<lambda>defs.
     if defs D_SO_REUSEPORT then get_socket_bool_option h SOL_SOCKET SO_REUSEPORT
     else bnd not_supported (\<lambda>ec. return (False, ec))))"

definition TcpSocket_reuseport_throws :: "TcpSocket \<Rightarrow> (io_world, bool) comp" where
  "TcpSocket_reuseport_throws this = throwing ''getsockopt'' (TcpSocket_reuseport this)"

definition TcpSocket_set_keepalive :: "TcpSocket \<Rightarrow> bool \<Rightarrow> (io_world, error_code) comp" where
  "TcpSocket_set_keepalive this keepalive = on_socket_void this (\<lambda>h. set_keepalive h keepalive)"

definition TcpSocket_set_keepalive_throws :: "TcpSocket \<Rightarrow> bool \<Rightarrow> (io_world, unit) comp" where
  "TcpSocket_set_keepalive_throws this keepalive =
     throwing_void ''setsockopt'' (TcpSocket_set_keepalive this keepalive)"

definition TcpSocket_keepalive :: "TcpSocket \<Rightarrow> (io_world, bool \<times> error_code) comp" where
  "TcpSocket_keepalive this = on_socket this False (\<lambda>h. get_socket_bool_option h SOL_SOCKET SO_KEEPALIVE)"

definition TcpSocket_keepalive_throws :: "TcpSocket \<Rightarrow> (io_world, bool) comp" where
  "TcpSocket_keepalive_throws this = throwing ''getsockopt'' (TcpSocket_keepalive this)"

definition TcpSocket_set_nodelay :: "TcpSocket \<Rightarrow> bool \<Rightarrow> (io_world, error_code) comp" where
  "TcpSocket_set_nodelay this nodelay = on_socket_void this (\<lambda>h.
     set_socket_bool_option h LEVEL_TCP TCP_NODELAY nodelay)"

definition TcpSocket_set_nodelay_throws :: "TcpSocket \<Rightarrow> bool \<Rightarrow> (io_world, unit) comp" where
  "TcpSocket_set_nodelay_throws this nodelay = throwing_void ''setsockopt'' (TcpSocket_set_nodelay this nodelay)"

definition TcpSocket_nodelay :: "TcpSocket \<Rightarrow> (io_world, bool \<times> error_code) comp" where
  "TcpSocket_nodelay this = on_socket this False (\<lambda>h. get_socket_bool_option h LEVEL_TCP TCP_NODELAY)"

definition TcpSocket_nodelay_throws :: "TcpSocket \<Rightarrow> (io_world, bool) comp" where
  "TcpSocket_nodelay_throws this = throwing ''getsockopt'' (TcpSocket_nodelay this)"

definition TcpSocket_set_tcp_fastopen :: "TcpSocket \<Rightarrow> int \<Rightarrow> (io_world, error_code) comp" where
  "TcpSocket_set_tcp_fastopen this backlog = on_socket_void this (\<lambda>h. set_tcp_fastopen h backlog)"

definition TcpSocket_set_tcp_fastopen_throws :: "TcpSocket \<Rightarrow> int \<Rightarrow> (io_world, unit) comp" where
  "TcpSocket_set_tcp_fastopen_throws this backlog =
     throwing_void ''setsockopt'' (TcpSocket_set_tcp_fastopen this backlog)"

definition TcpSocket_set_tcp_fastopen_connect :: "TcpSocket \<Rightarrow> bool \<Rightarrow> (io_world, error_code) comp" where
  "TcpSocket_set_tcp_fastopen_connect this enabled = on_socket_void this (\<lambda>h.
     set_tcp_fastopen_connect h enabled)"

definition TcpSocket_set_tcp_fastopen_connect_throws :: "TcpSocket \<Rightarrow> bool \<Rightarrow> (io_world, unit) comp" where
  "TcpSocket_set_tcp_fastopen_connect_throws this enabled =
     throwing_void ''setsockopt'' (TcpSocket_set_tcp_fastopen_connect this enabled)"

text \<open>
  \<open>bind\<close> and \<open>connect\<close> give the socket away: they return the new object and
  what is left in this one.
\<close>

definition TcpSocket_bind ::
  "TcpSocket \<Rightarrow> SocketAddr \<Rightarrow> int \<Rightarrow> (io_world, (TcpListener \<times> TcpSocket) \<times> error_code) comp" where
  "TcpSocket_bind this endpoint backlog = noexcept
     (on_socket this (net_source_of None, this) (\<lambda>h.
      bnd (resolve_endpoint endpoint SOCK_STREAM IPPROTO_TCP) (\<lambda>(address, ec).
      if failed ec then return ((net_source_of None, this), ec)
      else
        bnd (sys (Bind h (ra_storage address) (ra_length address))) (\<lambda>r.
        if ret r \<noteq> 0 then bnd last_socket_error (\<lambda>ec. return ((net_source_of None, this), ec))
        else
          bnd (sys (Listen h backlog)) (\<lambda>r.
          if ret r \<noteq> 0 then bnd last_socket_error (\<lambda>ec. return ((net_source_of None, this), ec))
          else return ((net_source_of this, None), cleared))))))"

definition TcpSocket_bind_throws ::
  "TcpSocket \<Rightarrow> SocketAddr \<Rightarrow> int \<Rightarrow> (io_world, TcpListener \<times> TcpSocket) comp" where
  "TcpSocket_bind_throws this endpoint backlog = throwing ''bind/listen'' (TcpSocket_bind this endpoint backlog)"

definition TcpSocket_connect ::
  "TcpSocket \<Rightarrow> SocketAddr \<Rightarrow> (io_world, (TcpStream \<times> TcpSocket) \<times> error_code) comp" where
  "TcpSocket_connect this endpoint = noexcept
     (on_socket this (net_source_of None, this) (\<lambda>h.
      bnd (resolve_endpoint endpoint SOCK_STREAM IPPROTO_TCP) (\<lambda>(address, ec).
      if failed ec then return ((net_source_of None, this), ec)
      else
        bnd (sys (Connect h (ra_storage address) (ra_length address))) (\<lambda>r.
        if ret r = 0 then return ((net_source_of this, None), cleared)
        else
          bnd (asks platform) (\<lambda>p. bnd last_socket_error (\<lambda>error.
          if \<not> is_connect_in_progress p error then return ((net_source_of None, this), error)
          else return ((net_source_of this, None), cleared)))))))"

definition TcpSocket_connect_throws :: "TcpSocket \<Rightarrow> SocketAddr \<Rightarrow> (io_world, TcpStream \<times> TcpSocket) comp" where
  "TcpSocket_connect_throws this endpoint = throwing ''connect'' (TcpSocket_connect this endpoint)"

section \<open>TcpStream\<close>

text \<open>
  The class does not override \<open>source_kind\<close>, so it is registered as a raw
  descriptor.
\<close>

definition TcpStream_ops :: "TcpStream source_ops" where
  "TcpStream_ops = \<lparr>native_handle = net_native_handle, source_kind_of = (\<lambda>_. default_source_kind),
     on_registered = net_on_registered, on_reregistered = net_on_reregistered,
     on_deregistered = net_on_deregistered\<rparr>"

definition TcpStream_from_handle :: "int \<Rightarrow> (io_world, TcpStream) comp" where
  "TcpStream_from_handle handle = net_source_from_handle handle"

definition connect_action :: "int \<Rightarrow> ResolvedAddress \<Rightarrow> (io_world, error_code) comp" where
  "connect_action h address =
     bnd (sys (Connect h (ra_storage address) (ra_length address))) (\<lambda>r.
     if ret r = 0 then return cleared
     else
       bnd (asks platform) (\<lambda>p. bnd last_socket_error (\<lambda>error.
       if \<not> is_connect_in_progress p error then return error else return cleared)))"

definition TcpStream_connect :: "SocketAddr \<Rightarrow> (io_world, TcpStream \<times> error_code) comp" where
  "TcpStream_connect endpoint = noexcept
     (bnd (try_address endpoint SOCK_STREAM IPPROTO_TCP connect_action) (\<lambda>(socket, ec).
      return (net_source_of socket, ec)))"

definition TcpStream_connect_throws :: "SocketAddr \<Rightarrow> (io_world, TcpStream) comp" where
  "TcpStream_connect_throws endpoint = throwing ''connect'' (TcpStream_connect endpoint)"

definition TcpStream_rearm_after_would_block :: "TcpStream \<Rightarrow> (io_world, unit) comp" where
  "TcpStream_rearm_after_would_block this = net_rearm (source_kind_of TcpStream_ops this) this"

definition TcpStream_local_endpoint :: "TcpStream \<Rightarrow> (io_world, SocketAddr \<times> error_code) comp" where
  "TcpStream_local_endpoint this = net_local_endpoint this"

definition TcpStream_local_endpoint_throws :: "TcpStream \<Rightarrow> (io_world, SocketAddr) comp" where
  "TcpStream_local_endpoint_throws this = throwing ''local_endpoint'' (TcpStream_local_endpoint this)"

definition TcpStream_peer_endpoint :: "TcpStream \<Rightarrow> (io_world, SocketAddr \<times> error_code) comp" where
  "TcpStream_peer_endpoint this = net_peer_endpoint this"

definition TcpStream_peer_endpoint_throws :: "TcpStream \<Rightarrow> (io_world, SocketAddr) comp" where
  "TcpStream_peer_endpoint_throws this = throwing ''peer_endpoint'' (TcpStream_peer_endpoint this)"

definition TcpStream_read :: "TcpStream \<Rightarrow> size_t \<Rightarrow> (io_world, size_t \<times> error_code) comp" where
  "TcpStream_read this n = noexcept (on_socket (ns_socket this) 0 (\<lambda>h. bnd (asks platform) (\<lambda>p.
     bnd (sys (Recv h (buffer_size p n))) (\<lambda>r.
     transferred (TcpStream_rearm_after_would_block this) 0 r (return (int_to_size (ret r), cleared))))))"

definition TcpStream_read_throws :: "TcpStream \<Rightarrow> size_t \<Rightarrow> (io_world, size_t) comp" where
  "TcpStream_read_throws this n = throwing ''recv'' (TcpStream_read this n)"

definition TcpStream_read_span :: "TcpStream \<Rightarrow> bytes \<Rightarrow> (io_world, size_t \<times> error_code) comp" where
  "TcpStream_read_span this buffer = TcpStream_read this (of_nat (length buffer))"

definition TcpStream_read_span_throws :: "TcpStream \<Rightarrow> bytes \<Rightarrow> (io_world, size_t) comp" where
  "TcpStream_read_span_throws this buffer = TcpStream_read_throws this (of_nat (length buffer))"

definition TcpStream_read_vectored :: "TcpStream \<Rightarrow> nat list \<Rightarrow> (io_world, size_t \<times> error_code) comp" where
  "TcpStream_read_vectored this bufs = noexcept (on_socket (ns_socket this) 0 (\<lambda>h. bnd (asks platform) (\<lambda>p.
     if p = Windows then
       bnd (sys (Wsa_recv h bufs (int (length bufs) mod 2 ^ 32))) (\<lambda>r.
       transferred (TcpStream_rearm_after_would_block this) 0 r (return (int_to_size (out_int r), cleared)))
     else
       bnd (sys (Readv h bufs (int64_to_int (int (length bufs))))) (\<lambda>r.
       transferred (TcpStream_rearm_after_would_block this) 0 r (return (int_to_size (ret r), cleared))))))"

definition TcpStream_read_vectored_throws :: "TcpStream \<Rightarrow> nat list \<Rightarrow> (io_world, size_t) comp" where
  "TcpStream_read_vectored_throws this bufs = throwing ''read_vectored'' (TcpStream_read_vectored this bufs)"

definition TcpStream_write :: "TcpStream \<Rightarrow> bytes \<Rightarrow> (io_world, size_t \<times> error_code) comp" where
  "TcpStream_write this data = noexcept (on_socket (ns_socket this) 0 (\<lambda>h. bnd (asks platform) (\<lambda>p.
     bnd (sys (Send h data (buffer_size p (of_nat (length data))))) (\<lambda>r.
     transferred (TcpStream_rearm_after_would_block this) 0 r (return (int_to_size (ret r), cleared))))))"

definition TcpStream_write_throws :: "TcpStream \<Rightarrow> bytes \<Rightarrow> (io_world, size_t) comp" where
  "TcpStream_write_throws this data = throwing ''send'' (TcpStream_write this data)"

definition TcpStream_write_span :: "TcpStream \<Rightarrow> bytes \<Rightarrow> (io_world, size_t \<times> error_code) comp" where
  "TcpStream_write_span this buffer = TcpStream_write this buffer"

definition TcpStream_write_span_throws :: "TcpStream \<Rightarrow> bytes \<Rightarrow> (io_world, size_t) comp" where
  "TcpStream_write_span_throws this buffer = TcpStream_write_throws this buffer"

definition TcpStream_write_text :: "TcpStream \<Rightarrow> string \<Rightarrow> (io_world, size_t \<times> error_code) comp" where
  "TcpStream_write_text this text = TcpStream_write this (map (\<lambda>c. of_char c) text)"

definition TcpStream_write_text_throws :: "TcpStream \<Rightarrow> string \<Rightarrow> (io_world, size_t) comp" where
  "TcpStream_write_text_throws this text = TcpStream_write_throws this (map (\<lambda>c. of_char c) text)"

definition TcpStream_write_vectored :: "TcpStream \<Rightarrow> bytes list \<Rightarrow> (io_world, size_t \<times> error_code) comp" where
  "TcpStream_write_vectored this bufs = noexcept (on_socket (ns_socket this) 0 (\<lambda>h. bnd (asks platform) (\<lambda>p.
     if p = Windows then
       bnd (sys (Wsa_send h bufs (int (length bufs) mod 2 ^ 32))) (\<lambda>r.
       transferred (TcpStream_rearm_after_would_block this) 0 r (return (int_to_size (out_int r), cleared)))
     else
       bnd (sys (Writev h bufs (int64_to_int (int (length bufs))))) (\<lambda>r.
       transferred (TcpStream_rearm_after_would_block this) 0 r (return (int_to_size (ret r), cleared))))))"

definition TcpStream_write_vectored_throws :: "TcpStream \<Rightarrow> bytes list \<Rightarrow> (io_world, size_t) comp" where
  "TcpStream_write_vectored_throws this bufs = throwing ''write_vectored'' (TcpStream_write_vectored this bufs)"

definition shutdown_socket :: "TcpStream \<Rightarrow> shutdown_how \<Rightarrow> (io_world, error_code) comp" where
  "shutdown_socket this how = on_socket_void (ns_socket this) (\<lambda>h.
     bnd (sys (Shutdown h how)) (\<lambda>r. if ret r \<noteq> 0 then last_socket_error else return cleared))"

definition TcpStream_shutdown_read :: "TcpStream \<Rightarrow> (io_world, error_code) comp" where
  "TcpStream_shutdown_read this = shutdown_socket this SHUT_RD"

definition TcpStream_shutdown_read_throws :: "TcpStream \<Rightarrow> (io_world, unit) comp" where
  "TcpStream_shutdown_read_throws this = throwing_void ''shutdown(read)'' (TcpStream_shutdown_read this)"

definition TcpStream_shutdown_write :: "TcpStream \<Rightarrow> (io_world, error_code) comp" where
  "TcpStream_shutdown_write this = shutdown_socket this SHUT_WR"

definition TcpStream_shutdown_write_throws :: "TcpStream \<Rightarrow> (io_world, unit) comp" where
  "TcpStream_shutdown_write_throws this = throwing_void ''shutdown(write)'' (TcpStream_shutdown_write this)"

definition TcpStream_shutdown_both :: "TcpStream \<Rightarrow> (io_world, error_code) comp" where
  "TcpStream_shutdown_both this = shutdown_socket this SHUT_RDWR"

definition TcpStream_shutdown_both_throws :: "TcpStream \<Rightarrow> (io_world, unit) comp" where
  "TcpStream_shutdown_both_throws this = throwing_void ''shutdown(both)'' (TcpStream_shutdown_both this)"

definition TcpStream_set_nodelay :: "TcpStream \<Rightarrow> bool \<Rightarrow> (io_world, error_code) comp" where
  "TcpStream_set_nodelay this enabled = on_socket_void (ns_socket this) (\<lambda>h.
     set_socket_bool_option h LEVEL_TCP TCP_NODELAY enabled)"

definition TcpStream_set_nodelay_throws :: "TcpStream \<Rightarrow> bool \<Rightarrow> (io_world, unit) comp" where
  "TcpStream_set_nodelay_throws this enabled = throwing_void ''setsockopt'' (TcpStream_set_nodelay this enabled)"

definition TcpStream_nodelay :: "TcpStream \<Rightarrow> (io_world, bool \<times> error_code) comp" where
  "TcpStream_nodelay this = on_socket (ns_socket this) False (\<lambda>h. get_socket_bool_option h LEVEL_TCP TCP_NODELAY)"

definition TcpStream_nodelay_throws :: "TcpStream \<Rightarrow> (io_world, bool) comp" where
  "TcpStream_nodelay_throws this = throwing ''getsockopt'' (TcpStream_nodelay this)"

definition TcpStream_set_ttl :: "TcpStream \<Rightarrow> u32 \<Rightarrow> (io_world, error_code) comp" where
  "TcpStream_set_ttl this ttl = net_set_ttl this ttl"

definition TcpStream_set_ttl_throws :: "TcpStream \<Rightarrow> u32 \<Rightarrow> (io_world, unit) comp" where
  "TcpStream_set_ttl_throws this ttl = throwing_void ''setsockopt'' (TcpStream_set_ttl this ttl)"

definition TcpStream_ttl :: "TcpStream \<Rightarrow> (io_world, u32 \<times> error_code) comp" where
  "TcpStream_ttl this = net_ttl this"

definition TcpStream_ttl_throws :: "TcpStream \<Rightarrow> (io_world, u32) comp" where
  "TcpStream_ttl_throws this = throwing ''getsockopt'' (TcpStream_ttl this)"

definition TcpStream_take_error :: "TcpStream \<Rightarrow> (io_world, error_code option) comp" where
  "TcpStream_take_error this = net_take_error this"

definition TcpStream_valid :: "platform \<Rightarrow> TcpStream \<Rightarrow> bool" where
  "TcpStream_valid p this = net_valid p this"

section \<open>TcpListener\<close>

definition TcpListener_ops :: "TcpListener source_ops" where
  "TcpListener_ops = \<lparr>native_handle = net_native_handle, source_kind_of = (\<lambda>_. Kind_socket),
     on_registered = net_on_registered, on_reregistered = net_on_reregistered,
     on_deregistered = net_on_deregistered\<rparr>"

definition TcpListener_from_handle :: "int \<Rightarrow> (io_world, TcpListener) comp" where
  "TcpListener_from_handle handle = net_source_from_handle handle"

text \<open>The local \<open>TcpSocket\<close> is destroyed on every path, empty if it gave its socket away.\<close>

definition TcpListener_bind :: "SocketAddr \<Rightarrow> int \<Rightarrow> (io_world, TcpListener \<times> error_code) comp" where
  "TcpListener_bind endpoint backlog = noexcept
     (bnd TcpSocket_new_v4 (\<lambda>(socket, ec).
      if failed ec then bnd (socket_destroy socket) (\<lambda>_. return (net_source_of None, ec))
      else
        bnd (TcpSocket_set_reuseaddr socket True) (\<lambda>ec.
        if failed ec then bnd (socket_destroy socket) (\<lambda>_. return (net_source_of None, ec))
        else
          bnd (TcpSocket_bind socket endpoint backlog) (\<lambda>((listener, socket'), ec).
          bnd (socket_destroy socket') (\<lambda>_. return (listener, ec))))))"

definition TcpListener_bind_default :: "SocketAddr \<Rightarrow> (io_world, TcpListener \<times> error_code) comp" where
  "TcpListener_bind_default endpoint = TcpListener_bind endpoint 128"

definition TcpListener_bind_throws :: "SocketAddr \<Rightarrow> int \<Rightarrow> (io_world, TcpListener) comp" where
  "TcpListener_bind_throws endpoint backlog = throwing ''bind'' (TcpListener_bind endpoint backlog)"

definition TcpListener_rearm_after_would_block :: "TcpListener \<Rightarrow> (io_world, unit) comp" where
  "TcpListener_rearm_after_would_block this = net_rearm (source_kind_of TcpListener_ops this) this"

definition TcpListener_local_endpoint :: "TcpListener \<Rightarrow> (io_world, SocketAddr \<times> error_code) comp" where
  "TcpListener_local_endpoint this = net_local_endpoint this"

definition TcpListener_local_endpoint_throws :: "TcpListener \<Rightarrow> (io_world, SocketAddr) comp" where
  "TcpListener_local_endpoint_throws this = throwing ''local_endpoint'' (TcpListener_local_endpoint this)"

definition TcpListener_accept :: "TcpListener \<Rightarrow> (io_world, (TcpStream \<times> SocketAddr) \<times> error_code) comp" where
  "TcpListener_accept this =
     (let none = (net_source_of None, SocketAddr_default) in
      noexcept (on_socket (ns_socket this) none (\<lambda>h. bnd (asks platform) (\<lambda>p.
      bnd (sys (Accept h)) (\<lambda>r. let accepted = ret r in
      if \<not> socket_is_valid p accepted then
        bnd last_socket_error (\<lambda>ec.
        bnd (if is_would_block_error p ec then TcpListener_rearm_after_would_block this else return ()) (\<lambda>_.
        return (none, ec)))
      else
        bnd (sys Alloc) (\<lambda>a.
        if ret a = 0 then
          bnd (close_socket accepted) (\<lambda>_. return (none, make_error_code p not_enough_memory))
        else
          bnd (configured accepted) (\<lambda>(socket, ec).
          if failed ec then return (none, ec)
          else
            bnd (endpoint_of_reply r) (\<lambda>(endpoint, ec).
            if failed ec then bnd (socket_destroy socket) (\<lambda>_. return (none, ec))
            else return ((net_source_of socket, endpoint), cleared)))))))))"

definition TcpListener_accept_throws :: "TcpListener \<Rightarrow> (io_world, TcpStream \<times> SocketAddr) comp" where
  "TcpListener_accept_throws this = throwing ''accept'' (TcpListener_accept this)"

definition TcpListener_set_ttl :: "TcpListener \<Rightarrow> u32 \<Rightarrow> (io_world, error_code) comp" where
  "TcpListener_set_ttl this ttl = net_set_ttl this ttl"

definition TcpListener_set_ttl_throws :: "TcpListener \<Rightarrow> u32 \<Rightarrow> (io_world, unit) comp" where
  "TcpListener_set_ttl_throws this ttl = throwing_void ''setsockopt'' (TcpListener_set_ttl this ttl)"

definition TcpListener_ttl :: "TcpListener \<Rightarrow> (io_world, u32 \<times> error_code) comp" where
  "TcpListener_ttl this = net_ttl this"

definition TcpListener_ttl_throws :: "TcpListener \<Rightarrow> (io_world, u32) comp" where
  "TcpListener_ttl_throws this = throwing ''getsockopt'' (TcpListener_ttl this)"

definition TcpListener_take_error :: "TcpListener \<Rightarrow> (io_world, error_code option) comp" where
  "TcpListener_take_error this = net_take_error this"

definition TcpListener_valid :: "platform \<Rightarrow> TcpListener \<Rightarrow> bool" where
  "TcpListener_valid p this = net_valid p this"

end
