(* ===== verification/Udp.thy ===== *)
theory Udp
  imports Tcp
begin

text \<open>
  The class \<open>UdpSocket\<close> of \<^verbatim>\<open>src/net.cpp\<close>. Sending resolves the endpoint first;
  receiving decodes the sender's address from what the system stored.
\<close>

section \<open>Definitions\<close>

type_synonym UdpSocket = net_source

definition UdpSocket_ops :: "UdpSocket source_ops" where
  "UdpSocket_ops = \<lparr>native_handle = net_native_handle, source_kind_of = (\<lambda>_. Kind_socket),
     on_registered = net_on_registered, on_reregistered = net_on_reregistered,
     on_deregistered = net_on_deregistered\<rparr>"

definition UdpSocket_from_handle :: "int \<Rightarrow> (io_world, UdpSocket) comp" where
  "UdpSocket_from_handle handle = net_source_from_handle handle"

definition bind_action :: "int \<Rightarrow> ResolvedAddress \<Rightarrow> (io_world, error_code) comp" where
  "bind_action h address =
     bnd (set_reuse_addr h True) (\<lambda>ec.
     if failed ec then return ec
     else
       bnd (sys (Bind h (ra_storage address) (ra_length address))) (\<lambda>r.
       if ret r \<noteq> 0 then last_socket_error else return cleared))"

definition UdpSocket_bind :: "SocketAddr \<Rightarrow> (io_world, UdpSocket \<times> error_code) comp" where
  "UdpSocket_bind endpoint = noexcept
     (bnd (try_address endpoint SOCK_DGRAM IPPROTO_UDP bind_action) (\<lambda>(socket, ec).
      return (net_source_of socket, ec)))"

definition UdpSocket_bind_throws :: "SocketAddr \<Rightarrow> (io_world, UdpSocket) comp" where
  "UdpSocket_bind_throws endpoint = throwing ''bind(udp)'' (UdpSocket_bind endpoint)"

definition UdpSocket_rearm_after_would_block :: "UdpSocket \<Rightarrow> (io_world, unit) comp" where
  "UdpSocket_rearm_after_would_block this = net_rearm (source_kind_of UdpSocket_ops this) this"

definition UdpSocket_local_endpoint :: "UdpSocket \<Rightarrow> (io_world, SocketAddr \<times> error_code) comp" where
  "UdpSocket_local_endpoint this = net_local_endpoint this"

definition UdpSocket_local_endpoint_throws :: "UdpSocket \<Rightarrow> (io_world, SocketAddr) comp" where
  "UdpSocket_local_endpoint_throws this = throwing ''local_endpoint'' (UdpSocket_local_endpoint this)"

definition UdpSocket_peer_endpoint :: "UdpSocket \<Rightarrow> (io_world, SocketAddr \<times> error_code) comp" where
  "UdpSocket_peer_endpoint this = net_peer_endpoint this"

definition UdpSocket_peer_endpoint_throws :: "UdpSocket \<Rightarrow> (io_world, SocketAddr) comp" where
  "UdpSocket_peer_endpoint_throws this = throwing ''peer_endpoint'' (UdpSocket_peer_endpoint this)"

definition UdpSocket_connect :: "UdpSocket \<Rightarrow> SocketAddr \<Rightarrow> (io_world, error_code) comp" where
  "UdpSocket_connect this endpoint = on_socket_void (ns_socket this) (\<lambda>h.
     bnd (resolve_endpoint endpoint SOCK_DGRAM IPPROTO_UDP) (\<lambda>(address, ec).
     if failed ec then return ec
     else
       bnd (sys (Connect h (ra_storage address) (ra_length address))) (\<lambda>r.
       if ret r = 0 then return cleared else last_socket_error)))"

definition UdpSocket_connect_throws :: "UdpSocket \<Rightarrow> SocketAddr \<Rightarrow> (io_world, unit) comp" where
  "UdpSocket_connect_throws this endpoint = throwing_void ''connect(udp)'' (UdpSocket_connect this endpoint)"

definition UdpSocket_send :: "UdpSocket \<Rightarrow> bytes \<Rightarrow> (io_world, size_t \<times> error_code) comp" where
  "UdpSocket_send this data = noexcept (on_socket (ns_socket this) 0 (\<lambda>h. bnd (asks platform) (\<lambda>p.
     bnd (sys (Send h data (buffer_size p (of_nat (length data))))) (\<lambda>r.
     transferred (UdpSocket_rearm_after_would_block this) 0 r (return (int_to_size (ret r), cleared))))))"

definition UdpSocket_send_throws :: "UdpSocket \<Rightarrow> bytes \<Rightarrow> (io_world, size_t) comp" where
  "UdpSocket_send_throws this data = throwing ''send(udp)'' (UdpSocket_send this data)"

definition UdpSocket_send_span :: "UdpSocket \<Rightarrow> bytes \<Rightarrow> (io_world, size_t \<times> error_code) comp" where
  "UdpSocket_send_span this buffer = UdpSocket_send this buffer"

definition UdpSocket_send_span_throws :: "UdpSocket \<Rightarrow> bytes \<Rightarrow> (io_world, size_t) comp" where
  "UdpSocket_send_span_throws this buffer = UdpSocket_send_throws this buffer"

definition UdpSocket_send_text :: "UdpSocket \<Rightarrow> string \<Rightarrow> (io_world, size_t \<times> error_code) comp" where
  "UdpSocket_send_text this text = UdpSocket_send this (map (\<lambda>c. of_char c) text)"

definition UdpSocket_send_text_throws :: "UdpSocket \<Rightarrow> string \<Rightarrow> (io_world, size_t) comp" where
  "UdpSocket_send_text_throws this text = UdpSocket_send_throws this (map (\<lambda>c. of_char c) text)"

definition UdpSocket_recv :: "UdpSocket \<Rightarrow> size_t \<Rightarrow> (io_world, size_t \<times> error_code) comp" where
  "UdpSocket_recv this n = noexcept (on_socket (ns_socket this) 0 (\<lambda>h. bnd (asks platform) (\<lambda>p.
     bnd (sys (Recv h (buffer_size p n))) (\<lambda>r.
     transferred (UdpSocket_rearm_after_would_block this) 0 r (return (int_to_size (ret r), cleared))))))"

definition UdpSocket_recv_throws :: "UdpSocket \<Rightarrow> size_t \<Rightarrow> (io_world, size_t) comp" where
  "UdpSocket_recv_throws this n = throwing ''recv(udp)'' (UdpSocket_recv this n)"

definition UdpSocket_recv_span :: "UdpSocket \<Rightarrow> bytes \<Rightarrow> (io_world, size_t \<times> error_code) comp" where
  "UdpSocket_recv_span this buffer = UdpSocket_recv this (of_nat (length buffer))"

definition UdpSocket_recv_span_throws :: "UdpSocket \<Rightarrow> bytes \<Rightarrow> (io_world, size_t) comp" where
  "UdpSocket_recv_span_throws this buffer = UdpSocket_recv_throws this (of_nat (length buffer))"

definition UdpSocket_send_to :: "UdpSocket \<Rightarrow> bytes \<Rightarrow> SocketAddr \<Rightarrow> (io_world, size_t \<times> error_code) comp" where
  "UdpSocket_send_to this data endpoint = noexcept (on_socket (ns_socket this) 0 (\<lambda>h. bnd (asks platform) (\<lambda>p.
     bnd (resolve_endpoint endpoint SOCK_DGRAM IPPROTO_UDP) (\<lambda>(address, ec).
     if failed ec then return (0, ec)
     else
       bnd (sys (Sendto h data (buffer_size p (of_nat (length data))) (ra_storage address) (ra_length address))) (\<lambda>r.
       transferred (UdpSocket_rearm_after_would_block this) 0 r (return (int_to_size (ret r), cleared)))))))"

definition UdpSocket_send_to_throws :: "UdpSocket \<Rightarrow> bytes \<Rightarrow> SocketAddr \<Rightarrow> (io_world, size_t) comp" where
  "UdpSocket_send_to_throws this data endpoint = throwing ''sendto'' (UdpSocket_send_to this data endpoint)"

definition UdpSocket_send_to_span :: "UdpSocket \<Rightarrow> bytes \<Rightarrow> SocketAddr \<Rightarrow> (io_world, size_t \<times> error_code) comp" where
  "UdpSocket_send_to_span this buffer endpoint = UdpSocket_send_to this buffer endpoint"

definition UdpSocket_send_to_span_throws :: "UdpSocket \<Rightarrow> bytes \<Rightarrow> SocketAddr \<Rightarrow> (io_world, size_t) comp" where
  "UdpSocket_send_to_span_throws this buffer endpoint = UdpSocket_send_to_throws this buffer endpoint"

definition UdpSocket_send_vectored_to :: "UdpSocket \<Rightarrow> bytes list \<Rightarrow> SocketAddr \<Rightarrow> (io_world, size_t \<times> error_code) comp" where
  "UdpSocket_send_vectored_to this buffers endpoint = noexcept (on_socket (ns_socket this) 0 (\<lambda>h.
     bnd (asks platform) (\<lambda>p.
     bnd (resolve_endpoint endpoint SOCK_DGRAM IPPROTO_UDP) (\<lambda>(address, ec).
     if failed ec then return (0, ec)
     else if p = Windows then
       bnd (sys (Wsa_sendto h buffers (int (length buffers) mod 2 ^ 32) (ra_storage address) (ra_length address))) (\<lambda>r.
       transferred (UdpSocket_rearm_after_would_block this) 0 r (return (int_to_size (out_int r), cleared)))
     else
       bnd (sys (Sendmsg h buffers (ra_storage address) (ra_length address))) (\<lambda>r.
       transferred (UdpSocket_rearm_after_would_block this) 0 r (return (int_to_size (ret r), cleared)))))))"

definition UdpSocket_send_vectored_to_throws :: "UdpSocket \<Rightarrow> bytes list \<Rightarrow> SocketAddr \<Rightarrow> (io_world, size_t) comp" where
  "UdpSocket_send_vectored_to_throws this buffers endpoint =
     throwing ''sendmsg'' (UdpSocket_send_vectored_to this buffers endpoint)"

text \<open>What a receiving call returns: the sender's address is decoded, and an address of another
  family is an error that hides the count.\<close>

definition received :: "reply \<Rightarrow> int \<Rightarrow> (io_world, (size_t \<times> SocketAddr) \<times> error_code) comp" where
  "received r n = bnd (endpoint_of_reply r) (\<lambda>(endpoint, ec).
     if failed ec then return ((0, SocketAddr_default), ec)
     else return ((int_to_size n, endpoint), ec))"

definition UdpSocket_recv_from :: "UdpSocket \<Rightarrow> size_t \<Rightarrow> (io_world, (size_t \<times> SocketAddr) \<times> error_code) comp" where
  "UdpSocket_recv_from this n = noexcept (on_socket (ns_socket this) (0, SocketAddr_default) (\<lambda>h.
     bnd (asks platform) (\<lambda>p.
     bnd (sys (Recvfrom h (buffer_size p n) False)) (\<lambda>r.
     transferred (UdpSocket_rearm_after_would_block this) (0, SocketAddr_default) r (received r (ret r))))))"

definition UdpSocket_recv_from_throws :: "UdpSocket \<Rightarrow> size_t \<Rightarrow> (io_world, size_t \<times> SocketAddr) comp" where
  "UdpSocket_recv_from_throws this n = throwing ''recvfrom'' (UdpSocket_recv_from this n)"

definition UdpSocket_recv_from_span :: "UdpSocket \<Rightarrow> bytes \<Rightarrow> (io_world, (size_t \<times> SocketAddr) \<times> error_code) comp" where
  "UdpSocket_recv_from_span this buffer = UdpSocket_recv_from this (of_nat (length buffer))"

definition UdpSocket_recv_from_span_throws :: "UdpSocket \<Rightarrow> bytes \<Rightarrow> (io_world, size_t \<times> SocketAddr) comp" where
  "UdpSocket_recv_from_span_throws this buffer = UdpSocket_recv_from_throws this (of_nat (length buffer))"

definition UdpSocket_recv_vectored_from :: "UdpSocket \<Rightarrow> nat list \<Rightarrow> (io_world, (size_t \<times> SocketAddr) \<times> error_code) comp" where
  "UdpSocket_recv_vectored_from this buffers = noexcept (on_socket (ns_socket this) (0, SocketAddr_default) (\<lambda>h.
     bnd (asks platform) (\<lambda>p.
     if p = Windows then
       bnd (sys (Wsa_recvfrom h buffers (int (length buffers) mod 2 ^ 32))) (\<lambda>r.
       transferred (UdpSocket_rearm_after_would_block this) (0, SocketAddr_default) r (received r (out_int r)))
     else
       bnd (sys (Recvmsg h buffers)) (\<lambda>r.
       transferred (UdpSocket_rearm_after_would_block this) (0, SocketAddr_default) r (received r (ret r))))))"

definition UdpSocket_recv_vectored_from_throws :: "UdpSocket \<Rightarrow> nat list \<Rightarrow> (io_world, size_t \<times> SocketAddr) comp" where
  "UdpSocket_recv_vectored_from_throws this buffers =
     throwing ''recvmsg'' (UdpSocket_recv_vectored_from this buffers)"

definition UdpSocket_peek_from :: "UdpSocket \<Rightarrow> size_t \<Rightarrow> (io_world, (size_t \<times> SocketAddr) \<times> error_code) comp" where
  "UdpSocket_peek_from this n = noexcept (on_socket (ns_socket this) (0, SocketAddr_default) (\<lambda>h.
     bnd (asks platform) (\<lambda>p.
     bnd (sys (Recvfrom h (buffer_size p n) True)) (\<lambda>r.
     transferred (UdpSocket_rearm_after_would_block this) (0, SocketAddr_default) r (received r (ret r))))))"

definition UdpSocket_peek_from_throws :: "UdpSocket \<Rightarrow> size_t \<Rightarrow> (io_world, size_t \<times> SocketAddr) comp" where
  "UdpSocket_peek_from_throws this n = throwing ''recvfrom(MSG_PEEK)'' (UdpSocket_peek_from this n)"

definition UdpSocket_set_ttl :: "UdpSocket \<Rightarrow> u32 \<Rightarrow> (io_world, error_code) comp" where
  "UdpSocket_set_ttl this ttl = net_set_ttl this ttl"

definition UdpSocket_set_ttl_throws :: "UdpSocket \<Rightarrow> u32 \<Rightarrow> (io_world, unit) comp" where
  "UdpSocket_set_ttl_throws this ttl = throwing_void ''setsockopt'' (UdpSocket_set_ttl this ttl)"

definition UdpSocket_ttl :: "UdpSocket \<Rightarrow> (io_world, u32 \<times> error_code) comp" where
  "UdpSocket_ttl this = net_ttl this"

definition UdpSocket_ttl_throws :: "UdpSocket \<Rightarrow> (io_world, u32) comp" where
  "UdpSocket_ttl_throws this = throwing ''getsockopt'' (UdpSocket_ttl this)"

definition UdpSocket_set_broadcast :: "UdpSocket \<Rightarrow> bool \<Rightarrow> (io_world, error_code) comp" where
  "UdpSocket_set_broadcast this enabled = on_socket_void (ns_socket this) (\<lambda>h.
     set_socket_bool_option h SOL_SOCKET SO_BROADCAST enabled)"

definition UdpSocket_set_broadcast_throws :: "UdpSocket \<Rightarrow> bool \<Rightarrow> (io_world, unit) comp" where
  "UdpSocket_set_broadcast_throws this enabled = throwing_void ''setsockopt'' (UdpSocket_set_broadcast this enabled)"

definition UdpSocket_broadcast :: "UdpSocket \<Rightarrow> (io_world, bool \<times> error_code) comp" where
  "UdpSocket_broadcast this = on_socket (ns_socket this) False (\<lambda>h. get_socket_bool_option h SOL_SOCKET SO_BROADCAST)"

definition UdpSocket_broadcast_throws :: "UdpSocket \<Rightarrow> (io_world, bool) comp" where
  "UdpSocket_broadcast_throws this = throwing ''getsockopt'' (UdpSocket_broadcast this)"

definition UdpSocket_set_dont_fragment :: "UdpSocket \<Rightarrow> bool \<Rightarrow> (io_world, error_code) comp" where
  "UdpSocket_set_dont_fragment this enabled = on_socket_void (ns_socket this) (\<lambda>h. set_dont_fragment h enabled)"

definition UdpSocket_set_dont_fragment_throws :: "UdpSocket \<Rightarrow> bool \<Rightarrow> (io_world, unit) comp" where
  "UdpSocket_set_dont_fragment_throws this enabled =
     throwing_void ''setsockopt'' (UdpSocket_set_dont_fragment this enabled)"

definition UdpSocket_mtu :: "UdpSocket \<Rightarrow> (io_world, u32 \<times> error_code) comp" where
  "UdpSocket_mtu this = on_socket (ns_socket this) 0 get_mtu"

definition UdpSocket_mtu_throws :: "UdpSocket \<Rightarrow> (io_world, u32) comp" where
  "UdpSocket_mtu_throws this = throwing ''getsockopt'' (UdpSocket_mtu this)"

definition UdpSocket_take_error :: "UdpSocket \<Rightarrow> (io_world, error_code option) comp" where
  "UdpSocket_take_error this = net_take_error this"

definition UdpSocket_valid :: "platform \<Rightarrow> UdpSocket \<Rightarrow> bool" where
  "UdpSocket_valid p this = net_valid p this"

end
