(* ===== verification/Handle_Balance.thy ===== *)
theory Handle_Balance
  imports Socket
begin

text \<open>
  Which handles the process has open, read off the history of calls, and which of them a
  computation owns. A triple \<open>own env P m Q\<close> says that a computation started with the
  ownership of the handles \<open>P\<close> and returning \<open>x\<close> ends with the ownership of
  \<open>Q x\<close>: everything it opened besides was closed, and nothing was closed twice. The
  rules follow the structure of a program, so the triples of the operations of
  \<^verbatim>\<open>src/net.cpp\<close> and \<^verbatim>\<open>src/unix.cpp\<close> follow from those of their parts.
\<close>

named_theorems neutral_intros \<open>rules for computations that open and close no handle\<close>

section \<open>Opening and closing\<close>

fun opened_by :: "platform \<Rightarrow> call \<Rightarrow> reply \<Rightarrow> int multiset" where
  "opened_by p (Socket_call _ _ _) r = filter_mset (socket_is_valid p) {#ret r#}"
| "opened_by p (Accept _) r = filter_mset (socket_is_valid p) {#ret r#}"
| "opened_by p Pipe r =
     (if ret r = -1 then {#} else filter_mset (socket_is_valid p) {#fst (out_fds r), snd (out_fds r)#})"
| "opened_by p (Socketpair _) r =
     (if ret r = -1 then {#} else filter_mset (socket_is_valid p) {#fst (out_fds r), snd (out_fds r)#})"
| "opened_by p _ r = {#}"

fun closed_by :: "call \<Rightarrow> int multiset" where
  "closed_by (Close h) = {#h#}"
| "closed_by (Closesocket h) = {#h#}"
| "closed_by _ = {#}"

definition balance :: "platform \<Rightarrow> int \<Rightarrow> 'x base_world_scheme \<Rightarrow> int" where
  "balance p h w = sum_list (map (\<lambda>(c, r).
     int (count (opened_by p c r) h) - int (count (closed_by c) h)) (history w))"

text \<open>Owned handles are valid; an invalid handle is never closed.\<close>

definition owned :: "platform \<Rightarrow> int multiset \<Rightarrow> bool" where
  "owned p P \<longleftrightarrow> (\<forall>h \<in># P. socket_is_valid p h)"

definition own ::
  "env \<Rightarrow> int multiset \<Rightarrow> ('x base_world_scheme, 'a) comp \<Rightarrow> ('a \<Rightarrow> int multiset) \<Rightarrow> bool" where
  "own env P m Q \<longleftrightarrow> (\<forall>w x w'. owned (platform env) P \<longrightarrow> m env w = (Ret x, w') \<longrightarrow> owned (platform env) (Q x)
     \<and> (\<forall>h. balance (platform env) h w' - int (count (Q x) h) = balance (platform env) h w - int (count P h)))"

text \<open>A computation that neither opens nor closes a handle, whatever its outcome.\<close>

definition neutral :: "env \<Rightarrow> ('x base_world_scheme, 'a) comp \<Rightarrow> bool" where
  "neutral env m \<longleftrightarrow> (\<forall>h b. keeps env (\<lambda>w. balance (platform env) h w = b) m)"

definition neutral_call :: "call \<Rightarrow> bool" where
  "neutral_call c \<longleftrightarrow> closed_by c = {#} \<and> (\<forall>p r. opened_by p c r = {#})"

lemma balance_logged [simp]:
  "balance p h (logged env c w) = balance p h w
     + (int (count (opened_by p c (answer env (history w) c)) h) - int (count (closed_by c) h))"
  by (simp add: balance_def)

lemma owned_simps [simp]:
  "owned p {#}" "owned p (add_mset h P) \<longleftrightarrow> socket_is_valid p h \<and> owned p P"
  "owned p (P + Q) \<longleftrightarrow> owned p P \<and> owned p Q"
  by (auto simp: owned_def)

lemma owned_opened [simp]: "owned p (opened_by p c r)"
  by (cases c) (auto simp: owned_def)

section \<open>Rules\<close>

lemma neutralI: "(\<And>h b. keeps env (\<lambda>w. balance (platform env) h w = b) m) \<Longrightarrow> neutral env m"
  by (simp add: neutral_def)

lemma keeps_neutral [keeps_intros]: "neutral env m \<Longrightarrow> keeps env (\<lambda>w. balance (platform env) h w = b) m"
  by (simp add: neutral_def)

lemma neutral_sys: "neutral_call c \<Longrightarrow> neutral env (sys c)"
  by (rule neutralI, rule keeps_sys) (simp add: neutral_call_def)

lemma neutral_modify: "(\<And>w. history (u w) = history w) \<Longrightarrow> neutral env (modify u)"
  by (rule neutralI, rule keeps_modify) (simp add: balance_def)

lemma ownI:
  assumes "\<And>w x w'. owned (platform env) P \<Longrightarrow> m env w = (Ret x, w') \<Longrightarrow> owned (platform env) (Q x)
    \<and> (\<forall>h. balance (platform env) h w' - int (count (Q x) h) = balance (platform env) h w - int (count P h))"
  shows "own env P m Q"
  unfolding own_def by (intro allI impI) (rule assms)

lemma ownD:
  assumes "own env P m Q" "owned (platform env) P" "m env w = (Ret x, w')"
  shows "owned (platform env) (Q x)"
    and "balance (platform env) h w' - int (count (Q x) h) = balance (platform env) h w - int (count P h)"
  using assms(1) [unfolded own_def, rule_format, OF assms(2,3)] by simp_all

lemma own_neutral:
  assumes "neutral env m"
  shows "own env P m (\<lambda>_. P)"
proof (rule ownI)
  fix w x w'
  assume "owned (platform env) P" "m env w = (Ret x, w')"
  then show "owned (platform env) P \<and> (\<forall>h. balance (platform env) h w' - int (count P h)
      = balance (platform env) h w - int (count P h))"
    using assms by (auto simp: neutral_def dest: keeps_result)
qed

lemma own_return: "P = Q x \<Longrightarrow> own env P (return x) Q"
  by (simp add: own_def comp_simps)

lemma own_stops: "own env P undefined_behaviour Q" "own env P (throw e) Q"
  by (simp_all add: own_def comp_simps)

lemma own_bnd:
  assumes "own env P m R" "\<And>x w w1. m env w = (Ret x, w1) \<Longrightarrow> own env (R x) (f x) Q"
  shows "own env P (bnd m f) Q"
proof (rule ownI)
  fix w y w'
  assume P: "owned (platform env) P" and "bnd m f env w = (Ret y, w')"
  then obtain x w1 where run: "m env w = (Ret x, w1)" "f x env w1 = (Ret y, w')" by (auto simp: bnd_eq_Ret)
  note m = ownD [OF assms(1) P run(1)]
  from m(2) ownD [OF assms(2) [OF run(1)] m(1) run(2)]
  show "owned (platform env) (Q y) \<and> (\<forall>h. balance (platform env) h w' - int (count (Q y) h)
      = balance (platform env) h w - int (count P h))" by simp
qed

lemma own_then: "neutral env m \<Longrightarrow> (\<And>x. own env P (f x) Q) \<Longrightarrow> own env P (bnd m f) Q"
  by (rule own_bnd [OF own_neutral])

text \<open>What a computation does not touch stays owned.\<close>

lemma own_frame:
  assumes "own env P m Q"
  shows "own env (P + F) m (\<lambda>x. Q x + F)"
proof (rule ownI)
  fix w x w'
  assume P: "owned (platform env) (P + F)" and run: "m env w = (Ret x, w')"
  then have "owned (platform env) P" by simp
  from ownD [OF assms this run] P show "owned (platform env) (Q x + F) \<and>
      (\<forall>h. balance (platform env) h w' - int (count (Q x + F) h) = balance (platform env) h w - int (count (P + F) h))"
    by (auto simp: algebra_simps)
qed

lemma own_asks: "own env P (f (g env)) Q \<Longrightarrow> own env P (bnd (asks g) f) Q"
  by (simp add: own_def comp_simps)

lemma own_if: "(b \<Longrightarrow> own env P m Q) \<Longrightarrow> (\<not> b \<Longrightarrow> own env P n Q) \<Longrightarrow> own env P (if b then m else n) Q"
  by simp

lemma own_prod: "(\<And>a b. x = (a, b) \<Longrightarrow> own env P (m a b) Q) \<Longrightarrow> own env P (case x of (a, b) \<Rightarrow> m a b) Q"
  by (cases x) simp

lemma noexcept_eq_Ret: "noexcept m env w = (Ret x, w') \<longleftrightarrow> m env w = (Ret x, w')"
  by (auto simp: noexcept_def catch_def split: prod.splits outcome.splits)

lemma own_noexcept: "own env P m Q \<Longrightarrow> own env P (noexcept m) Q"
  by (simp add: own_def noexcept_eq_Ret)

lemma own_opened:
  assumes "closed_by c = {#}"
  shows "own env {#} (sys c) (opened_by (platform env) c)"
  by (rule ownI) (use assms in \<open>auto simp: comp_simps\<close>)

lemma own_opens:
  assumes "closed_by c = {#}" "\<And>r. own env (opened_by (platform env) c r) (f r) Q"
  shows "own env {#} (bnd (sys c) f) Q"
  by (rule own_bnd [OF own_opened assms(2)]) (rule assms(1))

lemma own_closes:
  assumes "closed_by c = {#h#}" "\<And>p r. opened_by p c r = {#}"
  shows "own env {#h#} (sys c) (\<lambda>_. {#})"
  by (rule ownI) (use assms in \<open>auto simp: comp_simps\<close>)

lemma own_throwing: "own env P m (\<lambda>(x, ec). Q x) \<Longrightarrow> own env P (throwing what m) Q"
  unfolding throwing_def by (rule own_bnd) (auto intro: own_prod own_if own_stops own_return)

section \<open>Neutral computations\<close>

lemma neutral_basic [neutral_intros]:
  "neutral env (return x)" "neutral env (throw e)" "neutral env undefined_behaviour"
  "neutral env (gets g)" "neutral env (asks k)"
  by (rule neutralI, rule keeps_basic)+

lemma neutral_rules [neutral_intros]:
  "neutral env m \<Longrightarrow> (\<And>x. neutral env (f x)) \<Longrightarrow> neutral env (bnd m f)"
  "(b \<Longrightarrow> neutral env n) \<Longrightarrow> (\<not> b \<Longrightarrow> neutral env n') \<Longrightarrow> neutral env (if b then n else n')"
  "(\<And>x. neutral env (k x)) \<Longrightarrow> neutral env (let x = a in k x)"
  "neutral env n \<Longrightarrow> (\<And>y. z = Some y \<Longrightarrow> neutral env (g y)) \<Longrightarrow>
   neutral env (case z of None \<Rightarrow> n | Some y \<Rightarrow> g y)"
  "(\<And>a b. c = (a, b) \<Longrightarrow> neutral env (q a b)) \<Longrightarrow> neutral env (case c of (a, b) \<Rightarrow> q a b)"
  "neutral env n \<Longrightarrow> (\<And>e. neutral env (h e)) \<Longrightarrow> neutral env (catch n h)"
  "neutral env n \<Longrightarrow> neutral env (noexcept n)"
  by (simp_all add: neutral_def keeps_bnd keeps_catch keeps_noexcept split: option.split prod.split)

lemma neutral_platform [neutral_intros]:
  "neutral env a \<Longrightarrow> neutral env b \<Longrightarrow> neutral env c \<Longrightarrow> neutral env d \<Longrightarrow>
   neutral env (case p of Windows \<Rightarrow> a | Linux \<Rightarrow> b | Kqueue \<Rightarrow> c | Poll_Unix \<Rightarrow> d)"
  by (cases p) simp_all

lemma neutral_calls [neutral_intros]:
  "neutral env (sys Alloc)" "neutral env (sys Wsa_startup)" "neutral env (sys (Fcntl_getfl fd))"
  "neutral env (sys (Fcntl_setfl fd v))" "neutral env (sys (Fcntl_getfd fd))" "neutral env (sys (Fcntl_setfd fd v))"
  "neutral env (sys (Ioctl_fionbio fd b))" "neutral env (sys (Setsockopt fd l opt v))"
  "neutral env (sys (Getsockopt fd l opt))" "neutral env (sys (Bind fd a n))" "neutral env (sys (Listen fd v))"
  "neutral env (sys (Connect fd a n))" "neutral env (sys (Epoll_ctl fd op fd' ev))" "neutral env (sys (Kevent fd ch v ts))"
  "neutral env (sys (Nt_poll v a1 a2 v' m))" "neutral env (sys (Nt_cancel v a1))" "neutral env (sys (Nt_to_dos v))"
  "neutral env (sys Load_ntdll)" "neutral env (sys (Iosb_status a1))"
  by (rule neutral_sys, simp add: neutral_call_def)+

lemma neutral_errors [neutral_intros]:
  "neutral env (throw_errno what)" "neutral env (throw_last_system_error what)" "neutral env allocate"
  "neutral env last_socket_error" "neutral env not_supported"
  "neutral env m \<Longrightarrow> neutral env (throwing what m)" "neutral env m' \<Longrightarrow> neutral env (throwing_void what m')"
  unfolding throw_errno_def throw_last_system_error_def last_system_error_def allocate_def last_socket_error_def
    not_supported_def throwing_def throwing_void_def
  by (intro neutral_intros; assumption?)+

lemma neutral_socket_helpers [neutral_intros]:
  "neutral env ensure_socket_runtime" "neutral env (set_non_blocking h b)" "neutral env (set_close_on_exec h)"
  "neutral env (set_socket_int_option h l opt v)" "neutral env (set_socket_bool_option h l opt b)"
  "neutral env (set_reuse_addr h b)" "neutral env (endpoint_of_reply r)" "neutral env (resolve_endpoint a t pr)"
  unfolding ensure_socket_runtime_def set_non_blocking_def set_close_on_exec_def set_socket_int_option_def
    set_reuse_addr_def set_socket_bool_option_def endpoint_of_reply_def resolve_endpoint_def
  by (intro neutral_intros neutral_modify | simp)+

lemma own_close_socket: "own env {#h#} (close_socket h) (\<lambda>_. {#})"
  by (rule ownI) (auto simp: comp_simps)

end
