(* ===== verification/Net_Ownership.thy ===== *)
theory Net_Ownership
  imports Udp Handle_Balance
begin

text \<open>
  The ownership triples of the operations of \<^verbatim>\<open>src/net.cpp\<close> that make sockets, and
  that none of them leaks a socket or closes one twice.
\<close>

section \<open>The handle behind a pointer to a socket\<close>

definition held_in :: "int option \<Rightarrow> int multiset" where
  "held_in socket = (case socket of None \<Rightarrow> {#} | Some h \<Rightarrow> {#h#})"

lemma held_in_simps [simp]:
  "held_in None = {#}" "held_in (Some h) = {#h#}"
  "int (count (held_in socket) h) = of_bool (socket = Some h)"
  by (auto simp: held_in_def split: option.split)

lemma own_socket_destroy: "own env (held_in socket) (socket_destroy socket) (\<lambda>_. {#})"
  by (rule ownI, cases socket)
    (auto simp: socket_destroy_def Socket_destroy_def comp_simps bnd_def socket_is_valid_def)

lemma own_socket:
  assumes "\<And>r. own env (if socket_is_valid (platform env) (ret r) then {#ret r#} else {#}) (f r) Q"
  shows "own env {#} (bnd (sys (Socket_call a b c)) f) Q" "own env {#} (bnd (sys (Accept l)) f) Q"
  by (rule own_opens; use assms in \<open>simp add: if_distrib cong: if_cong\<close>)+

section \<open>Neutral operations on the objects\<close>

lemma neutral_objects [neutral_intros]:
  "neutral env (set_selector this s)" "neutral env (set_afd a st)" "neutral env fresh_addr"
  "(\<And>s. neutral env (k s)) \<Longrightarrow> neutral env (with_selector this k)"
  "(\<And>st. neutral env (l st)) \<Longrightarrow> neutral env (with_afd a l)"
  unfolding set_selector_def set_afd_def fresh_addr_def with_selector_def with_afd_def
  by (intro neutral_intros neutral_modify | simp)+

lemma neutral_afd [neutral_intros]:
  "neutral env native_nt" "neutral env (throw_nt what status)"
  "neutral env (issue_afd_poll a)" "neutral env (set_afd_interest a t i)"
proof -
  show nt: "neutral env native_nt" unfolding native_nt_def by (intro neutral_intros neutral_modify | simp)+
  show th: "neutral env (throw_nt what status)" for what status
    unfolding throw_nt_def nt_error_def by (intro neutral_intros nt)
  show issue: "neutral env (issue_afd_poll a)" for a
    unfolding issue_afd_poll_def AfdHelper_poll_def AfdHelper_cancel_def
    by (intro neutral_intros nt th neutral_modify | simp)+
  show "neutral env (set_afd_interest a t i)"
    unfolding set_afd_interest_def by (intro neutral_intros issue)
qed

lemma neutral_update [neutral_intros]: "neutral env (Selector_update this h k t i)"
  unfolding Selector_update_def validate_def update_backend_def update_iocp_def update_epoll_def
    update_kqueue_def Selector_find_def
  by (intro neutral_intros)

lemma neutral_rearm [neutral_intros]: "neutral env (net_rearm kind this)"
  unfolding net_rearm_def reregister_handle_throws_def reregister_handle_def reporting_void_def reporting_def deref_def
  by (intro neutral_intros)

section \<open>The operations that make sockets\<close>

text \<open>
  Failing to configure a socket closes it; so does a failing action on it; an accepted
  connection that cannot be used is closed as well.
\<close>

lemma own_fails:
  assumes "P = held_in socket" "Q x = {#}"
  shows "own env P (bnd (socket_destroy socket) (\<lambda>_. return x)) Q"
  unfolding assms(1) by (rule own_bnd [OF own_socket_destroy own_return]) (simp add: assms(2))

lemma own_configured: "own env {#h#} (configured h) (\<lambda>x. held_in (fst x))"
  unfolding configured_def
  by (intro own_then [OF neutral_socket_helpers(3)] own_then [OF neutral_socket_helpers(2)] own_if own_return
      own_fails) simp_all

lemma own_make_socket: "own env {#} (make_socket address) (\<lambda>x. held_in (fst x))"
  unfolding make_socket_def
  by (intro own_noexcept own_asks own_then [OF neutral_socket_helpers(1)] own_then [OF neutral_calls(1)] own_if
      own_return own_socket) (auto intro!: own_configured own_then own_return neutral_intros)

lemma own_new_tcp_socket: "own env {#} (new_tcp_socket family) (\<lambda>x. held_in (fst x))"
  unfolding new_tcp_socket_def
  by (intro own_noexcept own_asks own_then [OF neutral_socket_helpers(1)] own_then [OF neutral_calls(1)] own_if
      own_return own_socket) (auto intro!: own_configured own_then own_return neutral_intros)

lemma own_try_address:
  assumes "\<And>h a. neutral env (action h a)"
  shows "own env {#} (try_address endpoint t pr action) (\<lambda>x. held_in (fst x))"
  unfolding try_address_def
  by (rule own_noexcept, rule own_then [OF neutral_socket_helpers(8)], rule own_prod, rule own_if,
      (rule own_return, simp), rule own_bnd [OF own_make_socket])
    (auto intro!: own_fails own_stops own_then [OF assms] own_return split: option.split)

text \<open>What a \<open>TcpSocket\<close> gives away it no longer has.\<close>

lemma on_socket_result:
  assumes "on_socket socket dflt k env w = (Ret x, w')"
  shows "(\<exists>ec. x = (dflt, ec) \<and> failed ec) \<or> (\<exists>h. socket = Some h \<and> k h env w = (Ret x, w'))"
  using assms by (auto simp: on_socket_def require_socket_def comp_simps Let_def split: if_splits option.splits)

lemma TcpSocket_gives:
  assumes "TcpSocket_bind this endpoint backlog env w = (Ret ((obj, rest), ec), w')
    \<or> TcpSocket_connect this endpoint env w = (Ret ((obj, rest), ec), w')"
  shows "obj = net_source_of None \<and> rest = this \<or> obj = net_source_of this \<and> rest = None"
  using assms unfolding TcpSocket_bind_def TcpSocket_connect_def noexcept_eq_Ret
  by (auto simp: bnd_eq_Ret comp_simps Let_def dest!: on_socket_result split: prod.splits if_splits)

lemma own_on_socket:
  assumes "\<And>ec. P = Q (dflt, ec)" "\<And>h. own env P (k h) Q"
  shows "own env P (on_socket socket dflt k) Q"
  unfolding on_socket_def Let_def
  by (intro own_asks own_if) (auto intro!: own_return own_stops assms split: option.split)

lemma own_on_socket_void:
  assumes "\<And>h. neutral env (k h)"
  shows "neutral env (on_socket_void socket k)"
  unfolding on_socket_void_def by (intro neutral_intros assms)

lemma own_TcpSocket_bind:
  "own env (held_in this) (TcpSocket_bind this endpoint backlog) (\<lambda>((l, rest), ec). held_in (ns_socket l) + held_in rest)"
  unfolding TcpSocket_bind_def
  by (intro own_noexcept own_on_socket own_then neutral_intros own_prod own_if own_return)
    (simp_all add: net_source_of_def split: option.split)

lemma own_TcpSocket_connect:
  "own env (held_in this) (TcpSocket_connect this endpoint) (\<lambda>((l, rest), ec). held_in (ns_socket l) + held_in rest)"
  unfolding TcpSocket_connect_def
  by (intro own_noexcept own_on_socket own_then neutral_intros own_prod own_if own_return)
    (simp_all add: net_source_of_def split: option.split)

lemma socket_of_source [simp]: "ns_socket (net_source_of socket) = socket"
  by (simp add: net_source_of_def)

lemma neutral_no_socket: "neutral env (socket_destroy None)"
  unfolding socket_destroy_def by (simp add: neutral_basic)

lemma own_TcpListener_bind: "own env {#} (TcpListener_bind endpoint backlog) (\<lambda>(l, ec). held_in (ns_socket l))"
  unfolding TcpListener_bind_def TcpSocket_new_v4_def
proof (rule own_noexcept, rule own_bnd [OF own_new_tcp_socket], rule own_prod)
  fix x :: "socket_ptr \<times> error_code" and socket ec
  assume x: "x = (socket, ec)"
  have reuse: "neutral env (TcpSocket_set_reuseaddr socket True)"
    unfolding TcpSocket_set_reuseaddr_def by (intro own_on_socket_void neutral_intros)
  have bind: "own env (held_in socket) (bnd (TcpSocket_bind socket endpoint backlog) (\<lambda>((l, rest), ec).
      bnd (socket_destroy rest) (\<lambda>_. return (l, ec)))) (\<lambda>(l, ec). held_in (ns_socket l))"
  proof (rule own_bnd [OF own_TcpSocket_bind], goal_cases)
    case (1 y w w1)
    obtain l rest ec where y: "y = ((l, rest), ec)" by (metis prod.exhaust)
    with 1 have "l = net_source_of None \<and> rest = socket \<or> l = net_source_of socket \<and> rest = None"
      using TcpSocket_gives by blast
    then show ?case
    proof
      assume "l = net_source_of None \<and> rest = socket"
      then show ?thesis by (auto simp: y intro!: own_fails)
    next
      assume "l = net_source_of socket \<and> rest = None"
      then show ?thesis by (auto simp: y intro!: own_then [OF neutral_no_socket] own_return)
    qed
  qed
  show "own env (held_in (fst x)) (if failed ec then bnd (socket_destroy socket) (\<lambda>_. return (net_source_of None, ec))
      else bnd (TcpSocket_set_reuseaddr socket True) (\<lambda>ec.
        if failed ec then bnd (socket_destroy socket) (\<lambda>_. return (net_source_of None, ec))
        else bnd (TcpSocket_bind socket endpoint backlog) (\<lambda>((l, rest), ec).
          bnd (socket_destroy rest) (\<lambda>_. return (l, ec))))) (\<lambda>(l, ec). held_in (ns_socket l))"
    unfolding x fst_conv
    by (intro own_if own_then [OF reuse] own_fails bind) (simp_all add: net_source_of_def)
qed

lemma configured_result:
  "configured h env w = (Ret (socket, ec), w') \<Longrightarrow> socket = (if failed ec then None else Some h)"
  unfolding configured_def by (auto simp: bnd_eq_Ret comp_simps split: if_splits)

lemma own_TcpListener_accept: "own env {#} (TcpListener_accept this) (\<lambda>((s, addr), ec). held_in (ns_socket s))"
  unfolding TcpListener_accept_def Let_def
proof (intro own_noexcept own_on_socket own_asks own_socket)
  fix h r
  let ?none = "(net_source_of None, SocketAddr_default)"
  let ?Q = "\<lambda>((s :: net_source, addr :: SocketAddr), ec :: error_code). held_in (ns_socket s)"
  let ?rearm = "TcpListener_rearm_after_would_block this"
  let ?use = "bnd (configured (ret r)) (\<lambda>(socket, ec).
      if failed ec then return (?none, ec)
      else bnd (endpoint_of_reply r) (\<lambda>(endpoint, ec).
        if failed ec then bnd (socket_destroy socket) (\<lambda>_. return (?none, ec))
        else return ((net_source_of socket, endpoint), cleared)))"
  have rearm: "neutral env ?rearm"
    unfolding TcpListener_rearm_after_would_block_def by (rule neutral_rearm)
  have use: "own env {#ret r#} ?use ?Q"
    by (rule own_bnd [OF own_configured], rule own_prod)
      (auto simp: net_source_of_def dest!: configured_result
        intro!: own_then [OF neutral_socket_helpers(7)] own_return own_fails split: prod.split)
  have refuse: "own env {#ret r#} (bnd (close_socket (ret r)) (\<lambda>_. return (?none, ec))) ?Q" for ec
    by (rule own_bnd [OF own_close_socket own_return]) simp
  show "own env (if socket_is_valid (platform env) (ret r) then {#ret r#} else {#})
      (if \<not> socket_is_valid (platform env) (ret r) then
         bnd last_socket_error (\<lambda>ec. bnd (if is_would_block_error (platform env) ec then ?rearm else return ()) (\<lambda>_.
         return (?none, ec)))
       else bnd (sys Alloc) (\<lambda>a. if ret a = 0 then
         bnd (close_socket (ret r)) (\<lambda>_. return (?none, make_error_code (platform env) not_enough_memory))
         else ?use)) ?Q"
    by (auto intro!: own_then [OF neutral_errors(4)] own_then [OF rearm] own_then [OF neutral_calls(1)]
        own_then [OF neutral_basic(1)] own_return use refuse)
qed simp

lemma own_connect_and_bind:
  "own env {#} (TcpStream_connect endpoint) (\<lambda>(s, ec). held_in (ns_socket s))"
  "own env {#} (UdpSocket_bind endpoint) (\<lambda>(s, ec). held_in (ns_socket s))"
proof -
  have "neutral env (connect_action h a)" "neutral env (bind_action h a)" for h a
    unfolding connect_action_def bind_action_def by (intro neutral_intros)+
  then show "own env {#} (TcpStream_connect endpoint) (\<lambda>(s, ec). held_in (ns_socket s))"
    "own env {#} (UdpSocket_bind endpoint) (\<lambda>(s, ec). held_in (ns_socket s))"
    unfolding TcpStream_connect_def UdpSocket_bind_def
    by (auto intro!: own_noexcept own_bnd [OF own_try_address] own_return simp: net_source_of_def split: prod.split)
qed

section \<open>No socket is leaked\<close>

text \<open>The functions that give the caller a new object with a socket.\<close>

datatype maker = Connect_Stream SocketAddr | Bind_Listener SocketAddr int | Accept_From TcpListener | Bind_Udp SocketAddr

fun make :: "maker \<Rightarrow> (io_world, net_source \<times> error_code) comp" where
  "make (Connect_Stream endpoint) = TcpStream_connect endpoint"
| "make (Bind_Listener endpoint backlog) = TcpListener_bind endpoint backlog"
| "make (Accept_From listener) = bnd (TcpListener_accept listener) (\<lambda>((stream, addr), ec). return (stream, ec))"
| "make (Bind_Udp endpoint) = UdpSocket_bind endpoint"

lemma own_make: "own env {#} (make m) (\<lambda>(s, ec). held_in (ns_socket s))"
  by (cases m) (auto intro!: own_connect_and_bind own_TcpListener_bind own_bnd [OF own_TcpListener_accept] own_return
      split: prod.split)

text \<open>
  C7. No function that connects, listens, accepts or binds leaks a socket or closes one twice,
  against every behaviour of the system: when it returns, the sockets open in the process are
  those from before and the one in the object it returns, if it holds one; on the error paths
  it holds none. Destroying the object closes that socket and no other.
\<close>

theorem sockets_conserved:
  assumes "make m env w = (Ret (obj, ec), w')"
  shows "balance (platform env) h w' = balance (platform env) h w + of_bool (ns_socket obj = Some h)
    \<and> (\<exists>w2. net_source_destroy obj env w' = (Ret (), w2) \<and> balance (platform env) h w2 = balance (platform env) h w)"
proof -
  have none: "owned (platform env) {#}" by simp
  from ownD [OF own_make none assms] have m: "owned (platform env) (held_in (ns_socket obj))"
    "balance (platform env) h w' = balance (platform env) h w + of_bool (ns_socket obj = Some h)" for h
    by (simp_all add: algebra_simps)
  have "returns env (net_source_destroy obj)"
    unfolding net_source_destroy_def socket_destroy_def by (intro returns_intros)
  then obtain u w2 where d: "net_source_destroy obj env w' = (Ret u, w2)" by (rule returnsE)
  from ownD(2) [OF own_socket_destroy m(1) this [unfolded net_source_destroy_def], of h] m(2) [of h] d show ?thesis
    by simp
qed

text \<open>A Linux system whose next socket is 7 and whose connections are in progress.\<close>

definition net_env :: env where
  "net_env = \<lparr>platform = Linux, host_endian = Little, macro_defined = (\<lambda>_. True),
     answer = (\<lambda>_ c. case c of Alloc \<Rightarrow> plain 1 0 | Socket_call _ _ _ \<Rightarrow> plain 7 0
       | Connect _ _ _ \<Rightarrow> plain (-1) 115 | _ \<Rightarrow> plain 0 0)\<rparr>"

definition net_world :: io_world where
  "net_world = one_selector Linux []"

definition localhost :: SocketAddr where
  "localhost = V4 \<lparr>v4_ip = Ipv4Addr_new 127 0 0 1, v4_port = 8080\<rparr>"

lemma net_env_replies [simp]:
  "platform net_env = Linux" "answer net_env hs Alloc = plain 1 0" "answer net_env hs (Socket_call a b c) = plain 7 0"
  "answer net_env hs (Connect h st n) = plain (-1) 115" "answer net_env hs (Fcntl_getfd h) = plain 0 0"
  "answer net_env hs (Fcntl_setfd h v) = plain 0 0" "answer net_env hs (Fcntl_getfl h) = plain 0 0"
  "answer net_env hs (Fcntl_setfl h v) = plain 0 0"
  by (simp_all add: net_env_def)

lemma ensure_socket_runtime_posix [comp_simps]:
  "platform env \<noteq> Windows \<Longrightarrow> ensure_socket_runtime env w = (Ret (), w)"
  "platform env \<noteq> Windows \<Longrightarrow> bnd ensure_socket_runtime f env w = f () env w"
  by (simp_all add: ensure_socket_runtime_def comp_simps)

lemma resolve_endpoint_posix [comp_simps]:
  assumes "platform env \<noteq> Windows"
  shows "resolve_endpoint endpoint t pr env w
      = (Ret (resolve_sockaddr (platform env) (host_endian env) endpoint t pr, cleared), w)"
    and "bnd (resolve_endpoint endpoint t pr) f env w
      = f (resolve_sockaddr (platform env) (host_endian env) endpoint t pr, cleared) env w"
proof -
  show "resolve_endpoint endpoint t pr env w
      = (Ret (resolve_sockaddr (platform env) (host_endian env) endpoint t pr, cleared), w)"
    unfolding resolve_endpoint_def by (rule noexcept_Ret) (simp add: comp_simps assms)
  then show "bnd (resolve_endpoint endpoint t pr) f env w
      = f (resolve_sockaddr (platform env) (host_endian env) endpoint t pr, cleared) env w"
    by (simp add: bnd_def)
qed

lemma net_env_socket: "\<exists>w1. make_socket address net_env w = (Ret (Some 7, cleared), w1)"
proof -
  have "\<exists>w1. configured 7 net_env w = (Ret (Some 7, cleared), w1)" for w
    by (simp add: configured_def set_close_on_exec_def set_non_blocking_def comp_simps Let_def)
  then obtain w1 where "configured 7 net_env (logged net_env (Socket_call (ra_family address) (ra_type address)
      (ra_protocol address)) (logged net_env Alloc w)) = (Ret (Some 7, cleared), w1)" by blast
  then show ?thesis unfolding make_socket_def
    by (intro exI [of _ w1] noexcept_Ret) (simp add: comp_simps socket_is_valid_def invalid_socket_handle_def)
qed

lemma net_env_connects:
  "\<exists>w'. TcpStream_connect localhost net_env net_world = (Ret (net_source_of (Some 7), cleared), w')"
proof -
  let ?a = "resolve_sockaddr Linux (host_endian net_env) localhost SOCK_STREAM IPPROTO_TCP"
  obtain w1 where "make_socket ?a net_env net_world = (Ret (Some 7, cleared), w1)" using net_env_socket by blast
  then have "\<exists>w'. try_address localhost SOCK_STREAM IPPROTO_TCP connect_action net_env net_world
      = (Ret (Some 7, cleared), w')"
    unfolding try_address_def noexcept_eq_Ret
    by (simp add: connect_action_def comp_simps bnd_def [of "make_socket _"] is_connect_in_progress_def
        is_would_block_error_def EINPROGRESS_def socket_error_from_code_def)
  then show ?thesis unfolding TcpStream_connect_def noexcept_eq_Ret by (auto simp: bnd_def comp_simps)
qed

theorem sockets_conserved_witness:
  "\<exists>w'. make (Connect_Stream localhost) net_env net_world = (Ret (net_source_of (Some 7), cleared), w')
     \<and> balance Linux 7 w' = 1"
proof -
  obtain w' where run: "make (Connect_Stream localhost) net_env net_world = (Ret (net_source_of (Some 7), cleared), w')"
    using net_env_connects by auto
  have "balance Linux 7 net_world = 0" by (simp add: balance_def net_world_def one_selector_def)
  then show ?thesis using sockets_conserved [OF run, of 7] run by auto
qed

end
