(* ===== verification/Net_Properties.thy ===== *)
theory Net_Properties
  imports Net_Ownership
begin

text \<open>
  What the socket classes promise their callers: the hooks meet the contract of a source, a
  transfer reports its outcome and keeps the registration armed, a connecting socket is handed
  over, and addresses and options come back as they were given.
\<close>

section \<open>The socket classes are sources\<close>

definition net_remembers :: "net_source \<Rightarrow> (registry \<times> token \<times> interest) option" where
  "net_remembers this = map_option (\<lambda>r. (r, ns_token this, ns_interests this)) (ns_registry this)"

lemmas net_hooks = net_on_registered_def net_on_reregistered_def net_on_deregistered_def net_remembers_def
  net_native_handle_def comp_simps

interpretation tcp_stream: event_source TcpStream_ops net_remembers
  by unfold_locales (simp_all add: TcpStream_ops_def net_hooks)

interpretation tcp_listener: event_source TcpListener_ops net_remembers
  by unfold_locales (simp_all add: TcpListener_ops_def net_hooks)

interpretation udp_socket: event_source UdpSocket_ops net_remembers
  by unfold_locales (simp_all add: UdpSocket_ops_def net_hooks)

text \<open>
  C15. Registering a socket object on a POSIX system: the object and the selector agree. If no
  error is reported, the handle was not registered, the table has gained exactly the entry for
  it with the class's kind, and the object remembers the registry, token and interests; if an
  error is reported, the object and the table are unchanged. For the three socket classes.
\<close>

theorem net_source_registration:
  assumes "ops \<in> {TcpStream_ops, TcpListener_ops, UdpSocket_ops}"
    and posix: "sets_errno env" "platform env \<noteq> Windows" and live: "selector_live env this w"
    and run: "register_source ops (Some this) s t i env w = (r, w')"
    and h: "h = net_native_handle (platform env) s"
  shows "selector_live env this w' \<and> (\<exists>s' ec. r = Ret (s', ec)
    \<and> (if failed ec then s' = s \<and> selector_table this w' = selector_table this w
       else net_remembers s' = Some (Some this, t, i) \<and> selector_table this w h = None
         \<and> selector_table this w' = (selector_table this w)(h \<mapsto> entry h (source_kind_of ops s) t i False)))"
proof -
  have "native_handle ops = net_native_handle"
    using assms(1) by (auto simp: TcpStream_ops_def TcpListener_ops_def UdpSocket_ops_def)
  then have h': "h = native_handle ops (platform env) s" using h by simp
  from assms(1) consider "ops = TcpStream_ops" | "ops = TcpListener_ops" | "ops = UdpSocket_ops" by blast
  then show ?thesis
  proof cases
    case 1
    show ?thesis using tcp_stream.registration_agrees [OF posix live] run h' unfolding 1 by blast
  next
    case 2
    show ?thesis using tcp_listener.registration_agrees [OF posix live] run h' unfolding 2 by blast
  next
    case 3
    show ?thesis using udp_socket.registration_agrees [OF posix live] run h' unfolding 3 by blast
  qed
qed

lemma waker_env_sets_errno: "sets_errno (waker_env p)"
  by (auto simp: sets_errno_def waker_env_def plain_def split: call.split)

theorem net_source_registration_witness:
  "\<exists>s' ec w'. register_source TcpListener_ops (Some 1) (net_source_of (Some 5)) (Token 9) READABLE
       (waker_env Linux) (one_selector Linux []) = (Ret (s', ec), w')
     \<and> (if failed ec then s' = net_source_of (Some 5) else net_remembers s' = Some (Some 1, Token 9, READABLE))"
proof -
  let ?env = "waker_env Linux"
  obtain r w' where run: "register_source TcpListener_ops (Some 1) (net_source_of (Some 5)) (Token 9) READABLE
      ?env (one_selector Linux []) = (r, w')" by (meson surj_pair)
  have p: "platform ?env \<noteq> Windows" by (simp add: waker_env_def)
  have "TcpListener_ops \<in> {TcpStream_ops, TcpListener_ops, UdpSocket_ops}" by simp
  from net_source_registration [OF this waker_env_sets_errno p waker_env_live run refl] obtain s' ec where
    "r = Ret (s', ec)" "if failed ec then s' = net_source_of (Some 5) else net_remembers s' = Some (Some 1, Token 9, READABLE)"
    by (metis (full_types))
  with run show ?thesis by blast
qed

section \<open>Transfers\<close>

lemma on_socket_run:
  assumes "socket_is_valid (platform env) h"
  shows "on_socket (Some h) dflt k env w = k h env w" "on_socket_void (Some h) k' env w = k' h env w"
  using assms by (simp_all add: on_socket_def on_socket_void_def require_socket_def comp_simps)

lemma on_socket_refused:
  assumes "socket = None \<or> (\<exists>h. socket = Some h \<and> \<not> socket_is_valid (platform env) h)"
  shows "on_socket socket dflt k env w = (Ret (dflt, make_error_code (platform env) bad_file_descriptor), w)"
  using assms by (auto simp: on_socket_def require_socket_def comp_simps)

text \<open>Rearming through a registry whose selector is alive.\<close>

lemma net_rearm_outcome:
  assumes posix: "sets_errno env" "platform env \<noteq> Windows"
    and s: "ns_registry s = Some (Some this)" "\<not> Interest_empty (ns_interests s)" "ns_socket s = Some h"
    and sel: "io_ok env w" "selectors w this = Some sel"
    and upd: "Selector_update this h kind (ns_token s) (ns_interests s) env w = (r1, w1)"
  shows "\<exists>r. net_rearm kind s env w = (r, w1) \<and> (r = Ret () \<longleftrightarrow> r1 = Ret ())
    \<and> (r = Ret () \<or> (\<exists>e. r = Throw e) \<or> r = Terminate)"
proof -
  obtain sel' where on: "on_selector env this w r1 w1 sel'" using Selector_update_result [OF upd sel] by blast
  have rep: "reporting_void catch_all (Selector_update this h kind (ns_token s) (ns_interests s)) env w
      = (report_outcome catch_all (platform env) r1, w1)"
    using upd by (rule reporting_void_run)
  show ?thesis
  proof (cases r1)
    case (Throw e)
    with errors_reportedD [OF errors_reported_update [OF posix]] upd obtain ec where
      "catch_all (platform env) e = Some ec" "failed ec" by blast
    with rep s Throw show ?thesis
      by (auto simp: net_rearm_def net_native_handle_def reregister_handle_throws_def reregister_handle_def
          throwing_void_def bnd_def comp_simps)
  qed (use rep s on in \<open>auto simp: net_rearm_def net_native_handle_def reregister_handle_throws_def
      reregister_handle_def throwing_void_def bnd_def comp_simps on_selector_def\<close>)
qed

text \<open>
  When the back end cannot renew a registration: epoll refuses the change, or there is no memory
  for the list of changes of a kqueue.
\<close>

definition renewal_refused :: "env \<Rightarrow> selector \<Rightarrow> int \<Rightarrow> interest \<Rightarrow> history \<Rightarrow> bool" where
  "renewal_refused env sel h i hist = (case platform env of
     Linux \<Rightarrow> ret (answer env hist (Epoll_ctl (backend sel) EPOLL_CTL_MOD h (Some (epoll_registration h i)))) = -1
   | Kqueue \<Rightarrow> ret (answer env hist Alloc) = 0
   | _ \<Rightarrow> False)"

lemma Selector_update_returns_iff:
  assumes p: "platform env \<noteq> Windows" and sel: "selectors w this = Some sel"
    and h: "h \<noteq> invalid_native_handle (platform env)" "\<not> Interest_empty i"
    and upd: "Selector_update this h k t i env w = (r1, w1)"
  shows "r1 = Ret () \<longleftrightarrow> reg_map sel h \<noteq> None \<and> \<not> renewal_refused env sel h i (history w)"
proof -
  have "is_readable all_interests" by (simp add: all_interests_def)
  then have some: "append_kqueue_changes defs (append_kqueue_changes defs [] h all_interests t EV_DELETE) h i t fl \<noteq> []"
    for defs fl by (auto simp: append_kqueue_changes_def add_kevent_def Let_def)
  show ?thesis
    using assms by (cases "platform env"; cases "map_of (registrations sel) h")
      (auto simp: Selector_update_def validate_def update_backend_def update_epoll_def update_kqueue_def renewal_refused_def
        reg_map_def comp_simps Let_def some split: if_splits)
qed

lemma transferred_run:
  assumes "ret k = -1" "is_would_block_error (platform env) (socket_error_from_code (platform env) (errno w))"
  shows "noexcept (transferred rearm dflt k m) env w = (case rearm env w of
      (Ret u, w') \<Rightarrow> (Ret (dflt, socket_error_from_code (platform env) (errno w)), w')
    | (Throw e, w') \<Rightarrow> (Terminate, w') | (Terminate, w') \<Rightarrow> (Terminate, w')
    | (Undefined, w') \<Rightarrow> (Undefined, w') | (Diverge, w') \<Rightarrow> (Diverge, w'))"
  using assms by (auto simp: transferred_def noexcept_def catch_def bnd_def comp_simps split: prod.splits outcome.splits)

text \<open>The read of a stream with a valid socket, up to the result of the call.\<close>

lemma TcpStream_read_run:
  assumes "platform env \<noteq> Windows" "ns_socket s = Some h" "socket_is_valid (platform env) h"
  shows "TcpStream_read s n env w = noexcept (transferred (TcpStream_rearm_after_would_block s) 0
      (answer env (history w) (Recv h (uint n))) (return (int_to_size (ret (answer env (history w) (Recv h (uint n)))), cleared)))
    env (logged env (Recv h (uint n)) w)"
  using assms by (simp add: TcpStream_read_def noexcept_def catch_def on_socket_run comp_simps buffer_size_def)

text \<open>
  C26. Reading from a stream on a POSIX system: a missing or invalid socket is reported without
  a call; otherwise there is one call, a result is returned as it is, and an error other than
  would-block is reported with the count 0.
\<close>

theorem TcpStream_read_outcome:
  assumes "platform env \<noteq> Windows"
  shows "case ns_socket s of
      None \<Rightarrow> TcpStream_read s n env w = (Ret (0, make_error_code (platform env) bad_file_descriptor), w)
    | Some h \<Rightarrow>
        (let c = Recv h (uint n); k = answer env (history w) c;
             ec = socket_error_from_code (platform env) (err k) in
         if \<not> socket_is_valid (platform env) h
         then TcpStream_read s n env w = (Ret (0, make_error_code (platform env) bad_file_descriptor), w)
         else if ret k \<noteq> -1 then TcpStream_read s n env w = (Ret (int_to_size (ret k), cleared), logged env c w)
         else is_would_block_error (platform env) ec
           \<or> TcpStream_read s n env w = (Ret (0, ec), logged env c w))"
proof (cases "ns_socket s")
  case None
  then show ?thesis by (simp add: TcpStream_read_def noexcept_Ret on_socket_refused)
next
  case (Some h)
  show ?thesis
  proof (cases "socket_is_valid (platform env) h")
    case False
    then show ?thesis using Some by (simp add: TcpStream_read_def noexcept_Ret on_socket_refused)
  next
    case True
    then show ?thesis using Some
      by (simp add: TcpStream_read_run [OF assms Some True] transferred_def noexcept_def catch_def comp_simps Let_def)
  qed
qed

text \<open>A Linux system on which nothing is ready.\<close>

definition idle_env :: env where
  "idle_env = \<lparr>platform = Linux, host_endian = Little, macro_defined = (\<lambda>_. True),
     answer = (\<lambda>_ c. case c of Recv _ _ \<Rightarrow> plain (-1) 11 | _ \<Rightarrow> plain 0 0)\<rparr>"

lemma idle_env_simps [simp]: "platform idle_env = Linux" "answer idle_env hs (Recv h n) = plain (-1) 11"
  by (simp_all add: idle_env_def)

lemma idle_env_sets_errno: "sets_errno idle_env"
  by (auto simp: sets_errno_def idle_env_def plain_def split: call.split)

theorem TcpStream_read_outcome_witness:
  "TcpStream_read (net_source_of None) 16 idle_env net_world
     = (Ret (0, make_error_code Linux bad_file_descriptor), net_world)"
  using TcpStream_read_outcome [of idle_env "net_source_of None" 16 net_world] by simp

text \<open>
  C27. When a read would block on a stream that is registered with interests, the registration
  is renewed before the error is reported: the read returns the would-block error exactly when
  the handle is still registered and the back end accepts the change, and then the table has
  the stream's token and interests again and is otherwise unchanged. In every other case, that
  is, when the handle is no longer registered, epoll refuses the change or there is no memory
  for the changes of a kqueue, the exception leaves the \<open>noexcept\<close> function and the
  process is terminated.
\<close>

theorem TcpStream_read_rearms:
  assumes posix: "sets_errno env" "platform env \<noteq> Windows"
    and live: "selector_live env this w" "selectors w this = Some sel"
    and s: "ns_registry s = Some (Some this)" "\<not> Interest_empty (ns_interests s)" "ns_socket s = Some h"
    and h: "socket_is_valid (platform env) h"
    and k: "k = answer env (history w) (Recv h (uint n))" "ret k = -1"
      "is_would_block_error (platform env) (socket_error_from_code (platform env) (err k))"
    and run: "TcpStream_read s n env w = (r, w')"
  shows "selector_live env this w' \<and>
    (case selector_table this w h of
       None \<Rightarrow> r = Terminate
     | Some r0 \<Rightarrow>
         if renewal_refused env sel h (ns_interests s) (history w @ [(Recv h (uint n), k)]) then r = Terminate
         else r = Ret (0, socket_error_from_code (platform env) (err k))
           \<and> selector_table this w' = (selector_table this w)(h \<mapsto>
                r0\<lparr>reg_kind := Kind_raw_descriptor, reg_token := ns_token s, reg_interests := ns_interests s\<rparr>))"
proof -
  let ?w = "logged env (Recv h (uint n)) w" and ?ec = "socket_error_from_code (platform env) (err k)"
  obtain r1 w1 where upd: "Selector_update this h Kind_raw_descriptor (ns_token s) (ns_interests s) env ?w = (r1, w1)"
    by (meson surj_pair)
  have sel: "io_ok env ?w" "selectors ?w this = Some sel" "selector_table this w = reg_map sel"
    using live by (auto elim: selector_liveE simp: selector_table_def)
  from net_rearm_outcome [OF posix s sel(1,2) upd] obtain r2 where
    rearm: "net_rearm Kind_raw_descriptor s env ?w = (r2, w1)" "r2 = Ret () \<longleftrightarrow> r1 = Ret ()"
      "r2 = Ret () \<or> (\<exists>e. r2 = Throw e) \<or> r2 = Terminate" by blast
  have "noexcept (transferred (TcpStream_rearm_after_would_block s) 0 k (return (int_to_size (ret k), cleared))) env ?w = (r, w')"
    using run k(1) by (simp add: TcpStream_read_run [OF posix(2) s(3) h])
  with k rearm have r: "w' = w1" "r = (if r1 = Ret () then Ret (0, ?ec) else Terminate)"
    by (auto simp: transferred_run TcpStream_rearm_after_would_block_def TcpStream_ops_def default_source_kind_def)
  have "h \<noteq> invalid_native_handle (platform env)"
    using h posix(2) by (simp add: socket_is_valid_def invalid_socket_handle_def invalid_native_handle_def)
  from Selector_update_returns_iff [OF posix(2) sel(2) this s(2) upd] k(1)
  have iff: "r1 = Ret () \<longleftrightarrow> reg_map sel h \<noteq> None
      \<and> \<not> renewal_refused env sel h (ns_interests s) (history w @ [(Recv h (uint n), k)])" by (simp add: history_logged)
  from Selector_update_result [OF upd sel(1,2)] obtain sel' where on: "on_selector env this ?w r1 w1 sel'"
    and ok: "r1 = Ret () \<Longrightarrow> \<exists>r0. reg_map sel h = Some r0 \<and> reg_map sel' = (reg_map sel)(h \<mapsto>
      r0\<lparr>reg_kind := Kind_raw_descriptor, reg_token := ns_token s, reg_interests := ns_interests s\<rparr>)"
    by (cases "r1 = Ret ()") auto
  show ?thesis using on_selector_live [OF on] ok r iff sel(3) by (cases "reg_map sel h") auto
qed

theorem TcpStream_read_rearms_witness:
  "\<exists>w'. TcpStream_read \<lparr>ns_socket = Some 5, ns_registry = Some (Some 1), ns_token = Token 2, ns_interests = WRITABLE\<rparr>
       16 idle_env (one_selector Linux [(5, entry 5 Kind_raw_descriptor (Token 7) READABLE False)])
       = (Ret (0, socket_error_from_code Linux 11), w')
     \<and> selector_table 1 w' 5 = Some (entry 5 Kind_raw_descriptor (Token 2) WRITABLE False)"
proof -
  let ?s = "\<lparr>ns_socket = Some 5, ns_registry = Some (Some 1), ns_token = Token 2, ns_interests = WRITABLE\<rparr>"
  let ?e = "entry 5 Kind_raw_descriptor (Token 7) READABLE False"
  let ?w = "one_selector Linux [(5, ?e)]"
  obtain sel where sel: "selectors ?w 1 = Some sel" by (simp add: one_selector_def)
  obtain r w' where run: "TcpStream_read ?s 16 idle_env ?w = (r, w')" by (meson surj_pair)
  have live: "selector_live idle_env 1 ?w" unfolding idle_env_def by (rule one_selector_live) blast
  have table: "selector_table 1 ?w 5 = Some ?e" by (simp add: selector_table_def one_selector_def reg_map_def)
  have "\<not> Interest_empty WRITABLE" "\<not> renewal_refused idle_env sel 5 WRITABLE hist" for hist
    by (simp_all add: renewal_refused_def interest_consts Interest_empty_def) (simp add: idle_env_def)
  with TcpStream_read_rearms [OF idle_env_sets_errno _ live sel _ _ _ _ refl _ _ run, of 5] table
  have "r = Ret (0, socket_error_from_code Linux 11)" "selector_table 1 w' = (selector_table 1 ?w)(5 \<mapsto>
      ?e\<lparr>reg_kind := Kind_raw_descriptor, reg_token := Token 2, reg_interests := WRITABLE\<rparr>)"
    by (simp_all add: socket_is_valid_def invalid_socket_handle_def is_would_block_error_def socket_error_from_code_def
        EAGAIN_def)
  with run show ?thesis by (auto simp: entry_def)
qed

section \<open>Connecting and listening\<close>

text \<open>
  C28. Connecting a \<open>TcpSocket\<close> on a POSIX system: the connection attempt goes to the
  address of the endpoint; if it succeeds or is in progress, the socket moves to the stream and
  the \<open>TcpSocket\<close> is empty afterwards; otherwise the error is reported and the
  \<open>TcpSocket\<close> keeps the socket, so that the caller can try again.
\<close>

theorem TcpSocket_connect_hands_over:
  assumes "platform env \<noteq> Windows" "socket_is_valid (platform env) h"
    and "a = resolve_sockaddr (platform env) (host_endian env) endpoint SOCK_STREAM IPPROTO_TCP"
    and "c = Connect h (ra_storage a) (ra_length a)" "k = answer env (history w) c"
  shows "TcpSocket_connect (Some h) endpoint env w =
    (Ret (if ret k = 0 \<or> is_connect_in_progress (platform env) (socket_error_from_code (platform env) (err k))
          then ((net_source_of (Some h), None), cleared)
          else ((net_source_of None, Some h), socket_error_from_code (platform env) (err k))),
     logged env c w)"
  unfolding TcpSocket_connect_def
  by (rule noexcept_Ret) (simp add: assms on_socket_run comp_simps)

theorem TcpSocket_connect_hands_over_witness:
  "\<exists>w'. TcpSocket_connect (Some 7) localhost net_env net_world = (Ret ((net_source_of (Some 7), None), cleared), w')"
proof -
  have "platform net_env \<noteq> Windows" "socket_is_valid (platform net_env) 7"
    by (simp_all add: socket_is_valid_def invalid_socket_handle_def)
  from TcpSocket_connect_hands_over [OF this refl refl refl, of localhost net_world] show ?thesis
    by (simp add: is_connect_in_progress_def EINPROGRESS_def socket_error_from_code_def)
qed

lemma net_env_more [simp]:
  "answer net_env hs (Setsockopt h l opt v) = plain 0 0" "answer net_env hs (Bind h a n) = plain 0 0"
  "answer net_env hs (Listen h b) = plain 0 0" "host_endian net_env = Little"
  by (simp_all add: net_env_def)

lemma TcpSocket_new_v4_calls:
  assumes env: "sets_errno env" "platform env \<noteq> Windows"
    and run: "TcpSocket_new_v4 env w = (Ret (Some h, ec), w1)"
  shows "socket_is_valid (platform env) h \<and> \<not> failed ec
    \<and> ret (answer env (history (logged env Alloc w)) (Socket_call AF_INET SOCK_STREAM IPPROTO_TCP)) = h
    \<and> (\<exists>f1 f2. map fst (history w1) = map fst (history w) @ [Alloc, Socket_call AF_INET SOCK_STREAM IPPROTO_TCP,
         Fcntl_getfd h, Fcntl_setfd h f1, Fcntl_getfl h, Fcntl_setfl h f2])"
proof -
  let ?w = "logged env (Socket_call AF_INET SOCK_STREAM IPPROTO_TCP) (logged env Alloc w)"
  have conf: "configured h' env ?w = (Ret (Some h, ec), w1) \<Longrightarrow> h' = h \<and> \<not> failed ec \<and> (\<exists>f1 f2. map fst (history w1) =
      map fst (history ?w) @ [Fcntl_getfd h, Fcntl_setfd h f1, Fcntl_getfl h, Fcntl_setfl h f2])" for h'
    using env(2) sets_errnoD [OF env(1)]
    by (auto simp: configured_def set_close_on_exec_def set_non_blocking_def socket_destroy_def bnd_eq_Ret comp_simps
        Let_def split: if_splits)
  have "socket_is_valid (platform env) (ret (answer env (history (logged env Alloc w))
      (Socket_call AF_INET SOCK_STREAM IPPROTO_TCP)))
    \<and> configured (ret (answer env (history (logged env Alloc w)) (Socket_call AF_INET SOCK_STREAM IPPROTO_TCP))) env ?w
      = (Ret (Some h, ec), w1)"
    using run env(2) by (auto simp: TcpSocket_new_v4_def new_tcp_socket_def noexcept_eq_Ret comp_simps split: if_splits)
  with conf show ?thesis by auto
qed

lemma TcpSocket_bind_calls:
  assumes env: "platform env \<noteq> Windows" and h: "socket_is_valid (platform env) h"
    and a: "a = resolve_sockaddr (platform env) (host_endian env) endpoint SOCK_STREAM IPPROTO_TCP"
    and run: "TcpSocket_bind (Some h) endpoint backlog env w = (Ret ((s, t), ec), w')" "ns_socket s \<noteq> None"
  shows "s = net_source_of (Some h) \<and> t = None
    \<and> map fst (history w') = map fst (history w) @ [Bind h (ra_storage a) (ra_length a), Listen h backlog]"
  using run env h
  by (auto simp: TcpSocket_bind_def noexcept_eq_Ret on_socket_run a net_source_of_def comp_simps split: if_splits)

text \<open>
  C40. A listener is always made from an IPv4 socket: on every POSIX system, whenever
  \<open>TcpListener::bind\<close> gives a listener, whatever the endpoint, an IPv6 one included,
  its socket was created as \<open>AF_INET\<close>, and the calls after that prepare it, bind it to
  the address of the endpoint and listen with the given backlog.
\<close>

theorem TcpListener_bind_family:
  assumes env: "sets_errno env" "platform env \<noteq> Windows"
    and a: "a = resolve_sockaddr (platform env) (host_endian env) endpoint SOCK_STREAM IPPROTO_TCP"
    and run: "TcpListener_bind endpoint backlog env w = (Ret (s, ec), w')" "ns_socket s = Some h"
  shows "ret (answer env (history (logged env Alloc w)) (Socket_call AF_INET SOCK_STREAM IPPROTO_TCP)) = h
    \<and> (\<exists>f1 f2. map fst (history w') = map fst (history w) @
        [Alloc, Socket_call AF_INET SOCK_STREAM IPPROTO_TCP, Fcntl_getfd h, Fcntl_setfd h f1, Fcntl_getfl h,
         Fcntl_setfl h f2, Setsockopt h SOL_SOCKET SO_REUSEADDR 1, Bind h (ra_storage a) (ra_length a), Listen h backlog])"
proof -
  obtain sock ec1 w1 where new: "TcpSocket_new_v4 env w = (Ret (sock, ec1), w1)" and ok: "\<not> failed ec1"
    and rest: "bnd (TcpSocket_set_reuseaddr sock True) (\<lambda>ec.
        if failed ec then bnd (socket_destroy sock) (\<lambda>_. return (net_source_of None, ec))
        else
          bnd (TcpSocket_bind sock endpoint backlog) (\<lambda>((listener, socket'), ec).
          bnd (socket_destroy socket') (\<lambda>_. return (listener, ec)))) env w1 = (Ret (s, ec), w')"
    using run by (auto simp: TcpListener_bind_def noexcept_eq_Ret bnd_eq_Ret net_source_of_def comp_simps split: if_splits)
  obtain h' where sock: "sock = Some h'" using rest run(2)
    by (cases sock) (auto simp: TcpSocket_set_reuseaddr_def on_socket_void_def require_socket_def socket_destroy_def
        net_source_of_def bnd_eq_Ret comp_simps)
  note v4 = TcpSocket_new_v4_calls [OF env new [unfolded sock]]
  let ?w = "logged env (Setsockopt h' SOL_SOCKET SO_REUSEADDR 1) w1"
  from rest obtain l t ec2 w2 where bind: "TcpSocket_bind (Some h') endpoint backlog env ?w = (Ret ((l, t), ec2), w2)"
    "socket_destroy t env w2 = (Ret (), w')" "s = l"
    using v4 run(2) by (auto simp: sock TcpSocket_set_reuseaddr_def on_socket_run set_reuse_addr_def net_source_of_def
        bnd_eq_Ret comp_simps split: if_splits)
  from TcpSocket_bind_calls [OF env(2) _ a bind(1)] v4 run(2) bind(3)
  have "l = net_source_of (Some h')" "t = None"
    "map fst (history w2) = map fst (history ?w) @ [Bind h' (ra_storage a) (ra_length a), Listen h' backlog]" by auto
  with v4 bind run(2) show ?thesis by (auto simp: socket_destroy_def net_source_of_def comp_simps)
qed

text \<open>A listener for an IPv6 endpoint, the address \<open>::1\<close> and port 80.\<close>

definition localhost6 :: SocketAddr where
  "localhost6 = V6 \<lparr>v6_ip = Ipv6Addr_new 0 0 0 0 0 0 0 1, v6_port = 80, v6_flowinfo = 0, v6_scope_id = 0\<rparr>"

lemma net_env_sets_errno: "sets_errno net_env"
  by (auto simp: sets_errno_def net_env_def plain_def split: call.split)

lemma net_env_bind: "\<exists>w'. TcpListener_bind endpoint backlog net_env w = (Ret (net_source_of (Some 7), cleared), w')"
proof -
  have valid: "socket_is_valid (platform net_env) 7" by (simp add: socket_is_valid_def invalid_socket_handle_def)
  have "\<exists>w1. configured 7 net_env w = (Ret (Some 7, cleared), w1)" for w
    by (simp add: configured_def set_close_on_exec_def set_non_blocking_def comp_simps Let_def)
  then obtain w1 where "configured 7 net_env (logged net_env (Socket_call AF_INET SOCK_STREAM IPPROTO_TCP)
      (logged net_env Alloc w)) = (Ret (Some 7, cleared), w1)" by blast
  then have "TcpSocket_new_v4 net_env w = (Ret (Some 7, cleared), w1)"
    unfolding TcpSocket_new_v4_def new_tcp_socket_def using valid by (intro noexcept_Ret) (simp add: comp_simps)
  moreover obtain w2 where "TcpSocket_set_reuseaddr (Some 7) True net_env w1 = (Ret cleared, w2)"
    using valid by (simp add: TcpSocket_set_reuseaddr_def on_socket_run set_reuse_addr_def comp_simps)
  moreover obtain w3 where "TcpSocket_bind (Some 7) endpoint backlog net_env w2 = (Ret ((net_source_of (Some 7), None), cleared), w3)"
  proof -
    have "\<exists>w3. TcpSocket_bind (Some 7) endpoint backlog net_env w2 = (Ret ((net_source_of (Some 7), None), cleared), w3)"
      unfolding TcpSocket_bind_def by (intro exI, rule noexcept_Ret) (use valid in \<open>simp add: on_socket_run comp_simps\<close>)
    then show ?thesis using that by blast
  qed
  ultimately show ?thesis
    unfolding TcpListener_bind_def by (simp add: noexcept_eq_Ret bnd_def socket_destroy_def comp_simps)
qed

theorem TcpListener_bind_family_witness:
  "\<exists>w'. TcpListener_bind localhost6 5 net_env net_world = (Ret (net_source_of (Some 7), cleared), w')
    \<and> Socket_call AF_INET SOCK_STREAM IPPROTO_TCP \<in> set (map fst (history w'))"
proof -
  obtain w' where run: "TcpListener_bind localhost6 5 net_env net_world = (Ret (net_source_of (Some 7), cleared), w')"
    using net_env_bind by blast
  have p: "platform net_env \<noteq> Windows" by simp
  from TcpListener_bind_family [OF net_env_sets_errno p refl run, of 7] obtain f1 f2 where
    "map fst (history w') = map fst (history net_world) @
        [Alloc, Socket_call AF_INET SOCK_STREAM IPPROTO_TCP, Fcntl_getfd 7, Fcntl_setfd 7 f1, Fcntl_getfl 7,
         Fcntl_setfl 7 f2, Setsockopt 7 SOL_SOCKET SO_REUSEADDR 1,
         Bind 7 (ra_storage (resolve_sockaddr Linux Little localhost6 SOCK_STREAM IPPROTO_TCP))
           (ra_length (resolve_sockaddr Linux Little localhost6 SOCK_STREAM IPPROTO_TCP)), Listen 7 5]"
    by (auto simp: net_source_of_def)
  then have "Socket_call AF_INET SOCK_STREAM IPPROTO_TCP \<in> set (map fst (history w'))" by (simp del: set_map)
  with run show ?thesis by blast
qed

section \<open>Options and addresses come back\<close>

text \<open>
  The time-to-live survives its trip through an \<open>int\<close> option for all values of
  \<open>std::uint32_t\<close>: if the system accepts the option and later returns the value it was
  given, reading it gives what was set, also above \<open>INT_MAX\<close>, where the value passed
  to the system is negative.
\<close>

lemma ttl_roundtrip:
  assumes "ns_socket s = Some h" "socket_is_valid (platform env) h"
    and c: "c = Setsockopt h LEVEL_IP IP_TTL (sint ttl)" "ret (answer env (history w) c) = 0"
    and g: "g = answer env (history (logged env c w)) (Getsockopt h LEVEL_IP IP_TTL)" "ret g = 0" "out_int g = sint ttl"
  shows "TcpStream_set_ttl s ttl env w = (Ret cleared, logged env c w)
    \<and> fst (TcpStream_ttl s env (logged env c w)) = Ret (ttl, cleared)
    \<and> (2 ^ 31 \<le> uint ttl \<longrightarrow> sint ttl < 0)"
proof -
  have "sint ttl < 0" if "2 ^ 31 \<le> uint ttl"
  proof -
    have "uint ttl < 2 ^ 32" using uint_lt2p [of ttl] by simp
    with that have "uint ttl div 2 ^ 31 = 1" by (intro div_pos_geq [THEN trans]) simp_all
    then have "bit (uint ttl) 31" by (simp add: bit_iff_odd)
    then show ?thesis using take_bit_int_less_exp [of 32 "uint ttl"]
      by (simp add: sint_uint signed_take_bit_eq_take_bit_minus)
  qed
  moreover have "TcpStream_set_ttl s ttl env w = (Ret cleared, logged env c w)"
    using assms by (simp add: TcpStream_set_ttl_def net_set_ttl_def ttl_to_int_def on_socket_run comp_simps)
  moreover have "fst (TcpStream_ttl s env (logged env c w)) = Ret (ttl, cleared)"
    using assms by (simp add: TcpStream_ttl_def net_ttl_def on_socket_run get_socket_int_option_def comp_simps)
  ultimately show ?thesis by blast
qed

text \<open>
  C29. Receiving a datagram: if the system stores the address of an IPv4 or IPv6 sender, the
  count and exactly that endpoint are returned, on every platform and byte order; if it stores
  an address of another family, the error is reported and the count is lost although the
  datagram was taken from the socket.
\<close>

theorem UdpSocket_recv_from_decodes:
  assumes "ns_socket s = Some h" "socket_is_valid (platform env) h"
    and "c = Recvfrom h (buffer_size (platform env) n) False" "k = answer env (history w) c" "ret k \<noteq> -1"
  shows "(wf_addr endpoint \<and> out_addr k = ra_storage (resolve_sockaddr (platform env) (host_endian env) endpoint t pr) \<longrightarrow>
      UdpSocket_recv_from s n env w = (Ret ((int_to_size (ret k), endpoint), cleared), logged env c w))
    \<and> (get_family (platform env) (host_endian env) (out_addr k) \<notin> {AF_INET_value, AF_INET6_value (platform env)} \<longrightarrow>
      UdpSocket_recv_from s n env w
        = (Ret ((0, SocketAddr_default), make_error_code (platform env) address_family_not_supported), logged env c w))"
proof -
  have "UdpSocket_recv_from s n env w = noexcept (received k (ret k)) env (logged env c w)"
    using assms
    by (simp add: UdpSocket_recv_from_def on_socket_run transferred_def noexcept_def catch_def comp_simps)
  moreover have "received k (ret k) env (logged env c w) = (Ret ((int_to_size (ret k), endpoint), cleared), logged env c w)"
    if "wf_addr endpoint" "out_addr k = ra_storage (resolve_sockaddr (platform env) (host_endian env) endpoint t pr)"
    using that by (simp add: received_def endpoint_of_reply_def endpoint_of_resolved comp_simps)
  moreover have "received k (ret k) env (logged env c w)
      = (Ret ((0, SocketAddr_default), make_error_code (platform env) address_family_not_supported), logged env c w)"
    if "get_family (platform env) (host_endian env) (out_addr k) \<notin> {AF_INET_value, AF_INET6_value (platform env)}"
    using that by (simp add: received_def endpoint_of_reply_def endpoint_from_sockaddr_def comp_simps)
  ultimately show ?thesis by (auto intro: noexcept_Ret)
qed

definition datagram_env :: env where
  "datagram_env = net_env\<lparr>answer := \<lambda>_ _. (plain 3 0)\<lparr>out_addr :=
     ra_storage (resolve_sockaddr Linux Little localhost SOCK_DGRAM IPPROTO_UDP)\<rparr>\<rparr>"

theorem UdpSocket_recv_from_decodes_witness:
  "fst (UdpSocket_recv_from (net_source_of (Some 7)) 16 datagram_env net_world) = Ret ((3, localhost), cleared)"
proof -
  have env: "platform datagram_env = Linux" "host_endian datagram_env = Little" "socket_is_valid (platform datagram_env) 7"
    "wf_addr localhost" "answer datagram_env hs c = (plain 3 0)\<lparr>out_addr :=
     ra_storage (resolve_sockaddr Linux Little localhost SOCK_DGRAM IPPROTO_UDP)\<rparr>" for hs c
    by (simp_all add: datagram_env_def socket_is_valid_def invalid_socket_handle_def localhost_def Ipv4Addr_new_def)
  from UdpSocket_recv_from_decodes [OF socket_of_source env(3) refl refl, where n = 16 and w = net_world
      and endpoint = localhost and t = SOCK_DGRAM and pr = IPPROTO_UDP]
  show ?thesis using env by (simp add: plain_def int_to_size_def)
qed

end
