(* ===== verification/Epoll_Mirror.thy ===== *)
theory Epoll_Mirror
  imports Registry
begin

text \<open>
  The table of a selector and the kernel's interest list, on Linux. The interest list is what
  the calls issued so far made of it, so the statements relate the objects of
  \<^verbatim>\<open>src/core.cpp\<close> to the history of the world. Also what constructing a \<open>Selector\<close>
  and a \<open>Poll\<close> on a POSIX system gives.
\<close>

section \<open>The interest list\<close>

text \<open>
  As epoll(7) documents it: a successful \<open>epoll_ctl\<close> adds, changes or removes a
  descriptor, and closing a descriptor removes it.
\<close>

fun watch_call :: "int \<Rightarrow> call \<times> reply \<Rightarrow> (int \<rightharpoonup> epoll_event) \<Rightarrow> (int \<rightharpoonup> epoll_event)" where
  "watch_call ep (Epoll_ctl e c fd ev, k) m =
     (if e = ep \<and> ret k \<noteq> -1 then m(fd := (if c = EPOLL_CTL_DEL then None else ev)) else m)"
| "watch_call ep (Close fd, k) m = m(fd := None)"
| "watch_call ep (_, k) m = m"

definition interest_list :: "int \<Rightarrow> history \<Rightarrow> (int \<rightharpoonup> epoll_event)" where
  "interest_list ep h = fold (watch_call ep) h Map.empty"

lemma interest_list_append [simp]:
  "interest_list ep (h @ h') = fold (watch_call ep) h' (interest_list ep h)"
  by (simp add: interest_list_def)

text \<open>
  Every registration is in the interest list; apart from the handles of \<open>stale\<close>, with
  the mask of the registered interests.
\<close>

definition mirrored_entry :: "int set \<Rightarrow> (int \<rightharpoonup> epoll_event) \<Rightarrow> int \<times> registration \<Rightarrow> bool" where
  "mirrored_entry stale m x = (case x of (h, r) \<Rightarrow>
     if h \<in> stale then m h \<noteq> None else m h = Some (epoll_registration h (reg_interests r)))"

definition mirrored :: "int set \<Rightarrow> nat \<Rightarrow> io_world \<Rightarrow> bool" where
  "mirrored stale this w = (case selectors w this of None \<Rightarrow> True
     | Some s \<Rightarrow> list_all (mirrored_entry stale (interest_list (backend s) (history w))) (registrations s))"

lemma mirrored_Some:
  "selectors w this = Some s \<Longrightarrow> mirrored stale this w \<longleftrightarrow>
     (\<forall>x \<in> set (registrations s). mirrored_entry stale (interest_list (backend s) (history w)) x)"
  by (simp add: mirrored_def list_all_iff)

lemma mirrored_entry_other:
  "h \<noteq> h' \<Longrightarrow> mirrored_entry stale (m(h' := v)) (h, r) = mirrored_entry stale m (h, r)"
  by (simp add: mirrored_entry_def)

lemma mirrored_entry_stale:
  "mirrored_entry stale m x \<Longrightarrow> stale \<subseteq> stale' \<Longrightarrow> mirrored_entry stale' m x"
  by (auto simp: mirrored_entry_def split: prod.splits if_splits)

section \<open>The operations on the table keep the mirror\<close>

lemma Selector_add_mirrors:
  assumes linux: "platform env = Linux" and s: "selectors w this = Some s"
    and m: "mirrored stale this w" and run: "Selector_add this h k t i d env w = (r, w')"
  shows "mirrored stale this w'"
proof (cases "validation_error Linux h i = None \<and> ret (answer env (history w) Alloc) \<noteq> 0
    \<and> map_of (registrations s) h = None")
  case False
  then have "selectors w' = selectors w" "history w' = history w \<or> history w' = history (logged env Alloc w)"
    using run s linux
    by (auto simp: Selector_add_def emplace_registration_def comp_simps split: if_splits option.splits)
  then show ?thesis using m s by (auto simp: mirrored_Some)
next
  case True
  let ?r = "entry h k t i d" and ?c = "Epoll_ctl (backend s) EPOLL_CTL_ADD h (Some (epoll_registration h i))"
  let ?w = "logged env ?c (logged env Alloc w)"
  have fresh: "h \<noteq> fst x" if "x \<in> set (registrations s)" for x
    using True that by (auto simp: map_of_eq_None_iff)
  have del: "AList.delete h (registrations s) = registrations s"
    using fresh by (intro delete_id) auto
  have "(ret (answer env (history (logged env Alloc w)) ?c) = -1 \<and> history w' = history ?w \<and> selectors w' this = Some s)
    \<or> (ret (answer env (history (logged env Alloc w)) ?c) \<noteq> -1 \<and> history w' = history ?w
        \<and> selectors w' this = Some (s\<lparr>registrations := (h, ?r) # registrations s\<rparr>))"
    using run s linux True del
    by (auto simp: Selector_add_def emplace_registration_def add_to_backend_def add_epoll_def catch_def
        erase_registration_def comp_simps entry_def split: if_splits)
  then show ?thesis using m s fresh
    by (auto simp: mirrored_Some mirrored_entry_other entry_def) (auto simp: mirrored_entry_def)
qed

lemma Selector_remove_mirrors:
  assumes linux: "platform env = Linux" and ok: "io_ok env w" and s: "selectors w this = Some s"
    and m: "mirrored stale this w" and run: "Selector_remove this h env w = (r, w')"
  shows "mirrored stale this w'"
proof (cases "map_of (registrations s) h")
  case None
  then show ?thesis using run s m by (simp add: Selector_remove_def comp_simps)
next
  case (Some reg)
  let ?c = "Epoll_ctl (backend s) EPOLL_CTL_DEL h None"
  have "reg_handle reg = h"
    using io_ok_selector [OF ok s] map_of_SomeD [OF Some] by (auto simp: registrations_ok_def)
  then obtain s' where "selectors w' this = Some s'" "registrations s' = AList.delete h (registrations s)"
    "backend s' = backend s" "history w' = history (logged env ?c w)"
    using run s linux Some
    by (auto simp: Selector_remove_def remove_from_backend_def remove_epoll_def noexcept_def catch_def comp_simps)
  then show ?thesis using m s
    by (auto simp: mirrored_Some set_AList_delete mirrored_entry_other)
qed

text \<open>A change that the kernel refuses leaves the old mask in the interest list.\<close>

lemma Selector_update_mirrors:
  assumes linux: "platform env = Linux" and ok: "io_ok env w" and s: "selectors w this = Some s"
    and m: "mirrored stale this w" and run: "Selector_update this h k t i env w = (r, w')"
  shows "mirrored (if r = Ret () then stale else insert h stale) this w'"
proof (cases "validation_error Linux h i = None \<and> map_of (registrations s) h \<noteq> None")
  case False
  then have "w' = w" "r \<noteq> Ret ()"
    using run s linux by (auto simp: Selector_update_def comp_simps split: option.splits)
  then show ?thesis using m s mirrored_entry_stale [OF _ subset_insertI] by (auto simp: mirrored_Some)
next
  case True
  then obtain r0 where r0: "map_of (registrations s) h = Some r0" by auto
  let ?r = "r0\<lparr>reg_kind := k, reg_token := t, reg_interests := i\<rparr>"
  let ?c = "Epoll_ctl (backend s) EPOLL_CTL_MOD h (Some (epoll_registration h i))"
  let ?ok = "ret (answer env (history w) ?c) \<noteq> -1"
  have w': "r = Ret () \<longleftrightarrow> ?ok" "history w' = history (logged env ?c w)"
    "selectors w' this = Some (s\<lparr>registrations := AList.update h ?r (registrations s)\<rparr>)"
    using run s linux True r0
    by (auto simp: Selector_update_def update_backend_def update_epoll_def comp_simps split: if_splits)
  have old: "mirrored_entry stale (interest_list (backend s) (history w)) (h, r0)"
    using m s map_of_SomeD [OF r0] by (simp add: mirrored_Some)
  have "mirrored_entry (if r = Ret () then stale else insert h stale) (interest_list (backend s) (history w')) x"
    if x: "x \<in> set (AList.update h ?r (registrations s))" for x
  proof (cases "fst x = h")
    case True
    then have "x = (h, ?r)"
      using x io_ok_selector [OF ok s] map_of_is_SomeI [of "AList.update h ?r (registrations s)" h "snd x"]
      by (cases x) (auto simp: registrations_ok_def update_conv')
    then show ?thesis using w' old by (auto simp: mirrored_entry_def split: if_splits)
  next
    case False
    then have "x \<in> set (registrations s)" using x set_AList_update [of h ?r "registrations s"] by auto
    then have "mirrored_entry stale (interest_list (backend s) (history w)) x" using m s by (simp add: mirrored_Some)
    then show ?thesis using False w'(2) by (cases x) (auto simp: mirrored_entry_def)
  qed
  then show ?thesis using w'(3) by (simp add: mirrored_Some)
qed

text \<open>The handles whose change was refused, in a sequence of operations and their outcomes.\<close>

fun refused_changes :: "(table_op \<times> unit outcome) list \<Rightarrow> int set" where
  "refused_changes [] = {}"
| "refused_changes ((Update h k t i, r) # rs) = (if r = Ret () then {} else {h}) \<union> refused_changes rs"
| "refused_changes ((_, r) # rs) = refused_changes rs"

lemma selector_exec_mirrors:
  assumes "platform env = Linux" "selector_live env this w" "mirrored stale this w"
    and run: "selector_exec env this c w = (r, w')"
  shows "mirrored (stale \<union> refused_changes [(c, r)]) this w'"
proof -
  obtain s where s: "io_ok env w" "selectors w this = Some s" using assms(2) by (rule selector_liveE)
  show ?thesis
  proof (cases c)
    case (Update h k t i)
    then have "Selector_update this h k t i env w = (r, w')" using run by simp
    from Selector_update_mirrors [OF assms(1) s assms(3) this] Update show ?thesis by (auto split: if_splits)
  qed (use Selector_add_mirrors [OF assms(1) s(2) assms(3)] Selector_remove_mirrors [OF assms(1) s assms(3)] run
      in auto)
qed

lemma exec_all_mirrors:
  assumes "platform env = Linux" "selector_live env this w" "mirrored stale this w"
    and "exec_all (selector_exec env this) cs w = (rs, w')"
  shows "selector_live env this w' \<and> mirrored (stale \<union> refused_changes rs) this w'"
  using assms(2-)
proof (induction cs arbitrary: w stale rs w')
  case Nil
  then show ?case by simp
next
  case (Cons c cs)
  obtain r w1 where e: "selector_exec env this c w = (r, w1)" by (meson surj_pair)
  obtain rs2 w2 where a: "exec_all (selector_exec env this) cs w1 = (rs2, w2)" by (meson surj_pair)
  have live: "selector_live env this w1" using selector.invar_exec [OF Cons.prems(1) e] .
  note m = selector_exec_mirrors [OF assms(1) Cons.prems(1,2) e]
  have eq: "refused_changes ((c, r) # rs2) = refused_changes [(c, r)] \<union> refused_changes rs2"
    by (cases c) auto
  show ?case
  proof (cases "r = Terminate")
    case True
    then show ?thesis using Cons.prems(3) e live m by simp
  next
    case False
    then have "rs = (c, r) # rs2" "w' = w2" using Cons.prems(3) e a by simp_all
    then show ?thesis using Cons.IH [OF live m a] eq by (simp add: Un_assoc)
  qed
qed

text \<open>The handles that a wait drains: those of wakers.\<close>

definition drained_handles :: "table \<Rightarrow> int set" where
  "drained_handles m = {x. \<exists>r. m x = Some r \<and> reg_auto_drain r}"

section \<open>A new selector\<close>

definition empty_selector :: "platform \<Rightarrow> int \<Rightarrow> selector" where
  "empty_selector p b = \<lparr>registrations = [], waker_handle = invalid_native_handle p, backend = b, iocp = 0,
     afd_handle = 0, waker_active = False\<rparr>"

lemma io_ok_new_selector:
  assumes "io_ok env w"
  shows "io_ok env (w\<lparr>next_addr := Suc (next_addr w), selectors := (selectors w)(next_addr w \<mapsto> empty_selector (platform env) b)\<rparr>)"
proof -
  have "io_ok env (w\<lparr>next_addr := Suc (next_addr w)\<rparr>)" using assms by (rule io_ok_next)
  then show ?thesis
    by (auto simp: io_ok_def tables_ok_def refs_ok_def afd_ok_def registrations_ok_def empty_selector_def)
qed

lemma Selector_new_posix:
  assumes posix: "platform env \<noteq> Windows" and ok: "io_ok env w" and run: "Selector_new env w = (r, w')"
  shows "io_ok env w' \<and> cur_events w' = cur_events w \<and>
    ((\<exists>e. r = Throw e) \<and> selectors w' = selectors w
     \<or> (\<exists>this b. r = Ret this \<and> selectors w this = None
          \<and> selectors w' = (selectors w)(this \<mapsto> empty_selector (platform env) b)))"
proof -
  have fresh: "selectors w (next_addr w) = None"
    using ok by (cases "selectors w (next_addr w)") (auto simp: io_ok_def tables_ok_def)
  have close_exec: "set_descriptor_close_on_exec fd env w1 = (r1, w2) \<Longrightarrow>
      objects w2 = objects w1 \<and> (r1 = Ret () \<or> (\<exists>e. r1 = Throw e))" for fd r1 w1 and w2 :: io_world
    by (auto simp: set_descriptor_close_on_exec_def comp_simps Let_def split: if_splits)
  show ?thesis
  proof (cases "platform env")
    case Windows
    then show ?thesis using posix by simp
  next
    case Linux
    have "io_ok env (logged env Epoll_create1 w)" using ok by simp
    note new = io_ok_new_selector [OF this, of "ret (answer env (history w) Epoll_create1)"]
    show ?thesis
      using run Linux ok fresh new
      by (auto simp: Selector_new_def ensure_socket_runtime_def comp_simps empty_selector_def split: if_splits)
  next
    case Poll_Unix
    then show ?thesis
      using run ok fresh io_ok_new_selector [OF ok, of "-1"]
      by (auto simp: Selector_new_def ensure_socket_runtime_def comp_simps empty_selector_def)
  next
    case Kqueue
    let ?fd = "ret (answer env (history w) Kqueue_create)" and ?w = "logged env Kqueue_create w"
    obtain r1 w1 where ce: "set_descriptor_close_on_exec ?fd env ?w = (r1, w1)" by (meson surj_pair)
    have obj: "objects w1 = objects ?w" "r1 = Ret () \<or> (\<exists>e. r1 = Throw e)" using close_exec [OF ce] by auto
    then have same: "io_ok env w1" "selectors w1 = selectors w" "cur_events w1 = cur_events w" "next_addr w1 = next_addr w"
      using io_ok_cong [OF obj(1)] ok by (auto simp: objects_def)
    have step: "bnd (set_descriptor_close_on_exec ?fd) f env ?w = (case r1 of Ret u \<Rightarrow> f u env w1 | Throw e \<Rightarrow> (Throw e, w1))"
      for f :: "unit \<Rightarrow> (io_world, nat) comp"
      using ce obj(2) by (auto simp: bnd_def)
    from obj(2) show ?thesis
      using run Kqueue ok fresh io_ok_new_selector [OF same(1), of ?fd] same
      by (auto simp: Selector_new_def ensure_socket_runtime_def comp_simps step empty_selector_def split: if_splits) metis+
  qed
qed

text \<open>
  When the flags of a new kqueue cannot be read, the constructor throws without closing it: no
  object owns the descriptor yet, and the destructor of the selector does not run.
\<close>

lemma Selector_new_leaks_kqueue:
  assumes "platform env = Kqueue" "fd = ret (answer env (history w) Kqueue_create)" "fd \<noteq> -1"
    and "ret (answer env (history (logged env Kqueue_create w)) (Fcntl_getfd fd)) = -1"
  shows "\<exists>e. Selector_new env w = (Throw e, logged env (Fcntl_getfd fd) (logged env Kqueue_create w))"
  using assms
  by (simp add: Selector_new_def ensure_socket_runtime_def set_descriptor_close_on_exec_def comp_simps Let_def)

lemma Poll_new_posix:
  assumes "platform env \<noteq> Windows" "io_ok env w" "Poll_new env w = (Ret (poll, ec), w')" "poll_selector poll = Some this"
  shows "poll_registry poll = Some this \<and> io_ok env w' \<and> cur_events w' = cur_events w \<and> selectors w this = None
    \<and> (\<exists>b. selectors w' = (selectors w)(this \<mapsto> empty_selector (platform env) b))"
proof -
  obtain r1 w1 where new: "bnd allocate (\<lambda>_. Selector_new) env w = (r1, w1)" by (meson surj_pair)
  have r: "r1 = Ret this \<and> w' = w1 \<and> poll_registry poll = Some this"
    using assms(3,4) new
    by (cases r1) (auto simp: Poll_new_def reporting_def noexcept_def catch_def bnd_def comp_simps split: option.splits)
  have ok: "io_ok env (logged env Alloc w)" using assms(2) by simp
  have "Selector_new env (logged env Alloc w) = (Ret this, w1)"
    using new r by (auto simp: comp_simps split: if_splits)
  from Selector_new_posix [OF assms(1) ok this] r show ?thesis by auto
qed

text \<open>The life of a \<open>Poll\<close> without other owners: its destruction closes the epoll instance it opened.\<close>

lemma Poll_lifetime:
  assumes linux: "platform env = Linux" and new: "io_ok env w" "Poll_new env w = (Ret (poll, ec), w1)" "poll_selector poll = Some this"
  shows "\<exists>b w2. Poll_destroy 0 poll env w1 = (Ret (), w2) \<and> selectors w2 = selectors w
    \<and> history w2 = history w1 @ (if 0 \<le> b then [(Close b, answer env (history w1) (Close b))] else [])"
proof -
  obtain b where b: "selectors w1 = (selectors w)(this \<mapsto> empty_selector Linux b)" "selectors w this = None"
    using Poll_new_posix [OF _ new] linux by auto
  then have restored: "(selectors w1)(this := None) = selectors w" by (auto simp: fun_eq_iff)
  have "Poll_destroy 0 poll env w1 = (Ret (), (if 0 \<le> b then logged env (Close b) w1 else w1)\<lparr>selectors := selectors w\<rparr>)"
    using linux new(3) b(1) restored
    by (simp add: Poll_destroy_def Selector_destroy_def close_descriptor_def empty_selector_def comp_simps)
  then show ?thesis by (intro exI [of _ b]) auto
qed

end
