(* ===== verification/Wake_Delivery.thy ===== *)
theory Wake_Delivery
  imports Epoll_Mirror
begin

text \<open>
  From the mirror of \<open>Epoll_Mirror\<close> and the delivery loop of \<open>Select\<close>: a wake
  of a \<open>Waker\<close> reaches the next wait on Linux. The hypotheses on the kernel are the
  documented behaviour of epoll and eventfd, stated over the history of calls; a concrete
  kernel meets them.
\<close>

section \<open>An eventfd between two waits\<close>

text \<open>
  What the history says of a descriptor: whether it is an eventfd, and whether it was written to
  after the last wait and the last read. This is the edge of an edge-triggered registration,
  as eventfd(2) and epoll(7) document it.
\<close>

fun eventfd_call :: "int \<Rightarrow> call \<times> reply \<Rightarrow> bool \<times> bool \<Rightarrow> bool \<times> bool" where
  "eventfd_call fd (Eventfd, k) s = (if ret k = fd then (True, False) else s)"
| "eventfd_call fd (Close f, k) s = (if f = fd then (False, False) else s)"
| "eventfd_call fd (Write f bs, k) s = (if f = fd \<and> ret k \<noteq> -1 then (fst s, fst s) else s)"
| "eventfd_call fd (Read f n, k) s = (if f = fd then (fst s, False) else s)"
| "eventfd_call fd (Epoll_wait e n t, k) s = (fst s, False)"
| "eventfd_call fd (_, k) s = s"

definition eventfd_state :: "int \<Rightarrow> history \<Rightarrow> bool \<times> bool" where
  "eventfd_state fd h = fold (eventfd_call fd) h (False, False)"

lemma eventfd_state_append [simp]:
  "eventfd_state fd (h @ h') = fold (eventfd_call fd) h' (eventfd_state fd h)"
  by (simp add: eventfd_state_def)

text \<open>The calls of the operations on the table.\<close>

fun table_call :: "call \<Rightarrow> bool" where
  "table_call Alloc = True"
| "table_call (Epoll_ctl e c fd ev) = True"
| "table_call _ = False"

definition only_table_calls :: "io_world \<Rightarrow> io_world \<Rightarrow> bool" where
  "only_table_calls w w' \<longleftrightarrow> (\<exists>xs. history w' = history w @ xs \<and> list_all (table_call \<circ> fst) xs)"

lemma only_table_calls_trans:
  "only_table_calls w w1 \<Longrightarrow> only_table_calls w1 w2 \<Longrightarrow> only_table_calls w w2"
  by (auto simp: only_table_calls_def)

lemma only_table_callsI: "history w' = history w @ xs \<Longrightarrow> list_all (table_call \<circ> fst) xs \<Longrightarrow> only_table_calls w w'"
  by (auto simp: only_table_calls_def)

lemma eventfd_table_calls:
  assumes "only_table_calls w w'"
  shows "eventfd_state fd (history w') = eventfd_state fd (history w)"
proof -
  have "fold (eventfd_call fd) xs s = s" if "list_all (table_call \<circ> fst) xs" for xs s
    using that
  proof (induction xs)
    case (Cons x xs)
    then show ?case by (cases x; cases "fst x") auto
  qed simp
  moreover obtain xs where "history w' = history w @ xs" "list_all (table_call \<circ> fst) xs"
    using assms by (auto simp: only_table_calls_def)
  ultimately show ?thesis by simp
qed

lemma Selector_add_calls:
  assumes "platform env = Linux" "selectors w this = Some s" "Selector_add this h k t i d env w = (r, w')"
  shows "only_table_calls w w'"
  using assms
  by (auto simp: Selector_add_def emplace_registration_def add_to_backend_def add_epoll_def catch_def
      erase_registration_def comp_simps only_table_calls_def split: if_splits option.splits)

lemma selector_exec_calls:
  assumes "platform env = Linux" "selectors w this = Some s" "selector_exec env this c w = (r, w')"
  shows "only_table_calls w w'"
proof (cases c)
  case (Add h k t i d)
  then show ?thesis using Selector_add_calls [OF assms(1,2)] assms(3) by simp
next
  case (Update h k t i)
  then show ?thesis using assms
    by (auto simp: Selector_update_def update_backend_def update_epoll_def comp_simps only_table_calls_def
        split: if_splits option.splits)
next
  case (Remove h)
  then show ?thesis using assms
    by (auto simp: Selector_remove_def remove_from_backend_def remove_epoll_def noexcept_def catch_def comp_simps
        only_table_calls_def split: option.splits)
qed

text \<open>A sequence of operations on other handles leaves a registration alone.\<close>

fun op_handle :: "table_op \<Rightarrow> int" where
  "op_handle (Add h k t i d) = h"
| "op_handle (Update h k t i) = h"
| "op_handle (Remove h) = h"

fun op_drains :: "table_op \<Rightarrow> bool" where
  "op_drains (Add h k t i d) = d"
| "op_drains _ = False"

lemma exec_all_elsewhere:
  assumes "platform env = Linux" "selector_live env this w" "exec_all (selector_exec env this) cs w = (rs, w')"
    "Terminate \<notin> snd ` set rs" "\<forall>c \<in> set cs. op_handle c \<noteq> h \<and> \<not> op_drains c"
  shows "selector_table this w' h = selector_table this w h \<and> only_table_calls w w' \<and> h \<notin> refused_changes rs
    \<and> drained_handles (selector_table this w') \<subseteq> drained_handles (selector_table this w)"
  using assms(2-)
proof (induction cs arbitrary: w rs)
  case Nil
  then show ?case by (auto simp: only_table_calls_def)
next
  case (Cons c cs)
  obtain r w1 where e: "selector_exec env this c w = (r, w1)" by (meson surj_pair)
  obtain rs2 w2 where a: "exec_all (selector_exec env this) cs w1 = (rs2, w2)" by (meson surj_pair)
  from Cons.prems e a have r: "r \<noteq> Terminate" and eq: "rs = (c, r) # rs2" "w' = w2" by (auto split: if_splits)
  have live: "selector_live env this w1" using selector.invar_exec [OF Cons.prems(1) e] .
  have c: "op_handle c \<noteq> h" "\<not> op_drains c" using Cons.prems(4) by auto
  note step = selector.exec_step [OF Cons.prems(1) e r]
  have here: "selector_table this w1 h = selector_table this w h"
    using step c(1) by (cases c) (auto elim!: table_step_AddE table_step_UpdateE table_step_RemoveE)
  have drained: "drained_handles (selector_table this w1) \<subseteq> drained_handles (selector_table this w)"
    using step c(2) by (cases c) (auto simp: drained_handles_def entry_def
        elim!: table_step_AddE table_step_UpdateE table_step_RemoveE split: if_splits)
  have calls: "only_table_calls w w1"
    using Cons.prems(1) selector_exec_calls [OF assms(1) _ e] by (auto elim: selector_liveE)
  have refused: "refused_changes rs = refused_changes [(c, r)] \<union> refused_changes rs2" "h \<notin> refused_changes [(c, r)]"
    using c(1) by (cases c; simp add: eq)+
  have "selector_table this w' h = selector_table this w1 h \<and> only_table_calls w1 w' \<and> h \<notin> refused_changes rs2
    \<and> drained_handles (selector_table this w') \<subseteq> drained_handles (selector_table this w1)"
    using Cons.IH [OF live, of rs2] a eq Cons.prems(3,4) by simp
  with here drained refused only_table_calls_trans [OF calls, of w'] show ?case by auto
qed

section \<open>From the wake to the event\<close>

lemma add_waker_mirrors:
  assumes linux: "platform env = Linux" and live: "selector_live env this w" and m: "mirrored stale this w"
    and run: "add_waker this h t env w = (Ret (), w')"
  shows "mirrored stale this w' \<and> only_table_calls w w'"
proof -
  obtain s where s: "io_ok env w" "selectors w this = Some s" using live by (rule selector_liveE)
  obtain w1 where add: "Selector_add this h Kind_raw_descriptor t READABLE True env w = (Ret (), w1)"
    and rest: "with_selector this (\<lambda>s. set_selector this (s\<lparr>waker_handle := h\<rparr>)) env w1 = (Ret (), w')"
    using run linux by (auto simp: add_waker_def bnd_asks bnd_eq_Ret)
  obtain s1 where "selectors w1 this = Some s1"
    using Selector_add_result [OF add s] by (auto simp: on_selector_def)
  with rest have "w' = w1\<lparr>selectors := (selectors w1)(this \<mapsto> s1\<lparr>waker_handle := h\<rparr>)\<rparr>" by (simp add: comp_simps)
  with \<open>selectors w1 this = Some s1\<close> have "mirrored stale this w' = mirrored stale this w1" "history w' = history w1"
    by (simp_all add: mirrored_Some)
  then show ?thesis
    using Selector_add_mirrors [OF linux s(2) m add] Selector_add_calls [OF linux s(2) add]
    by (simp add: only_table_calls_def)
qed

lemma WakerState_new_mirrors:
  assumes linux: "platform env = Linux" and live: "selector_live env this w" and m: "mirrored stale this w"
    and run: "WakerState_new (Some this) t env w = (Ret st, w')"
  shows "mirrored stale this w' \<and> fst (eventfd_state (read_handle st) (history w'))"
proof -
  let ?fd = "ret (answer env (history w) Eventfd)" and ?w = "logged env Eventfd w"
  obtain s where s: "selectors w this = Some s" using live by (auto elim: selector_liveE)
  have "0 \<le> ?fd"
    using run linux by (auto simp: WakerState_new_def OwnedDescriptor_valid_def comp_simps Let_def split: if_splits)
  then have "bnd (unwind (add_waker this ?fd t) (OwnedDescriptor_destroy ?fd)) (\<lambda>_. return \<lparr>ws_selector = Some this,
      ws_token = t, read_handle = ?fd, write_handle = ?fd, owned_read = ?fd, owned_write = -1\<rparr>) env ?w = (Ret st, w')"
    using run linux by (simp add: WakerState_new_def OwnedDescriptor_valid_def comp_simps Let_def)
  then have add: "add_waker this ?fd t env ?w = (Ret (), w')" and fd: "read_handle st = ?fd"
    by (auto simp: bnd_eq_Ret unwind_def catch_def comp_simps split: prod.splits outcome.splits)
  have "selector_live env this ?w" using live by simp
  moreover have "mirrored stale this ?w" using m s by (simp add: mirrored_Some)
  ultimately have "mirrored stale this w' \<and> only_table_calls ?w w'" using add_waker_mirrors [OF linux _ _ add] by blast
  then show ?thesis using eventfd_table_calls [of ?w w' ?fd] by (simp add: fd)
qed

text \<open>
  The contract of the kernel: \<open>epoll_wait\<close> stores as many records as it returns, at
  most as many as there is room for, and unless it fails or fills the room, a watched eventfd
  that was written to since the last wait is among them.
\<close>

definition epoll_contract :: "env \<Rightarrow> bool" where
  "epoll_contract env \<longleftrightarrow> (\<forall>h ep n t. let k = answer env h (Epoll_wait ep n t) in
     ret k = -1 \<or> (ret k = int (length (out_events k)) \<and> ret k \<le> n \<and> (ret k = n \<or>
       (\<forall>fd ev. interest_list ep h fd = Some ev \<longrightarrow> ep_events ev AND EPOLLIN \<noteq> 0 \<longrightarrow> snd (eventfd_state fd h) \<longrightarrow>
          (\<exists>raw \<in> set (out_events k). ep_fd raw = ep_fd ev \<and> ep_events raw AND EPOLLIN \<noteq> 0)))))"

text \<open>A read resets the counter of an eventfd, so that a read right after it finds nothing.\<close>

definition read_empties :: "env \<Rightarrow> int \<Rightarrow> bool" where
  "read_empties env fd \<longleftrightarrow> (\<forall>h k. ret (answer env (h @ [(Read fd 256, k)]) (Read fd 256)) \<le> 0)"

lemma drain_returns:
  assumes "read_empties env fd"
  shows "fst (drain_descriptor fd env w) = Ret ()"
proof -
  have "read_result env fd (Suc 0) w \<le> 0" using assms by (simp add: read_result_def read_empties_def)
  from drain_loop_least [OF this] show ?thesis by (auto simp: drain_descriptor_def)
qed

lemma epoll_delivery_returns:
  assumes s: "tables this = Some s"
    and reads: "\<And>h r. map_of (registrations s) h = Some r \<Longrightarrow> reg_auto_drain r \<Longrightarrow> read_empties env (reg_handle r)"
  shows "event_delivery env tables (deliver_epoll this) (epoll_report s) (\<lambda>_. False)"
proof
  fix w x r w'
  assume w: "selectors w = tables" "roomy w \<or> allocations_succeed env" and run: "deliver_epoll this x env w = (r, w')"
  have d: "selectors w' = tables \<and> (r = Ret () \<or> r = Diverge \<and> epoll_drains s x)
      \<and> items w' = items w @ List.map_filter (epoll_report s) [x] \<and> (roomy w \<longrightarrow> capacity w' = capacity w)"
    using event_delivery.delivers [OF epoll_delivery [of tables this s env, OF s] w run] .
  have "r \<noteq> Diverge"
  proof (cases "map_of (registrations s) (ep_fd x)")
    case None
    then show ?thesis using d by (auto simp: epoll_drains_def)
  next
    case (Some reg)
    obtain rc ro er wc where run': "bnd (push_event (reg_token reg) rc er ro wc) (\<lambda>_. if reg_auto_drain reg \<and> ep_events x AND EPOLLIN \<noteq> 0
        then drain_descriptor (reg_handle reg) else return ()) env w = (r, w')"
      using run w(1) s Some by (simp add: deliver_epoll_def comp_simps Let_def)
    obtain r1 w1 where p: "push_event (reg_token reg) rc er ro wc env w = (r1, w1)" by (meson surj_pair)
    then have "(if reg_auto_drain reg \<and> ep_events x AND EPOLLIN \<noteq> 0 then drain_descriptor (reg_handle reg) else return ()) env w1 = (r, w')"
      using run' push_event_result [OF w(2) p] by (simp add: bnd_def)
    then show ?thesis using drain_returns [OF reads [OF Some], of w1] by (auto simp: comp_simps split: if_splits)
  qed
  with d show "selectors w' = tables \<and> (r = Ret () \<or> r = Diverge \<and> False)
      \<and> items w' = items w @ List.map_filter (epoll_report s) [x] \<and> (roomy w \<longrightarrow> capacity w' = capacity w)" by simp
qed

lemma signalled_wait:
  assumes linux: "platform env = Linux" and live: "selector_live env this w" and m: "mirrored stale this w"
    and h: "h \<notin> stale" "selector_table this w h = Some (entry h Kind_raw_descriptor t READABLE True)"
    and drains: "drained_handles (selector_table this w) \<subseteq> {h}" "read_empties env h"
    and signal: "snd (eventfd_state h (history w))" and contract: "epoll_contract env"
    and cap: "0 < ev_capacity (cur_events w)" "int (ev_capacity (cur_events w)) \<le> INT_MAX"
    and mem: "ret (answer env (history w) Alloc) \<noteq> 0" and s: "selectors w this = Some s"
    and k: "k = answer env (history w @ [(Alloc, answer env (history w) Alloc)])
      (Epoll_wait (backend s) (int (ev_capacity (cur_events w))) (epoll_timeout_ms timeout))"
    and room: "ret k \<noteq> -1" "ret k < int (ev_capacity (cur_events w))"
    and run: "select this timeout env w = (r, w')"
  shows "r = Ret () \<and> (\<exists>e \<in> set (ev_items (cur_events w')). ev_token e = t \<and> is_readable (ev_readiness e))"
proof -
  have ok: "registrations_ok Linux s" using live s linux by (auto simp: selector_live_def dest: io_ok_selector)
  obtain reg where reg: "map_of (registrations s) h = Some reg" "strip reg = entry h Kind_raw_descriptor t READABLE True"
    using h(2) s by (auto simp: selector_table_def reg_map_def)
  then have tok: "reg_token reg = t" "reg_interests reg = READABLE"
    by (cases reg; simp add: strip_def entry_def)+
  have reads: "read_empties env (reg_handle r1)" if "map_of (registrations s) h1 = Some r1" "reg_auto_drain r1" for h1 r1
  proof -
    have "h1 \<in> drained_handles (selector_table this w)"
      using that s by (auto simp: drained_handles_def selector_table_def reg_map_def strip_def)
    then show ?thesis using drains ok map_of_SomeD [OF that(1)] by (auto simp: registrations_ok_def)
  qed
  have c: "ret k = int (length (out_events k)) \<and> ret k \<le> int (ev_capacity (cur_events w))"
    and sig: "\<And>fd ev. interest_list (backend s) (history w) fd = Some ev \<Longrightarrow> ep_events ev AND EPOLLIN \<noteq> 0 \<Longrightarrow>
      snd (eventfd_state fd (history w)) \<Longrightarrow> \<exists>raw \<in> set (out_events k). ep_fd raw = ep_fd ev \<and> ep_events raw AND EPOLLIN \<noteq> 0"
    using contract room unfolding epoll_contract_def k by (force simp: Let_def)+
  have "interest_list (backend s) (history w) h = Some (epoll_registration h READABLE)"
    using m s map_of_SomeD [OF reg(1)] h(1) tok(2) by (fastforce simp: mirrored_Some mirrored_entry_def)
  then obtain raw where raw: "raw \<in> set (out_events k)" "ep_fd raw = h" "ep_events raw AND EPOLLIN \<noteq> 0"
    using sig signal by (fastforce simp: epoll_registration_def to_epoll_events_def flag_simps epoll_masks)
  have "event_delivery env (selectors w) (deliver_epoll this) (epoll_report s) (\<lambda>_. False)"
    using s reads by (rule epoll_delivery_returns)
  then have "wait_outcome ''epoll_wait'' k (List.map_filter (epoll_report s) (out_events k)) (list_ex (\<lambda>_. False) (out_events k)) w r w'"
    using select_epoll_delivers [OF linux s cap mem k _ _ run] c by blast
  then have res: "r = Ret ()" "ev_items (cur_events w') = List.map_filter (epoll_report s) (out_events k)"
    using room(1) by (auto simp: wait_outcome_def list_ex_iff)
  obtain e where e: "epoll_report s raw = Some e" "ev_token e = t" "is_readable (ev_readiness e)"
    using reg(1) raw(2,3) tok(1)
    by (auto simp: epoll_report_def Event_new_def Let_def tests_from_epoll_events epoll_masks u32_and_bit)
  then show ?thesis using res raw(1) by (auto simp: List.map_filter_def intro!: bexI [of _ e] image_eqI [of _ _ raw])
qed

lemma Waker_new_Some:
  assumes "Waker_new reg t env w = (Ret (Some st, ec), w')"
  shows "WakerState_new reg t env (logged env Alloc w) = (Ret st, w')"
proof -
  obtain r1 w1 where new: "bnd allocate (\<lambda>_. WakerState_new reg t) env w = (r1, w1)" by (meson surj_pair)
  then have "r1 = Ret st \<and> w' = w1"
    using assms by (cases r1) (auto simp: Waker_new_def reporting_def noexcept_def catch_def bnd_def comp_simps
        split: option.splits)
  then show ?thesis using new by (auto simp: comp_simps split: if_splits)
qed

lemma Waker_wake_calls:
  assumes "platform env = Linux" "Waker_wake (Some st) env w = (Ret ec, w')"
  shows "w' = logged env (Write (write_handle st) (uint64_one (host_endian env))) w"
  using assms
  by (auto simp: Waker_wake_def WakerState_wake_def reporting_void_def reporting_def noexcept_def catch_def bnd_def
      comp_simps split: if_splits option.splits)

section \<open>A kernel for the witnesses\<close>

text \<open>
  It hands out the descriptors 3 and 6, accepts every \<open>epoll_ctl\<close> except changes, and
  reports exactly the watched eventfds that were written to.
\<close>

definition opened_eventfds :: "history \<Rightarrow> int list" where
  "opened_eventfds h = map (ret \<circ> snd) (filter (\<lambda>x. fst x = Eventfd) h)"

definition ready_records :: "int \<Rightarrow> history \<Rightarrow> epoll_event list" where
  "ready_records ep h = List.map_filter (\<lambda>fd. case interest_list ep h fd of
       None \<Rightarrow> None
     | Some ev \<Rightarrow> if ep_events ev AND EPOLLIN \<noteq> 0 \<and> snd (eventfd_state fd h)
         then Some \<lparr>ep_events = EPOLLIN, ep_fd = ep_fd ev\<rparr> else None) (opened_eventfds h)"

definition kernel_answer :: "history \<Rightarrow> call \<Rightarrow> reply" where
  "kernel_answer h c = (case c of
     Alloc \<Rightarrow> plain 1 0
   | Epoll_create1 \<Rightarrow> plain 3 0
   | Eventfd \<Rightarrow> plain 6 0
   | Write _ bs \<Rightarrow> plain (int (length bs)) 0
   | Read _ _ \<Rightarrow> plain (-1) 11
   | Epoll_ctl _ EPOLL_CTL_MOD _ _ \<Rightarrow> plain (-1) 2
   | Epoll_wait ep n t \<Rightarrow>
       (if n < 0 then plain (-1) 22
        else (plain (min n (int (length (ready_records ep h)))) 0)\<lparr>out_events := take (nat n) (ready_records ep h)\<rparr>)
   | _ \<Rightarrow> plain 0 0)"

definition kernel_env :: env where
  "kernel_env = \<lparr>platform = Linux, host_endian = Little, macro_defined = (\<lambda>_. True), answer = kernel_answer\<rparr>"

definition no_objects :: io_world where
  "no_objects = (one_selector Linux [])\<lparr>selectors := Map.empty\<rparr>"

lemma eventfd_opened:
  "(fst (eventfd_state fd h) \<longrightarrow> fd \<in> set (opened_eventfds h)) \<and> (snd (eventfd_state fd h) \<longrightarrow> fst (eventfd_state fd h))"
proof (induction h rule: rev_induct)
  case Nil
  then show ?case by (simp add: eventfd_state_def)
next
  case (snoc x h)
  obtain c k where x: "x = (c, k)" by (cases x)
  show ?case using snoc unfolding x by (cases c) (auto simp: opened_eventfds_def)
qed

lemma kernel_contract: "epoll_contract kernel_env"
proof -
  have found: "\<exists>raw \<in> set (ready_records ep h). ep_fd raw = ep_fd ev \<and> ep_events raw AND EPOLLIN \<noteq> 0"
    if "interest_list ep h fd = Some ev" "ep_events ev AND EPOLLIN \<noteq> 0" "snd (eventfd_state fd h)" for ep h fd ev
  proof -
    have "fd \<in> set (opened_eventfds h)" using eventfd_opened that(3) by blast
    then show ?thesis using that
      by (force simp: ready_records_def List.map_filter_def EPOLLIN_def)
  qed
  show ?thesis
    unfolding epoll_contract_def
    using found by (auto simp: kernel_env_def kernel_answer_def plain_def Let_def min_def)
qed

lemma kernel_read_empties: "read_empties kernel_env fd"
  by (simp add: read_empties_def kernel_env_def kernel_answer_def)

lemma no_objects_ok: "io_ok env no_objects"
  by (simp add: no_objects_def one_selector_def io_ok_def tables_ok_def afd_ok_def)

lemma kernel_replies [simp]:
  "platform kernel_env = Linux" "host_endian kernel_env = Little"
  "answer kernel_env h Alloc = plain 1 0" "answer kernel_env h Epoll_create1 = plain 3 0"
  "answer kernel_env h Eventfd = plain 6 0" "answer kernel_env h (Write fd bs) = plain (int (length bs)) 0"
  "answer kernel_env h (Epoll_ctl ep EPOLL_CTL_ADD fd ev) = plain 0 0"
  "answer kernel_env h (Epoll_ctl ep EPOLL_CTL_MOD fd ev) = plain (-1) 2"
  by (simp_all add: kernel_env_def kernel_answer_def)

definition kernel_polled :: io_world where
  "kernel_polled = (logged kernel_env Epoll_create1 (logged kernel_env Alloc no_objects))
     \<lparr>next_addr := 3, selectors := [2 \<mapsto> empty_selector Linux 3]\<rparr>"

lemma kernel_new:
  "Selector_new kernel_env (logged kernel_env Alloc no_objects) = (Ret 2, kernel_polled)"
  by (simp add: Selector_new_def ensure_socket_runtime_def no_objects_def one_selector_def kernel_polled_def
      empty_selector_def comp_simps logged_def)

lemma kernel_poll:
  "Poll_new kernel_env no_objects = (Ret (\<lparr>poll_selector = Some 2, poll_registry = Some 2\<rparr>, cleared), kernel_polled)"
  using kernel_new
  by (simp add: Poll_new_def reporting_def noexcept_def catch_def bnd_def comp_simps)


definition kernel_waker :: WakerState where
  "kernel_waker = \<lparr>ws_selector = Some 2, ws_token = Token 3, read_handle = 6, write_handle = 6,
     owned_read = 6, owned_write = -1\<rparr>"

definition kernel_waiting :: "registration list \<Rightarrow> history \<Rightarrow> io_world \<Rightarrow> bool" where
  "kernel_waiting rs h w \<longleftrightarrow> cur_events w = Events_new 4 \<and> history w = history kernel_polled @ h
     \<and> (\<exists>s. selectors w 2 = Some s \<and> backend s = 3 \<and> registrations s = map (\<lambda>r. (reg_handle r, r)) rs)"

lemma kernel_add:
  assumes "kernel_waiting rs h w" "validation_error Linux fd i = None" "fd \<notin> reg_handle ` set rs"
  shows "\<exists>w'. Selector_add 2 fd k t i d kernel_env w = (Ret (), w')
    \<and> kernel_waiting (entry fd k t i d # rs)
        (h @ [(Alloc, plain 1 0), (Epoll_ctl 3 EPOLL_CTL_ADD fd (Some (epoll_registration fd i)), plain 0 0)]) w'"
proof -
  obtain s where "selectors w 2 = Some s" "backend s = 3" "registrations s = map (\<lambda>r. (reg_handle r, r)) rs"
    using assms(1) by (auto simp: kernel_waiting_def)
  moreover from this assms(3) have "map_of (registrations s) fd = None" by (auto simp: map_of_eq_None_iff)
  ultimately show ?thesis using assms(1,2)
    by (auto simp: Selector_add_def emplace_registration_def add_to_backend_def add_epoll_def catch_def
        comp_simps kernel_waiting_def entry_def)
qed

lemma kernel_new_waker:
  "\<exists>w1. Waker_new (Some 2) (Token 3) kernel_env kernel_polled = (Ret (Some kernel_waker, cleared), w1)
     \<and> kernel_waiting [entry 6 Kind_raw_descriptor (Token 3) READABLE True]
       [(Alloc, plain 1 0), (Eventfd, plain 6 0), (Alloc, plain 1 0),
        (Epoll_ctl 3 EPOLL_CTL_ADD 6 (Some (epoll_registration 6 READABLE)), plain 0 0)] w1"
proof -
  let ?w = "logged kernel_env Eventfd (logged kernel_env Alloc kernel_polled)"
  have "kernel_waiting [] [(Alloc, plain 1 0), (Eventfd, plain 6 0)] ?w"
    by (simp add: kernel_waiting_def kernel_polled_def empty_selector_def no_objects_def one_selector_def)
  from kernel_add [OF this, of 6 READABLE Kind_raw_descriptor "Token 3" True] obtain w1 where
    add: "Selector_add 2 6 Kind_raw_descriptor (Token 3) READABLE True kernel_env ?w = (Ret (), w1)"
    and w1: "kernel_waiting [entry 6 Kind_raw_descriptor (Token 3) READABLE True]
       [(Alloc, plain 1 0), (Eventfd, plain 6 0), (Alloc, plain 1 0),
        (Epoll_ctl 3 EPOLL_CTL_ADD 6 (Some (epoll_registration 6 READABLE)), plain 0 0)] w1"
    by (auto simp: validation_error_def invalid_native_handle_def)
  obtain s where s: "selectors w1 2 = Some s" using w1 by (auto simp: kernel_waiting_def)
  let ?w1 = "w1\<lparr>selectors := (selectors w1)(2 \<mapsto> s\<lparr>waker_handle := 6\<rparr>)\<rparr>"
  have "add_waker 2 6 (Token 3) kernel_env ?w = (Ret (), ?w1)"
    using add s by (simp add: add_waker_def bnd_def [of "Selector_add _ _ _ _ _ _"] comp_simps)
  then have "WakerState_new (Some 2) (Token 3) kernel_env (logged kernel_env Alloc kernel_polled) = (Ret kernel_waker, ?w1)"
    by (simp add: WakerState_new_def OwnedDescriptor_valid_def bnd_unwind comp_simps Let_def kernel_waker_def)
  then have "bnd allocate (\<lambda>_. WakerState_new (Some 2) (Token 3)) kernel_env kernel_polled = (Ret kernel_waker, ?w1)"
    by (simp add: comp_simps)
  then have "Waker_new (Some 2) (Token 3) kernel_env kernel_polled = (Ret (Some kernel_waker, cleared), ?w1)"
    unfolding Waker_new_def by (rule reporting_run(1))
  then show ?thesis using w1 s by (auto simp: kernel_waiting_def)
qed


section \<open>Properties\<close>

text \<open>
  C4. From its construction on, whatever sequence of additions, changes and removals is made and
  whatever of it fails, the table of a selector on Linux is mirrored in the kernel: every
  registered handle is in the interest list, with the mask of its interests unless a change
  of that handle was refused.
\<close>

theorem epoll_mirrors_table:
  assumes "platform env = Linux" "io_ok env w0" "Selector_new env w0 = (Ret this, w)"
    and "exec_all (selector_exec env this) cs w = (rs, w')"
  shows "selector_live env this w' \<and> mirrored (refused_changes rs) this w'"
proof -
  obtain b where "io_ok env w" "selectors w this = Some (empty_selector Linux b)"
    using Selector_new_posix [OF _ assms(2,3)] assms(1) by auto
  then have "selector_live env this w" "mirrored {} this w"
    by (simp_all add: selector_live_def mirrored_def empty_selector_def)
  from exec_all_mirrors [OF assms(1) this assms(4)] show ?thesis by simp
qed

theorem epoll_mirrors_table_witness:
  "\<exists>w w' e. Selector_new kernel_env (logged kernel_env Alloc no_objects) = (Ret 2, w)
     \<and> exec_all (selector_exec kernel_env 2) [Add 5 Kind_socket (Token 7) READABLE False, Update 5 Kind_socket (Token 7) WRITABLE] w
       = ([(Add 5 Kind_socket (Token 7) READABLE False, Ret ()), (Update 5 Kind_socket (Token 7) WRITABLE, Throw e)], w')
     \<and> mirrored {5} 2 w'"
proof -
  have ok: "platform kernel_env = Linux" "io_ok kernel_env (logged kernel_env Alloc no_objects)"
    using no_objects_ok by simp_all
  have valid: "validation_error Linux 5 i = None" if "i \<in> {READABLE, WRITABLE}" for i
    using that by (auto simp: validation_error_def invalid_native_handle_def)
  have "kernel_waiting [] [] kernel_polled"
    by (simp add: kernel_waiting_def kernel_polled_def empty_selector_def no_objects_def one_selector_def)
  then obtain w1 s where add: "Selector_add 2 5 Kind_socket (Token 7) READABLE False kernel_env kernel_polled = (Ret (), w1)"
    and s: "selectors w1 2 = Some s" "map_of (registrations s) 5 \<noteq> None"
    using kernel_add [of "[]" "[]" kernel_polled 5 READABLE Kind_socket "Token 7" False] valid
    by (auto simp: kernel_waiting_def entry_def)
  obtain r2 w2 where upd: "Selector_update 2 5 Kind_socket (Token 7) WRITABLE kernel_env w1 = (r2, w2)" by (meson surj_pair)
  then obtain e where r2: "r2 = Throw e"
    using s valid by (auto simp: Selector_update_def update_backend_def update_epoll_def comp_simps)
  have run: "exec_all (selector_exec kernel_env 2) [Add 5 Kind_socket (Token 7) READABLE False, Update 5 Kind_socket (Token 7) WRITABLE] kernel_polled
       = ([(Add 5 Kind_socket (Token 7) READABLE False, Ret ()), (Update 5 Kind_socket (Token 7) WRITABLE, r2)], w2)"
    using add upd r2 by simp
  from epoll_mirrors_table [OF ok kernel_new run] run kernel_new r2 show ?thesis by auto
qed

text \<open>
  C3. A wake reaches the wait. On Linux, a \<open>Poll\<close> and a \<open>Waker\<close> on its
  registry are made, any handles other than the waker's are registered, changed and removed,
  and the waker is woken; then the next wait, unless interrupted or filled up with other
  events, returns without an error and reports an event with the waker's token that is
  readable. Besides the documented behaviour of epoll and of eventfd this rests on nothing but
  the code: the registration of the waker, the mirror, the delivery loop and the draining.
\<close>

theorem wake_is_delivered:
  assumes linux: "platform env = Linux" and ok: "io_ok env w0"
    and kernel: "epoll_contract env" "read_empties env (read_handle st)"
    and poll: "Poll_new env w0 = (Ret (poll, ec0), w)" "poll_selector poll = Some this"
    and waker: "Waker_new (poll_registry poll) t env w = (Ret (Some st, ec1), w1)"
    and ops: "exec_all (selector_exec env this) cs w1 = (rs, w2)" "Terminate \<notin> snd ` set rs"
      "\<forall>c \<in> set cs. op_handle c \<noteq> read_handle st \<and> \<not> op_drains c"
    and wake: "Waker_wake (Some st) env w2 = (Ret ec2, w3)" "ret (snd (last (history w3))) \<noteq> -1"
    and cap: "0 < ev_capacity (cur_events w3)" "int (ev_capacity (cur_events w3)) \<le> INT_MAX"
    and mem: "ret (answer env (history w3) Alloc) \<noteq> 0" and s: "selectors w3 this = Some s"
    and k: "k = answer env (history w3 @ [(Alloc, answer env (history w3) Alloc)])
      (Epoll_wait (backend s) (int (ev_capacity (cur_events w3))) (epoll_timeout_ms timeout))"
    and room: "ret k \<noteq> -1" "ret k < int (ev_capacity (cur_events w3))"
    and wait: "Poll_poll poll timeout env w3 = (r, w4)"
  shows "r = Ret cleared \<and> (\<exists>e \<in> set (ev_items (cur_events w4)). ev_token e = t \<and> is_readable (ev_readiness e))"
proof -
  have posix: "platform env \<noteq> Windows" using linux by simp
  let ?w = "logged env Alloc w" and ?fd = "read_handle st"
  have new: "poll_registry poll = Some this" "selector_live env this ?w" "mirrored {} this ?w"
    "selector_table this ?w = Map.empty"
    using Poll_new_posix [OF posix ok poll]
    by (auto simp: selector_live_def mirrored_def selector_table_def empty_selector_def reg_map_def fun_eq_iff)
  have st: "WakerState_new (Some this) t env ?w = (Ret st, w1)" using Waker_new_Some [OF waker] new(1) by simp
  note out = WakerState_new_eventfd [OF linux new(2) st, unfolded waker_outcome_def outcome.case]
  note mir = WakerState_new_mirrors [OF linux new(2,3) st]
  have w1: "selector_live env this w1" "mirrored {} this w1" "fst (eventfd_state ?fd (history w1))" "write_handle st = ?fd"
    "selector_table this w1 = [?fd \<mapsto> entry ?fd Kind_raw_descriptor t READABLE True]"
    using out mir linux new(4) by simp_all
  have w2: "selector_live env this w2" "mirrored (refused_changes rs) this w2"
    using exec_all_mirrors [OF linux w1(1,2) ops(1)] by simp_all
  have away: "selector_table this w2 ?fd = Some (entry ?fd Kind_raw_descriptor t READABLE True)"
    "?fd \<notin> refused_changes rs" "drained_handles (selector_table this w2) \<subseteq> {?fd}" "fst (eventfd_state ?fd (history w2))"
    using exec_all_elsewhere [OF linux w1(1) ops] eventfd_table_calls [of w1 w2 ?fd] w1(3,5)
    by (auto simp: drained_handles_def split: if_splits)
  have w3: "w3 = logged env (Write ?fd (uint64_one (host_endian env))) w2"
    using Waker_wake_calls [OF linux wake(1)] w1(4) by simp
  then have signal: "snd (eventfd_state ?fd (history w3))" using wake(2) away(4) by simp
  have live3: "selector_live env this w3" "selector_table this w3 = selector_table this w2" using w2(1) w3 by simp_all
  have "mirrored (refused_changes rs) this w3" using w2(2) s w3 by (simp add: mirrored_Some)
  moreover obtain r1 w5 where sel: "select this timeout env w3 = (r1, w5)" by (meson surj_pair)
  ultimately have "r1 = Ret () \<and> (\<exists>e \<in> set (ev_items (cur_events w5)). ev_token e = t \<and> is_readable (ev_readiness e))"
    using signalled_wait [OF linux live3(1) _ away(2) _ _ kernel(2) signal kernel(1) cap mem s k room sel] away live3(2)
    by simp
  then show ?thesis
    using reporting_void_run [of "select this timeout", OF sel, of catch_system] wait poll(2) by (simp add: Poll_poll_def)
qed

theorem wake_is_delivered_witness:
  "\<exists>poll w w1 w2 w3 w4. Poll_new kernel_env no_objects = (Ret (poll, cleared), w)
     \<and> Waker_new (poll_registry poll) (Token 3) kernel_env w = (Ret (Some kernel_waker, cleared), w1)
     \<and> exec_all (selector_exec kernel_env 2) [Add 5 Kind_socket (Token 7) READABLE False] w1
       = ([(Add 5 Kind_socket (Token 7) READABLE False, Ret ())], w2)
     \<and> Waker_wake (Some kernel_waker) kernel_env w2 = (Ret cleared, w3)
     \<and> Poll_poll poll None kernel_env w3 = (Ret cleared, w4)
     \<and> (\<exists>e \<in> set (ev_items (cur_events w4)). ev_token e = Token 3 \<and> is_readable (ev_readiness e))"
proof -
  let ?env = kernel_env and ?poll = "\<lparr>poll_selector = Some 2, poll_registry = Some 2\<rparr>"
  let ?h = "[(Alloc, plain 1 0), (Eventfd, plain 6 0), (Alloc, plain 1 0),
        (Epoll_ctl 3 EPOLL_CTL_ADD 6 (Some (epoll_registration 6 READABLE)), plain 0 0)]"
  obtain w1 where new: "Waker_new (Some 2) (Token 3) ?env kernel_polled = (Ret (Some kernel_waker, cleared), w1)"
    and w1: "kernel_waiting [entry 6 Kind_raw_descriptor (Token 3) READABLE True] ?h w1" using kernel_new_waker by blast
  obtain w2 h s where add: "Selector_add 2 5 Kind_socket (Token 7) READABLE False ?env w1 = (Ret (), w2)"
    and w2: "cur_events w2 = Events_new 4" "selectors w2 2 = Some s" "backend s = 3" "history w2 = history kernel_polled @ ?h @
      [(Alloc, plain 1 0), (Epoll_ctl 3 EPOLL_CTL_ADD 5 (Some (epoll_registration 5 READABLE)), plain 0 0)]"
    using kernel_add [OF w1, of 5 READABLE Kind_socket "Token 7" False]
    by (auto simp: validation_error_def invalid_native_handle_def kernel_waiting_def entry_def)
  let ?w3 = "logged ?env (Write 6 (uint64_one Little)) w2"
  have wake: "Waker_wake (Some kernel_waker) ?env w2 = (Ret cleared, ?w3)"
    by (simp add: Waker_wake_def WakerState_wake_def reporting_void_def reporting_def noexcept_def catch_def bnd_def
        comp_simps kernel_waker_def uint64_one_def)
  have run: "exec_all (selector_exec ?env 2) [Add 5 Kind_socket (Token 7) READABLE False] w1
       = ([(Add 5 Kind_socket (Token 7) READABLE False, Ret ())], w2)" using add by simp
  define k where "k = answer ?env (history ?w3 @ [(Alloc, answer ?env (history ?w3) Alloc)])
      (Epoll_wait (backend s) (int (ev_capacity (cur_events ?w3))) (epoll_timeout_ms None))"
  have ready: "ready_records 3 (history ?w3 @ [(Alloc, plain 1 0)]) = [\<lparr>ep_events = EPOLLIN, ep_fd = 6\<rparr>]"
    unfolding ready_records_def using w2(4)
    by (simp add: opened_eventfds_def map_filter_single kernel_polled_def no_objects_def one_selector_def interest_list_def
        eventfd_state_def uint64_one_def epoll_registration_def to_epoll_events_def flag_simps EPOLLIN_def Let_def)
  then have k: "ret k \<noteq> -1" "ret k < int (ev_capacity (cur_events ?w3))"
    unfolding k_def using w2 by (simp_all add: kernel_env_def kernel_answer_def Events_new_def)
  obtain r w4 where wait: "Poll_poll ?poll None ?env ?w3 = (r, w4)" by (meson surj_pair)
  have side: "platform ?env = Linux" "poll_selector ?poll = Some 2" "ret (snd (last (history ?w3))) \<noteq> -1"
    "Terminate \<notin> snd ` set [(Add 5 Kind_socket (Token 7) READABLE False, Ret ())]"
    "\<forall>c \<in> set [Add 5 Kind_socket (Token 7) READABLE False]. op_handle c \<noteq> read_handle kernel_waker \<and> \<not> op_drains c"
    "0 < ev_capacity (cur_events ?w3)" "int (ev_capacity (cur_events ?w3)) \<le> INT_MAX"
    "ret (answer ?env (history ?w3) Alloc) \<noteq> 0" "selectors ?w3 2 = Some s"
    "Waker_new (poll_registry ?poll) (Token 3) ?env kernel_polled = (Ret (Some kernel_waker, cleared), w1)"
    using w2 new by (simp_all add: kernel_waker_def uint64_one_def Events_new_def)
  note wake_is_delivered [OF side(1) no_objects_ok kernel_contract kernel_read_empties kernel_poll side(2,10) run side(4,5)
      wake side(3,6-9) k_def k wait]
  then show ?thesis using kernel_poll side(10) run wake wait by auto
qed

end
