(* ===== verification/Steady_Wait.thy ===== *)
theory Steady_Wait
  imports Select
begin

text \<open>
  The waits of the POSIX back ends leave every object alone and are never undefined, whatever
  the kernel reports within the number of records it was asked for.
\<close>

section \<open>Steady computations\<close>

text \<open>
  A computation is steady if from a world with the given objects it reaches only worlds with
  the same objects, and no undefined behaviour.
\<close>

type_synonym object_stores = "(nat \<rightharpoonup> selector) \<times> (nat \<rightharpoonup> AfdSocketState) \<times> (nat \<times> nat) list \<times> nat"

definition stores :: "io_world \<Rightarrow> object_stores" where
  "stores w = (selectors w, afd_states w, operations w, next_addr w)"

definition steady :: "env \<Rightarrow> object_stores \<Rightarrow> (io_world, 'a) comp \<Rightarrow> bool" where
  "steady env T m \<longleftrightarrow>
     (\<forall>w r w'. stores w = T \<longrightarrow> m env w = (r, w') \<longrightarrow> stores w' = T \<and> r \<noteq> Undefined)"

named_theorems steady_intros

lemma steadyD: "steady env T m \<Longrightarrow> stores w = T \<Longrightarrow> m env w = (r, w') \<Longrightarrow> stores w' = T \<and> r \<noteq> Undefined"
  by (simp add: steady_def)

lemma stores_logged [simp]: "stores (logged env c w) = stores w"
  by (simp add: stores_def)

lemma steady_basic [steady_intros]:
  "steady env T (return x)" "steady env T (throw e)" "steady env T (gets g)" "steady env T (asks k)"
  "steady env T (sys c)" "steady env T allocate" "steady env T (throw_errno what)"
  by (auto simp: steady_def comp_simps split: if_splits)

lemma steady_bnd [steady_intros]:
  assumes "steady env T m" "\<And>x. steady env T (f x)"
  shows "steady env T (bnd m f)"
  unfolding steady_def
proof (intro allI impI)
  fix w r w'
  assume T: "stores w = T" and run: "bnd m f env w = (r, w')"
  obtain r1 w1 where m: "m env w = (r1, w1)" by (meson surj_pair)
  note d = steadyD [OF assms(1) T m]
  show "stores w' = T \<and> r \<noteq> Undefined"
    using run m d steadyD [OF assms(2)] by (cases r1) (auto simp: bnd_def)
qed

lemma steady_if [steady_intros]:
  "(b \<Longrightarrow> steady env T m) \<Longrightarrow> (\<not> b \<Longrightarrow> steady env T n) \<Longrightarrow> steady env T (if b then m else n)"
  by simp

lemma steady_let [steady_intros]: "(\<And>x. steady env T (k x)) \<Longrightarrow> steady env T (let x = a in k x)"
  by simp

lemma steady_option [steady_intros]:
  "steady env T m \<Longrightarrow> (\<And>y. x = Some y \<Longrightarrow> steady env T (n y)) \<Longrightarrow>
   steady env T (case x of None \<Rightarrow> m | Some y \<Rightarrow> n y)"
  by (cases x) simp_all

lemma steady_events [steady_intros]: "steady env T (modify (\<lambda>w. w\<lparr>cur_events := f (cur_events w)\<rparr>))"
  by (simp add: steady_def comp_simps stores_def)

lemma steady_push_event [steady_intros]: "steady env T (push_event t i e rc wc)"
  by (auto simp: steady_def push_event_def comp_simps stores_def split: if_splits)

lemma steady_drain [steady_intros]: "steady env T (drain_descriptor h)"
  unfolding steady_def using drain_result by (fastforce simp: stores_def objects_def)

lemma steady_for_each [steady_intros]:
  "(\<And>x. x \<in> set xs \<Longrightarrow> steady env T (f x)) \<Longrightarrow> steady env T (for_each xs f)"
  by (induction xs) (auto intro: steady_intros)

text \<open>Looking at the selector, and a call whose reply is bounded.\<close>

lemma steady_with_selector:
  assumes "fst T this = Some s" "steady env T (k s)"
  shows "steady env T (with_selector this k)"
  unfolding steady_def
proof (intro allI impI)
  fix w r w'
  assume T: "stores w = T" and run: "with_selector this k env w = (r, w')"
  then have "selectors w this = Some s" using assms(1) by (auto simp: stores_def)
  then have "k s env w = (r, w')" using run by (simp add: comp_simps)
  with steadyD [OF assms(2) T] show "stores w' = T \<and> r \<noteq> Undefined" .
qed

lemma steady_sys:
  assumes "\<And>h. steady env T (f (answer env h c))"
  shows "steady env T (bnd (sys c) f)"
  unfolding steady_def
proof (intro allI impI)
  fix w r w'
  assume T: "stores w = T" and run: "bnd (sys c) f env w = (r, w')"
  then have "f (answer env (history w) c) env (logged env c w) = (r, w')" by (simp add: bnd_sys)
  moreover have "stores (logged env c w) = T" using T by simp
  ultimately show "stores w' = T \<and> r \<noteq> Undefined" using steadyD [OF assms] by blast
qed

lemma steady_asks: "steady env T (f (k env)) \<Longrightarrow> steady env T (bnd (asks k) f)"
  unfolding steady_def bnd_asks .

lemma steady_for_index:
  assumes "n \<le> int cap" "\<And>x. steady env T (f x)"
  shows "steady env T (for_index n (filled cap zero xs) f)"
proof -
  have "\<not> length (filled cap zero xs) < nat n" using assms(1) by (simp add: filled_def)
  then show ?thesis unfolding for_index_def by (simp add: assms(2) steady_intros)
qed

section \<open>The waits\<close>

text \<open>The kernel stores at most as many records as it was asked for.\<close>

definition bounded_waits :: "env \<Rightarrow> bool" where
  "bounded_waits env \<longleftrightarrow>
     (\<forall>h ep n t. ret (answer env h (Epoll_wait ep n t)) \<le> max 0 n)
     \<and> (\<forall>h kq cs n t. ret (answer env h (Kevent kq cs n t)) \<le> max 0 n)"

lemma int64_to_int_le: "0 \<le> x \<Longrightarrow> int64_to_int x \<le> x"
  by (simp add: int64_to_int_def sint_sbintrunc' signed_take_bit_int_less_eq_self_iff)

lemma steady_select_epoll:
  assumes "bounded_waits env" "fst T this = Some s"
  shows "steady env T (select_epoll this timeout)"
proof -
  have "steady env T (deliver_epoll this raw)" for raw
    unfolding deliver_epoll_def Selector_find_def
    by (intro steady_intros steady_with_selector [where s = s] assms(2))
  moreover have "ret (answer env h (Epoll_wait ep (int64_to_int (int n)) t)) \<le> int n" for h ep n t
    using assms(1) int64_to_int_le [of "int n"] unfolding bounded_waits_def by (smt (verit) of_nat_0_le_iff)
  ultimately show ?thesis
    unfolding select_epoll_def
    by (intro steady_intros steady_with_selector [where s = s] steady_sys steady_for_index assms(2))
qed

lemma steady_select_kqueue:
  assumes "bounded_waits env" "fst T this = Some s"
  shows "steady env T (select_kqueue this timeout)"
proof -
  have "steady env T (deliver_kqueue this event)" for event
    unfolding deliver_kqueue_def Selector_find_def
    by (intro steady_intros steady_with_selector [where s = s] assms(2))
  moreover have "ret (answer env h (Kevent kq cs (int64_to_int (int n)) t)) \<le> int n" for h kq cs n t
    using assms(1) int64_to_int_le [of "int n"] unfolding bounded_waits_def by (smt (verit) of_nat_0_le_iff)
  ultimately show ?thesis
    unfolding select_kqueue_def
    by (intro steady_intros steady_with_selector [where s = s] steady_sys steady_for_index assms(2))
qed

lemma steady_select_poll:
  assumes "fst T this = Some s"
  shows "steady env T (select_poll this timeout)"
proof -
  have "steady env T (deliver_poll x)" for x
    unfolding deliver_poll_def by (cases x) (simp add: steady_intros)
  then show ?thesis
    unfolding select_poll_def snapshot_def
    by (intro steady_intros steady_with_selector [where s = s] assms)
qed

lemma select_posix:
  assumes posix: "platform env \<noteq> Windows" "bounded_waits env" and live: "selector_live env this w"
    and run: "select this timeout env w = (r, w')"
  shows "selector_live env this w' \<and> selector_table this w' = selector_table this w \<and> r \<noteq> Undefined"
proof -
  obtain s where s: "selectors w this = Some s" using live by (auto elim: selector_liveE)
  then have T: "fst (stores w) this = Some s" by (simp add: stores_def)
  have "steady env (stores w) (bnd (asks platform) (\<lambda>p. case p of Windows \<Rightarrow> select_iocp this timeout
      | Linux \<Rightarrow> select_epoll this timeout | Kqueue \<Rightarrow> select_kqueue this timeout | Poll_Unix \<Rightarrow> select_poll this timeout))"
    using posix(1) steady_select_epoll [OF posix(2) T] steady_select_kqueue [OF posix(2) T] steady_select_poll [OF T]
    by (intro steady_asks, cases "platform env") simp_all
  then have "steady env (stores w) (select this timeout)"
    unfolding select_def by (intro steady_bnd [OF steady_events] steady_bnd [OF steady_basic(3)] steady_if steady_basic(1))
  then have "stores w' = stores w" "r \<noteq> Undefined" using run steadyD by blast+
  then show ?thesis
    using live by (simp add: stores_def selector_live_def selector_table_def io_ok_def tables_ok_def refs_ok_def afd_ok_def)
qed

end
