(* ===== verification/Event_Loop.thy ===== *)
theory Event_Loop
  imports Net_Properties Wake_Delivery Steady_Wait
begin

text \<open>
  A program around one \<open>Poll\<close> on a POSIX system: socket objects of the three classes of
  \<^verbatim>\<open>src/net.cpp\<close>, wakers, and the calls of \<^verbatim>\<open>include/ioxx/core.hpp\<close> on them, in any
  order. The components meet here: the registry and the hooks of the sources, the table of the
  selector, the waker and the wait.
\<close>

section \<open>Programs and their calls\<close>

datatype net_class = Class_TcpStream | Class_TcpListener | Class_UdpSocket

fun class_ops :: "net_class \<Rightarrow> net_source source_ops" where
  "class_ops Class_TcpStream = TcpStream_ops"
| "class_ops Class_TcpListener = TcpListener_ops"
| "class_ops Class_UdpSocket = UdpSocket_ops"

record program =
  prog_world :: io_world
  prog_sources :: "(net_class \<times> net_source) list"
  prog_wakers :: "WakerState list"

datatype api_call =
    Register_source nat token interest
  | Reregister_source nat token interest
  | Deregister_source nat
  | Poll_events "int option"
  | New_waker token
  | Wake_waker nat
  | Drop_waker nat

definition lift_io :: "(io_world, 'a) comp \<Rightarrow> (program, 'a) comp" where
  "lift_io m = (\<lambda>env p. case m env (prog_world p) of (r, w) \<Rightarrow> (r, p\<lparr>prog_world := w\<rparr>))"

definition on_source ::
  "nat \<Rightarrow> (net_class \<Rightarrow> net_source \<Rightarrow> (io_world, net_source \<times> error_code) comp) \<Rightarrow> (program, error_code) comp" where
  "on_source n m = bnd (gets (\<lambda>p. prog_sources p ! n)) (\<lambda>(c, s).
     bnd (lift_io (m c s)) (\<lambda>(s', ec).
     bnd (modify (\<lambda>p. p\<lparr>prog_sources := (prog_sources p)[n := (c, s')]\<rparr>)) (\<lambda>_. return ec)))"

fun api_exec :: "Poll \<Rightarrow> api_call \<Rightarrow> (program, error_code) comp" where
  "api_exec poll (Register_source n t i) =
     on_source n (\<lambda>c s. register_source (class_ops c) (poll_registry poll) s t i)"
| "api_exec poll (Reregister_source n t i) =
     on_source n (\<lambda>c s. reregister (class_ops c) (poll_registry poll) s t i)"
| "api_exec poll (Deregister_source n) = on_source n (\<lambda>c s. deregister (class_ops c) (poll_registry poll) s)"
| "api_exec poll (Poll_events timeout) = lift_io (Poll_poll poll timeout)"
| "api_exec poll (New_waker t) =
     bnd (lift_io (Waker_new (poll_registry poll) t)) (\<lambda>(st, ec).
     bnd (modify (\<lambda>p. case st of None \<Rightarrow> p | Some st \<Rightarrow> p\<lparr>prog_wakers := prog_wakers p @ [st]\<rparr>)) (\<lambda>_.
     return ec))"
| "api_exec poll (Wake_waker n) =
     bnd (gets (\<lambda>p. prog_wakers p ! n)) (\<lambda>st. lift_io (Waker_wake (Some st)))"
| "api_exec poll (Drop_waker n) =
     bnd (gets (\<lambda>p. prog_wakers p ! n)) (\<lambda>st.
     bnd (lift_io (Waker_destroy (Some st))) (\<lambda>_.
     bnd (modify (\<lambda>p. p\<lparr>prog_wakers := take n (prog_wakers p) @ drop (Suc n) (prog_wakers p)\<rparr>)) (\<lambda>_.
     return cleared)))"

text \<open>A call is well-formed if the object it names exists.\<close>

fun call_ok :: "program \<Rightarrow> api_call \<Rightarrow> bool" where
  "call_ok p (Register_source n t i) = (n < length (prog_sources p))"
| "call_ok p (Reregister_source n t i) = (n < length (prog_sources p))"
| "call_ok p (Deregister_source n) = (n < length (prog_sources p))"
| "call_ok p (Wake_waker n) = (n < length (prog_wakers p))"
| "call_ok p (Drop_waker n) = (n < length (prog_wakers p))"
| "call_ok p _ = True"

inductive reachable :: "env \<Rightarrow> Poll \<Rightarrow> program \<Rightarrow> program \<Rightarrow> bool" for env poll p0 where
  start: "reachable env poll p0 p0"
| step: "reachable env poll p0 p \<Longrightarrow> call_ok p c \<Longrightarrow> api_exec poll c env p = (Ret ec, p') \<Longrightarrow> reachable env poll p0 p'"

section \<open>The invariant\<close>

text \<open>
  The table of the selector is exactly what the program holds: the plain entries are those of
  the objects that remember a registration, the drained ones those of the wakers. No two
  objects share a valid handle, and no waker shares one with an object.
\<close>

definition plain_handles :: "table \<Rightarrow> int set" where
  "plain_handles m = {x. \<exists>r. m x = Some r \<and> \<not> reg_auto_drain r}"

definition source_handle :: "env \<Rightarrow> program \<Rightarrow> nat \<Rightarrow> int" where
  "source_handle env p n = net_native_handle (platform env) (snd (prog_sources p ! n))"

definition registered :: "program \<Rightarrow> nat \<Rightarrow> bool" where
  "registered p n \<longleftrightarrow> n < length (prog_sources p) \<and> net_remembers (snd (prog_sources p ! n)) \<noteq> None"

definition unshared :: "env \<Rightarrow> program \<Rightarrow> bool" where
  "unshared env p \<longleftrightarrow> (\<forall>i < length (prog_sources p). \<forall>j < length (prog_sources p).
     i \<noteq> j \<longrightarrow> source_handle env p i = source_handle env p j \<longrightarrow> source_handle env p i = invalid_native_handle (platform env))"

text \<open>Descriptors that the system hands out are not those of the program's sockets.\<close>

definition fresh_descriptors :: "env \<Rightarrow> program \<Rightarrow> bool" where
  "fresh_descriptors env p \<longleftrightarrow> (\<forall>w. \<forall>fd \<in> set (waker_descriptors env w). 0 \<le> fd
     \<and> (\<forall>n < length (prog_sources p). source_handle env p n \<noteq> fd))"

definition program_ok :: "env \<Rightarrow> nat \<Rightarrow> program \<Rightarrow> bool" where
  "program_ok env this p \<longleftrightarrow>
     selector_live env this (prog_world p) \<and> unshared env p
     \<and> plain_handles (selector_table this (prog_world p)) = source_handle env p ` {n. registered p n}
     \<and> drained_handles (selector_table this (prog_world p)) = read_handle ` set (prog_wakers p)
     \<and> distinct (map read_handle (prog_wakers p))
     \<and> (\<forall>st \<in> set (prog_wakers p). ws_selector st = Some this
          \<and> (\<forall>n < length (prog_sources p). source_handle env p n \<noteq> read_handle st))
     \<and> fresh_descriptors env p"

lemma class_source: "event_source (class_ops c) net_remembers"
  by (cases c) (simp_all add: tcp_stream.event_source_axioms tcp_listener.event_source_axioms udp_socket.event_source_axioms)

lemma class_handle [simp]: "native_handle (class_ops c) = net_native_handle"
  by (cases c) (simp_all add: TcpStream_ops_def TcpListener_ops_def UdpSocket_ops_def)

lemma table_valid:
  assumes "selector_live env this w" "selector_table this w h = Some r"
  shows "h \<noteq> invalid_native_handle (platform env)"
proof -
  obtain s where s: "io_ok env w" "selectors w this = Some s" "selector_table this w = reg_map s"
    using assms(1) by (rule selector_liveE)
  then show ?thesis using assms(2) io_ok_selector [OF s(1,2)]
    by (auto simp: reg_map_def registrations_ok_def dest!: map_of_SomeD)
qed

text \<open>Replacing an object, with what that did to the table.\<close>

lemma set_source_ok:
  assumes ok: "program_ok env this p" and n: "n < length (prog_sources p)" "prog_sources p ! n = (c, s)"
    and s': "net_native_handle (platform env) s' = source_handle env p n"
    and live: "selector_live env this w'"
    and drained: "drained_handles (selector_table this w') = drained_handles (selector_table this (prog_world p))"
    and plain: "plain_handles (selector_table this w') = plain_handles (selector_table this (prog_world p))
        \<and> (net_remembers s' = None \<longleftrightarrow> net_remembers s = None)
      \<or> source_handle env p n \<noteq> invalid_native_handle (platform env)
        \<and> plain_handles (selector_table this w') = (if net_remembers s' = None
            then plain_handles (selector_table this (prog_world p)) - {source_handle env p n}
            else insert (source_handle env p n) (plain_handles (selector_table this (prog_world p))))"
  shows "program_ok env this (p\<lparr>prog_world := w', prog_sources := (prog_sources p)[n := (c, s')]\<rparr>)"
proof -
  let ?p = "p\<lparr>prog_world := w', prog_sources := (prog_sources p)[n := (c, s')]\<rparr>"
  have h: "source_handle env ?p j = source_handle env p j" if "j < length (prog_sources p)" for j
    using that n s' by (cases "j = n") (simp_all add: source_handle_def)
  have reg: "registered ?p j \<longleftrightarrow> (if j = n then net_remembers s' \<noteq> None else registered p j)" for j
    using n by (cases "j = n") (auto simp: registered_def)
  have len: "registered p j \<Longrightarrow> j < length (prog_sources p)" for j by (simp add: registered_def)
  have old: "registered p n \<longleftrightarrow> net_remembers s \<noteq> None" using n by (simp add: registered_def)
  have un: "j = n" if "j < length (prog_sources p)" "source_handle env p j = source_handle env p n"
    "source_handle env p n \<noteq> invalid_native_handle (platform env)" for j
    using ok that n(1) unfolding program_ok_def unshared_def by metis
  have "source_handle env ?p ` {j. registered ?p j} = source_handle env p ` {j. if j = n then net_remembers s' \<noteq> None else registered p j}"
    using h len n(1) reg by (intro image_cong) (auto split: if_splits)
  also have "\<dots> = plain_handles (selector_table this w')"
    using plain ok old un len n(1) unfolding program_ok_def by (auto split: if_splits)
  finally have "plain_handles (selector_table this w') = source_handle env ?p ` {j. registered ?p j}" ..
  moreover have "unshared env ?p" using ok h by (simp add: program_ok_def unshared_def)
  moreover have "fresh_descriptors env ?p" using ok h by (simp add: program_ok_def fresh_descriptors_def)
  ultimately show ?thesis using ok live drained h by (simp add: program_ok_def)
qed

section \<open>Every call keeps the invariant\<close>

lemma on_source_run:
  assumes "prog_sources p ! n = (c, s)" "m c s env (prog_world p) = (r, w')"
  shows "on_source n m env p = (case r of
      Ret (s', ec) \<Rightarrow> (Ret ec, p\<lparr>prog_world := w', prog_sources := (prog_sources p)[n := (c, s')]\<rparr>)
    | Throw e \<Rightarrow> (Throw e, p\<lparr>prog_world := w'\<rparr>) | Terminate \<Rightarrow> (Terminate, p\<lparr>prog_world := w'\<rparr>)
    | Undefined \<Rightarrow> (Undefined, p\<lparr>prog_world := w'\<rparr>) | Diverge \<Rightarrow> (Diverge, p\<lparr>prog_world := w'\<rparr>))"
  using assms by (auto simp: on_source_def lift_io_def bnd_def comp_simps split: outcome.splits)

text \<open>A call keeps the program well-formed if it returns, and is never undefined.\<close>

definition keeps_program :: "env \<Rightarrow> nat \<Rightarrow> 'a outcome \<times> program \<Rightarrow> bool" where
  "keeps_program env this x \<longleftrightarrow> fst x \<noteq> Undefined \<and> ((\<exists>ec. fst x = Ret ec) \<longrightarrow> program_ok env this (snd x))"

lemma table_kinds:
  "plain_handles (m(h \<mapsto> r)) = (if reg_auto_drain r then plain_handles m - {h} else insert h (plain_handles m))"
  "drained_handles (m(h \<mapsto> r)) = (if reg_auto_drain r then insert h (drained_handles m) else drained_handles m - {h})"
  "plain_handles (m(h := None)) = plain_handles m - {h}" "drained_handles (m(h := None)) = drained_handles m - {h}"
  by (auto simp: plain_handles_def drained_handles_def split: if_splits)

lemma not_drained:
  assumes "program_ok env this p" "n < length (prog_sources p)"
  shows "source_handle env p n \<notin> drained_handles (selector_table this (prog_world p))"
  using assms by (auto simp: program_ok_def)

lemma entry_drain [simp]: "reg_auto_drain (entry h k t i d) = d"
  by (simp add: entry_def)

text \<open>
  A call on an object that is not undefined leaves the kinds of the handles alone, or adds the
  handle of the object, which remembers it, or removes it, and the object forgets.
\<close>

inductive source_effect :: "table \<Rightarrow> int \<Rightarrow> net_source \<Rightarrow> net_source \<Rightarrow> table \<Rightarrow> bool" for m h s s' where
  unchanged: "(net_remembers s' = None \<longleftrightarrow> net_remembers s = None) \<Longrightarrow> source_effect m h s s' m"
| changed: "m h = Some r \<Longrightarrow> reg_auto_drain e = reg_auto_drain r \<Longrightarrow>
    net_remembers s' \<noteq> None \<or> (net_remembers s' = None \<longleftrightarrow> net_remembers s = None) \<Longrightarrow>
    source_effect m h s s' (m(h \<mapsto> e))"
| added: "\<not> reg_auto_drain e \<Longrightarrow> net_remembers s' \<noteq> None \<Longrightarrow> source_effect m h s s' (m(h \<mapsto> e))"
| removed: "m h \<noteq> None \<Longrightarrow> net_remembers s' = None \<Longrightarrow> source_effect m h s s' (m(h := None))"

lemma source_effect_kinds:
  assumes "source_effect m h s s' m'" "h \<notin> drained_handles m"
  shows "drained_handles m' = drained_handles m
    \<and> (plain_handles m' = plain_handles m \<and> (net_remembers s' = None \<longleftrightarrow> net_remembers s = None)
      \<or> (m h \<noteq> None \<or> m' h \<noteq> None) \<and> plain_handles m' = (if net_remembers s' = None
          then plain_handles m - {h} else insert h (plain_handles m)))"
  using assms
proof cases
  case (changed r e)
  then have "\<not> reg_auto_drain e" "h \<in> plain_handles m" "h \<notin> drained_handles m"
    using assms(2) by (auto simp: drained_handles_def plain_handles_def)
  then show ?thesis using changed by (auto simp: table_kinds insert_absorb)
qed (use assms(2) in \<open>auto simp: table_kinds\<close>)

lemma on_source_keeps:
  assumes ok: "program_ok env this p" and n: "n < length (prog_sources p)" and s: "prog_sources p ! n = (c, s)"
    and run: "m c s env (prog_world p) = (r, w')" and live: "selector_live env this w'"
    and eff: "r = Terminate \<or> (\<exists>s' ec. r = Ret (s', ec) \<and> net_native_handle (platform env) s' = source_handle env p n
      \<and> source_effect (selector_table this (prog_world p)) (source_handle env p n) s s' (selector_table this w'))"
  shows "keeps_program env this (on_source n m env p)"
proof (cases "r = Terminate")
  case True
  then show ?thesis using on_source_run [of p n c s m env r w'] s run by (simp add: keeps_program_def)
next
  case False
  then obtain s' ec where r: "r = Ret (s', ec)" and s': "net_native_handle (platform env) s' = source_handle env p n"
    and e: "source_effect (selector_table this (prog_world p)) (source_handle env p n) s s' (selector_table this w')"
    using eff by blast
  have valid: "source_handle env p n \<noteq> invalid_native_handle (platform env)"
    if "selector_table this (prog_world p) (source_handle env p n) \<noteq> None \<or> selector_table this w' (source_handle env p n) \<noteq> None"
    using that by (auto dest: table_valid [OF live] table_valid [OF conjunct1 [OF ok [unfolded program_ok_def]]])
  have "program_ok env this (p\<lparr>prog_world := w', prog_sources := (prog_sources p)[n := (c, s')]\<rparr>)"
    using source_effect_kinds [OF e not_drained [OF ok n]] valid by (intro set_source_ok [OF ok n s s' live]) blast+
  then show ?thesis using on_source_run [of p n c s m env r w'] s run r by (simp add: keeps_program_def)
qed

lemma source_calls_keep:
  assumes posix: "sets_errno env" "platform env \<noteq> Windows" and ok: "program_ok env this p" and n: "n < length (prog_sources p)"
  shows "keeps_program env this (on_source n (\<lambda>c s. register_source (class_ops c) (Some this) s t i) env p)"
    and "keeps_program env this (on_source n (\<lambda>c s. reregister (class_ops c) (Some this) s t i) env p)"
    and "keeps_program env this (on_source n (\<lambda>c s. deregister (class_ops c) (Some this) s) env p)"
proof -
  obtain c s where s: "prog_sources p ! n = (c, s)" by (meson surj_pair)
  have live: "selector_live env this (prog_world p)" using ok by (simp add: program_ok_def)
  have h: "source_handle env p n = native_handle (class_ops c) (platform env) s" using s by (simp add: source_handle_def)
  obtain r1 w1 where reg: "register_source (class_ops c) (Some this) s t i env (prog_world p) = (r1, w1)" by (meson surj_pair)
  obtain r2 w2 where rereg: "reregister (class_ops c) (Some this) s t i env (prog_world p) = (r2, w2)" by (meson surj_pair)
  obtain r3 w3 where dereg: "deregister (class_ops c) (Some this) s env (prog_world p) = (r3, w3)" by (meson surj_pair)
  note agree = event_source.registration_agrees [OF class_source posix live reg h]
    event_source.reregistration_agrees [OF class_source posix live rereg h]
    event_source.deregistration_agrees [OF class_source live dereg h]
  show "keeps_program env this (on_source n (\<lambda>c s. register_source (class_ops c) (Some this) s t i) env p)"
    by (rule on_source_keeps [where m = "\<lambda>c s. register_source (class_ops c) (Some this) s t i", OF ok n s reg])
      (use agree(1) in \<open>auto intro: source_effect.unchanged intro!: source_effect.added split: if_splits\<close>)
  show "keeps_program env this (on_source n (\<lambda>c s. reregister (class_ops c) (Some this) s t i) env p)"
    by (rule on_source_keeps [where m = "\<lambda>c s. reregister (class_ops c) (Some this) s t i", OF ok n s rereg])
      (use agree(2) in \<open>auto intro: source_effect.unchanged intro!: source_effect.changed split: if_splits\<close>)
  have "r3 = Terminate \<or> (\<exists>s' ec. r3 = Ret (s', ec) \<and> net_native_handle (platform env) s' = source_handle env p n
      \<and> source_effect (selector_table this (prog_world p)) (source_handle env p n) s s' (selector_table this w3))"
    using agree(3) source_effect.unchanged [of s s] source_effect.removed by (metis class_handle)
  then show "keeps_program env this (on_source n (\<lambda>c s. deregister (class_ops c) (Some this) s) env p)"
    using agree(3) on_source_keeps [where m = "\<lambda>c s. deregister (class_ops c) (Some this) s", OF ok n s dereg] by blast
qed

lemma lift_io_run: "m env (prog_world p) = (r, w') \<Longrightarrow> lift_io m env p = (r, p\<lparr>prog_world := w'\<rparr>)"
  by (simp add: lift_io_def)

text \<open>A change of the world that keeps the table, and one that changes the wakers with it.\<close>

lemma program_ok_world:
  assumes "program_ok env this p" "selector_live env this w'" "selector_table this w' = selector_table this (prog_world p)"
  shows "program_ok env this (p\<lparr>prog_world := w'\<rparr>)"
  using assms by (simp add: program_ok_def unshared_def source_handle_def registered_def fresh_descriptors_def)

lemma program_ok_wakers:
  assumes ok: "program_ok env this p" and live: "selector_live env this w'"
    and plain: "plain_handles (selector_table this w') = plain_handles (selector_table this (prog_world p))"
    and wakers: "drained_handles (selector_table this w') = read_handle ` set ws" "distinct (map read_handle ws)"
      "\<forall>st \<in> set ws. ws_selector st = Some this \<and> (\<forall>n < length (prog_sources p). source_handle env p n \<noteq> read_handle st)"
  shows "program_ok env this (p\<lparr>prog_world := w', prog_wakers := ws\<rparr>)"
  using assms by (simp add: program_ok_def unshared_def source_handle_def registered_def fresh_descriptors_def)

lemma poll_keeps:
  assumes "platform env \<noteq> Windows" "bounded_waits env" "program_ok env this p" "poll_selector poll = Some this"
  shows "keeps_program env this (lift_io (Poll_poll poll timeout) env p)"
proof -
  obtain r w' where run: "select this timeout env (prog_world p) = (r, w')" by (meson surj_pair)
  have live: "selector_live env this (prog_world p)" using assms(3) by (simp add: program_ok_def)
  note s = select_posix [OF assms(1,2) live run]
  have "Poll_poll poll timeout env (prog_world p) = (report_outcome catch_system (platform env) r, w')"
    unfolding Poll_poll_def assms(4) deref_Some using run by (rule reporting_void_run)
  moreover have "report_outcome catch_system (platform env) r \<noteq> Undefined" using s by (cases r) (auto split: option.splits)
  ultimately show ?thesis using program_ok_world [OF assms(3)] s by (simp add: keeps_program_def lift_io_def)
qed

lemma wake_keeps:
  assumes "platform env \<noteq> Windows" "program_ok env this p"
  shows "keeps_program env this (lift_io (Waker_wake (Some st)) env p)"
proof -
  obtain r w' where run: "WakerState_wake st env (prog_world p) = (r, w')" by (meson surj_pair)
  have "Waker_wake (Some st) env (prog_world p) = (report_outcome catch_system (platform env) r, w')"
    unfolding Waker_wake_def option.case using run by (rule reporting_void_run)
  moreover obtain c where r: "r \<noteq> Undefined" "w' = logged env c (prog_world p)"
    using run assms(1) by (auto simp: WakerState_wake_def comp_simps split: if_splits)
  moreover have "report_outcome catch_system (platform env) r \<noteq> Undefined" using r(1) by (cases r) (auto split: option.splits)
  moreover have "program_ok env this (p\<lparr>prog_world := w'\<rparr>)"
    using assms(2) by (intro program_ok_world) (simp_all add: r(2) program_ok_def)
  ultimately show ?thesis by (simp add: keeps_program_def lift_io_def)
qed

lemma new_waker_keeps:
  assumes posix: "platform env \<noteq> Windows" and ok: "program_ok env this p" and reg: "poll_registry poll = Some this"
  shows "keeps_program env this (api_exec poll (New_waker t) env p)"
proof -
  let ?w = "logged env Alloc (prog_world p)"
  have live: "selector_live env this ?w" and fresh: "fresh_descriptors env p" using ok by (simp_all add: program_ok_def)
  obtain r w' where run: "bnd allocate (\<lambda>_. WakerState_new (Some this) t) env (prog_world p) = (r, w')" by (meson surj_pair)
  have out: "(\<exists>e. r = Throw e) \<and> selector_live env this w' \<and> selector_table this w' = selector_table this (prog_world p)
    \<or> (\<exists>st. r = Ret st \<and> waker_outcome env this t ?w r w')"
  proof (cases "ret (answer env (history (prog_world p)) Alloc) = 0")
    case True
    then show ?thesis using run live by (auto simp: comp_simps)
  next
    case False
    then have "WakerState_new (Some this) t env ?w = (r, w')" using run by (simp add: comp_simps)
    moreover have "\<forall>fd \<in> set (waker_descriptors env ?w). 0 \<le> fd" using fresh by (auto simp: fresh_descriptors_def)
    ultimately have "waker_outcome env this t ?w r w'" using WakerState_new_result [OF posix live] by blast
    then show ?thesis by (cases r) (auto simp: waker_outcome_def)
  qed
  then show ?thesis
  proof (elim disjE exE conjE)
    fix e
    assume r: "r = Throw e" and w': "selector_live env this w'" "selector_table this w' = selector_table this (prog_world p)"
    have "Waker_new (Some this) t env (prog_world p)
        = ((case catch_all (platform env) e of None \<Rightarrow> Terminate | Some ec \<Rightarrow> Ret (None, ec)), w')"
      unfolding Waker_new_def using run [unfolded r] by (rule reporting_run(2))
    then show ?thesis using reg program_ok_world [OF ok w']
      by (auto simp: keeps_program_def bnd_def lift_io_def comp_simps split: option.splits)
  next
    fix st
    assume r: "r = Ret st" and o: "waker_outcome env this t ?w r w'"
    have "Waker_new (Some this) t env (prog_world p) = (Ret (Some st, cleared), w')"
      unfolding Waker_new_def using run [unfolded r] by (rule reporting_run(1))
    moreover have "program_ok env this (p\<lparr>prog_world := w', prog_wakers := prog_wakers p @ [st]\<rparr>)"
    proof (rule program_ok_wakers [OF ok])
      let ?m = "selector_table this (prog_world p)"
      have st: "read_handle st \<in> set (waker_descriptors env ?w)" "?m (read_handle st) = None" "ws_selector st = Some this"
        "selector_table this w' = ?m(read_handle st \<mapsto> entry (read_handle st) Kind_raw_descriptor t READABLE True)"
        using o by (auto simp: r waker_outcome_def)
      show "selector_live env this w'" using o by (simp add: waker_outcome_def)
      show "plain_handles (selector_table this w') = plain_handles ?m"
        using st(2) by (auto simp: st(4) table_kinds plain_handles_def)
      show "drained_handles (selector_table this w') = read_handle ` set (prog_wakers p @ [st])"
        using ok by (auto simp: st(4) table_kinds program_ok_def)
      have "read_handle st \<notin> drained_handles ?m" using st(2) by (simp add: drained_handles_def)
      then show "distinct (map read_handle (prog_wakers p @ [st]))" using ok by (auto simp: program_ok_def)
      show "\<forall>st \<in> set (prog_wakers p @ [st]). ws_selector st = Some this \<and>
          (\<forall>n < length (prog_sources p). source_handle env p n \<noteq> read_handle st)"
        using ok st(1,3) fresh unfolding fresh_descriptors_def program_ok_def by auto
    qed
    ultimately show ?thesis using reg by (simp add: keeps_program_def bnd_def lift_io_def comp_simps)
  qed
qed

lemma Waker_destroy_result:
  assumes posix: "platform env \<noteq> Windows" and live: "selector_live env this w"
    and st: "ws_selector st = Some this" "selector_table this w (read_handle st) \<noteq> None"
    and run: "Waker_destroy (Some st) env w = (r, w')"
  shows "selector_live env this w' \<and> (r = Terminate
    \<or> r = Ret () \<and> selector_table this w' = (selector_table this w)(read_handle st := None))"
proof -
  obtain s where s: "io_ok env w" "selectors w this = Some s" "selector_table this w = reg_map s"
    using live by (rule selector_liveE)
  obtain r1 w1 where rem: "Selector_remove this (read_handle st) env w = (r1, w1)" by (meson surj_pair)
  obtain r0 where "reg_map s (read_handle st) = Some r0" using st(2) s(3) by auto
  from Selector_remove_done [OF rem s(1,2) this] obtain s1 where
    s1: "on_selector env this w r1 w1 s1" "reg_map s1 = (reg_map s)(read_handle st := None)" "r1 = Ret () \<or> r1 = Terminate"
    by blast
  define closed where "closed fd w = (if 0 \<le> fd then logged env (Close fd) w else w)" for fd and w :: io_world
  have close: "OwnedDescriptor_destroy fd env w2 = (Ret (-1), closed fd w2)" for fd and w2 :: io_world
    by (auto simp: OwnedDescriptor_destroy_def closed_def comp_simps)
  have keep: "selector_live env this (closed fd w2) = selector_live env this w2"
    "selector_table this (closed fd w2) = selector_table this w2" for fd w2
    by (simp_all add: closed_def)
  have "r1 = Terminate \<and> r = Terminate \<and> w' = w1
      \<or> r1 = Ret () \<and> r = Ret () \<and> w' = closed (owned_read st) (closed (owned_write st) w1)"
    using run st(1) posix rem s1(3)
    by (auto simp: Waker_destroy_def WakerState_destroy_def remove_waker_def noexcept_def catch_def bnd_def comp_simps close)
  then show ?thesis using on_selector_live [OF s1(1)] s1(2) s(3) keep by auto
qed

lemma drop_waker_keeps:
  assumes posix: "platform env \<noteq> Windows" and ok: "program_ok env this p" and n: "n < length (prog_wakers p)"
  shows "keeps_program env this (api_exec poll (Drop_waker n) env p)"
proof -
  let ?st = "prog_wakers p ! n" and ?ws = "take n (prog_wakers p) @ drop (Suc n) (prog_wakers p)"
  let ?m = "selector_table this (prog_world p)"
  have ws: "prog_wakers p = take n (prog_wakers p) @ ?st # drop (Suc n) (prog_wakers p)" using n by (rule id_take_nth_drop)
  have st: "ws_selector ?st = Some this" "read_handle ?st \<in> drained_handles ?m" "selector_live env this (prog_world p)"
    using ok n by (simp_all add: program_ok_def)
  then have present: "?m (read_handle ?st) \<noteq> None" and plain: "read_handle ?st \<notin> plain_handles ?m"
    by (auto simp: drained_handles_def plain_handles_def)
  have dist: "distinct (map read_handle (take n (prog_wakers p) @ ?st # drop (Suc n) (prog_wakers p)))"
    using ok ws by (simp add: program_ok_def)
  have drained: "drained_handles ?m - {read_handle ?st} = read_handle ` set ?ws"
  proof -
    have "drained_handles ?m = read_handle ` set (take n (prog_wakers p) @ ?st # drop (Suc n) (prog_wakers p))"
      using ok ws by (simp add: program_ok_def)
    moreover have "read_handle ?st \<notin> read_handle ` set ?ws" using dist by (simp add: image_Un)
    ultimately show ?thesis by simp
  qed
  obtain r w' where run: "Waker_destroy (Some ?st) env (prog_world p) = (r, w')" by (meson surj_pair)
  note d = Waker_destroy_result [OF posix st(3,1) present run]
  have "program_ok env this (p\<lparr>prog_world := w', prog_wakers := ?ws\<rparr>)" if r: "r = Ret ()"
  proof (rule program_ok_wakers [OF ok])
    have m': "selector_table this w' = ?m(read_handle ?st := None)" using d r by simp
    show "selector_live env this w'" using d by blast
    show "plain_handles (selector_table this w') = plain_handles ?m" using plain by (simp add: m' table_kinds)
    show "drained_handles (selector_table this w') = read_handle ` set ?ws" using drained by (simp add: m' table_kinds)
    show "distinct (map read_handle ?ws)" using dist by simp
    show "\<forall>st \<in> set ?ws. ws_selector st = Some this \<and> (\<forall>n < length (prog_sources p). source_handle env p n \<noteq> read_handle st)"
      using ok by (auto simp: program_ok_def dest: in_set_takeD in_set_dropD)
  qed
  then show ?thesis using d run by (auto simp: keeps_program_def bnd_def lift_io_def comp_simps)
qed

lemma api_exec_keeps:
  assumes "platform env \<noteq> Windows" "sets_errno env" "bounded_waits env"
    and poll: "poll_selector poll = Some this" "poll_registry poll = Some this"
    and ok: "program_ok env this p" and c: "call_ok p c"
  shows "keeps_program env this (api_exec poll c env p)"
proof (cases c)
  case (Wake_waker n)
  then show ?thesis using wake_keeps [OF assms(1) ok] by (simp add: bnd_gets)
next
  case (New_waker t)
  then show ?thesis using new_waker_keeps [OF assms(1) ok poll(2)] by blast
next
  case (Drop_waker n)
  then show ?thesis using drop_waker_keeps [OF assms(1) ok] c by simp
qed (use source_calls_keep [OF assms(2,1) ok] poll_keeps [OF assms(1,3) ok poll(1)] poll c in simp_all)

section \<open>Properties\<close>

text \<open>
  C2. Programs that use only objects they have do not go wrong, on any POSIX system: start with a
  new \<open>Poll\<close> and socket objects that are not registered, and make any sequence of
  registrations, changes, deregistrations, waits, and constructions, wakes and destructions of
  wakers, each of which may succeed or fail. Then no call has undefined behaviour, and after
  every call that returns the table of the selector is exactly what the program holds: an entry
  for each object that remembers its registration and one for each waker. Assumed of the
  system is that failing calls set \<open>errno\<close>, that a wait stores no more records than
  it was asked for, and that new descriptors are not those of the program's sockets.
\<close>

theorem programs_do_not_go_wrong:
  assumes "platform env \<noteq> Windows" "sets_errno env" "bounded_waits env"
    and poll: "io_ok env w0" "Poll_new env w0 = (Ret (poll, ec), w)" "poll_selector poll = Some this"
    and p0: "p0 = \<lparr>prog_world = w, prog_sources = sources, prog_wakers = []\<rparr>"
      "\<forall>x \<in> set sources. net_remembers (snd x) = None" "unshared env p0" "fresh_descriptors env p0"
    and run: "reachable env poll p0 p"
  shows "program_ok env this p \<and> (\<forall>c. call_ok p c \<longrightarrow> fst (api_exec poll c env p) \<noteq> Undefined)"
proof -
  have new: "poll_registry poll = Some this" "selector_live env this w" "selector_table this w = Map.empty"
    using Poll_new_posix [OF assms(1) poll]
    by (auto simp: selector_live_def selector_table_def empty_selector_def reg_map_def fun_eq_iff)
  have "program_ok env this p0"
    using p0 new by (auto simp: program_ok_def plain_handles_def drained_handles_def registered_def)
  note keeps = api_exec_keeps [OF assms(1-3) poll(3) new(1)]
  from run have "program_ok env this p"
  proof induction
    case start
    show ?case by fact
  next
    case (step p c ec p')
    then show ?case using keeps [of p c] by (auto simp: keeps_program_def)
  qed
  then show ?thesis using keeps by (auto simp: keeps_program_def)
qed

text \<open>The witness registers a listener with the kernel of \<open>Wake_Delivery\<close>.\<close>

definition kernel_program :: program where
  "kernel_program = \<lparr>prog_world = kernel_polled, prog_sources = [(Class_TcpListener, net_source_of (Some 5))], prog_wakers = []\<rparr>"

lemma kernel_register:
  "\<exists>p. api_exec \<lparr>poll_selector = Some 2, poll_registry = Some 2\<rparr> (Register_source 0 (Token 9) READABLE) kernel_env kernel_program
      = (Ret cleared, p) \<and> registered p 0"
proof -
  have "kernel_waiting [] [] kernel_polled"
    by (simp add: kernel_waiting_def kernel_polled_def empty_selector_def no_objects_def one_selector_def)
  then obtain w1 where "Selector_add 2 5 Kind_socket (Token 9) READABLE False kernel_env kernel_polled = (Ret (), w1)"
    using kernel_add [of "[]" "[]" kernel_polled 5 READABLE Kind_socket "Token 9" False]
    by (auto simp: validation_error_def invalid_native_handle_def)
  then have "reporting_void catch_all (Selector_add 2 5 Kind_socket (Token 9) READABLE False) kernel_env kernel_polled
      = (report_outcome catch_all (platform kernel_env) (Ret ()), w1)"
    by (rule reporting_void_run)
  then show ?thesis
    by (auto simp: kernel_program_def on_source_def lift_io_def register_source_def register_handle_def TcpListener_ops_def
        net_native_handle_def net_source_of_def net_on_registered_def noexcept_def catch_def bnd_def comp_simps
        registered_def net_remembers_def)
qed

theorem programs_do_not_go_wrong_witness:
  "\<exists>p. api_exec \<lparr>poll_selector = Some 2, poll_registry = Some 2\<rparr> (Register_source 0 (Token 9) READABLE) kernel_env kernel_program
      = (Ret cleared, p) \<and> registered p 0 \<and> program_ok kernel_env 2 p"
proof -
  let ?poll = "\<lparr>poll_selector = Some 2, poll_registry = Some 2\<rparr>"
  obtain p where p: "api_exec ?poll (Register_source 0 (Token 9) READABLE) kernel_env kernel_program = (Ret cleared, p)" "registered p 0"
    using kernel_register by blast
  have "reachable kernel_env ?poll kernel_program p"
    by (rule reachable.step [OF reachable.start _ p(1)]) (simp add: kernel_program_def)
  moreover have "sets_errno kernel_env" "bounded_waits kernel_env" "platform kernel_env \<noteq> Windows"
    by (auto simp: sets_errno_def bounded_waits_def kernel_env_def kernel_answer_def plain_def
        split: call.splits epoll_op.splits)
  moreover have "unshared kernel_env kernel_program" "fresh_descriptors kernel_env kernel_program"
    "\<forall>x \<in> set [(Class_TcpListener, net_source_of (Some 5))]. net_remembers (snd x) = None" "poll_selector ?poll = Some 2"
    by (simp_all add: unshared_def fresh_descriptors_def kernel_program_def waker_descriptors_def source_handle_def
        net_native_handle_def net_source_of_def net_remembers_def)
  ultimately show ?thesis
    using programs_do_not_go_wrong [OF _ _ _ no_objects_ok kernel_poll _ kernel_program_def] p by blast
qed

end
