(* ===== verification/Signals.thy ===== *)
theory Signals
  imports Registry Handle_Balance
begin

text \<open>
  The class \<open>Signals\<close> of \<^verbatim>\<open>src/signals.cpp\<close>, with the three declarations of
  its \<open>Impl\<close>: a pair of UDP sockets fed by a console handler on Windows, a
  \<open>signalfd\<close> on Linux, and a pipe fed by a signal handler elsewhere. The object behind
  the \<open>std::unique_ptr\<close> has an address, since \<open>global_instance\<close> points to it
  too. The handlers run when the system calls them; the lock they share with the operations
  makes each run a step of its own. Growing the vector of \<open>pending\<close> is taken to
  succeed.
\<close>

section \<open>Sets of signals\<close>

text \<open>\<open>sigaddset\<close> and \<open>sigdelset\<close> of glibc ignore a number that is no signal.\<close>

definition is_signal :: "int \<Rightarrow> bool" where
  "is_signal signum \<longleftrightarrow> 0 < signum \<and> signum \<le> 64 \<and> signum \<noteq> 32 \<and> signum \<noteq> 33"

definition sigaddset :: "int set \<Rightarrow> int \<Rightarrow> int set" where
  "sigaddset sigs signum = (if is_signal signum then insert signum sigs else sigs)"

definition sigdelset :: "int set \<Rightarrow> int \<Rightarrow> int set" where
  "sigdelset sigs signum = (if is_signal signum then sigs - {signum} else sigs)"

text \<open>The bytes of an \<open>int\<close>, and the \<open>int\<close> at the start of a record read.\<close>

definition signum_bytes :: "endian \<Rightarrow> int \<Rightarrow> bytes" where
  "signum_bytes e signum = mem_of_u32 e (word_of_int signum)"

definition signum_of :: "endian \<Rightarrow> bytes \<Rightarrow> int" where
  "signum_of e mem = sint (u32_of_mem e (take 4 mem))"

text \<open>\<open>std::set::insert\<close> allocates a node for a value that is not in the set yet.\<close>

definition insert_signal :: "int set \<Rightarrow> int \<Rightarrow> ('x base_world_scheme, int set) comp" where
  "insert_signal sigs signum =
     (if signum \<in> sigs then return sigs else bnd allocate (\<lambda>_. return (insert signum sigs)))"

section \<open>The object and its address\<close>

definition with_impl :: "nat \<Rightarrow> (SignalsImpl \<Rightarrow> (io_world, 'a) comp) \<Rightarrow> (io_world, 'a) comp" where
  "with_impl this k = bnd (gets signal_impls) (\<lambda>m.
     case m this of None \<Rightarrow> undefined_behaviour | Some impl \<Rightarrow> k impl)"

definition set_impl :: "nat \<Rightarrow> SignalsImpl \<Rightarrow> (io_world, unit) comp" where
  "set_impl this impl = modify (\<lambda>w. w\<lparr>signal_impls := (signal_impls w)(this \<mapsto> impl)\<rparr>)"

definition set_global_instance :: "nat option \<Rightarrow> (io_world, unit) comp" where
  "set_global_instance p = modify (\<lambda>w. w\<lparr>global_instance := p\<rparr>)"

definition Impl_default :: "platform \<Rightarrow> SignalsImpl" where
  "Impl_default p = \<lparr>sig_read = invalid_native_handle p, sig_write = invalid_native_handle p,
     target_addr = replicate 16 0, sig_mask = {}, registered_signals = {}\<rparr>"

section \<open>Windows\<close>

text \<open>\<open>INADDR_LOOPBACK\<close> and port 0 in a \<open>sockaddr_in\<close>.\<close>

definition loopback_sockaddr :: "platform \<Rightarrow> endian \<Rightarrow> bytes" where
  "loopback_sockaddr p e =
     put_at 2 (mem_of_u16 e 0)
       (put_at 4 (mem_of_u32 e (htonl e 0x7F000001))
         (put_family p e AF_INET_value (replicate 16 0)))"

text \<open>
  The constructor leaves the caller's code alone when it succeeds, so the code passed in is an
  argument.
\<close>

definition Impl_new_windows :: "nat \<Rightarrow> error_code \<Rightarrow> (io_world, error_code) comp" where
  "Impl_new_windows this ec = bnd (asks platform) (\<lambda>p. bnd (asks host_endian) (\<lambda>e.
     let impl = Impl_default p in
     bnd (set_impl this impl) (\<lambda>_.
     bnd (catch (bnd ensure_socket_runtime (\<lambda>_. return None))
       (\<lambda>x. case x of System_Error code what \<Rightarrow> return (Some code) | _ \<Rightarrow> throw x)) (\<lambda>started.
     case started of
       Some code \<Rightarrow> return code
     | None \<Rightarrow>
       bnd (sys (Socket_call AF_INET SOCK_DGRAM IPPROTO_UDP)) (\<lambda>r.
       let impl = impl\<lparr>sig_read := ret r\<rparr> in
       bnd (set_impl this impl) (\<lambda>_.
       if sig_read impl = invalid_native_handle p then last_system_error
       else
         bnd (sys (Ioctl_fionbio (sig_read impl) True)) (\<lambda>_.
         bnd (sys (Bind (sig_read impl) (loopback_sockaddr p e) 16)) (\<lambda>r.
         if ret r = -1 then last_system_error
         else
           bnd (sys (Getsockname (sig_read impl))) (\<lambda>r.
           let impl = impl\<lparr>target_addr := put_at 0 (take 16 (out_addr r)) (target_addr impl)\<rparr> in
           bnd (set_impl this impl) (\<lambda>_.
           if ret r = -1 then last_system_error
           else
             bnd (sys (Socket_call AF_INET SOCK_DGRAM IPPROTO_UDP)) (\<lambda>r.
             let impl = impl\<lparr>sig_write := ret r\<rparr> in
             bnd (set_impl this impl) (\<lambda>_.
             if sig_write impl = invalid_native_handle p then last_system_error
             else
               bnd (set_global_instance (Some this)) (\<lambda>_. return ec)))))))))))))"

definition Impl_destroy_windows :: "nat \<Rightarrow> (io_world, unit) comp" where
  "Impl_destroy_windows this = bnd (asks platform) (\<lambda>p. bnd (gets global_instance) (\<lambda>g.
     bnd (if g = Some this
          then bnd (set_global_instance None) (\<lambda>_. bnd (sys (Set_ctrl_handler False)) (\<lambda>_. return ()))
          else return ()) (\<lambda>_.
     with_impl this (\<lambda>impl.
     bnd (if sig_read impl \<noteq> invalid_native_handle p
          then bnd (sys (Closesocket (sig_read impl))) (\<lambda>_. return ()) else return ()) (\<lambda>_.
     if sig_write impl \<noteq> invalid_native_handle p
     then bnd (sys (Closesocket (sig_write impl))) (\<lambda>_. return ()) else return ())))))"

abbreviation (input) SIGINT :: int where "SIGINT \<equiv> 2"
abbreviation (input) SIGTERM :: int where "SIGTERM \<equiv> 15"
abbreviation (input) SIGBREAK :: int where "SIGBREAK \<equiv> 21"

definition ctrl_signal :: "u32 \<Rightarrow> int option" where
  "ctrl_signal dwCtrlType =
     (if dwCtrlType = 0 then Some SIGINT
      else if dwCtrlType = 1 then Some SIGBREAK
      else if dwCtrlType = 2 \<or> dwCtrlType = 5 \<or> dwCtrlType = 6 then Some SIGTERM
      else None)"

definition handler_routine_windows :: "u32 \<Rightarrow> (io_world, bool) comp" where
  "handler_routine_windows dwCtrlType = (case ctrl_signal dwCtrlType of
     None \<Rightarrow> return False
   | Some signum \<Rightarrow> bnd (asks host_endian) (\<lambda>e. bnd (gets global_instance) (\<lambda>g.
       case g of
         None \<Rightarrow> return False
       | Some this \<Rightarrow> with_impl this (\<lambda>impl.
           if signum \<in> registered_signals impl then
             bnd (sys (Sendto (sig_write impl) (signum_bytes e signum) 4 (target_addr impl) 16)) (\<lambda>_. return True)
           else return False))))"

definition Impl_add_windows :: "nat \<Rightarrow> int \<Rightarrow> (io_world, error_code) comp" where
  "Impl_add_windows this signum = with_impl this (\<lambda>impl.
     bnd (if registered_signals impl = {}
          then bnd (sys (Set_ctrl_handler True)) (\<lambda>r. return (ret r \<noteq> 0)) else return True) (\<lambda>installed.
     if \<not> installed then last_system_error
     else
       bnd (insert_signal (registered_signals impl) signum) (\<lambda>signals.
       bnd (set_impl this (impl\<lparr>registered_signals := signals\<rparr>)) (\<lambda>_. return cleared))))"

definition Impl_remove_windows :: "nat \<Rightarrow> int \<Rightarrow> (io_world, error_code) comp" where
  "Impl_remove_windows this signum = with_impl this (\<lambda>impl.
     let signals = registered_signals impl - {signum} in
     bnd (set_impl this (impl\<lparr>registered_signals := signals\<rparr>)) (\<lambda>_.
     bnd (if signals = {} then bnd (sys (Set_ctrl_handler False)) (\<lambda>_. return ()) else return ()) (\<lambda>_.
     return cleared)))"

section \<open>The loop of pending\<close>

text \<open>
  Records are read until one is not complete; its reply decides about the error. The numbers
  read so far are the accumulator; \<open>None\<close> is the loop that never ends.
\<close>

partial_function (option) pending_loop ::
  "env \<Rightarrow> call \<Rightarrow> int \<Rightarrow> int list \<Rightarrow> 'x base_world_scheme \<Rightarrow> ((int list \<times> reply) \<times> 'x base_world_scheme) option" where
  "pending_loop env c n sigs w =
     (let r = answer env (history w) c; w' = logged env c w in
      if ret r = n then pending_loop env c n (sigs @ [signum_of (host_endian env) (out_bytes r)]) w'
      else Some ((sigs, r), w'))"

definition read_pending :: "call \<Rightarrow> int \<Rightarrow> ('x base_world_scheme, int list \<times> reply) comp" where
  "read_pending c n = (\<lambda>env w. case pending_loop env c n [] w of
     None \<Rightarrow> (Diverge, w) | Some (x, w') \<Rightarrow> (Ret x, w'))"

definition Impl_pending_windows :: "nat \<Rightarrow> (io_world, int list \<times> error_code) comp" where
  "Impl_pending_windows this = with_impl this (\<lambda>impl.
     bnd (read_pending (Recv (sig_read impl) 4) 4) (\<lambda>(sigs, r).
     if ret r = -1 \<and> err r \<noteq> WSAEWOULDBLOCK
     then return (sigs, \<lparr>ec_value = err r, ec_category = System\<rparr>)
     else return (sigs, cleared)))"

section \<open>Linux\<close>

definition Impl_new_linux :: "nat \<Rightarrow> (io_world, error_code) comp" where
  "Impl_new_linux this = bnd (asks platform) (\<lambda>p.
     bnd (sys (Signalfd (-1) {})) (\<lambda>r.
     bnd (set_impl this ((Impl_default p)\<lparr>sig_read := ret r\<rparr>)) (\<lambda>_.
     if ret r = -1 then errno_code else return cleared)))"

definition Impl_destroy_linux :: "nat \<Rightarrow> (io_world, unit) comp" where
  "Impl_destroy_linux this = with_impl this (\<lambda>impl.
     if sig_read impl \<noteq> -1 then
       bnd (sys (Close (sig_read impl))) (\<lambda>_.
       bnd (sys (Sigprocmask False (sig_mask impl))) (\<lambda>_. return ()))
     else return ())"

text \<open>The last steps of \<open>add\<close> and \<open>remove\<close>: the descriptor gets the new mask.\<close>

definition renew_signalfd :: "nat \<Rightarrow> SignalsImpl \<Rightarrow> (io_world, error_code) comp" where
  "renew_signalfd this impl =
     bnd (sys (Signalfd (sig_read impl) (sig_mask impl))) (\<lambda>r.
     if ret r = -1 then errno_code
     else bnd (set_impl this (impl\<lparr>sig_read := ret r\<rparr>)) (\<lambda>_. return cleared))"

definition Impl_add_linux :: "nat \<Rightarrow> int \<Rightarrow> (io_world, error_code) comp" where
  "Impl_add_linux this signum = with_impl this (\<lambda>impl.
     let impl = impl\<lparr>sig_mask := sigaddset (sig_mask impl) signum\<rparr> in
     bnd (set_impl this impl) (\<lambda>_.
     bnd (sys (Sigprocmask True (sig_mask impl))) (\<lambda>r.
     if ret r = -1 then errno_code else renew_signalfd this impl)))"

definition Impl_remove_linux :: "nat \<Rightarrow> int \<Rightarrow> (io_world, error_code) comp" where
  "Impl_remove_linux this signum = with_impl this (\<lambda>impl.
     bnd (sys (Sigprocmask False (sigaddset {} signum))) (\<lambda>_.
     let impl = impl\<lparr>sig_mask := sigdelset (sig_mask impl) signum\<rparr> in
     bnd (set_impl this impl) (\<lambda>_. renew_signalfd this impl)))"

text \<open>A \<open>signalfd_siginfo\<close> has 128 bytes and starts with the number.\<close>

definition Impl_pending_linux :: "nat \<Rightarrow> (io_world, int list \<times> error_code) comp" where
  "Impl_pending_linux this = bnd (asks platform) (\<lambda>p. with_impl this (\<lambda>impl.
     bnd (read_pending (Read (sig_read impl) 128) 128) (\<lambda>(sigs, r).
     if ret r = -1 \<and> err r \<noteq> EAGAIN p \<and> err r \<noteq> EWOULDBLOCK p
     then return (sigs, \<lparr>ec_value = err r, ec_category = Generic\<rparr>)
     else return (sigs, cleared))))"

section \<open>The self-pipe\<close>

definition Impl_new_pipe :: "nat \<Rightarrow> (io_world, error_code) comp" where
  "Impl_new_pipe this = bnd (asks platform) (\<lambda>p.
     bnd (set_impl this (Impl_default p)) (\<lambda>_.
     bnd (sys Pipe) (\<lambda>r.
     if ret r = -1 then errno_code
     else
       (let impl = (Impl_default p)\<lparr>sig_read := fst (out_fds r), sig_write := snd (out_fds r)\<rparr> in
        bnd (set_impl this impl) (\<lambda>_.
        bnd (sys (Fcntl_setfl (sig_read impl) (O_NONBLOCK p))) (\<lambda>_.
        bnd (sys (Fcntl_setfl (sig_write impl) (O_NONBLOCK p))) (\<lambda>_.
        bnd (set_global_instance (Some this)) (\<lambda>_. return cleared))))))))"

definition Impl_destroy_pipe :: "nat \<Rightarrow> (io_world, unit) comp" where
  "Impl_destroy_pipe this = with_impl this (\<lambda>impl. bnd (gets global_instance) (\<lambda>g.
     bnd (if g = Some this then
            bnd (for_each (sorted_list_of_set (registered_signals impl))
              (\<lambda>signum. bnd (sys (Signal_default signum)) (\<lambda>_. return ()))) (\<lambda>_.
            set_global_instance None)
          else return ()) (\<lambda>_.
     bnd (if sig_read impl \<noteq> -1 then bnd (sys (Close (sig_read impl))) (\<lambda>_. return ()) else return ()) (\<lambda>_.
     if sig_write impl \<noteq> -1 then bnd (sys (Close (sig_write impl))) (\<lambda>_. return ()) else return ()))))"

definition handler_routine_pipe :: "int \<Rightarrow> (io_world, unit) comp" where
  "handler_routine_pipe signum = bnd (asks host_endian) (\<lambda>e. bnd (gets global_instance) (\<lambda>g.
     case g of
       None \<Rightarrow> return ()
     | Some this \<Rightarrow> with_impl this (\<lambda>impl.
         if sig_write impl \<noteq> -1 then
           bnd (gets errno) (\<lambda>saved_errno.
           bnd (sys (Write (sig_write impl) (signum_bytes e signum))) (\<lambda>_.
           modify (\<lambda>w. w\<lparr>errno := saved_errno\<rparr>)))
         else return ())))"

definition Impl_add_pipe :: "nat \<Rightarrow> int \<Rightarrow> (io_world, error_code) comp" where
  "Impl_add_pipe this signum = with_impl this (\<lambda>impl.
     bnd (insert_signal (registered_signals impl) signum) (\<lambda>signals.
     bnd (set_impl this (impl\<lparr>registered_signals := signals\<rparr>)) (\<lambda>_.
     bnd (sys (Sigaction signum)) (\<lambda>r.
     if ret r = -1 then errno_code else return cleared))))"

definition Impl_remove_pipe :: "nat \<Rightarrow> int \<Rightarrow> (io_world, error_code) comp" where
  "Impl_remove_pipe this signum = with_impl this (\<lambda>impl.
     bnd (set_impl this (impl\<lparr>registered_signals := registered_signals impl - {signum}\<rparr>)) (\<lambda>_.
     bnd (sys (Signal_default signum)) (\<lambda>_. return cleared)))"

definition Impl_pending_pipe :: "nat \<Rightarrow> (io_world, int list \<times> error_code) comp" where
  "Impl_pending_pipe this = bnd (asks platform) (\<lambda>p. with_impl this (\<lambda>impl.
     bnd (read_pending (Read (sig_read impl) 4) 4) (\<lambda>(sigs, r).
     if ret r = -1 \<and> err r \<noteq> EAGAIN p \<and> err r \<noteq> EWOULDBLOCK p
     then return (sigs, \<lparr>ec_value = err r, ec_category = Generic\<rparr>)
     else return (sigs, cleared))))"

section \<open>The class\<close>

type_synonym Signals = "nat option"

text \<open>The preprocessor selects one declaration of \<open>Impl\<close>.\<close>

definition Impl_new :: "nat \<Rightarrow> error_code \<Rightarrow> (io_world, error_code) comp" where
  "Impl_new this ec = bnd (asks platform) (\<lambda>p.
     if p = Windows then Impl_new_windows this ec
     else if p = Linux then Impl_new_linux this else Impl_new_pipe this)"

definition Impl_destroy :: "nat \<Rightarrow> (io_world, unit) comp" where
  "Impl_destroy this = bnd (asks platform) (\<lambda>p.
     bnd (if p = Windows then Impl_destroy_windows this
          else if p = Linux then Impl_destroy_linux this else Impl_destroy_pipe this) (\<lambda>_.
     modify (\<lambda>w. w\<lparr>signal_impls := (signal_impls w)(this := None)\<rparr>)))"

definition on_impl :: "Signals \<Rightarrow> (nat \<Rightarrow> (io_world, 'a) comp) \<Rightarrow> (io_world, 'a) comp" where
  "on_impl signals k = (case signals of None \<Rightarrow> undefined_behaviour | Some this \<Rightarrow> k this)"

text \<open>\<open>std::make_unique\<close>; none of the constructors throws.\<close>

definition make_impl :: "error_code \<Rightarrow> (io_world, Signals \<times> error_code) comp" where
  "make_impl ec = bnd allocate (\<lambda>_. bnd fresh_addr (\<lambda>this.
     bnd (Impl_new this ec) (\<lambda>ec. return (Some this, ec))))"

definition Signals_new :: "error_code \<Rightarrow> (io_world, Signals \<times> error_code) comp" where
  "Signals_new ec = noexcept (make_impl ec)"

definition Signals_destroy :: "Signals \<Rightarrow> (io_world, unit) comp" where
  "Signals_destroy this = noexcept (case this of None \<Rightarrow> return () | Some impl \<Rightarrow> Impl_destroy impl)"

text \<open>The member is destroyed when the body of the constructor throws.\<close>

definition Signals_new_throws :: "(io_world, Signals) comp" where
  "Signals_new_throws = bnd (make_impl cleared) (\<lambda>(impl, ec).
     if failed ec
     then bnd (Signals_destroy impl) (\<lambda>_. throw (System_Error ec ''Signals::Signals''))
     else return impl)"

definition Signals_move :: "Signals \<Rightarrow> Signals \<times> Signals" where
  "Signals_move other = (other, None)"

definition Signals_move_assign :: "Signals \<Rightarrow> Signals \<Rightarrow> (io_world, Signals \<times> Signals) comp" where
  "Signals_move_assign this other = bnd (Signals_destroy this) (\<lambda>_. return (other, None))"

definition Signals_add :: "Signals \<Rightarrow> int \<Rightarrow> (io_world, error_code) comp" where
  "Signals_add this signum = noexcept (on_impl this (\<lambda>impl. bnd (asks platform) (\<lambda>p.
     if p = Windows then Impl_add_windows impl signum
     else if p = Linux then Impl_add_linux impl signum else Impl_add_pipe impl signum)))"

definition Signals_add_throws :: "Signals \<Rightarrow> int \<Rightarrow> (io_world, unit) comp" where
  "Signals_add_throws this signum = throwing_void ''Signals::add'' (Signals_add this signum)"

definition Signals_remove :: "Signals \<Rightarrow> int \<Rightarrow> (io_world, error_code) comp" where
  "Signals_remove this signum = noexcept (on_impl this (\<lambda>impl. bnd (asks platform) (\<lambda>p.
     if p = Windows then Impl_remove_windows impl signum
     else if p = Linux then Impl_remove_linux impl signum else Impl_remove_pipe impl signum)))"

definition Signals_remove_throws :: "Signals \<Rightarrow> int \<Rightarrow> (io_world, unit) comp" where
  "Signals_remove_throws this signum = throwing_void ''Signals::remove'' (Signals_remove this signum)"

definition Signals_pending :: "Signals \<Rightarrow> (io_world, int list \<times> error_code) comp" where
  "Signals_pending this = noexcept (on_impl this (\<lambda>impl. bnd (asks platform) (\<lambda>p.
     if p = Windows then Impl_pending_windows impl
     else if p = Linux then Impl_pending_linux impl else Impl_pending_pipe impl)))"

definition Signals_pending_throws :: "Signals \<Rightarrow> (io_world, int list) comp" where
  "Signals_pending_throws this = throwing ''Signals::pending'' (Signals_pending this)"

definition Signals_native_handle :: "Signals \<Rightarrow> (io_world, int) comp" where
  "Signals_native_handle this = on_impl this (\<lambda>impl. with_impl impl (\<lambda>i. return (sig_read i)))"

definition Signals_source_kind :: "platform \<Rightarrow> source_kind" where
  "Signals_source_kind p = (if p = Windows then Kind_socket else Kind_raw_descriptor)"

definition Signals_on_registered :: "registry \<Rightarrow> token \<Rightarrow> interest \<Rightarrow> Signals \<Rightarrow> (io_world, Signals) comp" where
  "Signals_on_registered registry token interests this = bnd (asks platform) (\<lambda>p.
     bnd (Signals_native_handle this) (\<lambda>h.
     bnd (register_handle_throws registry h (Signals_source_kind p) token interests) (\<lambda>_. return this)))"

definition Signals_on_reregistered :: "registry \<Rightarrow> token \<Rightarrow> interest \<Rightarrow> Signals \<Rightarrow> (io_world, Signals) comp" where
  "Signals_on_reregistered registry token interests this = bnd (asks platform) (\<lambda>p.
     bnd (Signals_native_handle this) (\<lambda>h.
     bnd (reregister_handle_throws registry h (Signals_source_kind p) token interests) (\<lambda>_. return this)))"

definition Signals_on_deregistered :: "registry \<Rightarrow> Signals \<Rightarrow> (io_world, Signals) comp" where
  "Signals_on_deregistered registry this =
     bnd (Signals_native_handle this) (\<lambda>h.
     bnd (deregister_handle_throws registry h) (\<lambda>_. return this))"

text \<open>The virtual functions of an object whose \<open>Impl\<close> is \<open>impl\<close>.\<close>

definition Signals_ops :: "platform \<Rightarrow> SignalsImpl \<Rightarrow> Signals source_ops" where
  "Signals_ops p impl = \<lparr>native_handle = (\<lambda>_ _. sig_read impl), source_kind_of = (\<lambda>_. Signals_source_kind p),
     on_registered = Signals_on_registered, on_reregistered = Signals_on_reregistered,
     on_deregistered = Signals_on_deregistered\<rparr>"

section \<open>Running the small operations\<close>

lemma impl_run [comp_simps]:
  "with_impl this k env w = (case signal_impls w this of None \<Rightarrow> (Undefined, w) | Some impl \<Rightarrow> k impl env w)"
  "bnd (with_impl this k) f env w =
     (case signal_impls w this of None \<Rightarrow> (Undefined, w) | Some impl \<Rightarrow> bnd (k impl) f env w)"
  "set_impl this impl env w = (Ret (), w\<lparr>signal_impls := (signal_impls w)(this \<mapsto> impl)\<rparr>)"
  "bnd (set_impl this impl) g env w = g () env (w\<lparr>signal_impls := (signal_impls w)(this \<mapsto> impl)\<rparr>)"
  "set_global_instance p env w = (Ret (), w\<lparr>global_instance := p\<rparr>)"
  "bnd (set_global_instance p) g env w = g () env (w\<lparr>global_instance := p\<rparr>)"
  by (simp_all add: with_impl_def set_impl_def set_global_instance_def comp_simps split: option.splits)

lemma on_impl_Some [simp]: "on_impl (Some this) k = k this"
  by (simp add: on_impl_def)

end
