(* ===== verification/Signals_Properties.thy ===== *)
theory Signals_Properties
  imports Signals
begin

text \<open>
  What \<open>Signals\<close> promises: on Linux the descriptor reports exactly the signals that were
  added and not removed, and these are blocked; through the self-pipe every signal the handler
  saw comes out of \<open>pending\<close>, in order; and the hooks, which register a second time,
  keep the object from being registered at all.
\<close>

section \<open>The mask on Linux\<close>

text \<open>
  What the system does with the calls: the signals blocked after a history that started with
  \<open>B\<close>, and the set a \<open>signalfd\<close> reports. \<open>SIGKILL\<close> and
  \<open>SIGSTOP\<close> can neither be blocked nor be read from a \<open>signalfd\<close>: both
  calls ignore them silently.
\<close>

definition uncatchable :: "int set" where
  "uncatchable = {9, 19}"

fun mask_step :: "call \<times> reply \<Rightarrow> int set \<Rightarrow> int set" where
  "mask_step (Sigprocmask block m, r) B =
     (if ret r = -1 then B else if block then B \<union> (m - uncatchable) else B - m)"
| "mask_step _ B = B"

definition blocked :: "int set \<Rightarrow> history \<Rightarrow> int set" where
  "blocked B h = fold mask_step h B"

fun watch_step :: "int \<Rightarrow> call \<times> reply \<Rightarrow> int set option \<Rightarrow> int set option" where
  "watch_step fd (Signalfd old m, r) W = (if ret r = fd then Some (m - uncatchable) else W)"
| "watch_step fd _ W = W"

definition watched :: "int \<Rightarrow> history \<Rightarrow> int set option" where
  "watched fd h = fold (watch_step fd) h None"

text \<open>
  Unblocking fails for an invalid operation or address only; the sources pass neither, and do
  not look at the result.
\<close>

definition unblocking_succeeds :: "env \<Rightarrow> bool" where
  "unblocking_succeeds env \<longleftrightarrow> (\<forall>h m. ret (answer env h (Sigprocmask False m)) \<noteq> -1)"

lemma blocked_append [simp]: "blocked B (h @ xs) = fold mask_step xs (blocked B h)"
  by (simp add: blocked_def)

lemma watched_append [simp]: "watched fd (h @ xs) = fold (watch_step fd) xs (watched fd h)"
  by (simp add: watched_def)

text \<open>
  The specification: a set of signals, and the signals blocked in the thread. A number that is
  no signal is accepted without effect.
\<close>

datatype sig_op = Sig_add int | Sig_remove int

fun sig_spec :: "sig_op \<Rightarrow> int set \<Rightarrow> int set" where
  "sig_spec (Sig_add n) S = (if is_signal n then insert n S else S)"
| "sig_spec (Sig_remove n) S = S - {n}"

fun block_spec :: "sig_op \<Rightarrow> int set \<Rightarrow> int set" where
  "block_spec (Sig_add n) T = (if is_signal n \<and> n \<notin> uncatchable then insert n T else T)"
| "block_spec (Sig_remove n) T = (if is_signal n then T - {n} else T)"

fun sig_exec :: "Signals \<Rightarrow> sig_op \<Rightarrow> (io_world, error_code) comp" where
  "sig_exec this (Sig_add n) = Signals_add this n"
| "sig_exec this (Sig_remove n) = Signals_remove this n"

fun sig_run :: "Signals \<Rightarrow> sig_op list \<Rightarrow> (io_world, error_code list) comp" where
  "sig_run this [] = return []"
| "sig_run this (x # xs) = bnd (sig_exec this x) (\<lambda>ec. bnd (sig_run this xs) (\<lambda>ecs. return (ec # ecs)))"

text \<open>
  The object represents a set \<open>S\<close> while \<open>T\<close> is blocked: its mask is
  \<open>S\<close>, and its descriptor reports what can be caught of it, which is blocked.
\<close>

definition represents :: "int set \<Rightarrow> nat \<Rightarrow> int set \<Rightarrow> int set \<Rightarrow> io_world \<Rightarrow> bool" where
  "represents B this S T w \<longleftrightarrow> (\<exists>impl. signal_impls w this = Some impl \<and> sig_mask impl = S
     \<and> sig_read impl \<noteq> -1 \<and> watched (sig_read impl) (history w) = Some (S - uncatchable)
     \<and> blocked B (history w) = T \<and> S - uncatchable \<subseteq> T \<and> (\<forall>n \<in> S. is_signal n))"

lemma representsI:
  assumes "signal_impls w this = Some impl" "sig_mask impl = S" "sig_read impl \<noteq> -1"
    "watched (sig_read impl) (history w) = Some (S - uncatchable)" "blocked B (history w) = T"
    "S - uncatchable \<subseteq> T" "\<And>n. n \<in> S \<Longrightarrow> is_signal n"
  shows "represents B this S T w"
  using assms unfolding represents_def by blast

lemma renew_signalfd_represents:
  assumes errs: "sets_errno env" and run: "renew_signalfd this impl env w = (Ret ec, w')" and ok: "\<not> failed ec"
    and S: "sig_mask impl = S" "blocked B (history w) = T" "S - uncatchable \<subseteq> T" "\<And>n. n \<in> S \<Longrightarrow> is_signal n"
  shows "represents B this S T w'"
proof -
  let ?c = "Signalfd (sig_read impl) (sig_mask impl)"
  let ?fd = "ret (answer env (history w) ?c)"
  have fd: "?fd \<noteq> -1" using run ok sets_errnoD [OF errs, of "history w" ?c]
    by (auto simp: renew_signalfd_def comp_simps split: if_splits)
  then have "w' = (logged env ?c w)\<lparr>signal_impls := (signal_impls w)(this \<mapsto> impl\<lparr>sig_read := ?fd\<rparr>)\<rparr>"
    using run by (simp add: renew_signalfd_def comp_simps)
  then show ?thesis using S fd
    by (intro representsI [of _ _ "impl\<lparr>sig_read := ?fd\<rparr>"]) (simp_all add: comp_simps)
qed

lemma sig_add_represents:
  assumes env: "sets_errno env" "platform env = Linux"
    and run: "Signals_add (Some this) n env w = (Ret ec, w')" and ok: "\<not> failed ec"
    and rep: "represents B this S T w"
  shows "represents B this (sig_spec (Sig_add n) S) (block_spec (Sig_add n) T) w'"
proof -
  obtain impl where impl: "signal_impls w this = Some impl" "sig_mask impl = S"
    "blocked B (history w) = T" "S - uncatchable \<subseteq> T" "\<And>n. n \<in> S \<Longrightarrow> is_signal n"
    using rep unfolding represents_def by blast
  let ?impl = "impl\<lparr>sig_mask := sigaddset S n\<rparr>"
  let ?c = "Sigprocmask True (sigaddset S n)"
  let ?w = "logged env ?c (w\<lparr>signal_impls := (signal_impls w)(this \<mapsto> ?impl)\<rparr>)"
  have run': "(if ret (answer env (history w) ?c) = -1 then (Ret \<lparr>ec_value = err (answer env (history w) ?c),
      ec_category = Generic\<rparr>, ?w) else renew_signalfd this ?impl env ?w) = (Ret ec, w')"
    using run impl(1,2) env(2)
    by (simp add: Signals_add_def noexcept_eq_Ret Impl_add_linux_def comp_simps Let_def cong: if_cong)
  have r: "ret (answer env (history w) ?c) \<noteq> -1" using run' ok sets_errnoD [OF env(1)] by (auto split: if_splits)
  with run' have "renew_signalfd this ?impl env ?w = (Ret ec, w')" by simp
  from env(1) this ok show ?thesis
  proof (rule renew_signalfd_represents)
    show "sig_mask ?impl = sig_spec (Sig_add n) S" by (simp add: sigaddset_def)
    show "blocked B (history ?w) = block_spec (Sig_add n) T"
      using r impl(3,4) by (auto simp: history_logged sigaddset_def)
  qed (use impl(4,5) in \<open>auto split: if_splits\<close>)
qed

lemma sig_remove_represents:
  assumes env: "sets_errno env" "platform env = Linux" "unblocking_succeeds env"
    and run: "Signals_remove (Some this) n env w = (Ret ec, w')" and ok: "\<not> failed ec"
    and rep: "represents B this S T w"
  shows "represents B this (sig_spec (Sig_remove n) S) (block_spec (Sig_remove n) T) w'"
proof -
  obtain impl where impl: "signal_impls w this = Some impl" "sig_mask impl = S"
    "blocked B (history w) = T" "S - uncatchable \<subseteq> T" "\<And>n. n \<in> S \<Longrightarrow> is_signal n"
    using rep unfolding represents_def by blast
  let ?impl = "impl\<lparr>sig_mask := sigdelset S n\<rparr>"
  let ?w = "(logged env (Sigprocmask False (sigaddset {} n)) w)\<lparr>signal_impls := (signal_impls w)(this \<mapsto> ?impl)\<rparr>"
  have run': "renew_signalfd this ?impl env ?w = (Ret ec, w')"
    using run impl(1,2) env(2)
    by (simp add: Signals_remove_def noexcept_eq_Ret Impl_remove_linux_def comp_simps Let_def)
  from env(1) run' ok show ?thesis
  proof (rule renew_signalfd_represents)
    show "sig_mask ?impl = sig_spec (Sig_remove n) S" using impl(5) by (auto simp: sigdelset_def)
    show "blocked B (history ?w) = block_spec (Sig_remove n) T"
      using impl(3) env(3) by (simp add: history_logged sigaddset_def unblocking_succeeds_def)
  qed (use impl(4,5) in \<open>auto split: if_splits\<close>)
qed

lemma sig_exec_represents:
  assumes "sets_errno env" "platform env = Linux" "unblocking_succeeds env"
    "sig_exec (Some this) x env w = (Ret ec, w')" "\<not> failed ec" "represents B this S T w"
  shows "represents B this (sig_spec x S) (block_spec x T) w'"
  using assms(4) sig_add_represents [OF assms(1,2) _ assms(5,6)] sig_remove_represents [OF assms(1-3) _ assms(5,6)]
  by (cases x) simp_all

lemma sig_run_represents:
  assumes "sets_errno env" "platform env = Linux" "unblocking_succeeds env"
    "sig_run (Some this) xs env w = (Ret ecs, w')" "\<forall>ec \<in> set ecs. \<not> failed ec" "represents B this S T w"
  shows "represents B this (fold sig_spec xs S) (fold block_spec xs T) w'"
  using assms(4-)
proof (induction xs arbitrary: w S T ecs)
  case (Cons x xs)
  from Cons.prems(1) obtain ec w1 ecs' where x: "sig_exec (Some this) x env w = (Ret ec, w1)"
    "sig_run (Some this) xs env w1 = (Ret ecs', w')" "ecs = ec # ecs'"
    by (auto simp: bnd_eq_Ret comp_simps)
  with Cons.prems(2) have "\<not> failed ec" "\<forall>ec \<in> set ecs'. \<not> failed ec" by simp_all
  with Cons.IH [OF x(2)] sig_exec_represents [OF assms(1-3) x(1)] Cons.prems(3) show ?case by simp
qed (simp add: comp_simps)

lemma Signals_new_linux:
  assumes "platform env = Linux" "sets_errno env" "Signals_new ec0 env w0 = (Ret (sig, ec1), w1)" "\<not> failed ec1"
  shows "\<exists>this. sig = Some this \<and> represents B this {} (blocked B (history w0)) w1"
proof -
  let ?c = "Signalfd (-1) {}"
  let ?w = "(logged env Alloc w0)\<lparr>next_addr := Suc (next_addr w0)\<rparr>"
  let ?impl = "(Impl_default Linux)\<lparr>sig_read := ret (answer env (history ?w) ?c)\<rparr>"
  have "ret (answer env (history ?w) ?c) \<noteq> -1" using assms sets_errnoD [OF assms(2), of "history ?w" ?c]
    by (auto simp: Signals_new_def noexcept_eq_Ret make_impl_def Impl_new_def Impl_new_linux_def comp_simps
        split: if_splits)
  then show ?thesis using assms
    by (auto simp: Signals_new_def noexcept_eq_Ret make_impl_def Impl_new_def Impl_new_linux_def comp_simps
        Impl_default_def split: if_splits intro!: representsI [of _ _ ?impl])
qed

text \<open>
  C12. On Linux a \<open>Signals\<close> object implements a set of signals: after any sequence of
  additions and removals that report no error, its mask is the set the specification computes,
  and the descriptor that the event loop polls reports exactly these signals. The signals
  blocked in the thread are exactly those that were blocked before with every added one put in
  and every removed one taken out, in the order of the operations, so each signal of the set is
  blocked and not delivered in another way. \<open>SIGKILL\<close> and \<open>SIGSTOP\<close>, which
  the system neither blocks nor reports, can be in the mask without effect, and a number that is
  no signal is accepted without effect. Destroying the object closes the descriptor and unblocks
  exactly the mask.
\<close>

theorem signals_mask_refines:
  assumes env: "sets_errno env" "platform env = Linux" "unblocking_succeeds env"
    and new: "Signals_new ec0 env w0 = (Ret (sig, ec1), w1)" "\<not> failed ec1"
    and run: "sig_run sig xs env w1 = (Ret ecs, w2)" "\<forall>ec \<in> set ecs. \<not> failed ec"
  shows "\<exists>this impl w3. sig = Some this \<and> signal_impls w2 this = Some impl
    \<and> sig_mask impl = fold sig_spec xs {}
    \<and> watched (sig_read impl) (history w2) = Some (fold sig_spec xs {} - uncatchable)
    \<and> blocked B (history w2) = fold block_spec xs (blocked B (history w0))
    \<and> fold sig_spec xs {} - uncatchable \<subseteq> blocked B (history w2)
    \<and> Signals_destroy sig env w2 = (Ret (), w3)
    \<and> map fst (history w3) = map fst (history w2) @ [Close (sig_read impl), Sigprocmask False (fold sig_spec xs {})]
    \<and> blocked B (history w3) = fold block_spec xs (blocked B (history w0)) - fold sig_spec xs {}"
proof -
  from Signals_new_linux [OF env(2,1) new] obtain this where
    sig: "sig = Some this" "represents B this {} (blocked B (history w0)) w1" by blast
  from sig_run_represents [OF env run(1) [unfolded sig(1)] run(2) sig(2)] obtain impl where
    impl: "signal_impls w2 this = Some impl" "sig_mask impl = fold sig_spec xs {}" "sig_read impl \<noteq> -1"
    "watched (sig_read impl) (history w2) = Some (fold sig_spec xs {} - uncatchable)"
    "blocked B (history w2) = fold block_spec xs (blocked B (history w0))"
    "fold sig_spec xs {} - uncatchable \<subseteq> blocked B (history w2)"
    unfolding represents_def by blast
  have "Signals_destroy sig env w2 = (Ret (), (logged env (Sigprocmask False (sig_mask impl))
      (logged env (Close (sig_read impl)) w2))\<lparr>signal_impls := (signal_impls w2)(this := None)\<rparr>)"
    unfolding Signals_destroy_def
    by (rule noexcept_Ret) (simp add: sig Impl_destroy_def Impl_destroy_linux_def comp_simps env(2) impl)
  then show ?thesis using impl sig(1) env(3) by (simp add: unblocking_succeeds_def)
qed

text \<open>A Linux system on which every call succeeds.\<close>

definition signal_env :: env where
  "signal_env = \<lparr>platform = Linux, host_endian = Little, macro_defined = (\<lambda>_. True),
     answer = (\<lambda>_ c. case c of Alloc \<Rightarrow> plain 1 0 | Signalfd _ _ \<Rightarrow> plain 5 0 | _ \<Rightarrow> plain 0 0)\<rparr>"

lemma signal_env_simps [simp]:
  "platform signal_env = Linux" "answer signal_env h Alloc = plain 1 0" "answer signal_env h (Signalfd fd m) = plain 5 0"
  "answer signal_env h (Sigprocmask b m) = plain 0 0"
  by (simp_all add: signal_env_def)

lemma signal_env_sets_errno: "sets_errno signal_env"
  by (auto simp: sets_errno_def signal_env_def plain_def split: call.splits)

lemma signal_env_unblocks: "unblocking_succeeds signal_env"
  by (simp add: unblocking_succeeds_def)

text \<open>\<open>SIGINT\<close>, \<open>SIGTERM\<close> and \<open>SIGKILL\<close> are added and the first is removed.\<close>

theorem signals_mask_refines_witness:
  "\<exists>sig w1 w2 ecs. Signals_new cleared signal_env (one_selector Linux []) = (Ret (sig, cleared), w1)
    \<and> sig_run sig [Sig_add 2, Sig_add 15, Sig_add 9, Sig_remove 2] signal_env w1 = (Ret ecs, w2)
    \<and> watched 5 (history w2) = Some {15} \<and> blocked {2, 10} (history w2) = {10, 15}"
proof -
  let ?xs = "[Sig_add 2, Sig_add 15, Sig_add 9, Sig_remove 2]"
  obtain sig w1 where new: "Signals_new cleared signal_env (one_selector Linux []) = (Ret (sig, cleared), w1)"
    and obj: "\<exists>this. sig = Some this \<and> signal_impls w1 this = Some ((Impl_default Linux)\<lparr>sig_read := 5\<rparr>)"
    by (simp add: Signals_new_def noexcept_eq_Ret make_impl_def Impl_new_def Impl_new_linux_def comp_simps)
  have add: "\<exists>w'. sig_exec (Some this) x signal_env w = (Ret cleared, w')
      \<and> (\<exists>impl'. signal_impls w' this = Some impl' \<and> sig_read impl' = 5)"
    if "signal_impls w this = Some impl" "sig_read impl = 5" for x w this impl
    using that by (cases x) (simp_all add: Signals_add_def Signals_remove_def noexcept_eq_Ret Impl_add_linux_def
        Impl_remove_linux_def renew_signalfd_def comp_simps Let_def)
  have "\<exists>ecs w'. sig_run (Some this) xs signal_env w = (Ret ecs, w') \<and> (\<forall>ec \<in> set ecs. \<not> failed ec)
      \<and> (\<exists>impl'. signal_impls w' this = Some impl' \<and> sig_read impl' = 5)"
    if "signal_impls w this = Some impl" "sig_read impl = 5" for xs w this impl
    using that
  proof (induction xs arbitrary: w impl)
    case (Cons x xs)
    obtain w' impl' where x: "sig_exec (Some this) x signal_env w = (Ret cleared, w')"
      "signal_impls w' this = Some impl'" "sig_read impl' = 5" using add [OF Cons.prems] by blast
    from Cons.IH [OF x(2,3)] x(1) show ?case by (auto simp: bnd_def comp_simps)
  qed (auto simp: comp_simps)
  with obj obtain ecs w2 where run: "sig_run sig ?xs signal_env w1 = (Ret ecs, w2)" "\<forall>ec \<in> set ecs. \<not> failed ec"
    "\<exists>this impl. sig = Some this \<and> signal_impls w2 this = Some impl \<and> sig_read impl = 5"
    by fastforce
  have "fold sig_spec ?xs {} - uncatchable = {15}" "fold block_spec ?xs (blocked {2, 10} (history (one_selector Linux [])))
      = {10, 15}" by (auto simp: is_signal_def uncatchable_def blocked_def one_selector_def)
  with signals_mask_refines [OF signal_env_sets_errno signal_env_simps(1) signal_env_unblocks new failed_cleared run(1,2),
      of "{2, 10}"] run(3) new run(1) show ?thesis by fastforce
qed

section \<open>The self-pipe\<close>

text \<open>
  The bytes in a pipe after a history, and what POSIX documents of a non-blocking pipe of
  capacity \<open>cap\<close>: a short write that fits is complete, a read takes bytes from the
  front, and an empty pipe gives \<open>EAGAIN\<close>.
\<close>

fun pipe_step :: "int \<Rightarrow> int \<Rightarrow> call \<times> reply \<Rightarrow> bytes \<Rightarrow> bytes" where
  "pipe_step rd wr (Write fd bs, r) buf = (if fd = wr then buf @ take (nat (ret r)) bs else buf)"
| "pipe_step rd wr (Read fd n, r) buf = (if fd = rd then drop (nat (ret r)) buf else buf)"
| "pipe_step rd wr _ buf = buf"

definition pipe_bytes :: "int \<Rightarrow> int \<Rightarrow> history \<Rightarrow> bytes" where
  "pipe_bytes rd wr h = fold (pipe_step rd wr) h []"

definition pipe_behaves :: "env \<Rightarrow> int \<Rightarrow> int \<Rightarrow> nat \<Rightarrow> bool" where
  "pipe_behaves env rd wr cap \<longleftrightarrow>
     (\<forall>h bs. length (pipe_bytes rd wr h) + length bs \<le> cap \<longrightarrow> ret (answer env h (Write wr bs)) = int (length bs))
   \<and> (\<forall>h n. pipe_bytes rd wr h = [] \<longrightarrow>
        ret (answer env h (Read rd n)) = -1 \<and> err (answer env h (Read rd n)) = EAGAIN (platform env))
   \<and> (\<forall>h n. pipe_bytes rd wr h \<noteq> [] \<longrightarrow>
        ret (answer env h (Read rd n)) = int (min (unat n) (length (pipe_bytes rd wr h)))
        \<and> out_bytes (answer env h (Read rd n)) = take (unat n) (pipe_bytes rd wr h))"

lemma pipe_bytes_append [simp]: "pipe_bytes rd wr (h @ xs) = fold (pipe_step rd wr) xs (pipe_bytes rd wr h)"
  by (simp add: pipe_bytes_def)

lemma pipe_behavesD:
  assumes "pipe_behaves env rd wr cap"
  shows "length (pipe_bytes rd wr h) + length bs \<le> cap \<Longrightarrow> ret (answer env h (Write wr bs)) = int (length bs)"
    and "pipe_bytes rd wr h = [] \<Longrightarrow>
      ret (answer env h (Read rd n)) = -1 \<and> err (answer env h (Read rd n)) = EAGAIN (platform env)"
    and "pipe_bytes rd wr h \<noteq> [] \<Longrightarrow>
      ret (answer env h (Read rd n)) = int (min (unat n) (length (pipe_bytes rd wr h)))
      \<and> out_bytes (answer env h (Read rd n)) = take (unat n) (pipe_bytes rd wr h)"
  using assms unfolding pipe_behaves_def by blast+

text \<open>Numbers of type \<open>int\<close>, and their records in the pipe.\<close>

definition is_int :: "int \<Rightarrow> bool" where
  "is_int n \<longleftrightarrow> -2147483648 \<le> n \<and> n \<le> INT_MAX"

definition records :: "endian \<Rightarrow> int list \<Rightarrow> bytes" where
  "records e sigs = concat (map (signum_bytes e) sigs)"

lemma length_signum_bytes [simp]: "length (signum_bytes e n) = 4"
  by (simp add: signum_bytes_def)

lemma signum_of_bytes [simp]:
  assumes "is_int n"
  shows "signum_of e (signum_bytes e n @ rest) = n"
proof -
  have "sint (word_of_int n :: u32) = n" using assms
    by (simp add: is_int_def sint_uint unsigned_of_int signed_take_bit_take_bit signed_take_bit_int_eq_self)
  then show ?thesis by (simp add: signum_of_def signum_bytes_def)
qed

lemma records_simps [simp]:
  "records e [] = []" "records e (n # ns) = signum_bytes e n @ records e ns"
  "records e (ms @ ns) = records e ms @ records e ns" "length (records e ns) = 4 * length ns"
  by (simp_all add: records_def length_concat sum_list_triv comp_def)

lemma pending_loop_pipe:
  assumes pipe: "pipe_behaves env rd wr cap" and "\<forall>n \<in> set sigs. is_int n"
    and "pipe_bytes rd wr (history w) = records (host_endian env) sigs"
  shows "\<exists>r w'. pending_loop env (Read rd 4) 4 acc w = Some ((acc @ sigs, r), w')
    \<and> ret r = -1 \<and> err r = EAGAIN (platform env) \<and> pipe_bytes rd wr (history w') = []"
  using assms(2-)
proof (induction sigs arbitrary: acc w)
  case Nil
  with pipe_behavesD(2) [OF pipe, of "history w" 4] show ?case
    by (subst pending_loop.simps) (simp add: Let_def)
next
  case (Cons n sigs)
  let ?c = "Read rd 4"
  let ?r = "answer env (history w) ?c"
  have ne: "pipe_bytes rd wr (history w) \<noteq> []" using Cons.prems(2) length_signum_bytes
    by (metis append_is_Nil_conv list.size(3) records_simps(2) zero_neq_numeral)
  have r: "ret ?r = 4" "out_bytes ?r = signum_bytes (host_endian env) n"
    using pipe_behavesD(3) [OF pipe ne, of 4] Cons.prems(2) by simp_all
  have "pipe_bytes rd wr (history (logged env ?c w)) = records (host_endian env) sigs"
    using r(1) Cons.prems(2) by (simp add: comp_simps)
  from Cons.IH [OF _ this, of "acc @ [n]"] Cons.prems(1) r show ?case
    using signum_of_bytes [of n "host_endian env" "[]"] by (subst pending_loop.simps) (simp add: Let_def)
qed

lemma handler_writes:
  assumes pipe: "pipe_behaves env rd wr cap" and wr: "wr \<noteq> -1"
    and obj: "global_instance w = Some this" "signal_impls w this = Some impl" "sig_write impl = wr"
    and room: "length (pipe_bytes rd wr (history w)) + 4 * length sigs \<le> cap"
  shows "\<exists>w'. for_each sigs handler_routine_pipe env w = (Ret (), w') \<and> errno w' = errno w
    \<and> signal_impls w' = signal_impls w
    \<and> pipe_bytes rd wr (history w') = pipe_bytes rd wr (history w) @ records (host_endian env) sigs"
  using obj(1,2) room
proof (induction sigs arbitrary: w)
  case (Cons n sigs)
  let ?c = "Write wr (signum_bytes (host_endian env) n)"
  let ?w = "(logged env ?c w)\<lparr>errno := errno w\<rparr>"
  have run: "handler_routine_pipe n env w = (Ret (), ?w)"
    using Cons.prems(1,2) wr obj(3) by (simp add: handler_routine_pipe_def comp_simps)
  have "ret (answer env (history w) ?c) = 4"
    using pipe_behavesD(1) [OF pipe, of "history w" "signum_bytes (host_endian env) n"] Cons.prems(3) by simp
  then have bytes: "pipe_bytes rd wr (history ?w) = pipe_bytes rd wr (history w) @ signum_bytes (host_endian env) n"
    by (simp add: comp_simps)
  have "\<exists>w'. for_each sigs handler_routine_pipe env ?w = (Ret (), w') \<and> errno w' = errno ?w
    \<and> signal_impls w' = signal_impls ?w
    \<and> pipe_bytes rd wr (history w') = pipe_bytes rd wr (history ?w) @ records (host_endian env) sigs"
    by (rule Cons.IH) (use Cons.prems bytes in simp_all)
  then show ?case using run bytes by (auto simp: bnd_def)
qed (simp add: comp_simps)

text \<open>
  C13. The self-pipe loses no signal: when the handler runs for the signals \<open>sigs\<close>
  while the records of \<open>old\<close> are in the pipe and there is room for all of them, the
  next \<open>pending\<close> returns, with exactly these signals in the order in which they
  arrived, and leaves the pipe empty. The handler preserves \<open>errno\<close>.
\<close>

theorem self_pipe_delivers:
  assumes env: "platform env = Kqueue \<or> platform env = Poll_Unix" and pipe: "pipe_behaves env rd wr cap" "wr \<noteq> -1"
    and obj: "global_instance w = Some this" "signal_impls w this = Some impl" "sig_read impl = rd" "sig_write impl = wr"
    and old: "pipe_bytes rd wr (history w) = records (host_endian env) old"
    and ints: "\<forall>n \<in> set (old @ sigs). is_int n"
    and room: "4 * length (old @ sigs) \<le> cap"
  shows "\<exists>w1 w2. for_each sigs handler_routine_pipe env w = (Ret (), w1) \<and> errno w1 = errno w
    \<and> Signals_pending (Some this) env w1 = (Ret (old @ sigs, cleared), w2)
    \<and> pipe_bytes rd wr (history w2) = []"
proof -
  obtain w1 where w1: "for_each sigs handler_routine_pipe env w = (Ret (), w1)" "errno w1 = errno w"
    "signal_impls w1 = signal_impls w" "pipe_bytes rd wr (history w1) = records (host_endian env) (old @ sigs)"
    using handler_writes [OF pipe obj(1,2,4), of sigs] old room by auto
  obtain r w2 where loop: "pending_loop env (Read rd 4) 4 [] w1 = Some ((old @ sigs, r), w2)"
    "ret r = -1" "err r = EAGAIN (platform env)" "pipe_bytes rd wr (history w2) = []"
    using pending_loop_pipe [OF pipe(1) ints w1(4), of "[]"] by auto
  have "Impl_pending_pipe this env w1 = (Ret (old @ sigs, cleared), w2)"
    using loop obj(2,3) w1(3) by (simp add: Impl_pending_pipe_def read_pending_def comp_simps bnd_def)
  then have "Signals_pending (Some this) env w1 = (Ret (old @ sigs, cleared), w2)"
    using env unfolding Signals_pending_def by (intro noexcept_Ret) (auto simp: comp_simps)
  with w1 loop(4) show ?thesis by blast
qed

text \<open>A system whose descriptors 3 and 4 are the ends of a pipe of 64 bytes.\<close>

definition pipe_env :: env where
  "pipe_env = \<lparr>platform = Kqueue, host_endian = Little, macro_defined = (\<lambda>_. True),
     answer = (\<lambda>h c. let buf = pipe_bytes 3 4 h in case c of
         Write fd bs \<Rightarrow> if length buf + length bs \<le> 64 then plain (int (length bs)) 0 else plain (-1) 35
       | Read fd n \<Rightarrow> if buf = [] then plain (-1) 35
           else (plain (int (min (unat n) (length buf))) 0)\<lparr>out_bytes := take (unat n) buf\<rparr>
       | _ \<Rightarrow> plain 0 0)\<rparr>"

lemma pipe_env_behaves: "pipe_behaves pipe_env 3 4 64"
  by (auto simp: pipe_behaves_def pipe_env_def EAGAIN_def Let_def)

definition pipe_world :: io_world where
  "pipe_world = (one_selector Kqueue [])\<lparr>global_instance := Some 9,
     signal_impls := [9 \<mapsto> (Impl_default Kqueue)\<lparr>sig_read := 3, sig_write := 4\<rparr>]\<rparr>"

theorem self_pipe_delivers_witness:
  "\<exists>w1 w2. for_each [2, 15, 2] handler_routine_pipe pipe_env pipe_world = (Ret (), w1)
    \<and> Signals_pending (Some 9) pipe_env w1 = (Ret ([2, 15, 2], cleared), w2)"
proof -
  have "\<exists>w1 w2. for_each [2, 15, 2] handler_routine_pipe pipe_env pipe_world = (Ret (), w1)
    \<and> errno w1 = errno pipe_world \<and> Signals_pending (Some 9) pipe_env w1 = (Ret ([] @ [2, 15, 2], cleared), w2)
    \<and> pipe_bytes 3 4 (history w2) = []"
    by (rule self_pipe_delivers [OF _ pipe_env_behaves,
        where impl = "(Impl_default Kqueue)\<lparr>sig_read := 3, sig_write := 4\<rparr>"])
      (simp_all add: pipe_env_def pipe_world_def is_int_def one_selector_def pipe_bytes_def)
  then show ?thesis by auto
qed

section \<open>Registration\<close>

lemma selector_keeps_impls:
  assumes "platform env \<noteq> Windows"
  shows "Selector_add this h k t i d env w = (r, w') \<Longrightarrow> signal_impls w' = signal_impls w"
    and "Selector_remove this h env w = (r, w') \<Longrightarrow> signal_impls w' = signal_impls w"
proof -
  show "signal_impls w' = signal_impls w" if "Selector_add this h k t i d env w = (r, w')"
    using assms that
    by (cases "platform env") (auto simp: Selector_add_def validate_def emplace_registration_def add_to_backend_def add_epoll_def
      add_kqueue_def erase_registration_def catch_def throw_errno_def comp_simps Let_def split: option.splits if_splits)
  show "signal_impls w' = signal_impls w" if "Selector_remove this h env w = (r, w')"
    using assms that
    by (cases "platform env") (auto simp: Selector_remove_def remove_from_backend_def remove_epoll_def remove_kqueue_def
      noexcept_def catch_def comp_simps Let_def split: option.splits if_splits)
qed

text \<open>
  The shape of registration and deregistration with a hook that repeats the operation: when the
  first one succeeds, the hook throws out of a \<open>noexcept\<close> function.
\<close>

lemma reported_then_throwing_hook:
  assumes m: "m env w = (r1, w1)" "errors_reported env m" "r1 = Ret () \<or> (\<exists>e. r1 = Throw e) \<or> r1 = Terminate"
    and hook: "r1 = Ret () \<Longrightarrow> \<exists>e. hook env w1 = (Throw e, w2)"
    and run: "noexcept (bnd (reporting_void catch_all m) (\<lambda>ec.
      if \<not> failed ec then bnd hook (\<lambda>s. return (s, ec)) else return (s, ec))) env w = (r, w')"
  obtains (terminated) "r1 = Ret ()" "r = Terminate" "w' = w2"
  | (refused) e ec where "r1 = Throw e" "failed ec" "r = Ret (s, ec)" "w' = w1"
  | (stopped) "r1 = Terminate" "r = Terminate" "w' = w1"
proof -
  have h: "reporting_void catch_all m env w = (report_outcome catch_all (platform env) r1, w1)"
    using m(1) by (rule reporting_void_run)
  from m(3) show thesis
  proof (elim disjE exE)
    assume r1: "r1 = Ret ()"
    with hook obtain e where "hook env w1 = (Throw e, w2)" by blast
    with run h r1 show ?thesis by (intro terminated) (auto simp: noexcept_def catch_def bnd_def comp_simps)
  next
    fix e
    assume e: "r1 = Throw e"
    from errors_reportedD [OF m(2), of w e w1] m(1) e obtain ec where
      "catch_all (platform env) e = Some ec" "failed ec" by auto
    with run h e show ?thesis by (intro refused [of e ec]) (auto simp: noexcept_def catch_def bnd_def comp_simps)
  next
    assume "r1 = Terminate"
    with run h show ?thesis by (intro stopped) (auto simp: noexcept_def catch_def bnd_def comp_simps)
  qed
qed

lemma throws_when_refused:
  assumes "m env w = (Throw e, w')" "errors_reported env m"
  shows "\<exists>e'. throwing_void what (reporting_void catch_all m) env w = (Throw e', w')"
proof -
  from errors_reportedD [OF assms(2,1)] obtain ec where "catch_all (platform env) e = Some ec" "failed ec" by blast
  moreover have "reporting_void catch_all m env w = (report_outcome catch_all (platform env) (Throw e), w')"
    using assms(1) by (rule reporting_void_run)
  ultimately show ?thesis by (simp add: throwing_void_def bnd_def comp_simps)
qed

lemma Signals_on_registered_throws:
  assumes posix: "sets_errno env" "platform env \<noteq> Windows" and live: "selector_live env this w"
    and obj: "signal_impls w a = Some impl" and dup: "selector_table this w (sig_read impl) \<noteq> None"
  shows "\<exists>e w'. Signals_on_registered (Some this) t i (Some a) env w = (Throw e, w')
    \<and> selector_live env this w' \<and> selector_table this w' = selector_table this w"
proof -
  let ?k = "Signals_source_kind (platform env)"
  obtain sel where sel: "io_ok env w" "selectors w this = Some sel" "selector_table this w = reg_map sel"
    using live by (rule selector_liveE)
  obtain r1 w1 where add: "Selector_add this (sig_read impl) ?k t i False env w = (r1, w1)" by (meson surj_pair)
  from Selector_add_result [OF add sel(1,2)] obtain sel' where sel': "on_selector env this w r1 w1 sel'"
    "r1 = Ret () \<longrightarrow> reg_map sel (sig_read impl) = None" "\<forall>e. r1 = Throw e \<longrightarrow> reg_map sel' = reg_map sel" by blast
  have "r1 \<noteq> Terminate" using Selector_add_posix_returns [OF posix(2) sel(2)] add by (metis fst_conv)
  with sel' dup sel(3) obtain e where e: "r1 = Throw e" by (cases r1) (auto simp: on_selector_def)
  from throws_when_refused [OF add [unfolded e] errors_reported_add [OF posix]] obtain e' where
    "register_handle_throws (Some this) (sig_read impl) ?k t i env w = (Throw e', w1)"
    by (auto simp: register_handle_throws_def register_handle_def)
  then have "Signals_on_registered (Some this) t i (Some a) env w = (Throw e', w1)"
    using obj by (simp add: Signals_on_registered_def Signals_native_handle_def comp_simps bnd_def)
  then show ?thesis using on_selector_live [OF sel'(1)] sel'(3) e sel(3) by auto
qed

text \<open>
  C30. A \<open>Signals\<close> object cannot be registered on a POSIX system: \<open>register_source\<close>
  registers the handle and then calls the hook, which registers it again and throws inside a
  \<open>noexcept\<close> function. So the call either reports an error and leaves the table alone,
  or terminates the process after the handle went into the table; it never succeeds.
\<close>

theorem signals_registration_terminates:
  assumes posix: "sets_errno env" "platform env \<noteq> Windows" and live: "selector_live env this w"
    and obj: "signal_impls w a = Some impl"
    and run: "register_source (Signals_ops (platform env) impl) (Some this) (Some a) t i env w = (r, w')"
  shows "r = Terminate \<and> selector_table this w (sig_read impl) = None \<and> selector_table this w' =
      (selector_table this w)(sig_read impl \<mapsto> entry (sig_read impl) Kind_raw_descriptor t i False)
    \<or> (\<exists>ec. r = Ret (Some a, ec) \<and> failed ec \<and> selector_table this w' = selector_table this w)"
proof -
  let ?h = "sig_read impl" and ?k = "Signals_source_kind (platform env)"
  have k: "?k = Kind_raw_descriptor" using posix(2) by (simp add: Signals_source_kind_def)
  obtain sel where sel: "io_ok env w" "selectors w this = Some sel" "selector_table this w = reg_map sel"
    using live by (rule selector_liveE)
  obtain r1 w1 where add: "Selector_add this ?h ?k t i False env w = (r1, w1)" by (meson surj_pair)
  from Selector_add_result [OF add sel(1,2)] obtain sel' where on: "on_selector env this w r1 w1 sel'"
    and ok: "r1 = Ret () \<Longrightarrow> reg_map sel ?h = None \<and> reg_map sel' = (reg_map sel)(?h \<mapsto> entry ?h ?k t i False)"
    and bad: "\<And>e. r1 = Throw e \<Longrightarrow> reg_map sel' = reg_map sel" by blast
  note live1 = on_selector_live [OF on]
  have obj1: "signal_impls w1 a = Some impl" using selector_keeps_impls(1) [OF posix(2) add] obj by simp
  obtain r2 w2 where hook: "Signals_on_registered (Some this) t i (Some a) env w1 = (r2, w2)" by (meson surj_pair)
  have twice: "\<exists>e. r2 = Throw e \<and> selector_table this w2 = reg_map sel'" if "r1 = Ret ()"
    using Signals_on_registered_throws [OF posix _ obj1, of this t i] live1 ok [OF that] hook by auto
  have r1: "r1 = Ret () \<or> (\<exists>e. r1 = Throw e) \<or> r1 = Terminate" using on by (cases r1) (auto simp: on_selector_def)
  have nt: "r1 \<noteq> Terminate" using Selector_add_posix_returns [OF posix(2) sel(2)] add by (metis fst_conv)
  have run': "noexcept (bnd (reporting_void catch_all (Selector_add this ?h ?k t i False)) (\<lambda>ec.
      if \<not> failed ec then bnd (Signals_on_registered (Some this) t i (Some a)) (\<lambda>s. return (s, ec))
      else return (Some a, ec))) env w = (r, w')"
    using run by (simp add: register_source_def register_handle_def Signals_ops_def noexcept_def catch_def bnd_asks cong: if_cong)
  from add errors_reported_add [OF posix] r1 _ run' show ?thesis
    by (rule reported_then_throwing_hook [where ?w2.0 = w2]) (use hook twice ok bad live1 sel(3) k nt in auto)
qed

lemma signal_env_live: "selector_live signal_env 1 ((one_selector Linux [])\<lparr>signal_impls := m\<rparr>)"
proof -
  have "selector_live signal_env 1 (one_selector Linux [])" unfolding signal_env_def by (rule one_selector_live) simp
  then show ?thesis by (simp add: selector_live_def io_ok_def tables_ok_def refs_ok_def afd_ok_def)
qed

theorem signals_registration_terminates_witness:
  "\<exists>r w'. register_source (Signals_ops Linux ((Impl_default Linux)\<lparr>sig_read := 5\<rparr>)) (Some 1) (Some 9) (Token 3) READABLE
      signal_env ((one_selector Linux [])\<lparr>signal_impls := [9 \<mapsto> (Impl_default Linux)\<lparr>sig_read := 5\<rparr>]\<rparr>) = (r, w')
    \<and> (\<forall>s. r \<noteq> Ret (s, cleared))"
proof -
  let ?impl = "(Impl_default Linux)\<lparr>sig_read := 5\<rparr>"
  let ?w = "(one_selector Linux [])\<lparr>signal_impls := [9 \<mapsto> ?impl]\<rparr>"
  have p: "platform signal_env \<noteq> Windows" by simp
  have obj: "signal_impls ?w 9 = Some ?impl" by simp
  obtain r w' where run: "register_source (Signals_ops (platform signal_env) ?impl) (Some 1) (Some 9) (Token 3) READABLE
      signal_env ?w = (r, w')" by (meson surj_pair)
  from signals_registration_terminates [OF signal_env_sets_errno p signal_env_live obj run]
  have "\<forall>s. r \<noteq> Ret (s, cleared)" by auto
  with run show ?thesis by auto
qed

end
