(* ===== verification/Unix_Sockets.thy ===== *)
theory Unix_Sockets
  imports Registry Handle_Balance
begin

text \<open>
  Pipes and Unix domain sockets of \<^verbatim>\<open>src/unix.cpp\<close>. Each of the classes
  \<open>Sender\<close>, \<open>Receiver\<close>, \<open>UnixStream\<close>, \<open>UnixListener\<close> and
  \<open>UnixDatagram\<close> has one field, the descriptor, \<open>-1\<close> in an empty object; so an
  object is a number, and an operation that changes it returns the new one. The constructors
  from a descriptor throw, also where a \<open>noexcept\<close> function calls them. A path is a
  list of bytes. Each \<open>std::string\<close> that is built asks for memory once; an
  implementation that needs none is one where the request succeeds.
\<close>

section \<open>The helpers of the anonymous namespace\<close>

definition close_fd :: "int \<Rightarrow> ('x base_world_scheme, unit) comp" where
  "close_fd fd = (if 0 \<le> fd then bnd (sys (Close fd)) (\<lambda>_. return ()) else return ())"

definition unix_set_non_blocking :: "int \<Rightarrow> ('x base_world_scheme, error_code) comp" where
  "unix_set_non_blocking fd = bnd (asks platform) (\<lambda>p.
     bnd (sys (Fcntl_getfl fd)) (\<lambda>r.
     if ret r = -1 then errno_code
     else
       bnd (sys (Fcntl_setfl fd (ret r OR O_NONBLOCK p))) (\<lambda>r.
       if ret r = -1 then errno_code else return cleared)))"

definition unix_set_non_blocking_throws :: "int \<Rightarrow> ('x base_world_scheme, unit) comp" where
  "unix_set_non_blocking_throws fd = throwing_void ''fcntl(F_GETFL/F_SETFL)'' (unix_set_non_blocking fd)"

definition unix_set_close_on_exec :: "int \<Rightarrow> ('x base_world_scheme, error_code) comp" where
  "unix_set_close_on_exec fd =
     bnd (sys (Fcntl_getfd fd)) (\<lambda>r.
     if ret r = -1 then errno_code
     else
       bnd (sys (Fcntl_setfd fd (ret r OR FD_CLOEXEC))) (\<lambda>r.
       if ret r = -1 then errno_code else return cleared))"

definition unix_set_close_on_exec_throws :: "int \<Rightarrow> ('x base_world_scheme, unit) comp" where
  "unix_set_close_on_exec_throws fd = throwing_void ''fcntl(F_GETFD/F_SETFD)'' (unix_set_close_on_exec fd)"

definition prepare_fd :: "int \<Rightarrow> ('x base_world_scheme, error_code) comp" where
  "prepare_fd fd = bnd (unix_set_non_blocking fd) (\<lambda>ec.
     if failed ec then return ec else unix_set_close_on_exec fd)"

definition prepare_fd_throws :: "int \<Rightarrow> ('x base_world_scheme, unit) comp" where
  "prepare_fd_throws fd = throwing_void ''prepare_fd'' (prepare_fd fd)"

text \<open>
  A \<open>sockaddr_un\<close>: two bytes up to \<open>sun_path\<close>, then the array of characters.
\<close>

definition sun_path_size :: "platform \<Rightarrow> nat" where
  "sun_path_size p = (if p = Kqueue then 104 else 108)"

definition AF_UNIX_value :: u16 where "AF_UNIX_value = 1"

definition socket_address :: "platform \<Rightarrow> endian \<Rightarrow> bytes \<Rightarrow> bytes \<times> error_code" where
  "socket_address p e path =
     (let address = put_family p e AF_UNIX_value (replicate (2 + sun_path_size p) 0) in
      if sun_path_size p \<le> length path then (address, make_error_code p filename_too_long)
      else (put_at (2 + length path) [0] (put_at 2 path address), cleared))"

definition socket_address_throws :: "bytes \<Rightarrow> ('x base_world_scheme, bytes) comp" where
  "socket_address_throws path = bnd (asks platform) (\<lambda>p. bnd (asks host_endian) (\<lambda>e.
     throwing ''Unix socket path too long'' (return (socket_address p e path))))"

definition strlen :: "bytes \<Rightarrow> nat" where
  "strlen s = length (takeWhile (\<lambda>b. b \<noteq> 0) s)"

definition socket_address_length :: "bytes \<Rightarrow> nat" where
  "socket_address_length address = 2 + strlen (drop 2 address) + 1"

text \<open>
  \<open>strnlen\<close> stops at a NUL or after \<open>len - 2\<close> bytes; \<open>None\<close> is the
  read past the end of \<open>sun_path\<close>, which has no NUL and is shorter than the length says.
\<close>

definition path_from_sockaddr :: "bytes \<Rightarrow> nat \<Rightarrow> bytes option" where
  "path_from_sockaddr address len =
     (if len \<le> 2 then Some []
      else
        (let sun_path = drop 2 address in
         if length sun_path < len - 2 \<and> 0 \<notin> set sun_path then None
         else Some (takeWhile (\<lambda>b. b \<noteq> 0) (take (len - 2) sun_path))))"

text \<open>The zeroed \<open>sockaddr_un\<close> after a call stored an address in it.\<close>

definition stored_sockaddr :: "platform \<Rightarrow> reply \<Rightarrow> bytes" where
  "stored_sockaddr p r = put_at 0 (take (2 + sun_path_size p) (out_addr r)) (replicate (2 + sun_path_size p) 0)"

definition unix_make_socket :: "sock_type \<Rightarrow> ('x base_world_scheme, int \<times> error_code) comp" where
  "unix_make_socket t =
     bnd (sys (Socket_call AF_UNIX t IPPROTO_0)) (\<lambda>r. let fd = ret r in
     if fd = -1 then bnd errno_code (\<lambda>ec. return (-1, ec))
     else
       bnd (prepare_fd fd) (\<lambda>ec.
       if failed ec then bnd (close_fd fd) (\<lambda>_. return (-1, ec)) else return (fd, ec)))"

definition unix_make_socket_throws :: "sock_type \<Rightarrow> ('x base_world_scheme, int) comp" where
  "unix_make_socket_throws t = throwing ''socket(AF_UNIX)'' (unix_make_socket t)"

definition require_fd :: "platform \<Rightarrow> int \<Rightarrow> error_code" where
  "require_fd p fd = (if fd < 0 then make_error_code p bad_file_descriptor else cleared)"

definition require_fd_throws :: "int \<Rightarrow> ('x base_world_scheme, unit) comp" where
  "require_fd_throws fd = bnd (asks platform) (\<lambda>p. throwing_void ''invalid Unix socket'' (return (require_fd p fd)))"

text \<open>
  The first lines of an operation, \<open>require_fd(fd_, ec); if (ec) return dflt;\<close>, and the
  last ones, which turn the result of a call into a count.
\<close>

definition on_fd :: "int \<Rightarrow> 'a \<Rightarrow> ('x base_world_scheme, 'a \<times> error_code) comp \<Rightarrow>
    ('x base_world_scheme, 'a \<times> error_code) comp" where
  "on_fd fd dflt k = bnd (asks platform) (\<lambda>p. let ec = require_fd p fd in
     if failed ec then return (dflt, ec) else k)"

definition count_of :: "reply \<Rightarrow> ('x base_world_scheme, size_t \<times> error_code) comp" where
  "count_of r = (if ret r = -1 then bnd errno_code (\<lambda>ec. return (0, ec))
     else return (int_to_size (ret r), cleared))"

text \<open>The constructor from a descriptor, the same in the five classes.\<close>

definition fd_object :: "int \<Rightarrow> ('x base_world_scheme, int) comp" where
  "fd_object fd = bnd (require_fd_throws fd) (\<lambda>_. bnd (prepare_fd_throws fd) (\<lambda>_. return fd))"

text \<open>
  Move assignment, told whether the objects are the same: close, then take over what the
  \<open>release\<close> of the class gives; both descriptors after it.
\<close>

definition fd_move_assign ::
  "(int \<Rightarrow> int \<times> int) \<Rightarrow> bool \<Rightarrow> int \<Rightarrow> int \<Rightarrow> ('x base_world_scheme, int \<times> int) comp" where
  "fd_move_assign release same this other =
     (if \<not> same then bnd (close_fd this) (\<lambda>_. return (release other)) else return (this, other))"

section \<open>SourceFd, Sender and Receiver\<close>

definition SourceFd_ops :: "int source_ops" where
  "SourceFd_ops = \<lparr>native_handle = (\<lambda>_ fd. fd), source_kind_of = (\<lambda>_. Kind_raw_descriptor),
     on_registered = (\<lambda>_ _ _. default_hook), on_reregistered = (\<lambda>_ _ _. default_hook),
     on_deregistered = (\<lambda>_. default_hook)\<rparr>"

definition Sender_new :: "int \<Rightarrow> ('x base_world_scheme, int) comp" where
  "Sender_new fd = fd_object fd"

definition Sender_release :: "int \<Rightarrow> int \<times> int" where
  "Sender_release this = (this, -1)"

definition Sender_move :: "int \<Rightarrow> int \<times> int" where
  "Sender_move other = Sender_release other"

definition Sender_move_assign :: "bool \<Rightarrow> int \<Rightarrow> int \<Rightarrow> ('x base_world_scheme, int \<times> int) comp" where
  "Sender_move_assign same this other = fd_move_assign Sender_release same this other"

definition Sender_destroy :: "int \<Rightarrow> ('x base_world_scheme, unit) comp" where
  "Sender_destroy this = close_fd this"

definition Sender_valid :: "int \<Rightarrow> bool" where
  "Sender_valid this \<longleftrightarrow> 0 \<le> this"

definition Sender_ops :: "int source_ops" where
  "Sender_ops = SourceFd_ops"

definition Sender_write :: "int \<Rightarrow> bytes \<Rightarrow> ('x base_world_scheme, size_t \<times> error_code) comp" where
  "Sender_write this data = on_fd this 0 (bnd (sys (Write this data)) count_of)"

definition Sender_write_throws :: "int \<Rightarrow> bytes \<Rightarrow> ('x base_world_scheme, size_t) comp" where
  "Sender_write_throws this data = throwing ''write(pipe)'' (Sender_write this data)"

definition Sender_write_span :: "int \<Rightarrow> bytes \<Rightarrow> ('x base_world_scheme, size_t \<times> error_code) comp" where
  "Sender_write_span this buffer = Sender_write this buffer"

definition Sender_write_span_throws :: "int \<Rightarrow> bytes \<Rightarrow> ('x base_world_scheme, size_t) comp" where
  "Sender_write_span_throws this buffer = Sender_write_throws this buffer"

definition Receiver_new :: "int \<Rightarrow> ('x base_world_scheme, int) comp" where
  "Receiver_new fd = fd_object fd"

definition Receiver_release :: "int \<Rightarrow> int \<times> int" where
  "Receiver_release this = (this, -1)"

definition Receiver_move :: "int \<Rightarrow> int \<times> int" where
  "Receiver_move other = Receiver_release other"

definition Receiver_move_assign :: "bool \<Rightarrow> int \<Rightarrow> int \<Rightarrow> ('x base_world_scheme, int \<times> int) comp" where
  "Receiver_move_assign same this other = fd_move_assign Receiver_release same this other"

definition Receiver_destroy :: "int \<Rightarrow> ('x base_world_scheme, unit) comp" where
  "Receiver_destroy this = close_fd this"

definition Receiver_valid :: "int \<Rightarrow> bool" where
  "Receiver_valid this \<longleftrightarrow> 0 \<le> this"

definition Receiver_ops :: "int source_ops" where
  "Receiver_ops = SourceFd_ops"

definition Receiver_read :: "int \<Rightarrow> size_t \<Rightarrow> ('x base_world_scheme, size_t \<times> error_code) comp" where
  "Receiver_read this n = on_fd this 0 (bnd (sys (Read this n)) count_of)"

definition Receiver_read_throws :: "int \<Rightarrow> size_t \<Rightarrow> ('x base_world_scheme, size_t) comp" where
  "Receiver_read_throws this n = throwing ''read(pipe)'' (Receiver_read this n)"

definition Receiver_read_span :: "int \<Rightarrow> bytes \<Rightarrow> ('x base_world_scheme, size_t \<times> error_code) comp" where
  "Receiver_read_span this buffer = Receiver_read this (of_nat (length buffer))"

definition Receiver_read_span_throws :: "int \<Rightarrow> bytes \<Rightarrow> ('x base_world_scheme, size_t) comp" where
  "Receiver_read_span_throws this buffer = Receiver_read_throws this (of_nat (length buffer))"

text \<open>
  Both descriptors are prepared, or both are closed; shared by the pipe and the two socket
  pairs, which differ in the call and in the order of the objects.
\<close>

definition prepare_both :: "call \<Rightarrow> ('x base_world_scheme, (int \<times> int) option \<times> error_code) comp" where
  "prepare_both c =
     bnd (sys c) (\<lambda>r.
     if ret r = -1 then bnd errno_code (\<lambda>ec. return (None, ec))
     else
       (let (fd0, fd1) = out_fds r in
        bnd (prepare_fd fd0) (\<lambda>ec.
        bnd (if \<not> failed ec then prepare_fd fd1 else return ec) (\<lambda>ec.
        if failed ec then
          bnd (close_fd fd0) (\<lambda>_. bnd (close_fd fd1) (\<lambda>_. return (None, ec)))
        else return (Some (fd0, fd1), ec)))))"

definition unix_pipe :: "('x base_world_scheme, (int \<times> int) \<times> error_code) comp" where
  "unix_pipe = noexcept (bnd (prepare_both Pipe) (\<lambda>(fds, ec).
     case fds of
       None \<Rightarrow> return ((-1, -1), ec)
     | Some (fd0, fd1) \<Rightarrow>
         bnd (Sender_new fd1) (\<lambda>sender. bnd (Receiver_new fd0) (\<lambda>receiver.
         return ((sender, receiver), ec)))))"

definition unix_pipe_throws :: "('x base_world_scheme, int \<times> int) comp" where
  "unix_pipe_throws = throwing ''pipe'' unix_pipe"

section \<open>UnixStream\<close>

definition UnixStream_new :: "int \<Rightarrow> ('x base_world_scheme, int) comp" where
  "UnixStream_new fd = fd_object fd"

definition UnixStream_release :: "int \<Rightarrow> int \<times> int" where
  "UnixStream_release this = (this, -1)"

definition UnixStream_move :: "int \<Rightarrow> int \<times> int" where
  "UnixStream_move other = UnixStream_release other"

definition UnixStream_move_assign :: "bool \<Rightarrow> int \<Rightarrow> int \<Rightarrow> ('x base_world_scheme, int \<times> int) comp" where
  "UnixStream_move_assign same this other = fd_move_assign UnixStream_release same this other"

definition UnixStream_destroy :: "int \<Rightarrow> ('x base_world_scheme, unit) comp" where
  "UnixStream_destroy this = close_fd this"

definition UnixStream_valid :: "int \<Rightarrow> bool" where
  "UnixStream_valid this \<longleftrightarrow> 0 \<le> this"

definition UnixStream_ops :: "int source_ops" where
  "UnixStream_ops = SourceFd_ops"

text \<open>
  A named socket of the two classes that bind and of the one that connects: made, given its
  address, and closed again when a step fails. The argument \<open>use\<close> is what is done
  with the address; it returns the error if it failed.
\<close>

definition unix_named ::
  "sock_type \<Rightarrow> bytes \<Rightarrow> (int \<Rightarrow> bytes \<Rightarrow> ('x base_world_scheme, error_code option) comp) \<Rightarrow>
   ('x base_world_scheme, int \<times> error_code) comp" where
  "unix_named t path use =
     bnd (asks platform) (\<lambda>p. bnd (asks host_endian) (\<lambda>e.
     bnd (unix_make_socket t) (\<lambda>(fd, ec).
     if failed ec then return (-1, ec)
     else
       (let (address, ec) = socket_address p e path in
        if failed ec then bnd (close_fd fd) (\<lambda>_. return (-1, ec))
        else
          bnd (use fd address) (\<lambda>refused.
          case refused of
            Some ec \<Rightarrow> bnd (close_fd fd) (\<lambda>_. return (-1, ec))
          | None \<Rightarrow> bnd (fd_object fd) (\<lambda>object. return (object, cleared)))))))"

definition refused_if :: "bool \<Rightarrow> ('x base_world_scheme, error_code option) comp" where
  "refused_if b = (if b then bnd errno_code (\<lambda>ec. return (Some ec)) else return None)"

definition unix_connect_call :: "int \<Rightarrow> bytes \<Rightarrow> ('x base_world_scheme, error_code option) comp" where
  "unix_connect_call fd address = bnd (asks platform) (\<lambda>p.
     bnd (sys (Connect fd address (socket_address_length address))) (\<lambda>r.
     refused_if (ret r = -1 \<and> err r \<noteq> EINPROGRESS p)))"

definition UnixStream_connect :: "bytes \<Rightarrow> ('x base_world_scheme, int \<times> error_code) comp" where
  "UnixStream_connect path = noexcept (unix_named SOCK_STREAM path unix_connect_call)"

definition UnixStream_connect_throws :: "bytes \<Rightarrow> ('x base_world_scheme, int) comp" where
  "UnixStream_connect_throws path = throwing ''connect(AF_UNIX)'' (UnixStream_connect path)"

definition UnixStream_pair :: "('x base_world_scheme, (int \<times> int) \<times> error_code) comp" where
  "UnixStream_pair = noexcept (bnd (prepare_both (Socketpair SOCK_STREAM)) (\<lambda>(fds, ec).
     case fds of
       None \<Rightarrow> return ((-1, -1), ec)
     | Some (fd0, fd1) \<Rightarrow>
         bnd (UnixStream_new fd0) (\<lambda>first. bnd (UnixStream_new fd1) (\<lambda>second.
         return ((first, second), ec)))))"

definition UnixStream_pair_throws :: "('x base_world_scheme, int \<times> int) comp" where
  "UnixStream_pair_throws = throwing ''socketpair(SOCK_STREAM)'' UnixStream_pair"

definition UnixStream_read :: "int \<Rightarrow> size_t \<Rightarrow> ('x base_world_scheme, size_t \<times> error_code) comp" where
  "UnixStream_read this n = on_fd this 0 (bnd (sys (Read this n)) count_of)"

definition UnixStream_read_throws :: "int \<Rightarrow> size_t \<Rightarrow> ('x base_world_scheme, size_t) comp" where
  "UnixStream_read_throws this n = throwing ''read(AF_UNIX)'' (UnixStream_read this n)"

definition UnixStream_read_span :: "int \<Rightarrow> bytes \<Rightarrow> ('x base_world_scheme, size_t \<times> error_code) comp" where
  "UnixStream_read_span this buffer = UnixStream_read this (of_nat (length buffer))"

definition UnixStream_read_span_throws :: "int \<Rightarrow> bytes \<Rightarrow> ('x base_world_scheme, size_t) comp" where
  "UnixStream_read_span_throws this buffer = UnixStream_read_throws this (of_nat (length buffer))"

definition UnixStream_write :: "int \<Rightarrow> bytes \<Rightarrow> ('x base_world_scheme, size_t \<times> error_code) comp" where
  "UnixStream_write this data = on_fd this 0 (bnd (sys (Write this data)) count_of)"

definition UnixStream_write_throws :: "int \<Rightarrow> bytes \<Rightarrow> ('x base_world_scheme, size_t) comp" where
  "UnixStream_write_throws this data = throwing ''write(AF_UNIX)'' (UnixStream_write this data)"

definition UnixStream_write_span :: "int \<Rightarrow> bytes \<Rightarrow> ('x base_world_scheme, size_t \<times> error_code) comp" where
  "UnixStream_write_span this buffer = UnixStream_write this buffer"

definition UnixStream_write_span_throws :: "int \<Rightarrow> bytes \<Rightarrow> ('x base_world_scheme, size_t) comp" where
  "UnixStream_write_span_throws this buffer = UnixStream_write_throws this buffer"

definition UnixStream_write_text :: "int \<Rightarrow> string \<Rightarrow> ('x base_world_scheme, size_t \<times> error_code) comp" where
  "UnixStream_write_text this txt = UnixStream_write this (map (\<lambda>c. of_char c) txt)"

definition UnixStream_write_text_throws :: "int \<Rightarrow> string \<Rightarrow> ('x base_world_scheme, size_t) comp" where
  "UnixStream_write_text_throws this txt = UnixStream_write_throws this (map (\<lambda>c. of_char c) txt)"

definition unix_shutdown :: "int \<Rightarrow> shutdown_how \<Rightarrow> ('x base_world_scheme, error_code) comp" where
  "unix_shutdown this how = bnd (asks platform) (\<lambda>p. let ec = require_fd p this in
     if failed ec then return ec
     else bnd (sys (Shutdown this how)) (\<lambda>r. if ret r = -1 then errno_code else return cleared))"

definition UnixStream_shutdown_read :: "int \<Rightarrow> ('x base_world_scheme, error_code) comp" where
  "UnixStream_shutdown_read this = unix_shutdown this SHUT_RD"

definition UnixStream_shutdown_read_throws :: "int \<Rightarrow> ('x base_world_scheme, unit) comp" where
  "UnixStream_shutdown_read_throws this = throwing_void ''shutdown(SHUT_RD)'' (UnixStream_shutdown_read this)"

definition UnixStream_shutdown_write :: "int \<Rightarrow> ('x base_world_scheme, error_code) comp" where
  "UnixStream_shutdown_write this = unix_shutdown this SHUT_WR"

definition UnixStream_shutdown_write_throws :: "int \<Rightarrow> ('x base_world_scheme, unit) comp" where
  "UnixStream_shutdown_write_throws this = throwing_void ''shutdown(SHUT_WR)'' (UnixStream_shutdown_write this)"

definition UnixStream_shutdown_both :: "int \<Rightarrow> ('x base_world_scheme, error_code) comp" where
  "UnixStream_shutdown_both this = unix_shutdown this SHUT_RDWR"

definition UnixStream_shutdown_both_throws :: "int \<Rightarrow> ('x base_world_scheme, unit) comp" where
  "UnixStream_shutdown_both_throws this = throwing_void ''shutdown(SHUT_RDWR)'' (UnixStream_shutdown_both this)"

section \<open>UnixListener\<close>

definition UnixListener_new :: "int \<Rightarrow> ('x base_world_scheme, int) comp" where
  "UnixListener_new fd = fd_object fd"

definition UnixListener_release :: "int \<Rightarrow> int \<times> int" where
  "UnixListener_release this = (this, -1)"

definition UnixListener_move :: "int \<Rightarrow> int \<times> int" where
  "UnixListener_move other = UnixListener_release other"

definition UnixListener_move_assign :: "bool \<Rightarrow> int \<Rightarrow> int \<Rightarrow> ('x base_world_scheme, int \<times> int) comp" where
  "UnixListener_move_assign same this other = fd_move_assign UnixListener_release same this other"

definition UnixListener_destroy :: "int \<Rightarrow> ('x base_world_scheme, unit) comp" where
  "UnixListener_destroy this = close_fd this"

definition UnixListener_valid :: "int \<Rightarrow> bool" where
  "UnixListener_valid this \<longleftrightarrow> 0 \<le> this"

definition UnixListener_ops :: "int source_ops" where
  "UnixListener_ops = SourceFd_ops"

definition unix_bind_call :: "int \<Rightarrow> bytes \<Rightarrow> ('x base_world_scheme, error_code option) comp" where
  "unix_bind_call fd address =
     bnd (sys (Bind fd address (socket_address_length address))) (\<lambda>r. refused_if (ret r = -1))"

definition unix_listen_call :: "int \<Rightarrow> int \<Rightarrow> bytes \<Rightarrow> ('x base_world_scheme, error_code option) comp" where
  "unix_listen_call backlog fd address = bnd (unix_bind_call fd address) (\<lambda>refused.
     case refused of
       Some ec \<Rightarrow> return (Some ec)
     | None \<Rightarrow> bnd (sys (Listen fd backlog)) (\<lambda>r. refused_if (ret r = -1)))"

definition UnixListener_bind :: "bytes \<Rightarrow> int \<Rightarrow> ('x base_world_scheme, int \<times> error_code) comp" where
  "UnixListener_bind path backlog = noexcept (unix_named SOCK_STREAM path (unix_listen_call backlog))"

definition UnixListener_bind_default :: "bytes \<Rightarrow> ('x base_world_scheme, int \<times> error_code) comp" where
  "UnixListener_bind_default path = noexcept (UnixListener_bind path 128)"

definition UnixListener_bind_throws :: "bytes \<Rightarrow> int \<Rightarrow> ('x base_world_scheme, int) comp" where
  "UnixListener_bind_throws path backlog = throwing ''bind(AF_UNIX)'' (UnixListener_bind path backlog)"

text \<open>
  The path is built inside a \<open>try\<close>; copying it into the result is not guarded.
\<close>

definition UnixListener_accept :: "int \<Rightarrow> ('x base_world_scheme, (int \<times> bytes) \<times> error_code) comp" where
  "UnixListener_accept this = noexcept (on_fd this (-1, []) (bnd (asks platform) (\<lambda>p.
     bnd (sys (Accept this)) (\<lambda>r. let accepted = ret r in
     if accepted = -1 then bnd errno_code (\<lambda>ec. return ((-1, []), ec))
     else
       (case path_from_sockaddr (stored_sockaddr p r) (out_len r) of
          None \<Rightarrow> undefined_behaviour
        | Some path \<Rightarrow>
            bnd (sys Alloc) (\<lambda>a.
            if ret a = 0 then
              bnd (close_fd accepted) (\<lambda>_. return ((-1, []), make_error_code p not_enough_memory))
            else
              bnd (UnixStream_new accepted) (\<lambda>stream. bnd allocate (\<lambda>_.
              return ((stream, path), cleared)))))))))"

definition UnixListener_accept_throws :: "int \<Rightarrow> ('x base_world_scheme, int \<times> bytes) comp" where
  "UnixListener_accept_throws this = throwing ''accept(AF_UNIX)'' (UnixListener_accept this)"

section \<open>UnixDatagram\<close>

definition UnixDatagram_new :: "int \<Rightarrow> ('x base_world_scheme, int) comp" where
  "UnixDatagram_new fd = fd_object fd"

definition UnixDatagram_release :: "int \<Rightarrow> int \<times> int" where
  "UnixDatagram_release this = (this, -1)"

definition UnixDatagram_move :: "int \<Rightarrow> int \<times> int" where
  "UnixDatagram_move other = UnixDatagram_release other"

definition UnixDatagram_move_assign :: "bool \<Rightarrow> int \<Rightarrow> int \<Rightarrow> ('x base_world_scheme, int \<times> int) comp" where
  "UnixDatagram_move_assign same this other = fd_move_assign UnixDatagram_release same this other"

definition UnixDatagram_destroy :: "int \<Rightarrow> ('x base_world_scheme, unit) comp" where
  "UnixDatagram_destroy this = close_fd this"

definition UnixDatagram_valid :: "int \<Rightarrow> bool" where
  "UnixDatagram_valid this \<longleftrightarrow> 0 \<le> this"

definition UnixDatagram_ops :: "int source_ops" where
  "UnixDatagram_ops = SourceFd_ops"

definition UnixDatagram_bind :: "bytes \<Rightarrow> ('x base_world_scheme, int \<times> error_code) comp" where
  "UnixDatagram_bind path = noexcept (unix_named SOCK_DGRAM path unix_bind_call)"

definition UnixDatagram_bind_throws :: "bytes \<Rightarrow> ('x base_world_scheme, int) comp" where
  "UnixDatagram_bind_throws path = throwing ''bind(AF_UNIX datagram)'' (UnixDatagram_bind path)"

text \<open>The descriptor of a failed \<open>make_socket\<close> goes to the constructor too.\<close>

definition UnixDatagram_unbound :: "('x base_world_scheme, int \<times> error_code) comp" where
  "UnixDatagram_unbound = noexcept (bnd (unix_make_socket SOCK_DGRAM) (\<lambda>(fd, ec).
     bnd (UnixDatagram_new fd) (\<lambda>object. return (object, ec))))"

definition UnixDatagram_unbound_throws :: "('x base_world_scheme, int) comp" where
  "UnixDatagram_unbound_throws = throwing ''socket(AF_UNIX datagram)'' UnixDatagram_unbound"

definition UnixDatagram_pair :: "('x base_world_scheme, (int \<times> int) \<times> error_code) comp" where
  "UnixDatagram_pair = noexcept (bnd (prepare_both (Socketpair SOCK_DGRAM)) (\<lambda>(fds, ec).
     case fds of
       None \<Rightarrow> return ((-1, -1), ec)
     | Some (fd0, fd1) \<Rightarrow>
         bnd (UnixDatagram_new fd0) (\<lambda>first. bnd (UnixDatagram_new fd1) (\<lambda>second.
         return ((first, second), ec)))))"

definition UnixDatagram_pair_throws :: "('x base_world_scheme, int \<times> int) comp" where
  "UnixDatagram_pair_throws = throwing ''socketpair(SOCK_DGRAM)'' UnixDatagram_pair"

definition UnixDatagram_send :: "int \<Rightarrow> bytes \<Rightarrow> ('x base_world_scheme, size_t \<times> error_code) comp" where
  "UnixDatagram_send this data = on_fd this 0 (bnd (sys (Send this data (int (length data)))) count_of)"

definition UnixDatagram_send_throws :: "int \<Rightarrow> bytes \<Rightarrow> ('x base_world_scheme, size_t) comp" where
  "UnixDatagram_send_throws this data = throwing ''send(AF_UNIX datagram)'' (UnixDatagram_send this data)"

definition UnixDatagram_send_span :: "int \<Rightarrow> bytes \<Rightarrow> ('x base_world_scheme, size_t \<times> error_code) comp" where
  "UnixDatagram_send_span this buffer = UnixDatagram_send this buffer"

definition UnixDatagram_send_span_throws :: "int \<Rightarrow> bytes \<Rightarrow> ('x base_world_scheme, size_t) comp" where
  "UnixDatagram_send_span_throws this buffer = UnixDatagram_send_throws this buffer"

definition UnixDatagram_send_to :: "int \<Rightarrow> bytes \<Rightarrow> bytes \<Rightarrow> ('x base_world_scheme, size_t \<times> error_code) comp" where
  "UnixDatagram_send_to this data path = on_fd this 0 (bnd (asks platform) (\<lambda>p. bnd (asks host_endian) (\<lambda>e.
     let (address, ec) = socket_address p e path in
     if failed ec then return (0, ec)
     else bnd (sys (Sendto this data (int (length data)) address (socket_address_length address))) count_of)))"

definition UnixDatagram_send_to_throws :: "int \<Rightarrow> bytes \<Rightarrow> bytes \<Rightarrow> ('x base_world_scheme, size_t) comp" where
  "UnixDatagram_send_to_throws this data path =
     throwing ''sendto(AF_UNIX datagram)'' (UnixDatagram_send_to this data path)"

text \<open>
  What the receiving operations return: building the path may fail, and then the count is lost;
  copying it into the result is not guarded.
\<close>

definition datagram_received :: "reply \<Rightarrow> ('x base_world_scheme, (size_t \<times> bytes) \<times> error_code) comp" where
  "datagram_received r = bnd (asks platform) (\<lambda>p.
     case path_from_sockaddr (stored_sockaddr p r) (out_len r) of
       None \<Rightarrow> undefined_behaviour
     | Some path \<Rightarrow>
         bnd (sys Alloc) (\<lambda>a.
         if ret a = 0 then return ((0, []), make_error_code p not_enough_memory)
         else bnd allocate (\<lambda>_. return ((int_to_size (ret r), path), cleared))))"

definition UnixDatagram_recv_from :: "int \<Rightarrow> size_t \<Rightarrow> ('x base_world_scheme, (size_t \<times> bytes) \<times> error_code) comp" where
  "UnixDatagram_recv_from this n = noexcept (on_fd this (0, []) (
     bnd (sys (Recvfrom this (uint n) False)) (\<lambda>r.
     if ret r = -1 then bnd errno_code (\<lambda>ec. return ((0, []), ec))
     else datagram_received r)))"

definition UnixDatagram_recv_from_throws :: "int \<Rightarrow> size_t \<Rightarrow> ('x base_world_scheme, size_t \<times> bytes) comp" where
  "UnixDatagram_recv_from_throws this n = throwing ''recvfrom(AF_UNIX datagram)'' (UnixDatagram_recv_from this n)"

definition UnixDatagram_recv_from_span ::
  "int \<Rightarrow> bytes \<Rightarrow> ('x base_world_scheme, (size_t \<times> bytes) \<times> error_code) comp" where
  "UnixDatagram_recv_from_span this buffer = UnixDatagram_recv_from this (of_nat (length buffer))"

definition UnixDatagram_recv_from_span_throws :: "int \<Rightarrow> bytes \<Rightarrow> ('x base_world_scheme, size_t \<times> bytes) comp" where
  "UnixDatagram_recv_from_span_throws this buffer = UnixDatagram_recv_from_throws this (of_nat (length buffer))"

text \<open>
  The function \<open>sockaddr_from_path\<close> that the next operation calls is not in the
  sources; it is an argument, and \<open>None\<close> stands for the
  \<open>std::invalid_argument\<close> that the caller expects from it.
\<close>

definition UnixDatagram_send_vectored_to ::
  "(bytes \<Rightarrow> (bytes \<times> nat) option) \<Rightarrow> int \<Rightarrow> bytes list \<Rightarrow> bytes \<Rightarrow>
   ('x base_world_scheme, size_t \<times> error_code) comp" where
  "UnixDatagram_send_vectored_to sockaddr_from_path this buffers path = noexcept (on_fd this 0
     (bnd (asks platform) (\<lambda>p.
      if path = [] then bnd (sys (Sendmsg this buffers [] 0)) count_of
      else
        (case sockaddr_from_path path of
           None \<Rightarrow> return (0, make_error_code p invalid_argument)
         | Some (address, len) \<Rightarrow> bnd (sys (Sendmsg this buffers address len)) count_of))))"

definition UnixDatagram_send_vectored_to_throws ::
  "(bytes \<Rightarrow> (bytes \<times> nat) option) \<Rightarrow> int \<Rightarrow> bytes list \<Rightarrow> bytes \<Rightarrow> ('x base_world_scheme, size_t) comp" where
  "UnixDatagram_send_vectored_to_throws sockaddr_from_path this buffers path =
     throwing ''sendmsg(AF_UNIX datagram)'' (UnixDatagram_send_vectored_to sockaddr_from_path this buffers path)"

definition UnixDatagram_recv_vectored_from ::
  "int \<Rightarrow> nat list \<Rightarrow> ('x base_world_scheme, (size_t \<times> bytes) \<times> error_code) comp" where
  "UnixDatagram_recv_vectored_from this buffers = noexcept (on_fd this (0, []) (
     bnd (sys (Recvmsg this buffers)) (\<lambda>r.
     if ret r = -1 then bnd errno_code (\<lambda>ec. return ((0, []), ec))
     else if 0 < out_len r then datagram_received r
     else bnd allocate (\<lambda>_. return ((int_to_size (ret r), []), cleared)))))"

definition UnixDatagram_recv_vectored_from_throws ::
  "int \<Rightarrow> nat list \<Rightarrow> ('x base_world_scheme, size_t \<times> bytes) comp" where
  "UnixDatagram_recv_vectored_from_throws this buffers =
     throwing ''recvmsg(AF_UNIX datagram)'' (UnixDatagram_recv_vectored_from this buffers)"

end
