(* ===== verification/Unix_Properties.thy ===== *)
theory Unix_Properties
  imports Unix_Sockets
begin

text \<open>
  What the classes of \<^verbatim>\<open>src/unix.cpp\<close> promise: an object owns its descriptor, no
  function that makes objects leaks a descriptor, and a path comes back from the address it was
  stored in.
\<close>

section \<open>Objects own their descriptors\<close>

lemma close_fd_run [comp_simps]:
  "close_fd fd env w = (Ret (), if 0 \<le> fd then logged env (Close fd) w else w)"
  "bnd (close_fd fd) f env w = f () env (if 0 \<le> fd then logged env (Close fd) w else w)"
  by (simp_all add: close_fd_def comp_simps)

text \<open>The member functions of the five classes; none of them has a \<open>reset\<close>.\<close>

definition Sender_class :: owner_class where
  "Sender_class = \<lparr>op_valid = Sender_valid, op_empty = -1, op_new = (\<lambda>fd. fd), op_release = Sender_release,
     op_move = Sender_move, op_move_assign = Sender_move_assign, op_reset = None, op_destroy = Sender_destroy\<rparr>"

definition Receiver_class :: owner_class where
  "Receiver_class = \<lparr>op_valid = Receiver_valid, op_empty = -1, op_new = (\<lambda>fd. fd), op_release = Receiver_release,
     op_move = Receiver_move, op_move_assign = Receiver_move_assign, op_reset = None, op_destroy = Receiver_destroy\<rparr>"

definition UnixStream_class :: owner_class where
  "UnixStream_class = \<lparr>op_valid = UnixStream_valid, op_empty = -1, op_new = (\<lambda>fd. fd),
     op_release = UnixStream_release, op_move = UnixStream_move, op_move_assign = UnixStream_move_assign,
     op_reset = None, op_destroy = UnixStream_destroy\<rparr>"

definition UnixListener_class :: owner_class where
  "UnixListener_class = \<lparr>op_valid = UnixListener_valid, op_empty = -1, op_new = (\<lambda>fd. fd),
     op_release = UnixListener_release, op_move = UnixListener_move, op_move_assign = UnixListener_move_assign,
     op_reset = None, op_destroy = UnixListener_destroy\<rparr>"

definition UnixDatagram_class :: owner_class where
  "UnixDatagram_class = \<lparr>op_valid = UnixDatagram_valid, op_empty = -1, op_new = (\<lambda>fd. fd),
     op_release = UnixDatagram_release, op_move = UnixDatagram_move, op_move_assign = UnixDatagram_move_assign,
     op_reset = None, op_destroy = UnixDatagram_destroy\<rparr>"

lemma fd_move_assign_run [comp_simps]:
  "fd_move_assign release same this other env w =
     (if same then (Ret (this, other), w)
      else (Ret (release other), if 0 \<le> this then logged env (Close this) w else w))"
  by (simp add: fd_move_assign_def comp_simps)

lemmas Sender_members = Sender_class_def Sender_valid_def Sender_release_def Sender_move_def
  Sender_move_assign_def Sender_destroy_def
lemmas Receiver_members = Receiver_class_def Receiver_valid_def Receiver_release_def Receiver_move_def
  Receiver_move_assign_def Receiver_destroy_def
lemmas UnixStream_members = UnixStream_class_def UnixStream_valid_def UnixStream_release_def UnixStream_move_def
  UnixStream_move_assign_def UnixStream_destroy_def
lemmas UnixListener_members = UnixListener_class_def UnixListener_valid_def UnixListener_release_def
  UnixListener_move_def UnixListener_move_assign_def UnixListener_destroy_def
lemmas UnixDatagram_members = UnixDatagram_class_def UnixDatagram_valid_def UnixDatagram_release_def
  UnixDatagram_move_def UnixDatagram_move_assign_def UnixDatagram_destroy_def

interpretation unix_sender: handle_owner env Sender_class Close for env
  by unfold_locales (auto simp: Sender_members comp_simps)

interpretation unix_receiver: handle_owner env Receiver_class Close for env
  by unfold_locales (auto simp: Receiver_members comp_simps)

interpretation unix_stream: handle_owner env UnixStream_class Close for env
  by unfold_locales (auto simp: UnixStream_members comp_simps)

interpretation unix_listener: handle_owner env UnixListener_class Close for env
  by unfold_locales (auto simp: UnixListener_members comp_simps)

interpretation unix_datagram: handle_owner env UnixDatagram_class Close for env
  by unfold_locales (auto simp: UnixDatagram_members comp_simps)

lemmas unix_objects_conserved = unix_sender.conservation unix_receiver.conservation unix_stream.conservation
  unix_listener.conservation unix_datagram.conservation

section \<open>Paths\<close>

lemma takeWhile_take: "takeWhile P (take n xs) = take n (takeWhile P xs)"
  by (induction xs arbitrary: n) (auto simp: take_Cons split: nat.split)

lemma takeWhile_stop: "\<not> P y \<Longrightarrow> takeWhile P (xs @ y # ys) = takeWhile P xs"
  by (induction xs) auto

lemma sun_path_of_family:
  "drop 2 (put_family p e f (replicate (2 + n) 0)) = replicate n 0"
  "length (put_family p e f (replicate (2 + n) 0)) = 2 + n"
  by (auto simp: put_family_def put_at_def)

lemma sun_path_after_put:
  assumes "length path < sun_path_size p"
  shows "drop 2 (fst (socket_address p e path)) = path @ 0 # replicate (sun_path_size p - length path - 1) 0"
proof -
  let ?a = "put_family p e AF_UNIX_value (replicate (2 + sun_path_size p) 0)"
  have "drop (2 + length path) ?a = replicate (sun_path_size p - length path) 0"
    using arg_cong [OF sun_path_of_family(1) [of p e AF_UNIX_value "sun_path_size p"], of "drop (length path)"]
    by (simp add: add.commute)
  moreover have "drop (Suc (2 + length path)) ?a = replicate (sun_path_size p - length path - 1) 0"
    using arg_cong [OF sun_path_of_family(1) [of p e AF_UNIX_value "sun_path_size p"], of "drop (Suc (length path))"]
    by (simp add: add.commute)
  ultimately show ?thesis using assms sun_path_of_family(2) [of p e AF_UNIX_value "sun_path_size p"]
    by (simp add: socket_address_def put_at_def Let_def)
qed

text \<open>
  C31. A path that is stored in a \<open>sockaddr_un\<close> and read back is the same up to its
  first NUL byte, on every platform and byte order, and the length that is passed to the
  system covers the path and one NUL inside the structure. A path that does not leave room for
  the NUL is refused with \<open>filename_too_long\<close>.
\<close>

theorem unix_path_roundtrip:
  "if sun_path_size p \<le> length path
   then snd (socket_address p e path) = make_error_code p filename_too_long
   else snd (socket_address p e path) = cleared
     \<and> path_from_sockaddr (fst (socket_address p e path)) (socket_address_length (fst (socket_address p e path)))
         = Some (takeWhile (\<lambda>b. b \<noteq> 0) path)
     \<and> socket_address_length (fst (socket_address p e path)) = 3 + length (takeWhile (\<lambda>b. b \<noteq> 0) path)
     \<and> socket_address_length (fst (socket_address p e path)) \<le> length (fst (socket_address p e path))"
proof (cases "sun_path_size p \<le> length path")
  case False
  let ?a = "fst (socket_address p e path)" and ?s = "takeWhile (\<lambda>b. b \<noteq> 0) path"
  let ?rest = "0 # replicate (sun_path_size p - length path - 1) 0"
  have a: "drop 2 ?a = path @ ?rest" using False by (intro sun_path_after_put) simp
  have s: "takeWhile (\<lambda>b. b \<noteq> 0) (path @ ?rest) = ?s"
    by (rule takeWhile_stop) simp
  have len: "socket_address_length ?a = 3 + length ?s" by (simp add: socket_address_length_def strlen_def a takeWhile_stop)
  have "path_from_sockaddr ?a (3 + length ?s) = Some (takeWhile (\<lambda>b. b \<noteq> 0) (take (Suc (length ?s)) (path @ ?rest)))"
    unfolding path_from_sockaddr_def a by simp
  then have same: "path_from_sockaddr ?a (3 + length ?s) = Some ?s" by (simp only: takeWhile_take s) simp
  have "length ?s \<le> length path" by (rule length_takeWhile_le)
  moreover have "length ?a = 2 + sun_path_size p"
    using False sun_path_of_family(2) [of p e AF_UNIX_value "sun_path_size p"]
    by (simp add: socket_address_def Let_def)
  ultimately have "3 + length ?s \<le> length ?a" using False by simp
  moreover have "snd (socket_address p e path) = cleared" using False by (simp add: socket_address_def Let_def)
  ultimately show ?thesis unfolding len using False same by simp
qed (simp add: socket_address_def Let_def)

text \<open>
  Linux lets a peer bind a name that fills \<open>sun_path\<close> without a NUL and reports its
  length with the NUL, one more than the structure has: \<open>strnlen\<close> then reads past the
  end.
\<close>

lemma path_read_past_end:
  assumes "length address = 2 + sun_path_size p" "0 \<notin> set (drop 2 address)" "0 < sun_path_size p"
  shows "path_from_sockaddr address len = None \<longleftrightarrow> length address < len"
  using assms by (auto simp: path_from_sockaddr_def Let_def)

section \<open>Ownership triples\<close>

text \<open>
  Documented behaviour of POSIX: a call that returns a descriptor returns \<open>-1\<close> or a
  number that is not negative, and a call that returns two returns no negative one.
\<close>

definition posix_descriptors :: "env \<Rightarrow> bool" where
  "posix_descriptors env \<longleftrightarrow> platform env \<noteq> Windows
     \<and> (\<forall>h a b c l. -1 \<le> ret (answer env h (Socket_call a b c)) \<and> -1 \<le> ret (answer env h (Accept l)))
     \<and> (\<forall>h c. c = Pipe \<or> (\<exists>t. c = Socketpair t) \<longrightarrow> ret (answer env h c) \<noteq> -1 \<longrightarrow>
          0 \<le> fst (out_fds (answer env h c)) \<and> 0 \<le> snd (out_fds (answer env h c)))"

definition fds_held :: "int list \<Rightarrow> int multiset" where
  "fds_held fds = filter_mset (\<lambda>fd. 0 \<le> fd) (mset fds)"

lemma fds_held_simps [simp]:
  "fds_held [] = {#}" "0 \<le> fd \<Longrightarrow> fds_held (fd # fds) = add_mset fd (fds_held fds)"
  "fd < 0 \<Longrightarrow> fds_held (fd # fds) = fds_held fds"
  by (simp_all add: fds_held_def)

lemma fds_held_Cons: "fds_held (fd # fds) = fds_held [fd] + fds_held fds"
  by (simp add: fds_held_def)

lemma own_close_fd: "own env (fds_held [fd]) (close_fd fd) (\<lambda>_. {#})"
  by (rule ownI) (cases "0 \<le> fd"; auto simp: comp_simps)

lemma own_close_then: "own env {#} m Q \<Longrightarrow> own env (fds_held [fd]) (bnd (close_fd fd) (\<lambda>_. m)) Q"
  by (rule own_bnd [OF own_close_fd]) simp

lemma own_close_fails: "Q x = {#} \<Longrightarrow> own env (fds_held [fd]) (bnd (close_fd fd) (\<lambda>_. return x)) Q"
  by (rule own_close_then) (simp add: own_return)

lemma own_close_both:
  assumes "Q x = {#}"
  shows "own env (fds_held [a, b]) (bnd (close_fd a) (\<lambda>_. bnd (close_fd b) (\<lambda>_. return x))) Q"
  unfolding fds_held_Cons [of a "[b]"]
  by (rule own_bnd [OF own_frame [OF own_close_fd]]) (simp add: own_close_fails assms)

lemma own_opens_at:
  assumes "closed_by c = {#}" "\<And>h. own env (opened_by (platform env) c (answer env h c)) (f (answer env h c)) Q"
  shows "own env {#} (bnd (sys c) f) Q"
  by (rule own_bnd [OF own_opened [OF assms(1)]]) (use assms(2) in \<open>auto simp: comp_simps\<close>)

lemma neutral_unix [neutral_intros]:
  "neutral env errno_code" "neutral env (prepare_fd fd)" "neutral env (fd_object fd)" "neutral env (refused_if b)"
  "neutral env (unix_connect_call fd a)" "neutral env (unix_bind_call fd a)" "neutral env (unix_listen_call n fd a)"
proof -
  show ec: "neutral env errno_code" unfolding errno_code_def by (intro neutral_intros)
  show prep: "neutral env (prepare_fd fd)" for fd
    unfolding prepare_fd_def unix_set_non_blocking_def unix_set_close_on_exec_def by (intro neutral_intros ec)
  show "neutral env (fd_object fd)"
    unfolding fd_object_def require_fd_throws_def prepare_fd_throws_def by (intro neutral_intros prep)
  show r: "neutral env (refused_if b)" for b unfolding refused_if_def by (intro neutral_intros ec)
  show "neutral env (unix_connect_call fd a)" unfolding unix_connect_call_def by (intro neutral_intros r)
  show bind: "neutral env (unix_bind_call fd a)" unfolding unix_bind_call_def by (intro neutral_intros r)
  show "neutral env (unix_listen_call n fd a)"
    unfolding unix_listen_call_def by (intro neutral_intros r bind)
qed

lemma fd_object_result: "fd_object fd env w = (Ret x, w') \<Longrightarrow> x = fd \<and> 0 \<le> fd"
  by (auto simp: fd_object_def require_fd_throws_def require_fd_def throwing_void_def bnd_eq_Ret comp_simps
      split: if_splits)

lemma own_fd_object: "own env P (bnd (fd_object fd) f) Q" if "own env P (f fd) Q"
  by (rule own_bnd [OF own_neutral [OF neutral_unix(3)]]) (use that in \<open>auto dest!: fd_object_result\<close>)

lemma opened_fds:
  assumes "posix_descriptors env"
  shows "opened_by (platform env) (Socket_call a b c) (answer env h (Socket_call a b c))
      = fds_held [ret (answer env h (Socket_call a b c))]"
    and "opened_by (platform env) (Accept l) (answer env h (Accept l)) = fds_held [ret (answer env h (Accept l))]"
    and "c' = Pipe \<or> (\<exists>t. c' = Socketpair t) \<Longrightarrow> opened_by (platform env) c' (answer env h c') =
      (if ret (answer env h c') = -1 then {#}
       else fds_held [fst (out_fds (answer env h c')), snd (out_fds (answer env h c'))])"
proof -
  have v: "socket_is_valid (platform env) fd \<longleftrightarrow> 0 \<le> fd" if "-1 \<le> fd" for fd
    using that assms by (auto simp: socket_is_valid_def invalid_socket_handle_def posix_descriptors_def)
  have r: "-1 \<le> ret (answer env h (Socket_call a b c))" "-1 \<le> ret (answer env h (Accept l))"
    using assms by (simp_all add: posix_descriptors_def)
  show "opened_by (platform env) (Socket_call a b c) (answer env h (Socket_call a b c))
      = fds_held [ret (answer env h (Socket_call a b c))]"
    "opened_by (platform env) (Accept l) (answer env h (Accept l)) = fds_held [ret (answer env h (Accept l))]"
    using v [OF r(1)] v [OF r(2)] by (auto simp: fds_held_def)
  assume c': "c' = Pipe \<or> (\<exists>t. c' = Socketpair t)"
  show "opened_by (platform env) c' (answer env h c') = (if ret (answer env h c') = -1 then {#}
       else fds_held [fst (out_fds (answer env h c')), snd (out_fds (answer env h c'))])"
  proof (cases "ret (answer env h c') = -1")
    case False
    with assms c' have "0 \<le> fst (out_fds (answer env h c'))" "0 \<le> snd (out_fds (answer env h c'))"
      by (auto simp: posix_descriptors_def)
    with False c' v show ?thesis by auto
  qed (use c' in auto)
qed

lemma own_opens_fd:
  assumes "posix_descriptors env" "\<And>r. own env (fds_held [ret r]) (f r) Q"
  shows "own env {#} (bnd (sys (Socket_call a b c)) f) Q" "own env {#} (bnd (sys (Accept l)) f) Q"
  by (rule own_opens_at; simp only: opened_fds [OF assms(1)] assms(2) closed_by.simps)+

lemma own_opens_pair:
  assumes "posix_descriptors env" "c = Pipe \<or> (\<exists>t. c = Socketpair t)"
    "\<And>r. own env (if ret r = -1 then {#} else fds_held [fst (out_fds r), snd (out_fds r)]) (f r) Q"
  shows "own env {#} (bnd (sys c) f) Q"
  by (rule own_opens_at, use assms(2) in force) (simp only: opened_fds(3) [OF assms(1,2)] assms(3))

lemma own_unix_make_socket:
  assumes "posix_descriptors env"
  shows "own env {#} (unix_make_socket t) (\<lambda>(fd, ec). fds_held [fd])"
  unfolding unix_make_socket_def Let_def
  by (rule own_opens_fd [OF assms])
    (auto intro!: own_then [OF neutral_unix(1)] own_then [OF neutral_unix(2)] own_return own_close_fails)

lemma unix_make_socket_result:
  "unix_make_socket t env w = (Ret (fd, ec), w') \<Longrightarrow> failed ec \<Longrightarrow> fd = -1"
  by (auto simp: unix_make_socket_def Let_def bnd_eq_Ret comp_simps split: if_splits)

lemma own_unix_named:
  assumes "posix_descriptors env" "\<And>fd a. neutral env (use fd a)"
  shows "own env {#} (noexcept (unix_named t path use)) (\<lambda>(fd, ec). fds_held [fd])"
  unfolding unix_named_def
  by (intro own_noexcept own_asks, rule own_bnd [OF own_unix_make_socket [OF assms(1)]])
    (auto dest: unix_make_socket_result intro!: own_return own_close_fails own_then [OF assms(2)] own_fd_object
      split: prod.split option.split)

lemma own_prepare_both:
  assumes "posix_descriptors env" "c = Pipe \<or> (\<exists>t. c = Socketpair t)"
  shows "own env {#} (prepare_both c) (\<lambda>(fds, ec). case fds of None \<Rightarrow> {#} | Some (a, b) \<Rightarrow> fds_held [a, b])"
  unfolding prepare_both_def
  by (rule own_opens_pair [OF assms])
    (auto intro!: own_then [OF neutral_unix(1)] own_then [OF neutral_unix(2)] own_then [OF neutral_basic(1)] own_return
      own_close_both split: prod.split)

section \<open>No descriptor is leaked\<close>

text \<open>The functions that give the caller new objects, and the descriptors in them.\<close>

datatype unix_maker =
    Make_pipe | Make_stream_pair | Make_datagram_pair | Connect_path bytes | Listen_path bytes int
  | Bind_path bytes | Make_unbound | Accept_path int

fun unix_make :: "unix_maker \<Rightarrow> ('x base_world_scheme, int list \<times> error_code) comp" where
  "unix_make Make_pipe = bnd unix_pipe (\<lambda>((a, b), ec). return ([a, b], ec))"
| "unix_make Make_stream_pair = bnd UnixStream_pair (\<lambda>((a, b), ec). return ([a, b], ec))"
| "unix_make Make_datagram_pair = bnd UnixDatagram_pair (\<lambda>((a, b), ec). return ([a, b], ec))"
| "unix_make (Connect_path path) = bnd (UnixStream_connect path) (\<lambda>(a, ec). return ([a], ec))"
| "unix_make (Listen_path path n) = bnd (UnixListener_bind path n) (\<lambda>(a, ec). return ([a], ec))"
| "unix_make (Bind_path path) = bnd (UnixDatagram_bind path) (\<lambda>(a, ec). return ([a], ec))"
| "unix_make Make_unbound = bnd UnixDatagram_unbound (\<lambda>(a, ec). return ([a], ec))"
| "unix_make (Accept_path l) = bnd (UnixListener_accept l) (\<lambda>((a, path), ec). return ([a], ec))"

lemmas unix_objects = Sender_new_def Receiver_new_def UnixStream_new_def UnixListener_new_def UnixDatagram_new_def

lemma own_unix_pairs:
  assumes "posix_descriptors env"
  shows "own env {#} unix_pipe (\<lambda>((a, b), ec). fds_held [a, b])"
    and "own env {#} UnixStream_pair (\<lambda>((a, b), ec). fds_held [a, b])"
    and "own env {#} UnixDatagram_pair (\<lambda>((a, b), ec). fds_held [a, b])"
  unfolding unix_pipe_def UnixStream_pair_def UnixDatagram_pair_def unix_objects
  by (rule own_noexcept, rule own_bnd [OF own_prepare_both [OF assms]], simp,
      auto intro!: own_return own_fd_object simp: fds_held_def split: prod.split option.split)+

lemma own_on_fd: "P = Q (dflt, ec) \<Longrightarrow> own env P k Q \<Longrightarrow> own env P (on_fd fd dflt k) Q"
  if "\<And>ec. Q (dflt, ec) = P"
  unfolding on_fd_def Let_def by (intro own_asks own_if) (simp_all add: own_return that)

lemma own_unix_singles:
  assumes "posix_descriptors env"
  shows "own env {#} UnixDatagram_unbound (\<lambda>(a, ec). fds_held [a])"
    and "own env {#} (UnixListener_accept l) (\<lambda>((a, path), ec). fds_held [a])"
proof -
  show "own env {#} UnixDatagram_unbound (\<lambda>(a, ec). fds_held [a])"
    unfolding UnixDatagram_unbound_def unix_objects
    by (rule own_noexcept, rule own_bnd [OF own_unix_make_socket [OF assms]])
      (auto intro!: own_return own_fd_object split: prod.split)
  show "own env {#} (UnixListener_accept l) (\<lambda>((a, path), ec). fds_held [a])"
    unfolding UnixListener_accept_def unix_objects Let_def
    by (intro own_noexcept own_on_fd own_asks own_opens_fd(2) [OF assms])
      (auto intro!: own_then [OF neutral_unix(1)] own_then [OF neutral_calls(1)] own_then [OF neutral_errors(3)]
        own_return own_close_fails own_fd_object own_stops split: option.split)
qed

lemma own_unix_make:
  assumes "posix_descriptors env"
  shows "own env {#} (unix_make m) (\<lambda>(fds, ec). fds_held fds)"
proof -
  have named: "own env {#} (UnixStream_connect path) (\<lambda>(fd, ec). fds_held [fd])"
    "own env {#} (UnixListener_bind path n) (\<lambda>(fd, ec). fds_held [fd])"
    "own env {#} (UnixDatagram_bind path) (\<lambda>(fd, ec). fds_held [fd])" for path n
    unfolding UnixStream_connect_def UnixListener_bind_def UnixDatagram_bind_def
    by (rule own_unix_named [OF assms], rule neutral_unix)+
  note made = own_unix_pairs [OF assms] own_unix_singles [OF assms] named
  show ?thesis
    by (cases m) (auto intro!: made [THEN own_bnd] own_return split: prod.split)
qed

lemma destroy_run: "bnd (UnixStream_destroy fd) f env w = f () env (if 0 \<le> fd then logged env (Close fd) w else w)"
  by (simp add: UnixStream_destroy_def comp_simps)

text \<open>
  C11. No function of \<^verbatim>\<open>src/unix.cpp\<close> that makes pipes, pairs, connections,
  listeners or datagram sockets leaks a descriptor or closes one twice, against every system
  that returns descriptors as POSIX documents: when it returns, the descriptors open in the
  process are those from before and those in the objects it returns; closing these in the
  destructors gives the state from before.
\<close>

theorem unix_descriptors_conserved:
  assumes "posix_descriptors env" "unix_make m env w = (Ret (fds, ec), w')"
  shows "balance (platform env) h w' = balance (platform env) h w + int (count (fds_held fds) h)
    \<and> (\<exists>w2. for_each fds UnixStream_destroy env w' = (Ret (), w2)
        \<and> balance (platform env) h w2 = balance (platform env) h w)"
proof -
  have made: "balance (platform env) h w' = balance (platform env) h w + int (count (fds_held fds) h)"
    using ownD(2) [OF own_unix_make [OF assms(1)] _ assms(2), of h] by simp
  have "\<exists>w2. for_each fds UnixStream_destroy env w' = (Ret (), w2)
      \<and> balance (platform env) h w2 = balance (platform env) h w' - int (count (fds_held fds) h)" for w'
  proof (induction fds arbitrary: w')
    case (Cons fd fds)
    let ?w = "if 0 \<le> fd then logged env (Close fd) w' else w'"
    obtain w2 where "for_each fds UnixStream_destroy env ?w = (Ret (), w2)"
      "balance (platform env) h w2 = balance (platform env) h ?w - int (count (fds_held fds) h)"
      using Cons.IH by blast
    then show ?case by (cases "0 \<le> fd") (auto simp: destroy_run)
  qed (simp add: comp_simps)
  with made show ?thesis by (metis (no_types, lifting) add_diff_cancel_right')
qed

text \<open>A system whose pipes and pairs are the descriptors 6 and 7.\<close>

definition unix_env :: env where
  "unix_env = \<lparr>platform = Linux, host_endian = Little, macro_defined = (\<lambda>_. True),
     answer = (\<lambda>_ _. (plain 0 0)\<lparr>out_fds := (6, 7)\<rparr>)\<rparr>"

lemma unix_env_simps [simp]: "platform unix_env = Linux" "answer unix_env h c = (plain 0 0)\<lparr>out_fds := (6, 7)\<rparr>"
  by (simp_all add: unix_env_def)

lemma unix_env_descriptors: "posix_descriptors unix_env"
  by (simp add: posix_descriptors_def)

lemma unix_env_prepares: "\<exists>w'. prepare_fd fd unix_env w = (Ret cleared, w')"
  by (simp add: prepare_fd_def unix_set_non_blocking_def unix_set_close_on_exec_def comp_simps)

lemma unix_env_objects: "0 \<le> fd \<Longrightarrow> \<exists>w'. fd_object fd unix_env w = (Ret fd, w')"
  using unix_env_prepares [of fd w]
  by (auto simp: fd_object_def require_fd_throws_def require_fd_def prepare_fd_throws_def throwing_void_def bnd_def
      comp_simps)

lemma unix_env_pipe: "\<exists>w'. unix_pipe unix_env w = (Ret ((7, 6), cleared), w')"
proof -
  let ?w = "logged unix_env Pipe w"
  obtain w1 w2 w3 w4 where "prepare_fd 6 unix_env ?w = (Ret cleared, w1)" "prepare_fd 7 unix_env w1 = (Ret cleared, w2)"
    "fd_object 7 unix_env w2 = (Ret 7, w3)" "fd_object 6 unix_env w3 = (Ret 6, w4)"
    using unix_env_prepares unix_env_objects by (metis zero_le_numeral)
  then have "prepare_both Pipe unix_env w = (Ret (Some (6, 7), cleared), w2)"
    "fd_object 7 unix_env w2 = (Ret 7, w3)" "fd_object 6 unix_env w3 = (Ret 6, w4)"
    by (simp_all add: prepare_both_def comp_simps bnd_def [of "prepare_fd _"] bnd_def [of "if _ then _ else _"])
  then show ?thesis
    by (simp add: unix_pipe_def noexcept_eq_Ret unix_objects bnd_def [of "prepare_both _"] bnd_def [of "fd_object _"]
        comp_simps)
qed

theorem unix_descriptors_conserved_witness:
  "\<exists>w'. unix_make Make_pipe unix_env (one_selector Linux []) = (Ret ([7, 6], cleared), w') \<and> balance Linux 7 w' = 1"
proof -
  obtain w' where run: "unix_make Make_pipe unix_env (one_selector Linux []) = (Ret ([7, 6], cleared), w')"
    using unix_env_pipe [of "one_selector Linux []"] by (auto simp: bnd_def comp_simps)
  have "balance Linux 7 (one_selector Linux []) = 0" by (simp add: balance_def one_selector_def)
  then show ?thesis using unix_descriptors_conserved [OF unix_env_descriptors run, of 7] run by auto
qed

text \<open>
  A failed \<open>UnixDatagram::unbound\<close> is never reported: the constructor refuses the
  descriptor \<open>-1\<close> and the exception leaves a \<open>noexcept\<close> function.
\<close>

lemma unbound_failure_terminates:
  assumes "unix_make_socket SOCK_DGRAM env w = (Ret (fd, ec), w1)" "failed ec"
  shows "fst (UnixDatagram_unbound env w) = Terminate"
proof -
  have "fd = -1" using unix_make_socket_result assms by blast
  then show ?thesis using assms(1)
    by (simp add: UnixDatagram_unbound_def noexcept_def catch_def bnd_def [of "unix_make_socket _"] unix_objects
        fd_object_def require_fd_throws_def require_fd_def throwing_void_def comp_simps)
qed

end
