(* ===== verification/Named_Pipe.thy ===== *)
theory Named_Pipe
  imports Registry
begin

text \<open>
  The class \<open>NamedPipe\<close> of \<^verbatim>\<open>src/windows.cpp\<close>. The fields of an object are
  a record and an operation returns the object after it, since operations that throw have
  changed it too: their result is a value \<open>exn + 'a\<close>. The buffers of an overlapped
  operation are filled by the system; what it stored is part of the reply that reports the
  completion. Sizes are natural numbers, those of the system reduced to a \<open>DWORD\<close>. The
  mutex of the object makes each operation a step.
\<close>

section \<open>The helpers of the anonymous namespace\<close>

definition INVALID_HANDLE_VALUE :: int where
  "INVALID_HANDLE_VALUE = 2 ^ 64 - 1"

abbreviation (input) ERROR_NO_DATA :: int where "ERROR_NO_DATA \<equiv> 232"
abbreviation (input) ERROR_PIPE_CONNECTED :: int where "ERROR_PIPE_CONNECTED \<equiv> 535"
abbreviation (input) ERROR_IO_INCOMPLETE :: int where "ERROR_IO_INCOMPLETE \<equiv> 996"
abbreviation (input) ERROR_IO_PENDING :: int where "ERROR_IO_PENDING \<equiv> 997"

definition system_code :: "int \<Rightarrow> error_code" where
  "system_code error = \<lparr>ec_value = error, ec_category = System\<rparr>"

definition win_error :: "string \<Rightarrow> int \<Rightarrow> exn" where
  "win_error operation error = System_Error (system_code error) operation"

definition is_valid :: "int \<Rightarrow> bool" where
  "is_valid handle \<longleftrightarrow> handle \<noteq> 0 \<and> handle \<noteq> INVALID_HANDLE_VALUE"

definition checked_size :: "nat \<Rightarrow> nat" where
  "checked_size n = min n (2 ^ 32 - 1)"

text \<open>A count stored through a \<open>DWORD*\<close>.\<close>

definition dword_count :: "reply \<Rightarrow> nat" where
  "dword_count r = unat (word_of_int (out_int r) :: u32)"

section \<open>Objects\<close>

record NamedPipe =
  np_handle :: int
  connect_pending :: bool
  read_pending :: bool
  write_pending :: bool
  read_buffer :: bytes
  read_ready_size :: nat
  read_pos :: nat
  write_buffer :: bytes
  last_error :: error_code

definition NamedPipe_new :: "int \<Rightarrow> NamedPipe" where
  "NamedPipe_new handle = \<lparr>np_handle = handle, connect_pending = False, read_pending = False, write_pending = False,
     read_buffer = [], read_ready_size = 0, read_pos = 0, write_buffer = [], last_error = cleared\<rparr>"

definition NamedPipe_default :: NamedPipe where
  "NamedPipe_default = NamedPipe_new INVALID_HANDLE_VALUE"

text \<open>The two factories copy the name, which may fail, and report what the call left.\<close>

definition NamedPipe_opened :: "reply \<Rightarrow> NamedPipe \<times> error_code" where
  "NamedPipe_opened r =
     (NamedPipe_new (ret r), if \<not> is_valid (ret r) then system_code (err r) else cleared)"

definition NamedPipe_create :: "u16 list \<Rightarrow> (io_world, NamedPipe \<times> error_code) comp" where
  "NamedPipe_create name = noexcept (bnd allocate (\<lambda>_.
     bnd (sys (Create_named_pipe name)) (\<lambda>r. return (NamedPipe_opened r))))"

definition NamedPipe_create_throws :: "u16 list \<Rightarrow> (io_world, NamedPipe) comp" where
  "NamedPipe_create_throws name = throwing ''CreateNamedPipeW'' (NamedPipe_create name)"

definition NamedPipe_open_client :: "u16 list \<Rightarrow> (io_world, NamedPipe \<times> error_code) comp" where
  "NamedPipe_open_client name = noexcept (bnd allocate (\<lambda>_.
     bnd (sys (Create_file name)) (\<lambda>r. return (NamedPipe_opened r))))"

definition NamedPipe_open_client_throws :: "u16 list \<Rightarrow> (io_world, NamedPipe) comp" where
  "NamedPipe_open_client_throws name = throwing ''CreateFileW(named pipe)'' (NamedPipe_open_client name)"

definition NamedPipe_valid :: "NamedPipe \<Rightarrow> bool" where
  "NamedPipe_valid this \<longleftrightarrow> is_valid (np_handle this)"

definition NamedPipe_release :: "NamedPipe \<Rightarrow> int \<times> NamedPipe" where
  "NamedPipe_release this = (np_handle this, this\<lparr>np_handle := INVALID_HANDLE_VALUE\<rparr>)"

definition NamedPipe_close :: "NamedPipe \<Rightarrow> (io_world, NamedPipe) comp" where
  "NamedPipe_close this =
     (if is_valid (np_handle this) then
        bnd (sys (Cancel_io_ex (np_handle this))) (\<lambda>_.
        bnd (sys (Close_handle (np_handle this))) (\<lambda>_.
        return (this\<lparr>np_handle := INVALID_HANDLE_VALUE\<rparr>)))
      else return this)"

text \<open>
  Moving takes the handle only: the new object starts with default fields, and the target of an
  assignment keeps its own.
\<close>

definition NamedPipe_move :: "NamedPipe \<Rightarrow> NamedPipe \<times> NamedPipe" where
  "NamedPipe_move other = (let (handle, other) = NamedPipe_release other in (NamedPipe_new handle, other))"

definition NamedPipe_move_assign :: "NamedPipe \<Rightarrow> NamedPipe \<Rightarrow> (io_world, NamedPipe \<times> NamedPipe) comp" where
  "NamedPipe_move_assign this other = bnd (NamedPipe_close this) (\<lambda>this.
     let (handle, other) = NamedPipe_release other in return (this\<lparr>np_handle := handle\<rparr>, other))"

definition NamedPipe_destroy :: "NamedPipe \<Rightarrow> (io_world, unit) comp" where
  "NamedPipe_destroy this = bnd (NamedPipe_close this) (\<lambda>_. return ())"

definition NamedPipe_ops :: "NamedPipe source_ops" where
  "NamedPipe_ops = \<lparr>native_handle = (\<lambda>_ this. np_handle this), source_kind_of = (\<lambda>_. Kind_handle),
     on_registered = (\<lambda>_ _ _. default_hook), on_reregistered = (\<lambda>_ _ _. default_hook),
     on_deregistered = (\<lambda>_. default_hook)\<rparr>"

definition NamedPipe_take_error :: "NamedPipe \<Rightarrow> error_code \<times> NamedPipe" where
  "NamedPipe_take_error this = (last_error this, this\<lparr>last_error := cleared\<rparr>)"

section \<open>Completing an overlapped operation\<close>

definition complete_connect_locked :: "NamedPipe \<Rightarrow> (io_world, (exn + bool) \<times> NamedPipe) comp" where
  "complete_connect_locked this =
     bnd (sys (Get_overlapped_result (np_handle this) Op_connect)) (\<lambda>r.
     if ret r \<noteq> 0 then return (Inr True, this\<lparr>connect_pending := False\<rparr>)
     else if err r = ERROR_IO_INCOMPLETE then return (Inr False, this)
     else return (Inl (win_error ''GetOverlappedResult(connect)'' (err r)),
       this\<lparr>connect_pending := False, last_error := system_code (err r)\<rparr>))"

definition complete_read_locked :: "NamedPipe \<Rightarrow> (io_world, (exn + bool) \<times> NamedPipe) comp" where
  "complete_read_locked this =
     bnd (sys (Get_overlapped_result (np_handle this) Op_read)) (\<lambda>r.
     if ret r \<noteq> 0 then
       return (Inr True, this\<lparr>read_buffer := put_at 0 (out_bytes r) (read_buffer this), read_pending := False,
         read_ready_size := dword_count r, read_pos := 0\<rparr>)
     else if err r = ERROR_IO_INCOMPLETE then return (Inr False, this)
     else return (Inl (win_error ''GetOverlappedResult(read)'' (err r)),
       this\<lparr>read_pending := False, read_ready_size := 0, read_pos := 0, last_error := system_code (err r)\<rparr>))"

definition complete_write_locked :: "NamedPipe \<Rightarrow> (io_world, (exn + bool) \<times> NamedPipe) comp" where
  "complete_write_locked this =
     bnd (sys (Get_overlapped_result (np_handle this) Op_write)) (\<lambda>r.
     if ret r \<noteq> 0 then return (Inr True, this\<lparr>write_pending := False, write_buffer := []\<rparr>)
     else if err r = ERROR_IO_INCOMPLETE then return (Inr False, this)
     else return (Inl (win_error ''GetOverlappedResult(write)'' (err r)),
       this\<lparr>write_pending := False, write_buffer := [], last_error := system_code (err r)\<rparr>))"

section \<open>Connecting\<close>

definition NamedPipe_connect :: "NamedPipe \<Rightarrow> (io_world, (exn + error_code) \<times> NamedPipe) comp" where
  "NamedPipe_connect this = bnd (asks platform) (\<lambda>p.
     if \<not> NamedPipe_valid this then return (Inr (make_error_code p bad_file_descriptor), this)
     else if connect_pending this then
       bnd (complete_connect_locked this) (\<lambda>(finished, this).
       case finished of
         Inl e \<Rightarrow> return (Inl e, this)
       | Inr b \<Rightarrow> return (Inr (if b then cleared else make_error_code p operation_would_block), this))
     else
       bnd (sys (Connect_named_pipe (np_handle this))) (\<lambda>r.
       if ret r \<noteq> 0 \<or> err r = ERROR_PIPE_CONNECTED \<or> err r = ERROR_NO_DATA then return (Inr cleared, this)
       else if err r = ERROR_IO_PENDING then
         return (Inr (make_error_code p operation_would_block), this\<lparr>connect_pending := True\<rparr>)
       else return (Inr (system_code (err r)), this\<lparr>last_error := system_code (err r)\<rparr>)))"

definition NamedPipe_connect_throws :: "NamedPipe \<Rightarrow> (io_world, (exn + unit) \<times> NamedPipe) comp" where
  "NamedPipe_connect_throws this = bnd (NamedPipe_connect this) (\<lambda>(x, this).
     case x of
       Inl e \<Rightarrow> return (Inl e, this)
     | Inr ec \<Rightarrow> return (if failed ec then Inl (System_Error ec ''ConnectNamedPipe'') else Inr (), this))"

definition NamedPipe_disconnect :: "NamedPipe \<Rightarrow> (io_world, error_code) comp" where
  "NamedPipe_disconnect this =
     bnd (sys (Disconnect_named_pipe (np_handle this))) (\<lambda>r.
     return (if ret r = 0 then system_code (err r) else cleared))"

definition NamedPipe_disconnect_throws :: "NamedPipe \<Rightarrow> (io_world, unit) comp" where
  "NamedPipe_disconnect_throws this = throwing_void ''DisconnectNamedPipe'' (NamedPipe_disconnect this)"

section \<open>Reading and writing\<close>

text \<open>The bytes that were read and not yet handed out, and the local function that hands them out.\<close>

definition copy_ready :: "nat \<Rightarrow> NamedPipe \<Rightarrow> bytes \<times> NamedPipe" where
  "copy_ready n this =
     (let available = read_ready_size this - read_pos this;
          copied = min n available;
          pos = read_pos this + copied;
          data = take copied (drop (read_pos this) (read_buffer this))
      in (data, if pos = read_ready_size this then this\<lparr>read_ready_size := 0, read_pos := 0\<rparr>
                else this\<lparr>read_pos := pos\<rparr>))"

definition NamedPipe_read ::
  "NamedPipe \<Rightarrow> nat \<Rightarrow> (io_world, bytes \<times> error_code \<times> NamedPipe) comp" where
  "NamedPipe_read this n = noexcept (bnd (asks platform) (\<lambda>p.
     if \<not> NamedPipe_valid this then return ([], make_error_code p bad_file_descriptor, this)
     else if read_pos this < read_ready_size this then
       (let (data, this) = copy_ready n this in return (data, cleared, this))
     else if read_pending this then
       bnd (complete_read_locked this) (\<lambda>(finished, this).
       case finished of
         Inl (System_Error ec what) \<Rightarrow> return ([], ec, this)
       | Inl e \<Rightarrow> throw e
       | Inr False \<Rightarrow> return ([], make_error_code p operation_would_block, this)
       | Inr True \<Rightarrow> (let (data, this) = copy_ready n this in return (data, cleared, this)))
     else
       bnd (sys Alloc) (\<lambda>a.
       if ret a = 0 then return ([], make_error_code p not_enough_memory, this)
       else
         (let this = this\<lparr>read_buffer := replicate 65536 0\<rparr> in
          bnd (sys (Read_file (np_handle this) 65536)) (\<lambda>r.
          if ret r \<noteq> 0 then
            (let (data, this) = copy_ready n (this\<lparr>read_buffer := put_at 0 (out_bytes r) (read_buffer this),
               read_ready_size := dword_count r, read_pos := 0\<rparr>) in return (data, cleared, this))
          else if err r = ERROR_IO_PENDING then
            return ([], make_error_code p operation_would_block, this\<lparr>read_pending := True\<rparr>)
          else return ([], system_code (err r), this\<lparr>last_error := system_code (err r)\<rparr>))))))"

definition NamedPipe_read_throws :: "NamedPipe \<Rightarrow> nat \<Rightarrow> (io_world, (exn + bytes) \<times> NamedPipe) comp" where
  "NamedPipe_read_throws this n = bnd (NamedPipe_read this n) (\<lambda>(data, ec, this).
     return (if failed ec then Inl (System_Error ec ''ReadFile(named pipe)'') else Inr data, this))"

definition NamedPipe_read_span ::
  "NamedPipe \<Rightarrow> bytes \<Rightarrow> (io_world, bytes \<times> error_code \<times> NamedPipe) comp" where
  "NamedPipe_read_span this buffer = NamedPipe_read this (length buffer)"

definition NamedPipe_read_span_throws :: "NamedPipe \<Rightarrow> bytes \<Rightarrow> (io_world, (exn + bytes) \<times> NamedPipe) comp" where
  "NamedPipe_read_span_throws this buffer = NamedPipe_read_throws this (length buffer)"

definition NamedPipe_write ::
  "NamedPipe \<Rightarrow> bytes \<Rightarrow> (io_world, nat \<times> error_code \<times> NamedPipe) comp" where
  "NamedPipe_write this data = noexcept (bnd (asks platform) (\<lambda>p.
     if \<not> NamedPipe_valid this then return (0, make_error_code p bad_file_descriptor, this)
     else
       bnd (if write_pending this then complete_write_locked this else return (Inr True, this)) (\<lambda>(finished, this).
       case finished of
         Inl (System_Error ec what) \<Rightarrow> return (0, ec, this)
       | Inl e \<Rightarrow> throw e
       | Inr False \<Rightarrow> return (0, make_error_code p operation_would_block, this)
       | Inr True \<Rightarrow>
           bnd (sys Alloc) (\<lambda>a.
           if ret a = 0 then return (0, make_error_code p not_enough_memory, this)
           else
             (let this = this\<lparr>write_buffer := data\<rparr> in
              bnd (sys (Write_file (np_handle this) data (of_nat (checked_size (length data))))) (\<lambda>r.
              if ret r \<noteq> 0 then return (dword_count r, cleared, this\<lparr>write_buffer := []\<rparr>)
              else if err r = ERROR_IO_PENDING then
                return (length data, cleared, this\<lparr>write_pending := True\<rparr>)
              else return (0, system_code (err r),
                this\<lparr>write_buffer := [], last_error := system_code (err r)\<rparr>)))))))"

definition NamedPipe_write_throws :: "NamedPipe \<Rightarrow> bytes \<Rightarrow> (io_world, (exn + nat) \<times> NamedPipe) comp" where
  "NamedPipe_write_throws this data = bnd (NamedPipe_write this data) (\<lambda>(n, ec, this).
     return (if failed ec then Inl (System_Error ec ''WriteFile(named pipe)'') else Inr n, this))"

definition NamedPipe_write_span ::
  "NamedPipe \<Rightarrow> bytes \<Rightarrow> (io_world, nat \<times> error_code \<times> NamedPipe) comp" where
  "NamedPipe_write_span this buffer = NamedPipe_write this buffer"

definition NamedPipe_write_span_throws :: "NamedPipe \<Rightarrow> bytes \<Rightarrow> (io_world, (exn + nat) \<times> NamedPipe) comp" where
  "NamedPipe_write_span_throws this buffer = NamedPipe_write_throws this buffer"

definition NamedPipe_write_text ::
  "NamedPipe \<Rightarrow> string \<Rightarrow> (io_world, nat \<times> error_code \<times> NamedPipe) comp" where
  "NamedPipe_write_text this txt = NamedPipe_write this (map (\<lambda>c. of_char c) txt)"

definition NamedPipe_write_text_throws :: "NamedPipe \<Rightarrow> string \<Rightarrow> (io_world, (exn + nat) \<times> NamedPipe) comp" where
  "NamedPipe_write_text_throws this txt = NamedPipe_write_throws this (map (\<lambda>c. of_char c) txt)"

definition pipe_name :: "u16 list \<Rightarrow> u16 list" where
  "pipe_name local_name = [92, 92, 46, 92, 112, 105, 112, 101, 92] @ local_name"

end
