(* ===== verification/Named_Pipe_Properties.thy ===== *)
theory Named_Pipe_Properties
  imports Named_Pipe Handle_Balance
begin

text \<open>
  A named pipe is a stream: its internal buffer, filled by overlapped reads that complete at any
  later time, neither loses nor repeats a byte.
\<close>

section \<open>Buffered bytes and their invariant\<close>

definition buffered :: "NamedPipe \<Rightarrow> bytes" where
  "buffered this = take (read_ready_size this - read_pos this) (drop (read_pos this) (read_buffer this))"

text \<open>While a read is pending the buffer is its target and everything before was handed out.\<close>

definition np_ok :: "NamedPipe \<Rightarrow> bool" where
  "np_ok this \<longleftrightarrow> read_pos this \<le> read_ready_size this \<and> read_ready_size this \<le> length (read_buffer this)
     \<and> length (read_buffer this) \<le> 65536
     \<and> (read_pending this \<longrightarrow> read_pos this = read_ready_size this \<and> length (read_buffer this) = 65536)"

text \<open>
  Documented behaviour of \<open>ReadFile\<close> and \<open>GetOverlappedResult\<close>: the count is that of
  the bytes stored, at most the size of the buffer.
\<close>

definition read_reply_ok :: "reply \<Rightarrow> bool" where
  "read_reply_ok r \<longleftrightarrow> (ret r \<noteq> 0 \<longrightarrow> length (out_bytes r) \<le> 65536 \<and> out_int r = int (length (out_bytes r)))"

definition pipe_reads_ok :: "env \<Rightarrow> bool" where
  "pipe_reads_ok env \<longleftrightarrow> (\<forall>h fd. read_reply_ok (answer env h (Read_file fd 65536))
     \<and> read_reply_ok (answer env h (Get_overlapped_result fd Op_read)))"

text \<open>The bytes that arrived on a handle during a history.\<close>

fun arrives :: "int \<Rightarrow> call \<times> reply \<Rightarrow> bytes" where
  "arrives handle (Read_file fd n, r) = (if fd = handle \<and> ret r \<noteq> 0 then out_bytes r else [])"
| "arrives handle (Get_overlapped_result fd Op_read, r) = (if fd = handle \<and> ret r \<noteq> 0 then out_bytes r else [])"
| "arrives handle _ = []"

definition arrived :: "int \<Rightarrow> history \<Rightarrow> bytes" where
  "arrived handle h = concat (map (arrives handle) h)"

lemma arrived_simps [simp]:
  "arrived handle [] = []" "arrived handle (x # h) = arrives handle x @ arrived handle h"
  "arrived handle (h @ h') = arrived handle h @ arrived handle h'"
  by (simp_all add: arrived_def)

lemma dword_count_ok:
  assumes "read_reply_ok r" "ret r \<noteq> 0"
  shows "dword_count r = length (out_bytes r)"
proof -
  have "length (out_bytes r) \<le> 65536" "out_int r = int (length (out_bytes r))"
    using assms by (simp_all add: read_reply_ok_def)
  then show ?thesis by (simp add: dword_count_def unat_of_nat take_bit_nat_eq_self)
qed

lemma copy_ready_spec:
  assumes "np_ok this" "copy_ready n this = (data, this')" "\<not> read_pending this"
  shows "data @ buffered this' = buffered this" "np_ok this'" "np_handle this' = np_handle this"
    "data = take n (buffered this)"
proof -
  let ?pos = "read_pos this" and ?ready = "read_ready_size this"
  let ?c = "min n (?ready - ?pos)"
  have data: "data = take ?c (drop ?pos (read_buffer this))"
    and this': "this' = (if ?pos + ?c = ?ready then this\<lparr>read_ready_size := 0, read_pos := 0\<rparr> else this\<lparr>read_pos := ?pos + ?c\<rparr>)"
    using assms(2) by (simp_all add: copy_ready_def Let_def)
  have ok: "?pos \<le> ?ready" "?ready \<le> length (read_buffer this)" using assms(1) by (simp_all add: np_ok_def)
  show "data = take n (buffered this)" by (simp add: data buffered_def)
  show "np_ok this'" "np_handle this' = np_handle this" using assms(1,3) by (auto simp: np_ok_def this')
  show "data @ buffered this' = buffered this"
  proof (cases "?pos + ?c = ?ready")
    case True
    then have "?c = ?ready - ?pos" by simp
    then show ?thesis using True by (simp add: data this' buffered_def)
  next
    case False
    then have le: "n \<le> ?ready - ?pos" using ok by (cases "n \<le> ?ready - ?pos") (simp_all add: min_def)
    then have n: "?c = n" by simp
    have "take n (drop ?pos (read_buffer this)) @ take (?ready - (?pos + n)) (drop (?pos + n) (read_buffer this))
        = take (n + (?ready - (?pos + n))) (drop ?pos (read_buffer this))"
      by (simp add: take_add add.commute)
    moreover have "n + (?ready - (?pos + n)) = ?ready - ?pos" using le ok(1) by simp
    ultimately show ?thesis using False n by (simp add: data this' buffered_def)
  qed
qed

lemma filled_buffer:
  assumes "read_reply_ok r" "ret r \<noteq> 0" "length buf = 65536" "read_buffer this = put_at 0 (out_bytes r) buf"
    "read_ready_size this = dword_count r" "read_pos this = 0" "\<not> read_pending this"
  shows "np_ok this" "buffered this = out_bytes r"
proof -
  have "length (out_bytes r) \<le> 65536" using assms(1,2) by (simp add: read_reply_ok_def)
  then show "np_ok this" "buffered this = out_bytes r"
    using assms by (simp_all add: np_ok_def buffered_def dword_count_ok put_at_def)
qed

section \<open>Reading\<close>

text \<open>One read: it returns, hands out the oldest bytes, and keeps the invariant.\<close>

definition streams :: "NamedPipe \<Rightarrow> bytes \<Rightarrow> NamedPipe \<Rightarrow> history \<Rightarrow> bool" where
  "streams this data this' hs \<longleftrightarrow> data @ buffered this' = buffered this @ arrived (np_handle this) hs
     \<and> np_ok this' \<and> np_handle this' = np_handle this"

lemma streams_nothing:
  assumes "np_ok this'" "np_handle this' = np_handle this" "buffered this' = buffered this" "arrived (np_handle this) hs = []"
  shows "streams this [] this' hs"
  using assms by (simp add: streams_def)

lemma streams_copy:
  assumes "np_ok this1" "\<not> read_pending this1" "np_handle this1 = np_handle this"
    "buffered this1 = buffered this @ arrived (np_handle this) hs" "copy_ready n this1 = (data, this')"
  shows "streams this data this' hs"
  using copy_ready_spec [OF assms(1,5,2)] assms(3,4) by (simp add: streams_def)

text \<open>The completion of a pending read, and a read that starts a new one.\<close>

lemma read_pending_streams:
  assumes env: "pipe_reads_ok env" and ok: "np_ok this"
    and pending: "NamedPipe_valid this" "\<not> read_pos this < read_ready_size this" "read_pending this"
  shows "\<exists>data ec this' w' hs. NamedPipe_read this n env w = (Ret (data, ec, this'), w')
    \<and> history w' = history w @ hs \<and> streams this data this' hs"
proof -
  let ?c = "Get_overlapped_result (np_handle this) Op_read"
  let ?r = "answer env (history w) ?c"
  let ?obj = "this\<lparr>read_buffer := put_at 0 (out_bytes ?r) (read_buffer this), read_pending := False,
    read_ready_size := dword_count ?r, read_pos := 0\<rparr>"
  have buf: "length (read_buffer this) = 65536" "buffered this = []" using ok pending by (auto simp: np_ok_def buffered_def)
  have r: "read_reply_ok ?r" using env by (simp add: pipe_reads_ok_def)
  have "\<exists>data ec this'. NamedPipe_read this n env w = (Ret (data, ec, this'), logged env ?c w)
      \<and> streams this data this' [(?c, ?r)]"
  proof (cases "ret ?r = 0")
    case True
    then show ?thesis unfolding NamedPipe_read_def noexcept_eq_Ret
      using pending ok by (auto simp: complete_read_locked_def win_error_def comp_simps np_ok_def buffered_def
          intro!: streams_nothing)
  next
    case False
    obtain data this' where c: "copy_ready n ?obj = (data, this')" by fastforce
    have "np_ok ?obj" "buffered ?obj = out_bytes ?r" by (rule filled_buffer [OF r False buf(1)]; simp)+
    then have "streams this data this' [(?c, ?r)]" using buf(2) False by (intro streams_copy [OF _ _ _ _ c]) simp_all
    then show ?thesis unfolding NamedPipe_read_def noexcept_eq_Ret
      using pending False c by (simp add: complete_read_locked_def comp_simps)
  qed
  then show ?thesis by (metis history_logged)
qed

lemma read_start_streams:
  assumes env: "pipe_reads_ok env" and ok: "np_ok this"
    and start: "NamedPipe_valid this" "\<not> read_pos this < read_ready_size this" "\<not> read_pending this"
  shows "\<exists>data ec this' w' hs. NamedPipe_read this n env w = (Ret (data, ec, this'), w')
    \<and> history w' = history w @ hs \<and> streams this data this' hs"
proof -
  let ?a = "answer env (history w) Alloc"
  let ?w = "logged env Alloc w"
  let ?c = "Read_file (np_handle this) 65536"
  let ?r = "answer env (history ?w) ?c"
  let ?buf = "replicate 65536 (0 :: byte)"
  let ?obj = "this\<lparr>read_buffer := put_at 0 (out_bytes ?r) ?buf, read_ready_size := dword_count ?r, read_pos := 0\<rparr>"
  have empty: "buffered this = []" "read_pos this = read_ready_size this" using ok start by (auto simp: np_ok_def buffered_def)
  have r: "read_reply_ok ?r" using env by (simp add: pipe_reads_ok_def)
  show ?thesis
  proof (cases "ret ?a = 0")
    case True
    then have "\<exists>ec. NamedPipe_read this n env w = (Ret ([], ec, this), ?w)" unfolding NamedPipe_read_def noexcept_eq_Ret
      using start by (simp add: comp_simps)
    moreover have "streams this [] this [(Alloc, ?a)]" using ok by (intro streams_nothing) simp_all
    ultimately show ?thesis by (metis history_logged)
  next
    case False
    have "\<exists>data ec this'. NamedPipe_read this n env w = (Ret (data, ec, this'), logged env ?c ?w)
        \<and> streams this data this' [(Alloc, ?a), (?c, ?r)]"
    proof (cases "ret ?r = 0")
      case True
      with False start ok empty show ?thesis unfolding NamedPipe_read_def noexcept_eq_Ret
        by (auto simp: comp_simps Let_def np_ok_def buffered_def intro!: streams_nothing)
    next
      case ok': False
      obtain data this' where c: "copy_ready n ?obj = (data, this')" by fastforce
      have "np_ok ?obj" "buffered ?obj = out_bytes ?r" by (rule filled_buffer [OF r ok', of ?buf]; use start(3) in simp)+
      then have "streams this data this' [(Alloc, ?a), (?c, ?r)]" using empty(1) ok' start(3)
        by (intro streams_copy [OF _ _ _ _ c]) simp_all
      then show ?thesis unfolding NamedPipe_read_def noexcept_eq_Ret
        using start False ok' c by (simp add: comp_simps Let_def)
    qed
    then show ?thesis by fastforce
  qed
qed

lemma NamedPipe_read_streams:
  assumes "pipe_reads_ok env" "np_ok this"
  shows "\<exists>data ec this' w' hs. NamedPipe_read this n env w = (Ret (data, ec, this'), w')
    \<and> history w' = history w @ hs \<and> streams this data this' hs"
proof (cases "NamedPipe_valid this \<and> \<not> read_pos this < read_ready_size this")
  case True
  with read_pending_streams [OF assms] read_start_streams [OF assms] show ?thesis by blast
next
  case False
  have "\<exists>data ec this'. NamedPipe_read this n env w = (Ret (data, ec, this'), w) \<and> streams this data this' []"
  proof (cases "NamedPipe_valid this")
    case True
    obtain data this' where c: "copy_ready n this = (data, this')" by fastforce
    have "\<not> read_pending this" using assms(2) False True by (auto simp: np_ok_def)
    from streams_copy [OF assms(2) this _ _ c, of this "[]"] have "streams this data this' []" by simp
    with c False True show ?thesis unfolding NamedPipe_read_def noexcept_eq_Ret by (simp add: comp_simps)
  next
    case False
    with assms(2) show ?thesis unfolding NamedPipe_read_def noexcept_eq_Ret
      by (auto simp: comp_simps intro: streams_nothing)
  qed
  then show ?thesis by force
qed

section \<open>The stream\<close>

text \<open>Reads of the given sizes one after the other, with what they handed out together.\<close>

fun NamedPipe_reads :: "NamedPipe \<Rightarrow> nat list \<Rightarrow> (io_world, bytes \<times> NamedPipe) comp" where
  "NamedPipe_reads this [] = return ([], this)"
| "NamedPipe_reads this (n # ns) = bnd (NamedPipe_read this n) (\<lambda>(data, ec, this).
     bnd (NamedPipe_reads this ns) (\<lambda>(rest, this). return (data @ rest, this)))"

text \<open>
  C14. A named pipe is a stream. Any sequence of reads of any sizes returns, whether the reads of
  the system complete at once, later, or fail, and hands out the bytes that were buffered and
  those that arrived on the handle meanwhile, in order: what was handed out and what is still
  buffered is exactly what there was and what arrived. No byte is lost or repeated.
\<close>

theorem named_pipe_streams:
  assumes "pipe_reads_ok env" "np_ok this"
  shows "\<exists>data this' w' hs. NamedPipe_reads this ns env w = (Ret (data, this'), w') \<and> history w' = history w @ hs
    \<and> data @ buffered this' = buffered this @ arrived (np_handle this) hs \<and> np_ok this'"
  using assms(2)
proof (induction ns arbitrary: this w)
  case (Cons n ns)
  obtain data ec this1 w1 hs1 where one: "NamedPipe_read this n env w = (Ret (data, ec, this1), w1)"
    "history w1 = history w @ hs1" "streams this data this1 hs1"
    using NamedPipe_read_streams [OF assms(1) Cons.prems] by blast
  from one(3) have s: "data @ buffered this1 = buffered this @ arrived (np_handle this) hs1" "np_ok this1"
    "np_handle this1 = np_handle this" by (simp_all add: streams_def)
  from Cons.IH [OF s(2), of w1] obtain rest this' w' hs where rest:
    "NamedPipe_reads this1 ns env w1 = (Ret (rest, this'), w')" "history w' = history w1 @ hs"
    "rest @ buffered this' = buffered this1 @ arrived (np_handle this1) hs" "np_ok this'" by blast
  have "NamedPipe_reads this (n # ns) env w = (Ret (data @ rest, this'), w')"
    using one(1) rest(1) by (simp add: bnd_def comp_simps)
  moreover have "(data @ rest) @ buffered this' = buffered this @ arrived (np_handle this) (hs1 @ hs)"
    using s rest(3) by (metis append.assoc arrived_simps(3))
  ultimately show ?case using one(2) rest(2,4) by auto
qed (auto simp: comp_simps)

text \<open>A pipe whose reads are pending first and complete with three bytes.\<close>

definition np_env :: env where
  "np_env = \<lparr>platform = Windows, host_endian = Little, macro_defined = (\<lambda>_. True),
     answer = (\<lambda>_ c. case c of Alloc \<Rightarrow> plain 1 0 | Read_file _ _ \<Rightarrow> plain 0 997
       | Get_overlapped_result _ _ \<Rightarrow> (plain 1 0)\<lparr>out_bytes := [10, 20, 30], out_int := 3\<rparr> | _ \<Rightarrow> plain 0 0)\<rparr>"

lemma np_env_reads: "pipe_reads_ok np_env"
  by (simp add: pipe_reads_ok_def read_reply_ok_def np_env_def)

lemma np_new_ok: "np_ok (NamedPipe_new handle)" "buffered (NamedPipe_new handle) = []"
  by (simp_all add: np_ok_def buffered_def NamedPipe_new_def)

theorem named_pipe_streams_witness:
  "\<exists>data this' w' hs. NamedPipe_reads (NamedPipe_new 8) [2, 2, 2] np_env (one_selector Windows []) = (Ret (data, this'), w')
    \<and> data @ buffered this' = arrived 8 (history w')"
proof -
  have "history (one_selector Windows []) = []" by (simp add: one_selector_def)
  then show ?thesis using named_pipe_streams [OF np_env_reads np_new_ok(1), of 8 "[2, 2, 2]" "one_selector Windows []"]
    by (auto simp: np_new_ok(2)) (auto simp: NamedPipe_new_def)
qed

text \<open>
  Move assignment closes the old handle and keeps the buffer, so the bytes that were read from
  the old pipe are handed out as if they came from the new one.
\<close>

lemma move_assign_keeps_buffer:
  assumes "NamedPipe_move_assign this other env w = (Ret (this', other'), w')"
  shows "buffered this' = buffered this" "np_handle this' = np_handle other"
  using assms by (auto simp: NamedPipe_move_assign_def NamedPipe_close_def NamedPipe_release_def buffered_def comp_simps
      split: if_splits)

end
