(* ===== verification/Spec2Isabelle.thy ===== *)
theory Spec2Isabelle
  imports Event_Loop Signals_Properties Unix_Properties Named_Pipe_Properties
begin

text \<open>
  Verification of ioxx, a C++ library for non-blocking I/O over epoll, kqueue, poll and the
  completion ports of Windows.

  \<^bold>\<open>The program.\<close> A \<open>Poll\<close> owns a \<open>Selector\<close>, which keeps a table of
  registrations (handle, kind, token, interests) and mirrors it in one back end; its wait turns
  the records of the back end into \<open>Event\<close>s. A \<open>Registry\<close> is a shared pointer
  to the selector; sources (\<open>TcpStream\<close>, \<open>TcpListener\<close>,
  \<open>UdpSocket\<close>, the classes for Unix domain sockets and pipes, \<open>Signals\<close>,
  \<open>NamedPipe\<close>) are registered through it and are told so by hooks. A \<open>Waker\<close>
  is a descriptor, or a completion packet, that interrupts the wait. Every operation has an
  overload that reports through an \<open>error_code\<close> and one that throws.

  \<^bold>\<open>The model of the outside world\<close> (\<open>Prelude\<close>, \<open>Os\<close>). A computation is
  a function from an environment and a world to an outcome (a value, an exception, the
  termination of the process at a \<open>noexcept\<close> boundary, undefined behaviour, or a loop
  that never ends) and the next world. The environment answers each system call from the
  history of all calls so far, so a statement for every environment holds against every
  behaviour of the kernel, including failures at any call and failed allocations. What a theorem
  needs of the system is a named hypothesis: \<open>sets_errno\<close> (a call that fails sets
  \<open>errno\<close>), \<open>posix_descriptors\<close>, \<open>pipe_behaves\<close>,
  \<open>pipe_reads_ok\<close>, \<open>epoll_contract\<close>, \<open>read_empties\<close>,
  \<open>bounded_waits\<close>, \<open>fresh_descriptors\<close>, \<open>unblocking_succeeds\<close>,
  \<open>setsockopt_documented\<close>; each has a witness with a concrete
  environment. The platform is a
  field of the environment, so the branches of the preprocessor are branches of the model.

  \<^bold>\<open>Components, in the order of the sources.\<close>
  \<^item> \<open>Core_Types\<close>: \<open>Token\<close>, \<open>Interest\<close>, \<open>Event\<close>,
    \<open>Events\<close> of \<^verbatim>\<open>include/ioxx/core.hpp\<close>; interests are sets of flags.
  \<^item> \<open>Backend_Flags\<close>: the masks of epoll, kqueue, poll and AFD and the timeouts of
    \<^verbatim>\<open>src/core.cpp\<close>; what a back end reports for a registered interest, and which
    timeout each back end gets.
  \<^item> \<open>Ownership\<close>: the locale \<open>handle_owner\<close>, unique ownership of a kernel handle,
    with an inductive relation of the steps of a set of owners, which runs the member functions
    of the class (the record \<open>owner_class\<close>). It is interpreted by
    \<open>OwnedDescriptor\<close> (\<open>Descriptor\<close>), by \<open>Socket\<close> of
    \<^verbatim>\<open>src/socket.cpp\<close> (\<open>Socket\<close>) and by the five descriptor classes of
    \<^verbatim>\<open>src/unix.cpp\<close> (\<open>Unix_Properties\<close>).
  \<^item> \<open>World\<close>: the objects that are shared through pointers, in a store by address.
  \<^item> \<open>Afd\<close>: the AFD driver layer of the Windows back end and the invariant that a
    socket has at most one operation in flight, armed for what was asked.
  \<^item> \<open>Addr\<close>, \<open>Socket\<close>: addresses and their bytes in a \<open>sockaddr\<close>, the
    Winsock runtime, modes, options and the classification of errors.
  \<^item> \<open>Selector\<close>, \<open>Selector_Invariant\<close>, \<open>Registration\<close>: the table and its
    mirror, the invariant that every operation keeps, and the refinement of an abstract table
    (the locale \<open>registration_table\<close>, interpreted by the selector).
  \<^item> \<open>Select\<close>: the four waits; the locale \<open>event_delivery\<close>, interpreted by the
    delivery loops of epoll, kqueue and poll; the completion port collects within the capacity.
  \<^item> \<open>Steady_Wait\<close>: the POSIX waits touch no object and are never undefined.
  \<^item> \<open>Registry\<close>: \<open>Registry\<close>, \<open>Poll\<close>, \<open>Waker\<close>; the locale
    \<open>event_source\<close> is the contract of a source's hooks.
  \<^item> \<open>Epoll_Mirror\<close>, \<open>Wake_Delivery\<close>: on Linux the table is mirrored in the
    kernel's interest list, as the history of calls describes it, from the construction of the
    selector on; a wake of a waker is therefore reported by the next wait.
  \<^item> \<open>Net\<close>, \<open>Tcp\<close>, \<open>Udp\<close>: \<^verbatim>\<open>src/net.cpp\<close>;
    \<open>Handle_Balance\<close> has the ownership triples by which \<open>Net_Ownership\<close> shows
    that no socket is leaked; \<open>Net_Properties\<close> has the interpretations of
    \<open>event_source\<close> and the behaviour of transfers, connections, addresses and options.
  \<^item> \<open>Event_Loop\<close>: the components together. A program holds a \<open>Poll\<close>, socket
    objects and wakers, and makes calls in any order (the inductive relation
    \<open>reachable\<close>); no call is undefined, and the table is exactly what the program
    holds.
  \<^item> \<open>Signals\<close>, \<open>Signals_Properties\<close>: \<^verbatim>\<open>src/signals.cpp\<close>; the
    refinement of a set of signals, delivery through the self-pipe, and why registration fails.
  \<^item> \<open>Unix_Sockets\<close>, \<open>Unix_Properties\<close>: \<^verbatim>\<open>src/unix.cpp\<close>;
    conservation of descriptors and the round trip of paths.
  \<^item> \<open>Named_Pipe\<close>, \<open>Named_Pipe_Properties\<close>: \<^verbatim>\<open>src/windows.cpp\<close>;
    the buffered overlapped reads are a stream.

  \<^bold>\<open>Loops.\<close> The loops whose end depends on the system are partial functions into
  \<open>option\<close> (\<open>drain_loop\<close>, \<open>pending_loop\<close>, \<open>while_loop\<close> of the
  completion port); a loop that does not end is the outcome \<open>Diverge\<close>. Where a theorem
  says that an operation returns, this is part of its conclusion. No fuel is used.

  \<^bold>\<open>Not modelled.\<close> Threads: mutexes, the condition variable and the atomics of the
  selector are left out, each operation is one step, and the interleavings considered are
  sequences of operations, signal handlers and completions. Reference counts: a selector lives
  until \<open>Selector_destroy\<close>, and the destruction of a \<open>Poll\<close> takes the number
  of other owners as an argument. Buffers of the caller: an operation that fills one returns
  the count, and the bytes are those of the reply. The growth of vectors whose failure the
  sources do not handle, where a theory says so. The module interface, examples, tests and the
  build.
\<close>

end
